(* ===== verification/Prelude.thy ===== *)
theory Prelude
  imports Complex_Main "HOL-Library.Char_ord" "HOL-Library.List_Lexorder" "HOL-Library.Sublist"
begin

text \<open>
  Shared vocabulary of the development.

  Text. A Python \<open>str\<close> is modelled by the HOL type \<open>string\<close> holding its UTF-8 bytes.
  Equality, concatenation, prefix and substring tests on UTF-8 bytes agree with the same tests on
  code points, and so does the lexicographic order. Where the code counts or cuts code points
  (\<open>len\<close>, slices) the model uses \<open>py_len\<close> and \<open>py_take\<close>, which do not count
  continuation bytes. White space, case folding and the alphanumeric class are those of ASCII;
  other bytes are neither folded nor stripped.

  Failure. An exception of the source is a value of \<open>py_error\<close>, and a fallible operation
  returns \<open>py_error + 'a\<close>.

  The collections: \<open>py_text\<close> holds equations on text, \<open>py_list\<close> equations on the list
  idioms (ordered duplicate removal), \<open>frame\<close> the facts that an operation leaves a field
  alone, \<open>keeps\<close> the facts that an operation keeps an invariant.
\<close>

named_theorems py_text \<open>equations on Python text operations\<close>
named_theorems py_list \<open>equations on Python list and dict idioms\<close>
named_theorems frame \<open>fields an operation does not change\<close>
named_theorems keeps \<open>invariants an operation keeps\<close>

section \<open>Exceptions as values\<close>

text \<open>\<open>LLMErrorType\<close> of \<open>llm/llm_client.py\<close>.\<close>

datatype llm_error =
  LE_SCHEMA_ERROR | LE_TRANSIENT_ERROR | LE_TIMEOUT | LE_AUTH_ERROR | LE_INVALID_REQUEST | LE_SERVICE_ERROR

datatype py_error =
    ValueError string
  | ValidationError string
  | KeyError string
  | IndexError
  | TypeError string
  | RuntimeError string
  | FileNotFound string
  | LockTimeout string
  | ArtifactAccessError string
  | ArtifactIntegrityError string
  | SanitizationError string
  | InvalidExecutionPlan string
  | ContextCompactionError string
  | OperationTimeout
  | HookBlocked string "string option"
  | LLMClientError llm_error string
  | OtherError string

type_synonym 'a outcome = "py_error + 'a"

fun and_then :: "'a outcome \<Rightarrow> ('a \<Rightarrow> 'b outcome) \<Rightarrow> 'b outcome" where
  "and_then (Inl e) f = Inl e"
| "and_then (Inr x) f = f x"

lemma and_then_Inr_iff: "and_then m f = Inr y \<longleftrightarrow> (\<exists>x. m = Inr x \<and> f x = Inr y)"
  by (cases m) auto

lemma and_then_Inl_iff:
  "and_then m f = Inl e \<longleftrightarrow> m = Inl e \<or> (\<exists>x. m = Inr x \<and> f x = Inl e)"
  by (cases m) auto

text \<open>
  \<open>except ValueError\<close> (the classes of the source that derive from it) and the text of an
  exception (\<open>str(error)\<close>).
\<close>

fun is_value_error :: "py_error \<Rightarrow> bool" where
  "is_value_error (ValueError _) = True"
| "is_value_error (ValidationError _) = True"
| "is_value_error (ArtifactIntegrityError _) = True"
| "is_value_error (SanitizationError _) = True"
| "is_value_error (InvalidExecutionPlan _) = True"
| "is_value_error _ = False"

fun is_type_error :: "py_error \<Rightarrow> bool" where
  "is_type_error (TypeError _) = True"
| "is_type_error _ = False"

fun is_llm_error :: "py_error \<Rightarrow> bool" where
  "is_llm_error (LLMClientError _ _) = True"
| "is_llm_error _ = False"

fun is_lock_timeout :: "py_error \<Rightarrow> bool" where
  "is_lock_timeout (LockTimeout _) = True"
| "is_lock_timeout _ = False"

fun error_text :: "py_error \<Rightarrow> string" where
  "error_text (ValueError m) = m"
| "error_text (ValidationError m) = m"
| "error_text (KeyError m) = m"
| "error_text IndexError = ''list index out of range''"
| "error_text (TypeError m) = m"
| "error_text (RuntimeError m) = m"
| "error_text (FileNotFound m) = m"
| "error_text (LockTimeout m) = m"
| "error_text (ArtifactAccessError m) = m"
| "error_text (ArtifactIntegrityError m) = m"
| "error_text (SanitizationError m) = m"
| "error_text (InvalidExecutionPlan m) = m"
| "error_text (ContextCompactionError m) = m"
| "error_text OperationTimeout = []"
| "error_text (HookBlocked c m) = (case m of None \<Rightarrow> c | Some t \<Rightarrow> if t = [] then c else t)"
| "error_text (LLMClientError _ m) = m"
| "error_text (OtherError m) = m"

text \<open>\<open>except TimeoutError\<close>, and \<open>type(error).__name__\<close>.\<close>

fun is_timeout :: "py_error \<Rightarrow> bool" where
  "is_timeout OperationTimeout = True"
| "is_timeout (LockTimeout _) = True"
| "is_timeout _ = False"

fun error_class :: "py_error \<Rightarrow> string" where
  "error_class (ValueError _) = ''ValueError''"
| "error_class (ValidationError _) = ''ValidationError''"
| "error_class (KeyError _) = ''KeyError''"
| "error_class IndexError = ''IndexError''"
| "error_class (TypeError _) = ''TypeError''"
| "error_class (RuntimeError _) = ''RuntimeError''"
| "error_class (FileNotFound _) = ''FileNotFoundError''"
| "error_class (LockTimeout _) = ''SessionLockTimeout''"
| "error_class (ArtifactAccessError _) = ''ArtifactAccessError''"
| "error_class (ArtifactIntegrityError _) = ''ArtifactIntegrityError''"
| "error_class (SanitizationError _) = ''PersistenceSanitizationError''"
| "error_class (InvalidExecutionPlan _) = ''InvalidExecutionPlan''"
| "error_class (ContextCompactionError _) = ''ContextCompactionError''"
| "error_class OperationTimeout = ''TimeoutError''"
| "error_class (HookBlocked _ _) = ''HookBlockedError''"
| "error_class (LLMClientError _ _) = ''LLMClientError''"
| "error_class (OtherError c) = c"

text \<open>A list comprehension whose element expression may raise.\<close>

fun traverse :: "('a \<Rightarrow> 'b outcome) \<Rightarrow> 'a list \<Rightarrow> 'b list outcome" where
  "traverse f [] = Inr []"
| "traverse f (x # xs) = and_then (f x) (\<lambda>y. and_then (traverse f xs) (\<lambda>ys. Inr (y # ys)))"

lemma traverse_Inr_iff: "traverse f xs = Inr ys \<longleftrightarrow> list_all2 (\<lambda>x y. f x = Inr y) xs ys"
  by (induction xs arbitrary: ys) (auto simp: and_then_Inr_iff list_all2_Cons1)

lemma traverse_total: "(\<And>x. x \<in> set xs \<Longrightarrow> \<exists>y. f x = Inr y) \<Longrightarrow> \<exists>ys. traverse f xs = Inr ys"
  by (induction xs) fastforce+

definition is_ok :: "'a outcome \<Rightarrow> bool" where
  "is_ok m = (case m of Inl _ \<Rightarrow> False | Inr _ \<Rightarrow> True)"

lemma is_ok_simps [simp]: "is_ok (Inr x)" "\<not> is_ok (Inl e)"
  by (simp_all add: is_ok_def)

section \<open>Truth values of optional text\<close>

text \<open>\<open>if value\<close> on a \<open>str | None\<close>: neither \<open>None\<close> nor empty.\<close>

fun truthy :: "string option \<Rightarrow> bool" where
  "truthy None = False"
| "truthy (Some s) = (s \<noteq> [])"

lemma truthy_iff: "truthy x \<longleftrightarrow> (\<exists>s. x = Some s \<and> s \<noteq> [])"
  by (cases x) auto

text \<open>\<open>value or default\<close> with a text default, and with an optional default.\<close>

fun or_text :: "string option \<Rightarrow> string \<Rightarrow> string" where
  "or_text None d = d"
| "or_text (Some s) d = (if s = [] then d else s)"

definition or_opt :: "string option \<Rightarrow> string option \<Rightarrow> string option" where
  "or_opt x y = (if truthy x then x else y)"

lemma or_text_nonempty: "d \<noteq> [] \<Longrightarrow> or_text x d \<noteq> []"
  by (cases x) auto

section \<open>Characters\<close>

definition code :: "char \<Rightarrow> nat" where "code c = of_char c"

definition is_space :: "char \<Rightarrow> bool" where
  "is_space c \<longleftrightarrow> (let n = code c in 9 \<le> n \<and> n \<le> 13 \<or> 28 \<le> n \<and> n \<le> 32)"

definition is_cont :: "char \<Rightarrow> bool" where
  "is_cont c \<longleftrightarrow> 128 \<le> code c \<and> code c < 192"

definition is_upper :: "char \<Rightarrow> bool" where
  "is_upper c \<longleftrightarrow> 65 \<le> code c \<and> code c \<le> 90"

definition is_lower :: "char \<Rightarrow> bool" where
  "is_lower c \<longleftrightarrow> 97 \<le> code c \<and> code c \<le> 122"

definition is_digit :: "char \<Rightarrow> bool" where
  "is_digit c \<longleftrightarrow> 48 \<le> code c \<and> code c \<le> 57"

definition is_alnum :: "char \<Rightarrow> bool" where
  "is_alnum c \<longleftrightarrow> is_upper c \<or> is_lower c \<or> is_digit c"

definition fold_char :: "char \<Rightarrow> char" where
  "fold_char c = (if is_upper c then char_of (code c + 32) else c)"

lemmas char_classes =
  code_def is_space_def is_cont_def is_upper_def is_lower_def is_digit_def is_alnum_def Let_def

lemma is_space_blank [simp]: "is_space (CHR '' '')"
  by (simp add: char_classes)

lemma code_fold_char: "code (fold_char c) = (if is_upper c then code c + 32 else code c)"
  by (simp add: fold_char_def code_def is_upper_def)

lemma fold_char_idem [simp]: "fold_char (fold_char c) = fold_char c"
  by (auto simp: fold_char_def is_upper_def code_def)

definition casefold :: "string \<Rightarrow> string" where
  "casefold s = map fold_char s"

lemma casefold_idem [simp, py_text]: "casefold (casefold s) = casefold s"
  by (simp add: casefold_def)

lemma casefold_append [simp, py_text]: "casefold (s @ t) = casefold s @ casefold t"
  by (simp add: casefold_def)

section \<open>Code points: literals, length and slices\<close>

text \<open>\<open>u8\<close> turns code points into the UTF-8 bytes of the text.\<close>

definition utf8_bytes :: "nat \<Rightarrow> nat list" where
  "utf8_bytes n =
     (if n < 128 then [n]
      else if n < 2048 then [192 + n div 64, 128 + n mod 64]
      else if n < 65536 then [224 + n div 4096, 128 + n div 64 mod 64, 128 + n mod 64]
      else [240 + n div 262144, 128 + n div 4096 mod 64, 128 + n div 64 mod 64, 128 + n mod 64])"

definition u8 :: "nat list \<Rightarrow> string" where
  "u8 ns = map char_of (concat (map utf8_bytes ns))"

fun py_len :: "string \<Rightarrow> nat" where
  "py_len [] = 0"
| "py_len (c # cs) = (if is_cont c then py_len cs else Suc (py_len cs))"

fun py_take :: "nat \<Rightarrow> string \<Rightarrow> string" where
  "py_take n [] = []"
| "py_take n (c # cs) =
     (if is_cont c then c # py_take n cs
      else case n of 0 \<Rightarrow> [] | Suc m \<Rightarrow> c # py_take m cs)"

lemma py_len_take: "py_len (py_take n s) \<le> n"
  by (induction n s rule: py_take.induct) (auto split: nat.splits)

lemma py_take_prefix: "prefix (py_take n s) s"
  by (induction n s rule: py_take.induct) (auto split: nat.splits)

lemma py_take_all: "py_len s \<le> n \<Longrightarrow> py_take n s = s"
  by (induction n s rule: py_take.induct) (auto split: nat.splits if_splits)

lemma py_len_append [simp]: "py_len (s @ t) = py_len s + py_len t"
  by (induction s) auto

section \<open>Stripping, collapsing and splitting white space\<close>

definition lstrip :: "string \<Rightarrow> string" where "lstrip s = dropWhile is_space s"
definition rstrip :: "string \<Rightarrow> string" where "rstrip s = rev (dropWhile is_space (rev s))"
definition strip :: "string \<Rightarrow> string" where "strip s = rstrip (lstrip s)"

text \<open>
  \<open>re.sub(r"\s+", " ", s)\<close>: every maximal run of white space becomes one blank. The flag says
  that the run the previous character belongs to has been replaced already.
\<close>

fun collapse_from :: "bool \<Rightarrow> string \<Rightarrow> string" where
  "collapse_from b [] = []"
| "collapse_from b (c # cs) =
     (if is_space c then (if b then collapse_from True cs else CHR '' '' # collapse_from True cs)
      else c # collapse_from False cs)"

definition collapse_ws :: "string \<Rightarrow> string" where
  "collapse_ws s = collapse_from False s"

text \<open>\<open>s.split()\<close>: the maximal runs of characters that are not white space.\<close>

fun words_from :: "string \<Rightarrow> string \<Rightarrow> string list" where
  "words_from acc [] = (if acc = [] then [] else [rev acc])"
| "words_from acc (c # cs) =
     (if is_space c then (if acc = [] then [] else [rev acc]) @ words_from [] cs
      else words_from (c # acc) cs)"

definition words :: "string \<Rightarrow> string list" where
  "words s = words_from [] s"

fun join_with :: "string \<Rightarrow> string list \<Rightarrow> string" where
  "join_with sep [] = []"
| "join_with sep [x] = x"
| "join_with sep (x # y # xs) = x @ sep @ join_with sep (y # xs)"

text \<open>A word: not empty and free of white space.\<close>

definition is_word :: "string \<Rightarrow> bool" where
  "is_word w \<longleftrightarrow> w \<noteq> [] \<and> (\<forall>c \<in> set w. \<not> is_space c)"

lemma words_from_are_words:
  "\<forall>c \<in> set acc. \<not> is_space c \<Longrightarrow> w \<in> set (words_from acc s) \<Longrightarrow> is_word w"
proof (induction acc s rule: words_from.induct)
  case (1 acc)
  then show ?case by (simp add: is_word_def split: if_splits)
next
  case (2 acc c cs)
  show ?case
  proof (cases "is_space c")
    case True
    with 2 show ?thesis by (fastforce simp: is_word_def split: if_splits)
  next
    case False
    with 2 show ?thesis by simp
  qed
qed

lemma words_are_words: "w \<in> set (words s) \<Longrightarrow> is_word w"
  unfolding words_def by (rule words_from_are_words [of "[]"]) simp_all

lemma words_from_collapse:
  "(b \<longrightarrow> acc = []) \<Longrightarrow> words_from acc (collapse_from b s) = words_from acc s"
  by (induction s arbitrary: acc b) auto

lemma words_collapse [py_text]: "words (collapse_ws s) = words s"
  by (simp add: words_def collapse_ws_def words_from_collapse)

lemma lstrip_collapse: "lstrip (collapse_from b s) = collapse_from True s"
proof (induction s arbitrary: b)
  case Nil
  then show ?case by (simp add: lstrip_def)
next
  case (Cons c s)
  then show ?case by (cases b) (auto simp: lstrip_def)
qed

lemma dropWhile_append_if:
  "dropWhile P (xs @ ys) = (if dropWhile P xs = [] then dropWhile P ys else dropWhile P xs @ ys)"
  by (induction xs) auto

lemma rstrip_append: "rstrip (s @ t) = (if rstrip t = [] then rstrip s else s @ rstrip t)"
  by (simp add: rstrip_def dropWhile_append_if)

lemma rstrip_id: "\<forall>c \<in> set s. \<not> is_space c \<Longrightarrow> rstrip s = s"
  by (cases s rule: rev_cases) (auto simp: rstrip_def)

lemma rstrip_blank [simp]: "rstrip (CHR '' '' # t) = (if rstrip t = [] then [] else CHR '' '' # rstrip t)"
  using rstrip_append [of "'' ''" t] by (simp add: rstrip_def)

lemma rstrip_nonspace: "\<not> is_space c \<Longrightarrow> rstrip (c # t) = c # rstrip t"
  using rstrip_append [of "[c]" t] by (auto simp: rstrip_def)

lemma join_with_Nil_iff: "\<forall>w \<in> set ws. w \<noteq> [] \<Longrightarrow> join_with sep ws = [] \<longleftrightarrow> ws = []"
  by (induction sep ws rule: join_with.induct) auto

lemma join_with_Cons: "join_with sep (x # xs) = (if xs = [] then x else x @ sep @ join_with sep xs)"
  by (cases xs) auto

lemma words_from_Nil_nonempty: "\<forall>w \<in> set (words_from [] s). w \<noteq> []"
  using words_from_are_words [of "[]"] by (auto simp: is_word_def)

lemma rstrip_collapse_words:
  "\<forall>c \<in> set acc. \<not> is_space c \<Longrightarrow>
     rstrip (rev acc @ collapse_from (acc = []) s) = join_with '' '' (words_from acc s)"
proof (induction s arbitrary: acc)
  case Nil
  then show ?case by (auto simp: rstrip_id)
next
  case (Cons c s)
  show ?case
  proof (cases "is_space c")
    case False
    then show ?thesis using Cons.IH [of "c # acc"] Cons.prems by simp
  next
    case True
    have IH: "rstrip (collapse_from True s) = join_with '' '' (words_from [] s)"
      using Cons.IH [of "[]"] by simp
    have "join_with '' '' (words_from [] s) = [] \<longleftrightarrow> words_from [] s = []"
      by (intro join_with_Nil_iff words_from_Nil_nonempty)
    with True IH Cons.prems show ?thesis
      by (auto simp: rstrip_append rstrip_id join_with_Cons)
  qed
qed

text \<open>Stripping the collapsed text is joining its words by single blanks.\<close>

lemma strip_collapse_eq_join: "strip (collapse_ws s) = join_with '' '' (words s)"
  using rstrip_collapse_words [of "[]" s]
  by (simp add: strip_def collapse_ws_def lstrip_collapse words_def)

lemma words_from_append_space:
  "\<forall>c \<in> set t. is_space c \<Longrightarrow> words_from acc (s @ t) = words_from acc s"
proof (induction acc s rule: words_from.induct)
  case (1 acc)
  then show ?case by (induction t arbitrary: acc) auto
qed auto

lemma words_lstrip: "words (lstrip s) = words s"
  by (induction s) (auto simp: words_def lstrip_def)

lemma words_rstrip: "words (rstrip s) = words s"
proof -
  have "s = rstrip s @ rev (takeWhile is_space (rev s))"
    by (metis rev_append rev_rev_ident rstrip_def takeWhile_dropWhile_id)
  moreover have "\<forall>c \<in> set (rev (takeWhile is_space (rev s))). is_space c"
    by (auto dest: set_takeWhileD)
  ultimately show ?thesis
    by (metis words_def words_from_append_space)
qed

lemma words_strip [py_text]: "words (strip s) = words s"
  by (simp add: strip_def words_lstrip words_rstrip)

lemma strip_Nil [simp]: "strip [] = []"
  by (simp add: strip_def lstrip_def rstrip_def)

lemma strip_eq_Nil_iff: "strip s = [] \<longleftrightarrow> (\<forall>c \<in> set s. is_space c)"
proof -
  have "strip s = [] \<longleftrightarrow> (\<forall>c \<in> set (lstrip s). is_space c)"
    by (simp add: strip_def rstrip_def dropWhile_eq_Nil_conv)
  also have "\<dots> \<longleftrightarrow> lstrip s = []"
    by (metis dropWhile_eq_Nil_conv dropWhile_idem lstrip_def list.set(1) empty_iff)
  also have "\<dots> \<longleftrightarrow> (\<forall>c \<in> set s. is_space c)"
    by (simp add: lstrip_def dropWhile_eq_Nil_conv)
  finally show ?thesis .
qed

lemma lstrip_rstrip_idem: "lstrip (rstrip (lstrip s)) = rstrip (lstrip s)"
proof (cases "lstrip s")
  case Nil
  moreover have "lstrip (rstrip []) = rstrip []" by (simp add: lstrip_def rstrip_def)
  ultimately show ?thesis by metis
next
  case (Cons c cs)
  then have "\<not> is_space c" unfolding lstrip_def by (metis hd_dropWhile list.sel(1) list.distinct(1))
  then show ?thesis using Cons by (simp add: rstrip_nonspace lstrip_def)
qed

lemma rstrip_idem: "rstrip (rstrip s) = rstrip s"
  by (simp add: rstrip_def)

lemma strip_idem [simp, py_text]: "strip (strip s) = strip s"
  by (simp add: strip_def lstrip_rstrip_idem rstrip_idem)

section \<open>Prefixes, substrings and replacement\<close>

fun contains :: "string \<Rightarrow> string \<Rightarrow> bool" where
  "contains pat [] = (pat = [])"
| "contains pat (c # cs) = (prefix pat (c # cs) \<or> contains pat cs)"

lemma contains_iff: "contains pat s \<longleftrightarrow> (\<exists>u v. s = u @ pat @ v)"
proof (induction s)
  case Nil
  then show ?case by auto
next
  case (Cons c s)
  have "(\<exists>u v. c # s = u @ pat @ v) \<longleftrightarrow> prefix pat (c # s) \<or> (\<exists>u v. s = u @ pat @ v)"
    by (metis append_Cons append_eq_Cons_conv prefix_def)
  with Cons show ?case by simp
qed

definition is_prefix :: "string \<Rightarrow> string \<Rightarrow> bool" where
  "is_prefix pat s \<longleftrightarrow> take (length pat) s = pat"

lemma is_prefix_iff: "is_prefix pat s \<longleftrightarrow> prefix pat s"
  by (metis append_eq_conv_conj is_prefix_def prefix_def)

text \<open>\<open>s.replace(pat, new)\<close> and \<open>s.count(pat)\<close> for a pattern that is not empty.\<close>

function replace_all :: "string \<Rightarrow> string \<Rightarrow> string \<Rightarrow> string \<times> nat" where
  "replace_all pat new [] = ([], 0)"
| "replace_all pat new (c # cs) =
     (if pat \<noteq> [] \<and> is_prefix pat (c # cs)
      then let (t, n) = replace_all pat new (drop (length pat) (c # cs)) in (new @ t, Suc n)
      else let (t, n) = replace_all pat new cs in (c # t, n))"
  by pat_completeness auto
termination
  by (relation "measure (\<lambda>(pat, new, s). length s)") auto

section \<open>Numbers as text\<close>

text \<open>\<open>str(n)\<close> of a natural number and of an integer.\<close>

fun digits :: "nat \<Rightarrow> string" where
  "digits n = (if n < 10 then [char_of (48 + n)] else digits (n div 10) @ [char_of (48 + n mod 10)])"

declare digits.simps [simp del]

definition int_text :: "int \<Rightarrow> string" where
  "int_text i = (if i < 0 then CHR ''-'' # digits (nat (- i)) else digits (nat i))"

text \<open>The number a decimal text stands for.\<close>

definition decimal_value :: "string \<Rightarrow> nat" where
  "decimal_value s = foldl (\<lambda>v c. 10 * v + (code c - 48)) 0 s"

lemma decimal_value_digits: "decimal_value (digits n) = n"
proof (induction n rule: digits.induct)
  case (1 n)
  show ?case
  proof (cases "n < 10")
    case True
    then show ?thesis by (subst digits.simps) (simp add: decimal_value_def code_def)
  next
    case False
    then have "decimal_value (digits (n div 10)) = n div 10" using 1 by simp
    with False show ?thesis
      by (subst digits.simps) (simp add: decimal_value_def code_def)
  qed
qed

lemma decimal_value_zeros: "decimal_value (replicate k (CHR ''0'') @ s) = decimal_value s"
  by (induction k) (simp_all add: decimal_value_def code_def)

section \<open>List and dict idioms\<close>

text \<open>\<open>list(dict.fromkeys(xs))\<close>: the first occurrence of every element, in order.\<close>

fun dedup :: "'a list \<Rightarrow> 'a list" where
  "dedup [] = []"
| "dedup (x # xs) = x # removeAll x (dedup xs)"

lemma set_dedup [simp, py_list]: "set (dedup xs) = set xs"
  by (induction xs) auto

lemma distinct_dedup [simp, py_list]: "distinct (dedup xs)"
  by (induction xs) (auto simp: distinct_removeAll)

lemma dedup_distinct: "distinct xs \<Longrightarrow> dedup xs = xs"
  by (induction xs) auto

lemma dedup_idem [simp, py_list]: "dedup (dedup xs) = dedup xs"
  by (simp add: dedup_distinct)

lemma dedup_eq_Nil [simp]: "dedup xs = [] \<longleftrightarrow> xs = []"
  by (cases xs) auto

text \<open>\<open>next((x for x in xs if p(x)), None)\<close> is \<open>List.find\<close>.\<close>

lemma find_Some_in: "List.find p xs = Some x \<Longrightarrow> x \<in> set xs \<and> p x"
  by (induction xs) (auto split: if_splits)

lemma find_None_iff_all: "List.find p xs = None \<longleftrightarrow> (\<forall>x \<in> set xs. \<not> p x)"
  by (induction xs) auto

lemma find_append: "List.find p (xs @ ys) = (case List.find p xs of None \<Rightarrow> List.find p ys | Some x \<Rightarrow> Some x)"
  by (induction xs) auto

text \<open>\<open>xs[-1]\<close>.\<close>

fun last_opt :: "'a list \<Rightarrow> 'a option" where
  "last_opt [] = None"
| "last_opt [x] = Some x"
| "last_opt (x # y # xs) = last_opt (y # xs)"

lemma last_opt_conv: "last_opt xs = (if xs = [] then None else Some (last xs))"
  by (induction xs rule: last_opt.induct) auto

section \<open>Interface: normal forms\<close>

text \<open>
  Several operations of the code put text or lists into a normal form before comparing or storing
  them. The contract they share: a second application changes nothing. What the clients use is that
  comparing normal forms is an equivalence and that a value and its normal form are equivalent.
\<close>

locale canonicaliser =
  fixes norm :: "'a \<Rightarrow> 'a"
  assumes norm_idem: "norm (norm x) = norm x"
begin

definition same :: "'a \<Rightarrow> 'a \<Rightarrow> bool" where
  "same x y \<longleftrightarrow> norm x = norm y"

lemma same_norm: "same (norm x) x"
  by (simp add: same_def norm_idem)

lemma same_equivp: "equivp same"
  by (rule equivpI) (auto simp: same_def reflp_def symp_def transp_def)

lemma normal_iff_range: "norm x = x \<longleftrightarrow> x \<in> range norm"
  by (metis norm_idem rangeI rangeE)

end

interpretation strip_nf: canonicaliser strip
  by unfold_locales (rule strip_idem)

interpretation casefold_nf: canonicaliser casefold
  by unfold_locales (rule casefold_idem)

interpretation dedup_nf: canonicaliser "dedup :: string list \<Rightarrow> string list"
  by unfold_locales (rule dedup_idem)

section \<open>Interface: keyed stores\<close>

text \<open>
  Dicts, the files of the session store and the artifact store share one contract: what was put
  under a key is what is read there, and nothing else changes. Clients use that the last write wins
  and that creating an entry only when it is absent is idempotent.
\<close>

locale keyed_store =
  fixes put :: "'k \<Rightarrow> 'v \<Rightarrow> 's \<Rightarrow> 's" and get :: "'s \<Rightarrow> 'k \<Rightarrow> 'v option"
  assumes get_put: "get (put k v s) k' = (if k = k' then Some v else get s k')"
begin

lemma get_put_same: "get (put k v s) k = Some v"
  by (simp add: get_put)

lemma get_put_twice: "get (put k v (put k w s)) k' = get (put k v s) k'"
  by (simp add: get_put)

definition put_absent :: "'k \<Rightarrow> 'v \<Rightarrow> 's \<Rightarrow> 's" where
  "put_absent k v s = (case get s k of None \<Rightarrow> put k v s | Some _ \<Rightarrow> s)"

lemma get_put_absent: "get (put_absent k v s) k = Some (case get s k of None \<Rightarrow> v | Some w \<Rightarrow> w)"
  by (simp add: put_absent_def get_put split: option.split)

lemma put_absent_again: "put_absent k w (put_absent k v s) = put_absent k v s"
  by (simp add: put_absent_def get_put split: option.split)

lemma get_fold_put:
  "distinct (map fst kvs) \<Longrightarrow> get (fold (\<lambda>(k, v). put k v) kvs s) x =
     (case map_of kvs x of None \<Rightarrow> get s x | Some v \<Rightarrow> Some v)"
proof (induction kvs arbitrary: s)
  case Nil
  then show ?case by simp
next
  case (Cons kv kvs)
  obtain k v where kv: "kv = (k, v)" by fastforce
  with Cons.prems have "map_of kvs k = None" by (simp add: map_of_eq_None_iff)
  with Cons kv show ?case by (cases "x = k") (simp_all add: get_put split: option.split)
qed

end

section \<open>Dicts\<close>

text \<open>
  A Python dict keeps its keys in the order of their first insertion. It is an association list with
  distinct keys; a write to a key that is present keeps its position.
\<close>

type_synonym ('k, 'v) dict = "('k \<times> 'v) list"

definition dict_get :: "('k, 'v) dict \<Rightarrow> 'k \<Rightarrow> 'v option" where
  "dict_get d k = map_of d k"

fun dict_set :: "'k \<Rightarrow> 'v \<Rightarrow> ('k, 'v) dict \<Rightarrow> ('k, 'v) dict" where
  "dict_set k v [] = [(k, v)]"
| "dict_set k v (e # d) = (if fst e = k then (k, v) # d else e # dict_set k v d)"

definition dict_keys :: "('k, 'v) dict \<Rightarrow> 'k list" where
  "dict_keys d = map fst d"

definition dict_update :: "('k, 'v) dict \<Rightarrow> ('k, 'v) dict \<Rightarrow> ('k, 'v) dict" where
  "dict_update d e = fold (\<lambda>(k, v). dict_set k v) e d"

text \<open>The dict of a comprehension \<open>{k: v for ...}\<close>: the last value of a key wins.\<close>

definition dict_of :: "('k \<times> 'v) list \<Rightarrow> ('k, 'v) dict" where
  "dict_of kvs = dict_update [] kvs"

lemma dict_get_set: "dict_get (dict_set k v d) k' = (if k = k' then Some v else dict_get d k')"
  by (induction d) (auto simp: dict_get_def)

interpretation dict_store: keyed_store dict_set dict_get
  by unfold_locales (rule dict_get_set)

lemma dict_keys_set:
  "dict_keys (dict_set k v d) = (if k \<in> set (dict_keys d) then dict_keys d else dict_keys d @ [k])"
  by (induction d) (auto simp: dict_keys_def)

lemma distinct_dict_set: "distinct (dict_keys d) \<Longrightarrow> distinct (dict_keys (dict_set k v d))"
  by (simp add: dict_keys_set)

lemma dict_set_new: "k \<notin> set (dict_keys d) \<Longrightarrow> dict_set k v d = d @ [(k, v)]"
  by (induction d) (auto simp: dict_keys_def)

lemma dict_update_distinct:
  "distinct (map fst e) \<Longrightarrow> set (map fst e) \<inter> set (dict_keys d) = {} \<Longrightarrow> dict_update d e = d @ e"
proof (induction e arbitrary: d)
  case Nil
  then show ?case by (simp add: dict_update_def)
next
  case (Cons kv e)
  obtain k v where kv: "kv = (k, v)" by fastforce
  have "dict_update d (kv # e) = dict_update (d @ [(k, v)]) e"
    using Cons.prems by (simp add: dict_update_def kv dict_set_new)
  also have "\<dots> = (d @ [(k, v)]) @ e"
    by (rule Cons.IH) (use Cons.prems kv in \<open>auto simp: dict_keys_def\<close>)
  finally show ?case by (simp add: kv)
qed

lemma dict_of_distinct: "distinct (map fst kvs) \<Longrightarrow> dict_of kvs = kvs"
  using dict_update_distinct [of kvs "[]"] by (simp add: dict_of_def dict_keys_def)

end
