(* ===== verification/Regex.thy ===== *)
theory Regex
  imports Prelude
begin

text \<open>
  Python's \<open>re\<close> as far as the program uses it: a backtracking matcher that lists the ways a pattern
  matches at a position in the order of preference (the first one is the match), \<open>re.search\<close> and
  \<open>re.sub\<close>. Texts are UTF-8 bytes; a byte of a character beyond ASCII counts as a word character,
  as the letters beyond ASCII do. None of the program's patterns matches the empty text.
\<close>

datatype regex =
    Chars "char \<Rightarrow> bool" | Eps | Bound | Cat regex regex | Alt regex regex
  | Star regex | Lazy_Star regex | Group nat regex

record rx_state =
  rx_prev :: "char option"
  rx_rest :: string
  rx_groups :: "(nat \<times> string) list"

definition is_word_char :: "char \<Rightarrow> bool" where
  "is_word_char c \<longleftrightarrow> is_alnum c \<or> c = CHR ''_'' \<or> 128 \<le> code c"

definition at_boundary :: "rx_state \<Rightarrow> bool" where
  "at_boundary st \<longleftrightarrow>
     (case rx_prev st of None \<Rightarrow> False | Some c \<Rightarrow> is_word_char c) \<noteq>
     (case rx_rest st of [] \<Rightarrow> False | c # _ \<Rightarrow> is_word_char c)"

definition shorter :: "rx_state \<Rightarrow> rx_state \<Rightarrow> bool" where
  "shorter st st' \<longleftrightarrow> length (rx_rest st') < length (rx_rest st)"

fun star_from :: "bool \<Rightarrow> nat \<Rightarrow> (rx_state \<Rightarrow> rx_state list) \<Rightarrow> rx_state \<Rightarrow> rx_state list" where
  "star_from lazy 0 f st = [st]"
| "star_from lazy (Suc n) f st =
     (let more = concat (map (star_from lazy n f) (filter (shorter st) (f st)))
      in if lazy then st # more else more @ [st])"

primrec rx_match :: "regex \<Rightarrow> rx_state \<Rightarrow> rx_state list" where
  "rx_match (Chars p) st =
     (case rx_rest st of
        [] \<Rightarrow> []
      | c # cs \<Rightarrow> if p c then [st\<lparr>rx_prev := Some c, rx_rest := cs\<rparr>] else [])"
| "rx_match Eps st = [st]"
| "rx_match Bound st = (if at_boundary st then [st] else [])"
| "rx_match (Cat r s) st = concat (map (rx_match s) (rx_match r st))"
| "rx_match (Alt r s) st = rx_match r st @ rx_match s st"
| "rx_match (Star r) st = star_from False (length (rx_rest st)) (rx_match r) st"
| "rx_match (Lazy_Star r) st = star_from True (length (rx_rest st)) (rx_match r) st"
| "rx_match (Group k r) st =
     map (\<lambda>st'. st'\<lparr>rx_groups :=
            (k, take (length (rx_rest st) - length (rx_rest st')) (rx_rest st)) # rx_groups st'\<rparr>) (rx_match r st)"

definition rx_first :: "regex \<Rightarrow> char option \<Rightarrow> string \<Rightarrow> rx_state option" where
  "rx_first r prev s =
     (case rx_match r \<lparr>rx_prev = prev, rx_rest = s, rx_groups = []\<rparr> of [] \<Rightarrow> None | st # _ \<Rightarrow> Some st)"

text \<open>\<open>re.search\<close>: the first match at the leftmost position, as the groups of the match.\<close>

fun rx_search_from :: "regex \<Rightarrow> char option \<Rightarrow> string \<Rightarrow> (nat \<times> string) list option" where
  "rx_search_from r prev s =
     (case rx_first r prev s of
        Some st \<Rightarrow> Some ((0, take (length s - length (rx_rest st)) s) # rx_groups st)
      | None \<Rightarrow> (case s of [] \<Rightarrow> None | c # cs \<Rightarrow> rx_search_from r (Some c) cs))"

declare rx_search_from.simps [simp del]

definition rx_search :: "regex \<Rightarrow> string \<Rightarrow> (nat \<times> string) list option" where
  "rx_search r s = rx_search_from r None s"

definition rx_found :: "regex \<Rightarrow> string \<Rightarrow> bool" where
  "rx_found r s \<longleftrightarrow> rx_search r s \<noteq> None"

definition rx_group :: "nat \<Rightarrow> (nat \<times> string) list \<Rightarrow> string" where
  "rx_group k gs = (case map_of gs k of None \<Rightarrow> [] | Some t \<Rightarrow> t)"

text \<open>\<open>re.sub(r, f, s)\<close>; the fuel is the length of the text.\<close>

fun rx_sub_from :: "nat \<Rightarrow> regex \<Rightarrow> ((nat \<times> string) list \<Rightarrow> string) \<Rightarrow> char option \<Rightarrow> string \<Rightarrow> string" where
  "rx_sub_from 0 r f prev s = s"
| "rx_sub_from (Suc n) r f prev s =
     (case s of
        [] \<Rightarrow> []
      | c # cs \<Rightarrow>
          (case rx_first r prev s of
             Some st \<Rightarrow>
               if length (rx_rest st) < length s
               then f ((0, take (length s - length (rx_rest st)) s) # rx_groups st) @
                    rx_sub_from n r f (rx_prev st) (rx_rest st)
               else c # rx_sub_from n r f (Some c) cs
           | None \<Rightarrow> c # rx_sub_from n r f (Some c) cs))"

definition rx_sub :: "regex \<Rightarrow> ((nat \<times> string) list \<Rightarrow> string) \<Rightarrow> string \<Rightarrow> string" where
  "rx_sub r f s = rx_sub_from (length s) r f None s"

text \<open>All matches, as \<open>re.finditer\<close> lists them.\<close>

fun rx_all_from :: "nat \<Rightarrow> regex \<Rightarrow> char option \<Rightarrow> string \<Rightarrow> (nat \<times> string) list list" where
  "rx_all_from 0 r prev s = []"
| "rx_all_from (Suc n) r prev s =
     (case s of
        [] \<Rightarrow> []
      | c # cs \<Rightarrow>
          (case rx_first r prev s of
             Some st \<Rightarrow>
               if length (rx_rest st) < length s
               then ((0, take (length s - length (rx_rest st)) s) # rx_groups st) #
                    rx_all_from n r (rx_prev st) (rx_rest st)
               else rx_all_from n r (Some c) cs
           | None \<Rightarrow> rx_all_from n r (Some c) cs))"

definition rx_all :: "regex \<Rightarrow> string \<Rightarrow> (nat \<times> string) list list" where
  "rx_all r s = rx_all_from (length s) r None s"

section \<open>Pattern vocabulary\<close>

primrec rx_lit :: "string \<Rightarrow> regex" where
  "rx_lit [] = Eps"
| "rx_lit (c # cs) = Cat (Chars (\<lambda>x. x = c)) (rx_lit cs)"

text \<open>A literal under \<open>(?i)\<close>.\<close>

primrec rx_ilit :: "string \<Rightarrow> regex" where
  "rx_ilit [] = Eps"
| "rx_ilit (c # cs) = Cat (Chars (\<lambda>x. fold_char x = fold_char c)) (rx_ilit cs)"

primrec rx_repeat :: "nat \<Rightarrow> regex \<Rightarrow> regex" where
  "rx_repeat 0 r = Eps"
| "rx_repeat (Suc n) r = Cat r (rx_repeat n r)"

definition rx_opt :: "regex \<Rightarrow> regex" where "rx_opt r = Alt r Eps"
definition rx_plus :: "regex \<Rightarrow> regex" where "rx_plus r = Cat r (Star r)"
definition rx_at_least :: "nat \<Rightarrow> regex \<Rightarrow> regex" where "rx_at_least n r = Cat (rx_repeat n r) (Star r)"
definition rx_space :: regex where "rx_space = Chars is_space"

fun rx_cat :: "regex list \<Rightarrow> regex" where
  "rx_cat [] = Eps" | "rx_cat [r] = r" | "rx_cat (r # s # rs) = Cat r (rx_cat (s # rs))"

fun rx_alt :: "regex list \<Rightarrow> regex" where
  "rx_alt [] = Chars (\<lambda>_. False)" | "rx_alt [r] = r" | "rx_alt (r # s # rs) = Alt r (rx_alt (s # rs))"

section \<open>Facts\<close>

lemma rx_search_None:
  "rx_search_from r prev s = None \<Longrightarrow> rx_first r prev s = None \<and> (\<forall>c cs. s = c # cs \<longrightarrow> rx_search_from r (Some c) cs = None)"
  by (subst (asm) rx_search_from.simps) (auto split: option.splits list.splits)

lemma rx_sub_from_none: "rx_search_from r prev s = None \<Longrightarrow> rx_sub_from n r f prev s = s"
proof (induction n arbitrary: prev s)
  case (Suc n)
  note none = rx_search_None [OF Suc.prems]
  show ?case using none Suc.IH by (cases s) simp_all
qed simp

lemma rx_sub_none: "\<not> rx_found r s \<Longrightarrow> rx_sub r f s = s"
  by (simp add: rx_found_def rx_search_def rx_sub_def rx_sub_from_none)

lemma rx_all_from_none: "rx_search_from r prev s = None \<Longrightarrow> rx_all_from n r prev s = []"
proof (induction n arbitrary: prev s)
  case (Suc n)
  note none = rx_search_None [OF Suc.prems]
  show ?case using none Suc.IH by (cases s) simp_all
qed simp

end
