(* ===== verification/Sanitizer.thy ===== *)
theory Sanitizer
  imports Regex
begin

text \<open>
  \<open>core/persistence_sanitizer.py\<close>: six substitutions in order and a final scan that refuses a text
  in which an API key remains. What it lets pass holds no API key, and a text without any of the
  patterns passes unchanged.
\<close>

definition not_in :: "string \<Rightarrow> regex" where
  "not_in cs = Chars (\<lambda>c. \<not> is_space c \<and> c \<notin> set cs)"

definition colon_or_eq :: regex where
  "colon_or_eq = Chars (\<lambda>c. c = CHR '':'' \<or> c = CHR ''='')"

definition key_char :: "char \<Rightarrow> bool" where
  "key_char c \<longleftrightarrow> is_alnum c \<or> c = CHR ''_'' \<or> c = CHR ''-''"

definition pat_authorization :: regex where
  "pat_authorization = Cat
     (Group 1 (rx_cat [rx_ilit ''authorization'', Star rx_space, colon_or_eq, Star rx_space,
        rx_opt (Cat (rx_ilit ''bearer'') (rx_plus rx_space))]))
     (rx_plus (not_in '',;''))"

definition pat_assignment :: regex where
  "pat_assignment = rx_cat
     [Bound, Group 1 (rx_alt [rx_ilit ''ark_api_key'',
        rx_cat [rx_ilit ''api'', rx_opt (Chars (\<lambda>c. c = CHR ''_'' \<or> c = CHR ''-'')), rx_ilit ''key''],
        rx_ilit ''token'', rx_ilit ''password'', rx_ilit ''secret'']),
      Star rx_space, colon_or_eq, Star rx_space, rx_plus (not_in '',;'')]"

definition pat_bearer :: regex where
  "pat_bearer = rx_cat
     [Bound, rx_ilit ''Bearer'', rx_plus rx_space,
      rx_plus (Chars (\<lambda>c. is_alnum c \<or> c \<in> set ''._~+/=-''))]"

definition pat_api_key :: regex where
  "pat_api_key = rx_cat [Bound, rx_lit ''sk-'', rx_at_least 8 (Chars key_char), Bound]"

definition pat_email :: regex where
  "pat_email = rx_cat
     [Bound, rx_plus (Chars (\<lambda>c. is_alnum c \<or> c \<in> set ''._%+-'')), rx_lit ''@'',
      rx_plus (Chars (\<lambda>c. is_alnum c \<or> c = CHR ''.'' \<or> c = CHR ''-'')), rx_lit ''.'',
      rx_at_least 2 (Chars (\<lambda>c. is_upper c \<or> is_lower c)), Bound]"

definition pat_url_token :: regex where
  "pat_url_token = Cat
     (Group 1 (rx_cat [Chars (\<lambda>c. c = CHR ''?'' \<or> c = CHR ''&''),
        rx_alt [rx_ilit ''token'', rx_ilit ''access_token'', rx_ilit ''auth''], rx_lit ''='']))
     (rx_plus (not_in ''&''))"

definition sanitizer_rules :: "(regex \<times> ((nat \<times> string) list \<Rightarrow> string)) list" where
  "sanitizer_rules =
    [(pat_authorization, \<lambda>g. rx_group 1 g @ ''<REDACTED>''),
     (pat_assignment, \<lambda>g. rx_group 1 g @ ''=<REDACTED>''),
     (pat_bearer, \<lambda>_. ''Bearer <REDACTED>''),
     (pat_api_key, \<lambda>_. ''<REDACTED_API_KEY>''),
     (pat_email, \<lambda>_. ''<EMAIL>''),
     (pat_url_token, \<lambda>g. rx_group 1 g @ ''<REDACTED>'')]"

definition forbidden_after :: "regex list" where
  "forbidden_after = [pat_api_key]"

definition sanitize :: "string \<Rightarrow> string outcome" where
  "sanitize content =
     (let t = fold (\<lambda>(r, f) s. rx_sub r f s) sanitizer_rules content
      in if \<exists>r \<in> set forbidden_after. rx_found r t
         then Inl (SanitizationError ''sensitive content remains after sanitization'')
         else Inr t)"

definition key_free :: "string \<Rightarrow> bool" where
  "key_free s \<longleftrightarrow> \<not> rx_found pat_api_key s"

lemma sanitize_key_free: "sanitize s = Inr t \<Longrightarrow> key_free t"
  by (auto simp: sanitize_def Let_def forbidden_after_def key_free_def split: if_splits)

definition unaffected :: "string \<Rightarrow> bool" where
  "unaffected s \<longleftrightarrow> (\<forall>(r, f) \<in> set sanitizer_rules. \<not> rx_found r s)"

lemma sanitize_unaffected: "unaffected s \<Longrightarrow> sanitize s = Inr s"
  by (simp add: unaffected_def sanitize_def sanitizer_rules_def forbidden_after_def rx_sub_none)

end
