(* ===== verification/Messages.thy ===== *)
theory Messages
  imports Prelude
begin

text \<open>
  The texts of the program that are not ASCII, as their code points (\<open>u8\<close> gives the UTF-8
  bytes), with an English gloss. The definitions that use a text name it, so the branches of the
  model carry the messages of the source. What the proofs use of them is that none is blank.
\<close>

definition goal_text :: string where  \<comment> \<open>repair the failed SQL, submit only after every gate\<close>
  "goal_text =
    u8 [0x4FEE, 0x590D, 0x5F53, 0x524D, 0x5931, 0x8D25] @ '' SQL'' @ u8 [0xFF0C, 0x5E76, 0x4EC5,
    0x5728, 0x901A, 0x8FC7, 0x5168, 0x90E8] @ '' Gate '' @ u8 [0x540E, 0x63D0, 0x4EA4, 0x5019,
    0x9009]"

definition no_recursion_text :: string where  \<comment> \<open>no recursive SubAgent\<close>
  "no_recursion_text =
    u8 [0x4E0D, 0x5F97, 0x9012, 0x5F52, 0x8C03, 0x7528] @ '' SubAgent''"

definition no_state_change_text :: string where  \<comment> \<open>do not modify Session, Attempt, Memory or Gate\<close>
  "no_state_change_text =
    u8 [0x4E0D, 0x5F97, 0x4FEE, 0x6539] @ '' Session'' @ u8 [0x3001] @ ''Attempt'' @ u8 [0x3001]
    @ ''Memory '' @ u8 [0x6216] @ '' Gate''"

definition no_direct_submit_text :: string where  \<comment> \<open>do not submit SQL_READY directly\<close>
  "no_direct_submit_text =
    u8 [0x4E0D, 0x5F97, 0x76F4, 0x63A5, 0x63D0, 0x4EA4] @ '' SQL_READY''"

definition msg_gate_budget :: string where  \<comment> \<open>gate repair rounds or total budget exhausted\<close>
  "msg_gate_budget =
    ''Gate '' @ u8 [0x4FEE, 0x590D, 0x6B21, 0x6570, 0x6216, 0x603B, 0x9884, 0x7B97, 0x5DF2,
    0x8017, 0x5C3D, 0x3002]"

definition msg_prior_gate :: string where  \<comment> \<open>an earlier gate did not pass\<close>
  "msg_prior_gate =
    u8 [0x524D, 0x7F6E] @ '' Gate '' @ u8 [0x672A, 0x5168, 0x90E8, 0x901A, 0x8FC7, 0x3002]"

definition msg_output_contract :: string where  \<comment> \<open>candidate empty or hash differs from the earlier gates\<close>
  "msg_output_contract =
    u8 [0x5019, 0x9009, 0x4E3A, 0x7A7A, 0x6216, 0x5019, 0x9009, 0x54C8, 0x5E0C, 0x4E0E, 0x524D,
    0x7F6E] @ '' Gate '' @ u8 [0x4E0D, 0x4E00, 0x81F4, 0x3002]"

definition msg_static_evidence :: string where  \<comment> \<open>static evidence incomplete\<close>
  "msg_static_evidence =
    u8 [0x9759, 0x6001, 0x6821, 0x9A8C, 0x8BC1, 0x636E, 0x4E0D, 0x5B8C, 0x6574, 0x3002]"

definition msg_semantic_failed :: string where  \<comment> \<open>semantic reflection failed\<close>
  "msg_semantic_failed =
    u8 [0x8BED, 0x4E49, 0x53CD, 0x601D, 0x5931, 0x8D25, 0xFF0C, 0x5019, 0x9009, 0x4E0D, 0x53EF,
    0x4EA4, 0x4ED8, 0x3002]"

definition msg_reflection_default :: string where  \<comment> \<open>PreReflection did not let the candidate pass\<close>
  "msg_reflection_default =
    ''PreReflection '' @ u8 [0x672A, 0x653E, 0x884C, 0x5019, 0x9009, 0x3002]"

definition msg_plan_or_diff :: string where  \<comment> \<open>no legal RepairPlan or SQLDiffSummary\<close>
  "msg_plan_or_diff =
    u8 [0x65E0, 0x6CD5, 0x4E3A, 0x5019, 0x9009, 0x6784, 0x9020, 0x5408, 0x6CD5] @ '' RepairPlan
    '' @ u8 [0x6216] @ '' SQLDiffSummary'' @ u8 [0x3002]"

definition msg_risk_review :: string where  \<comment> \<open>candidate risk needs a human\<close>
  "msg_risk_review =
    u8 [0x5019, 0x9009, 0x98CE, 0x9669, 0x9700, 0x8981, 0x4EBA, 0x5DE5, 0x786E, 0x8BA4]"

definition msg_caller_forbidden :: string where  \<comment> \<open>caller violates the safety policy\<close>
  "msg_caller_forbidden =
    u8 [0x64CD, 0x4F5C, 0x8C03, 0x7528, 0x65B9, 0x4E0D, 0x7B26, 0x5408, 0x5B89, 0x5168, 0x7B56,
    0x7565, 0x3002]"

definition msg_ownership_missing :: string where  \<comment> \<open>operation lacks a session or attempt\<close>
  "msg_ownership_missing =
    u8 [0x64CD, 0x4F5C, 0x7F3A, 0x5C11] @ '' Session '' @ u8 [0x6216] @ '' Attempt '' @ u8
    [0x5F52, 0x5C5E, 0x3002]"

definition msg_safety_blocked :: string where  \<comment> \<open>operation holds credentials or an unauthorised intent\<close>
  "msg_safety_blocked =
    u8 [0x64CD, 0x4F5C, 0x5305, 0x542B, 0x51ED, 0x636E, 0x6216, 0x8D8A, 0x6743, 0x610F, 0x56FE,
    0x3002]"

definition title_read_log :: string where  \<comment> \<open>read and arrange the error log\<close>
  "title_read_log =
    u8 [0x8BFB, 0x53D6, 0x5E76, 0x6574, 0x7406, 0x9519, 0x8BEF, 0x65E5, 0x5FD7]"

definition title_diagnose :: string where  \<comment> \<open>diagnose the SQL error\<close>
  "title_diagnose =
    u8 [0x8BCA, 0x65AD] @ '' SQL '' @ u8 [0x9519, 0x8BEF]"

definition title_metadata :: string where  \<comment> \<open>query the metadata needed\<close>
  "title_metadata =
    u8 [0x67E5, 0x8BE2, 0x5FC5, 0x8981, 0x5143, 0x6570, 0x636E]"

definition title_memory :: string where  \<comment> \<open>retrieve related experience\<close>
  "title_memory =
    u8 [0x68C0, 0x7D22, 0x76F8, 0x5173, 0x6210, 0x529F, 0x7ECF, 0x9A8C]"

definition title_generate :: string where  \<comment> \<open>generate a candidate\<close>
  "title_generate =
    u8 [0x751F, 0x6210, 0x5019, 0x9009] @ '' SQL''"

definition forbidden_title :: string where  \<comment> \<open>execute production sql\<close>
  "forbidden_title =
    u8 [0x6267, 0x884C, 0x751F, 0x4EA7] @ '' sql''"

definition reason_llm_human :: string where  \<comment> \<open>the LLM asks for a human\<close>
  "reason_llm_human =
    ''LLM '' @ u8 [0x5224, 0x65AD, 0x9700, 0x8981, 0x4EBA, 0x5DE5, 0x4ECB, 0x5165]"

definition msg_task_unregistered :: string where  \<comment> \<open>task not registered\<close>
  "msg_task_unregistered =
    u8 [0x672A, 0x6CE8, 0x518C, 0x7684] @ '' SubAgent '' @ u8 [0x4EFB, 0x52A1]"

definition msg_recursive_subagent :: string where  \<comment> \<open>recursive SubAgent forbidden\<close>
  "msg_recursive_subagent =
    u8 [0x7981, 0x6B62, 0x9012, 0x5F52] @ '' SubAgent''"

definition msg_tool_not_allowed :: string where  \<comment> \<open>SubAgent tool not allowed\<close>
  "msg_tool_not_allowed =
    ''SubAgent Tool '' @ u8 [0x6743, 0x9650, 0x8D8A, 0x754C]"

definition msg_ref_foreign :: string where  \<comment> \<open>reference of another session\<close>
  "msg_ref_foreign =
    u8 [0x4E0A, 0x4E0B, 0x6587, 0x5F15, 0x7528, 0x4E0D, 0x5C5E, 0x4E8E, 0x5F53, 0x524D] @ ''
    Session''"

definition msg_ref_missing :: string where  \<comment> \<open>reference does not exist\<close>
  "msg_ref_missing =
    u8 [0x4E0A, 0x4E0B, 0x6587, 0x5F15, 0x7528, 0x4E0D, 0x5B58, 0x5728]"

definition msg_sub_time :: string where  \<comment> \<open>SubAgent time budget exhausted\<close>
  "msg_sub_time =
    ''SubAgent '' @ u8 [0x72EC, 0x7ACB, 0x65F6, 0x95F4, 0x9884, 0x7B97, 0x8017, 0x5C3D]"

definition msg_sub_invalid :: string where  \<comment> \<open>SubAgent action invalid\<close>
  "msg_sub_invalid =
    ''SubAgent Action '' @ u8 [0x975E, 0x6CD5]"

definition msg_sub_failed :: string where  \<comment> \<open>SubAgent returned a failure\<close>
  "msg_sub_failed =
    ''SubAgent '' @ u8 [0x8FD4, 0x56DE, 0x5931, 0x8D25]"

definition msg_sub_context :: string where  \<comment> \<open>too many context requests\<close>
  "msg_sub_context =
    ''SubAgent '' @ u8 [0x4E0A, 0x4E0B, 0x6587, 0x8BF7, 0x6C42, 0x8D85, 0x9650]"

definition msg_sub_registry :: string where  \<comment> \<open>no ToolRegistry\<close>
  "msg_sub_registry =
    ''SubAgent ToolRegistry '' @ u8 [0x672A, 0x914D, 0x7F6E]"

definition msg_sub_tool_failed :: string where  \<comment> \<open>SubAgent tool failed\<close>
  "msg_sub_tool_failed =
    ''SubAgent Tool '' @ u8 [0x6267, 0x884C, 0x5931, 0x8D25]"

definition msg_sub_budget :: string where  \<comment> \<open>SubAgent budget exhausted\<close>
  "msg_sub_budget =
    ''SubAgent '' @ u8 [0x72EC, 0x7ACB, 0x9884, 0x7B97, 0x8017, 0x5C3D]"

definition desc_diagnose :: string where  \<comment> \<open>diagnose from log and metadata\<close>
  "desc_diagnose =
    u8 [0x57FA, 0x4E8E, 0x65E5, 0x5FD7, 0x548C, 0x5143, 0x6570, 0x636E, 0x8BCA, 0x65AD] @ '' SQL
    '' @ u8 [0x9519, 0x8BEF]"

definition desc_reflect :: string where  \<comment> \<open>compare failures, recognise oscillation\<close>
  "desc_reflect =
    u8 [0x6BD4, 0x8F83, 0x524D, 0x540E, 0x5931, 0x8D25, 0x5E76, 0x8BC6, 0x522B, 0x632F, 0x8361]"

definition desc_plan :: string where  \<comment> \<open>propose a repair plan\<close>
  "desc_plan =
    u8 [0x4F9D, 0x636E, 0x8BCA, 0x65AD, 0x3001, 0x5143, 0x6570, 0x636E, 0x548C, 0x6210, 0x529F,
    0x7ECF, 0x9A8C, 0x63D0, 0x51FA, 0x4FEE, 0x590D, 0x8BA1, 0x5212]"

definition desc_generate :: string where  \<comment> \<open>candidate strictly by RepairPlan\<close>
  "desc_generate =
    u8 [0x4E25, 0x683C, 0x6309] @ '' RepairPlan '' @ u8 [0x751F, 0x6210, 0x5019, 0x9009, 0x5EFA,
    0x8BAE]"

definition desc_evaluate :: string where  \<comment> \<open>assess semantic risk, no substitute for the gate\<close>
  "desc_evaluate =
    u8 [0x72EC, 0x7ACB, 0x8BC4, 0x4F30, 0x5019, 0x9009, 0x8BED, 0x4E49, 0x98CE, 0x9669, 0xFF0C,
    0x4E0D, 0x66FF, 0x4EE3] @ '' Gate''"

definition desc_summarize :: string where  \<comment> \<open>summary for a human, free of secrets\<close>
  "desc_summarize =
    u8 [0x751F, 0x6210, 0x4E0D, 0x542B, 0x654F, 0x611F, 0x4FE1, 0x606F, 0x7684, 0x4EBA, 0x5DE5,
    0x4ECB, 0x5165, 0x6458, 0x8981]"

definition reason_no_safe_basis :: string where  \<comment> \<open>no safe basis for an automatic repair\<close>
  "reason_no_safe_basis =
    u8 [0x5F53, 0x524D, 0x9519, 0x8BEF, 0x7F3A, 0x5C11, 0x5B89, 0x5168, 0x81EA, 0x52A8, 0x4FEE,
    0x590D, 0x4F9D, 0x636E, 0x3002]"

definition schema_feedback_text :: string where  \<comment> \<open>last output failed the schema, return legal JSON only\<close>
  "schema_feedback_text =
    u8 [0x4E0A, 0x4E00, 0x6B21, 0x8F93, 0x51FA, 0x672A, 0x901A, 0x8FC7, 0x7ED3, 0x6784, 0x5316]
    @ '' Schema'' @ u8 [0xFF0C, 0x4EC5, 0x8FD4, 0x56DE, 0x5408, 0x6CD5] @ '' JSON'' @ u8
    [0x3002]"

definition memory_conditions_text :: string where  \<comment> \<open>the conditions under which the experience applies\<close>
  "memory_conditions_text =
    ''- '' @ u8 [0x5F53, 0x524D, 0x9519, 0x8BEF, 0x5173, 0x952E, 0x8BCD, 0x4E0E, 0x672C, 0x7ECF,
    0x9A8C, 0x4E00, 0x81F4, 0xFF1B, 0xA] @ ''- '' @ u8 [0x5F53, 0x524D, 0x5143, 0x6570, 0x636E,
    0x4ECD, 0x652F, 0x6301, 0x8BE5, 0x4FEE, 0x6539, 0xFF1B, 0xA] @ ''- '' @ u8 [0x4FEE, 0x6539,
    0x5FC5, 0x987B, 0x91CD, 0x65B0, 0x901A, 0x8FC7, 0x4E09, 0x5173] @ '' Gate'' @ u8 [0x3002]"

definition modification_default :: string where  \<comment> \<open>upstream confirmed the candidate\<close>
  "modification_default =
    u8 [0x4E0A, 0x6E38, 0x786E, 0x8BA4, 0x5019, 0x9009] @ '' SQL '' @ u8 [0x6210, 0x529F]"

definition description_default :: string where  \<comment> \<open>SQL repair experience\<close>
  "description_default =
    ''SQL '' @ u8 [0x4FEE, 0x590D, 0x7ECF, 0x9A8C]"

definition em_dash :: string where  \<comment> \<open>an em dash\<close>
  "em_dash =
    u8 [0x2014]"

definition desc_internal_tool :: string where  \<comment> \<open>controlled reuse of the business functions\<close>
  "desc_internal_tool =
    u8 [0x53D7, 0x63A7, 0x590D, 0x7528, 0x73B0, 0x6709, 0x4E1A, 0x52A1, 0x80FD, 0x529B]"

definition objective_subagent :: string where  \<comment> \<open>supplement the diagnosis from controlled evidence only\<close>
  "objective_subagent =
    u8 [0x4EC5, 0x57FA, 0x4E8E, 0x73B0, 0x6709, 0x53D7, 0x63A7, 0x8BC1, 0x636E, 0x8865, 0x5145,
    0x8BCA, 0x65AD, 0x5EFA, 0x8BAE, 0xFF0C, 0x4E0D, 0x751F, 0x6210, 0x6216, 0x63D0, 0x4EA4] @ ''
    SQL''"

definition reason_no_candidate :: string where  \<comment> \<open>no candidate can be generated safely\<close>
  "reason_no_candidate =
    u8 [0x65E0, 0x6CD5, 0x5B89, 0x5168, 0x751F, 0x6210, 0x5019, 0x9009] @ '' SQL'' @ u8 [0x3002]"

definition summary_subagent_default :: string where  \<comment> \<open>SubAgent checked the controlled evidence\<close>
  "summary_subagent_default =
    ''SubAgent '' @ u8 [0x5DF2, 0x68C0, 0x67E5, 0x53D7, 0x63A7, 0x8BC1, 0x636E, 0xFF1B, 0x7ED3,
    0x679C, 0x4EC5, 0x4F5C, 0x4E3A, 0x8BCA, 0x65AD, 0x5EFA, 0x8BAE, 0x3002]"

definition msg_rollback :: string where  \<comment> \<open>agent orchestration switched off\<close>
  "msg_rollback =
    ''Agent '' @ u8 [0x7F16, 0x6392, 0x5DF2, 0x901A, 0x8FC7, 0x786E, 0x5B9A, 0x6027, 0x56DE,
    0x6EDA, 0x5F00, 0x5173, 0x5173, 0x95ED, 0x3002]"

definition msg_success_failed :: string where  \<comment> \<open>handling of SUCCESS failed\<close>
  "msg_success_failed =
    ''SUCCESS '' @ u8 [0x4E8B, 0x4EF6, 0x5904, 0x7406, 0x5931, 0x8D25, 0xFF0C, 0x8BF7, 0x4EBA,
    0x5DE5, 0x68C0, 0x67E5, 0x672C, 0x5730, 0x72B6, 0x6001, 0x3002]"

definition msg_recover_missing :: string where  \<comment> \<open>recovery failed, attempt missing\<close>
  "msg_recover_missing =
    u8 [0x4E8B, 0x4EF6, 0x6062, 0x590D, 0x5931, 0x8D25, 0xFF1A] @ ''Attempt '' @ u8 [0x7F3A,
    0x5931, 0x3002]"

definition msg_terminated :: string where  \<comment> \<open>attempt terminated, needs a human\<close>
  "msg_terminated =
    u8 [0x5386, 0x53F2] @ '' Attempt '' @ u8 [0x5DF2, 0x7EC8, 0x6B62, 0xFF0C, 0x9700, 0x8981,
    0x4EBA, 0x5DE5, 0x5904, 0x7406, 0x3002]"

definition msg_partial_state :: string where  \<comment> \<open>partial state cannot be resumed safely\<close>
  "msg_partial_state =
    u8 [0x4E8B, 0x4EF6, 0x5B58, 0x5728, 0x65E0, 0x6CD5, 0x5B89, 0x5168, 0x7EED, 0x8DD1, 0x7684,
    0x90E8, 0x5206, 0x72B6, 0x6001, 0xFF0C, 0x5DF2, 0x7EC8, 0x6B62, 0x5E76, 0x7B49, 0x5F85,
    0x4EBA, 0x5DE5, 0x5904, 0x7406, 0x3002]"

definition msg_event_active :: string where  \<comment> \<open>event is being processed\<close>
  "msg_event_active =
    u8 [0x8BE5, 0x4E8B, 0x4EF6, 0x6B63, 0x5728, 0x5904, 0x7406, 0x4E2D, 0xFF0C, 0x8BF7, 0x7A0D,
    0x540E, 0x91CD, 0x8BD5, 0x3002]"

definition msg_session_busy :: string where  \<comment> \<open>session is being processed\<close>
  "msg_session_busy =
    ''Session '' @ u8 [0x6B63, 0x5728, 0x5904, 0x7406, 0x4E2D, 0xFF0C, 0x8BF7, 0x7A0D, 0x540E,
    0x91CD, 0x8BD5, 0x3002]"

definition msg_no_evidence :: string where  \<comment> \<open>no log and no error message\<close>
  "msg_no_evidence =
    u8 [0x7F3A, 0x5C11, 0x53EF, 0x7528, 0x4E8E, 0x8BCA, 0x65AD, 0x7684, 0x65E5, 0x5FD7, 0x548C,
    0x9519, 0x8BEF, 0x4FE1, 0x606F, 0x3002]"

definition msg_agent_unsafe :: string where  \<comment> \<open>agent cannot generate a candidate safely\<close>
  "msg_agent_unsafe =
    ''Agent '' @ u8 [0x65E0, 0x6CD5, 0x5B89, 0x5168, 0x751F, 0x6210, 0x5019, 0x9009] @ '' SQL''
    @ u8 [0x3002]"

definition msg_session_lost :: string where  \<comment> \<open>session lost, candidate not committed\<close>
  "msg_session_lost =
    ''Session '' @ u8 [0x4E22, 0x5931, 0xFF0C, 0x65E0, 0x6CD5, 0x63D0, 0x4EA4, 0x5019, 0x9009] @
    '' SQL'' @ u8 [0x3002]"

definition msg_event_changed :: string where  \<comment> \<open>event changed, candidate not committed\<close>
  "msg_event_changed =
    u8 [0x4E8B, 0x4EF6, 0x72B6, 0x6001, 0x5DF2, 0x53D8, 0x5316, 0xFF0C, 0x65E0, 0x6CD5, 0x5B89,
    0x5168, 0x63D0, 0x4EA4, 0x5019, 0x9009] @ '' SQL'' @ u8 [0x3002]"

definition msg_gate_lost :: string where  \<comment> \<open>gate result lost, candidate not committed\<close>
  "msg_gate_lost =
    ''Gate '' @ u8 [0x7ED3, 0x679C, 0x4E22, 0x5931, 0xFF0C, 0x65E0, 0x6CD5, 0x5B89, 0x5168,
    0x63D0, 0x4EA4, 0x5019, 0x9009] @ '' SQL'' @ u8 [0x3002]"

definition msg_commit_busy :: string where  \<comment> \<open>session busy, commit failed\<close>
  "msg_commit_busy =
    ''Session '' @ u8 [0x6B63, 0x5728, 0x5904, 0x7406, 0x4E2D, 0xFF0C, 0x5019, 0x9009, 0x63D0,
    0x4EA4, 0x5931, 0x8D25, 0x3002]"

definition msg_agent_failed :: string where  \<comment> \<open>agent failed internally\<close>
  "msg_agent_failed =
    ''Agent '' @ u8 [0x5185, 0x90E8, 0x5904, 0x7406, 0x5931, 0x8D25, 0xFF0C, 0x8BF7, 0x4EBA,
    0x5DE5, 0x4ECB, 0x5165, 0x3002]"

definition msg_success_unmatched :: string where  \<comment> \<open>SUCCESS does not match the current candidate\<close>
  "msg_success_unmatched =
    ''SUCCESS '' @ u8 [0x672A, 0x5339, 0x914D, 0x5F53, 0x524D, 0x5019, 0x9009, 0xFF0C, 0x5DF2,
    0x8BB0, 0x5F55, 0x4F46, 0x672A, 0x786E, 0x8BA4, 0x5386, 0x53F2] @ '' Attempt''"

definition msg_success_lost :: string where  \<comment> \<open>session lost, SUCCESS not finished\<close>
  "msg_success_lost =
    ''Session '' @ u8 [0x4E22, 0x5931, 0xFF0C, 0x65E0, 0x6CD5, 0x5B8C, 0x6210] @ '' SUCCESS '' @
    u8 [0x4E8B, 0x4EF6, 0x3002]"

definition msg_success_confirmed :: string where  \<comment> \<open>candidate confirmed by upstream\<close>
  "msg_success_confirmed =
    u8 [0x5F53, 0x524D, 0x5019, 0x9009, 0x5DF2, 0x88AB, 0x4E0A, 0x6E38, 0x786E, 0x8BA4, 0x6210,
    0x529F]"

definition msg_memory_degraded :: string where  \<comment> \<open>confirmed, memory write degraded\<close>
  "msg_memory_degraded =
    u8 [0x5F53, 0x524D, 0x5019, 0x9009, 0x5DF2, 0x786E, 0x8BA4, 0x6210, 0x529F, 0xFF1B, 0x7ECF,
    0x9A8C, 0x5199, 0x5165, 0x964D, 0x7EA7, 0xFF0C, 0x7B49, 0x5F85, 0x540E, 0x7EED, 0x8865,
    0x507F, 0x3002]"

definition reason_llm_prereflection :: string where  \<comment> \<open>LLM returned no legal PreReflection result\<close>
  "reason_llm_prereflection =
    ''LLM '' @ u8 [0x672A, 0x80FD, 0x8FD4, 0x56DE, 0x5408, 0x6CD5, 0x7684] @ '' PreReflection ''
    @ u8 [0x7ED3, 0x679C, 0x3002]"

definition reason_minimal :: string where  \<comment> \<open>candidate makes only the minimal change\<close>
  "reason_minimal =
    u8 [0x5019, 0x9009] @ '' SQL '' @ u8 [0x4EC5, 0x6267, 0x884C] @ '' RepairPlan '' @ u8
    [0x4E2D, 0x7684, 0x6700, 0x5C0F, 0x4FEE, 0x6539, 0x3002]"

definition reason_unfaithful :: string where  \<comment> \<open>candidate does not follow the RepairPlan\<close>
  "reason_unfaithful =
    u8 [0x5019, 0x9009] @ '' SQL '' @ u8 [0x672A, 0x5FE0, 0x5B9E, 0x6267, 0x884C] @ ''
    RepairPlan'' @ u8 [0x3002]"

definition rec_stop :: string where  \<comment> \<open>stop automatic repair, errors oscillate\<close>
  "rec_stop =
    u8 [0x505C, 0x6B62, 0x81EA, 0x52A8, 0x4FEE, 0x590D, 0x5E76, 0x8F6C, 0x4EBA, 0x5DE5, 0xFF0C,
    0x907F, 0x514D, 0x9519, 0x8BEF, 0x632F, 0x8361, 0x3002]"

definition reason_oscillation :: string where  \<comment> \<open>fingerprints oscillate\<close>
  "reason_oscillation =
    u8 [0x6700, 0x8FD1, 0x8BCA, 0x65AD] @ '' fingerprint '' @ u8 [0x6784, 0x6210] @ '' A/B/A ''
    @ u8 [0x6216] @ '' A/B/A/B '' @ u8 [0x632F, 0x8361, 0x3002]"

definition rec_no_repeat :: string where  \<comment> \<open>do not repeat the last repair\<close>
  "rec_no_repeat =
    u8 [0x4E0D, 0x8981, 0x91CD, 0x590D, 0x4E0A, 0x4E00, 0x8F6E, 0x4FEE, 0x590D, 0x52A8, 0x4F5C,
    0x3002]"

definition reason_same_fingerprint :: string where  \<comment> \<open>same fingerprint as before\<close>
  "reason_same_fingerprint =
    u8 [0x5F53, 0x524D, 0x9519, 0x8BEF] @ '' fingerprint '' @ u8 [0x4E0E, 0x4E0A, 0x4E00,
    0x8F6E, 0x76F8, 0x540C, 0x3002]"

definition rec_keep :: string where  \<comment> \<open>keep the last change, treat the new error\<close>
  "rec_keep =
    u8 [0x4FDD, 0x7559, 0x4E0A, 0x4E00, 0x8F6E, 0x5DF2, 0x751F, 0x6548, 0x4FEE, 0x6539, 0xFF0C,
    0x4EC5, 0x5904, 0x7406, 0x5F53, 0x524D, 0x65B0, 0x9519, 0x8BEF, 0x3002]"

definition reason_type_changed :: string where  \<comment> \<open>error type changed\<close>
  "reason_type_changed =
    u8 [0x9519, 0x8BEF, 0x7C7B, 0x578B, 0x5DF2, 0x53D8, 0x5316, 0xFF0C, 0x4E0A, 0x4E00, 0x5C42,
    0x9519, 0x8BEF, 0x53EF, 0x80FD, 0x5DF2, 0x89E3, 0x51B3, 0x3002]"

definition rec_reassess :: string where  \<comment> \<open>reassess from the current log\<close>
  "rec_reassess =
    u8 [0x6309, 0x5F53, 0x524D, 0x65E5, 0x5FD7, 0x548C, 0x5143, 0x6570, 0x636E, 0x91CD, 0x65B0,
    0x8BC4, 0x4F30, 0xFF0C, 0x4E0D, 0x6CBF, 0x7528, 0x672A, 0x9A8C, 0x8BC1, 0x7ED3, 0x8BBA,
    0x3002]"

definition reason_unrelated :: string where  \<comment> \<open>fingerprint changed, type did not\<close>
  "reason_unrelated =
    u8 [0x9519, 0x8BEF] @ '' fingerprint '' @ u8 [0x53D8, 0x5316, 0xFF0C, 0x4F46, 0x9519,
    0x8BEF, 0x7C7B, 0x578B, 0x672A, 0x5F62, 0x6210, 0x660E, 0x786E, 0x63A8, 0x8FDB, 0x5173,
    0x7CFB, 0x3002]"

definition reason_contradictory :: string where  \<comment> \<open>RETURN_SQL contradicts itself, blocked\<close>
  "reason_contradictory =
    ''PreReflection RETURN_SQL '' @ u8 [0x5B57, 0x6BB5, 0x81EA, 0x76F8, 0x77DB, 0x76FE, 0xFF0C,
    0x5DF2, 0x5B89, 0x5168, 0x963B, 0x65AD, 0x3002]"

definition reason_no_instruction :: string where  \<comment> \<open>REGENERATE without an instruction\<close>
  "reason_no_instruction =
    ''REGENERATE '' @ u8 [0x7F3A, 0x5C11] @ '' regeneration_instruction'' @ u8 [0x3002]"

definition con_from :: string where  \<comment> \<open>do not change FROM tables\<close>
  "con_from =
    u8 [0x4E0D, 0x4FEE, 0x6539] @ '' FROM '' @ u8 [0x8868, 0xFF0C, 0x9664, 0x975E] @ '' action
    '' @ u8 [0x660E, 0x786E, 0x8981, 0x6C42]"

definition con_where :: string where  \<comment> \<open>do not drop WHERE\<close>
  "con_where =
    u8 [0x4E0D, 0x5220, 0x9664] @ '' WHERE '' @ u8 [0x6761, 0x4EF6]"

definition con_join :: string where  \<comment> \<open>do not drop JOIN conditions\<close>
  "con_join =
    u8 [0x4E0D, 0x5220, 0x9664] @ '' JOIN '' @ u8 [0x6761, 0x4EF6]"

definition con_group :: string where  \<comment> \<open>do not change GROUP BY\<close>
  "con_group =
    u8 [0x4E0D, 0x6539, 0x53D8] @ '' GROUP BY '' @ u8 [0x7C92, 0x5EA6]"

definition con_window :: string where  \<comment> \<open>do not change windows\<close>
  "con_window =
    u8 [0x4E0D, 0x6539, 0x53D8, 0x7A97, 0x53E3, 0x51FD, 0x6570, 0x5206, 0x533A, 0x548C, 0x6392,
    0x5E8F]"

definition con_target :: string where  \<comment> \<open>do not change the INSERT target\<close>
  "con_target =
    u8 [0x4E0D, 0x4FEE, 0x6539] @ '' INSERT '' @ u8 [0x76EE, 0x6807, 0x8868]"

definition con_partition :: string where  \<comment> \<open>do not change the static partition\<close>
  "con_partition =
    u8 [0x4E0D, 0x4FEE, 0x6539, 0x9759, 0x6001, 0x5206, 0x533A]"

definition con_fragment :: string where  \<comment> \<open>change only fragments of the current error\<close>
  "con_fragment =
    u8 [0x53EA, 0x4FEE, 0x6539, 0x4E0E, 0x5F53, 0x524D, 0x9519, 0x8BEF, 0x76F8, 0x5173, 0x7684]
    @ '' fragment''"

definition msg_oscillating :: string where  \<comment> \<open>errors oscillate\<close>
  "msg_oscillating =
    u8 [0x9519, 0x8BEF, 0x51FA, 0x73B0, 0x632F, 0x8361, 0xFF0C, 0x8BF7, 0x4EBA, 0x5DE5, 0x786E,
    0x8BA4, 0x4FEE, 0x590D, 0x65B9, 0x5411, 0x3002]"

definition msg_not_repairable :: string where  \<comment> \<open>error not safely repairable\<close>
  "msg_not_repairable =
    u8 [0x5F53, 0x524D, 0x9519, 0x8BEF, 0x4E0D, 0x53EF, 0x5B89, 0x5168, 0x81EA, 0x52A8, 0x4FEE,
    0x590D, 0x3002]"

definition msg_type_field :: string where  \<comment> \<open>mismatching field or metadata unknown\<close>
  "msg_type_field =
    u8 [0x65E0, 0x6CD5, 0x786E, 0x8BA4, 0x7C7B, 0x578B, 0x4E0D, 0x5339, 0x914D, 0x5B57, 0x6BB5,
    0x6216, 0x5F53, 0x524D, 0x8868, 0x5143, 0x6570, 0x636E, 0x3002]"

definition msg_type_metadata :: string where  \<comment> \<open>mismatching field not in the metadata\<close>
  "msg_type_metadata =
    u8 [0x5143, 0x6570, 0x636E, 0x4E2D, 0x65E0, 0x6CD5, 0x786E, 0x8BA4, 0x7C7B, 0x578B, 0x4E0D,
    0x5339, 0x914D, 0x5B57, 0x6BB5, 0x3002]"

definition reason_cast :: string where  \<comment> \<open>a controlled cast is needed\<close>
  "reason_cast =
    u8 [0x5F53, 0x524D, 0x65E5, 0x5FD7, 0x4E0E, 0x5143, 0x6570, 0x636E, 0x786E, 0x8BA4, 0x9700,
    0x8981, 0x53D7, 0x63A7, 0x7C7B, 0x578B, 0x8F6C, 0x6362]"

definition msg_no_action :: string where  \<comment> \<open>no safe action for this error type\<close>
  "msg_no_action =
    u8 [0x5F53, 0x524D, 0x6CA1, 0x6709, 0x8BE5, 0x9519, 0x8BEF, 0x7C7B, 0x578B, 0x7684, 0x5B89,
    0x5168, 0x4FEE, 0x590D, 0x52A8, 0x4F5C, 0x3002]"

definition msg_column_unknown :: string where  \<comment> \<open>missing column or metadata unknown\<close>
  "msg_column_unknown =
    u8 [0x65E0, 0x6CD5, 0x786E, 0x8BA4, 0x7F3A, 0x5931, 0x5B57, 0x6BB5, 0x6216, 0x5F53, 0x524D,
    0x8868, 0x5143, 0x6570, 0x636E, 0x3002]"

definition msg_no_column :: string where  \<comment> \<open>no reliable column\<close>
  "msg_no_column =
    u8 [0x5143, 0x6570, 0x636E, 0x4E2D, 0x6CA1, 0x6709, 0x53EF, 0x9760, 0x5B57, 0x6BB5, 0x5019,
    0x9009, 0x3002]"

definition msg_ambiguous_column :: string where  \<comment> \<open>score too low or not unique\<close>
  "msg_ambiguous_column =
    u8 [0x5B57, 0x6BB5, 0x5019, 0x9009, 0x5206, 0x6570, 0x8FC7, 0x4F4E, 0x6216, 0x5019, 0x9009,
    0x4E0D, 0x552F, 0x4E00, 0x3002]"

definition reason_memory_supported :: string where  \<comment> \<open>confirmed by metadata and experience\<close>
  "reason_memory_supported =
    u8 [0x5F53, 0x524D, 0x5143, 0x6570, 0x636E, 0x786E, 0x8BA4, 0x5019, 0x9009, 0xFF0C, 0x4E14,
    0x5386, 0x53F2, 0x6210, 0x529F, 0x7ECF, 0x9A8C, 0x63D0, 0x4F9B, 0x4F50, 0x8BC1]"

definition reason_metadata_only :: string where  \<comment> \<open>confirmed by metadata\<close>
  "reason_metadata_only =
    u8 [0x5143, 0x6570, 0x636E, 0x786E, 0x8BA4, 0x5B58, 0x5728, 0x6700, 0x53EF, 0x9760, 0x5019,
    0x9009, 0x5B57, 0x6BB5]"

definition reason_llm_generation :: string where  \<comment> \<open>LLM returned no legal SQL result\<close>
  "reason_llm_generation =
    ''LLM '' @ u8 [0x672A, 0x80FD, 0x8FD4, 0x56DE, 0x5408, 0x6CD5, 0x7684, 0x7ED3, 0x6784,
    0x5316] @ '' SQL '' @ u8 [0x7ED3, 0x679C, 0x3002]"

definition msg_dangerous :: string where  \<comment> \<open>candidate holds a forbidden statement\<close>
  "msg_dangerous =
    u8 [0x5019, 0x9009] @ '' SQL '' @ u8 [0x5305, 0x542B, 0x7981, 0x6B62, 0x8BED, 0x53E5]"

definition msg_write_introduced :: string where  \<comment> \<open>reading SQL became writing SQL\<close>
  "msg_write_introduced =
    u8 [0x975E, 0x5199, 0x5165] @ '' SQL '' @ u8 [0x88AB, 0x6539, 0x4E3A, 0x5199, 0x5165] @ ''
    SQL''"

definition msg_unsupported_write :: string where  \<comment> \<open>this kind of write cannot be verified\<close>
  "msg_unsupported_write =
    ''MVP '' @ u8 [0x65E0, 0x6CD5, 0x5B89, 0x5168, 0x9A8C, 0x8BC1, 0x8BE5, 0x5199, 0x5165,
    0x578B] @ '' SQL''"

definition msg_insert_unverified :: string where  \<comment> \<open>target and partition not confirmed\<close>
  "msg_insert_unverified =
    u8 [0x65E0, 0x6CD5, 0x786E, 0x8BA4, 0x5199, 0x5165, 0x76EE, 0x6807, 0x548C, 0x9759, 0x6001,
    0x5206, 0x533A, 0x4FDD, 0x6301, 0x4E0D, 0x53D8]"

definition msg_where_weakened :: string where  \<comment> \<open>WHERE weakened\<close>
  "msg_where_weakened =
    u8 [0x5019, 0x9009] @ '' SQL '' @ u8 [0x5220, 0x9664, 0x6216, 0x5F31, 0x5316, 0x4E86] @ ''
    WHERE''"

definition msg_join_changed :: string where  \<comment> \<open>JOIN condition changed\<close>
  "msg_join_changed =
    u8 [0x5019, 0x9009] @ '' SQL '' @ u8 [0x5220, 0x9664, 0x6216, 0x6539, 0x53D8, 0x4E86] @ ''
    JOIN '' @ u8 [0x6761, 0x4EF6]"

definition msg_group_changed :: string where  \<comment> \<open>GROUP BY changed\<close>
  "msg_group_changed =
    u8 [0x5019, 0x9009] @ '' SQL '' @ u8 [0x6539, 0x53D8, 0x4E86] @ '' GROUP BY '' @ u8 [0x7C92,
    0x5EA6]"

definition msg_unauthorized :: string where  \<comment> \<open>change outside the RepairPlan\<close>
  "msg_unauthorized =
    u8 [0x5019, 0x9009] @ '' SQL '' @ u8 [0x5305, 0x542B] @ '' RepairPlan '' @ u8 [0x5916,
    0x4FEE, 0x6539, 0x6216, 0x672A, 0x5B8C, 0x6574, 0x6267, 0x884C] @ '' RepairPlan''"

definition msg_count_mismatch :: string where  \<comment> \<open>number of changes differs from the RepairPlan\<close>
  "msg_count_mismatch =
    u8 [0x5019, 0x9009, 0x4FEE, 0x6539, 0x6570, 0x91CF, 0x4E0E] @ '' RepairPlan '' @ u8 [0x4E0D,
    0x4E00, 0x81F4]"

definition msg_validation_blocked :: string where  \<comment> \<open>candidate did not pass the validation\<close>
  "msg_validation_blocked =
    u8 [0x5019, 0x9009] @ '' SQL '' @ u8 [0x672A, 0x901A, 0x8FC7, 0x8FD4, 0x56DE, 0x95E8,
    0x7981]"

text \<open>
  No text is blank: the first byte of each is no white space.
\<close>

lemma u8_Cons: "u8 (n # ns) = map char_of (utf8_bytes n) @ u8 ns"
  by (simp add: u8_def)

lemma strip_nonblank: "s \<noteq> [] \<Longrightarrow> \<not> is_space (hd s) \<Longrightarrow> strip s \<noteq> []"
  by (cases s) (auto simp: strip_eq_Nil_iff)

lemma strip_msg_gate_budget [simp]: "strip msg_gate_budget \<noteq> []"
  by (rule strip_nonblank) (simp_all add: msg_gate_budget_def u8_Cons utf8_bytes_def char_classes)

lemma strip_msg_prior_gate [simp]: "strip msg_prior_gate \<noteq> []"
  by (rule strip_nonblank) (simp_all add: msg_prior_gate_def u8_Cons utf8_bytes_def char_classes)

lemma strip_msg_output_contract [simp]: "strip msg_output_contract \<noteq> []"
  by (rule strip_nonblank) (simp_all add: msg_output_contract_def u8_Cons utf8_bytes_def char_classes)

lemma strip_msg_static_evidence [simp]: "strip msg_static_evidence \<noteq> []"
  by (rule strip_nonblank) (simp_all add: msg_static_evidence_def u8_Cons utf8_bytes_def char_classes)

lemma strip_msg_semantic_failed [simp]: "strip msg_semantic_failed \<noteq> []"
  by (rule strip_nonblank) (simp_all add: msg_semantic_failed_def u8_Cons utf8_bytes_def char_classes)

lemma strip_msg_reflection_default [simp]: "strip msg_reflection_default \<noteq> []"
  by (rule strip_nonblank) (simp_all add: msg_reflection_default_def u8_Cons utf8_bytes_def char_classes)

lemma strip_msg_plan_or_diff [simp]: "strip msg_plan_or_diff \<noteq> []"
  by (rule strip_nonblank) (simp_all add: msg_plan_or_diff_def u8_Cons utf8_bytes_def char_classes)

lemma strip_msg_risk_review [simp]: "strip msg_risk_review \<noteq> []"
  by (rule strip_nonblank) (simp_all add: msg_risk_review_def u8_Cons utf8_bytes_def char_classes)

lemma strip_msg_caller_forbidden [simp]: "strip msg_caller_forbidden \<noteq> []"
  by (rule strip_nonblank) (simp_all add: msg_caller_forbidden_def u8_Cons utf8_bytes_def char_classes)

lemma strip_msg_ownership_missing [simp]: "strip msg_ownership_missing \<noteq> []"
  by (rule strip_nonblank) (simp_all add: msg_ownership_missing_def u8_Cons utf8_bytes_def char_classes)

lemma strip_msg_safety_blocked [simp]: "strip msg_safety_blocked \<noteq> []"
  by (rule strip_nonblank) (simp_all add: msg_safety_blocked_def u8_Cons utf8_bytes_def char_classes)

lemma strip_reason_llm_human [simp]: "strip reason_llm_human \<noteq> []"
  by (rule strip_nonblank) (simp_all add: reason_llm_human_def u8_Cons utf8_bytes_def char_classes)

lemma strip_msg_task_unregistered [simp]: "strip msg_task_unregistered \<noteq> []"
  by (rule strip_nonblank) (simp_all add: msg_task_unregistered_def u8_Cons utf8_bytes_def char_classes)

lemma strip_msg_recursive_subagent [simp]: "strip msg_recursive_subagent \<noteq> []"
  by (rule strip_nonblank) (simp_all add: msg_recursive_subagent_def u8_Cons utf8_bytes_def char_classes)

lemma strip_msg_tool_not_allowed [simp]: "strip msg_tool_not_allowed \<noteq> []"
  by (rule strip_nonblank) (simp_all add: msg_tool_not_allowed_def u8_Cons utf8_bytes_def char_classes)

lemma strip_msg_ref_foreign [simp]: "strip msg_ref_foreign \<noteq> []"
  by (rule strip_nonblank) (simp_all add: msg_ref_foreign_def u8_Cons utf8_bytes_def char_classes)

lemma strip_msg_ref_missing [simp]: "strip msg_ref_missing \<noteq> []"
  by (rule strip_nonblank) (simp_all add: msg_ref_missing_def u8_Cons utf8_bytes_def char_classes)

lemma strip_msg_sub_time [simp]: "strip msg_sub_time \<noteq> []"
  by (rule strip_nonblank) (simp_all add: msg_sub_time_def u8_Cons utf8_bytes_def char_classes)

lemma strip_msg_sub_invalid [simp]: "strip msg_sub_invalid \<noteq> []"
  by (rule strip_nonblank) (simp_all add: msg_sub_invalid_def u8_Cons utf8_bytes_def char_classes)

lemma strip_msg_sub_failed [simp]: "strip msg_sub_failed \<noteq> []"
  by (rule strip_nonblank) (simp_all add: msg_sub_failed_def u8_Cons utf8_bytes_def char_classes)

lemma strip_msg_sub_context [simp]: "strip msg_sub_context \<noteq> []"
  by (rule strip_nonblank) (simp_all add: msg_sub_context_def u8_Cons utf8_bytes_def char_classes)

lemma strip_msg_sub_registry [simp]: "strip msg_sub_registry \<noteq> []"
  by (rule strip_nonblank) (simp_all add: msg_sub_registry_def u8_Cons utf8_bytes_def char_classes)

lemma strip_msg_sub_tool_failed [simp]: "strip msg_sub_tool_failed \<noteq> []"
  by (rule strip_nonblank) (simp_all add: msg_sub_tool_failed_def u8_Cons utf8_bytes_def char_classes)

lemma strip_msg_sub_budget [simp]: "strip msg_sub_budget \<noteq> []"
  by (rule strip_nonblank) (simp_all add: msg_sub_budget_def u8_Cons utf8_bytes_def char_classes)

lemma strip_reason_no_safe_basis [simp]: "strip reason_no_safe_basis \<noteq> []"
  by (rule strip_nonblank) (simp_all add: reason_no_safe_basis_def u8_Cons utf8_bytes_def char_classes)

lemma strip_reason_no_candidate [simp]: "strip reason_no_candidate \<noteq> []"
  by (rule strip_nonblank) (simp_all add: reason_no_candidate_def u8_Cons utf8_bytes_def char_classes)

lemma strip_msg_rollback [simp]: "strip msg_rollback \<noteq> []"
  by (rule strip_nonblank) (simp_all add: msg_rollback_def u8_Cons utf8_bytes_def char_classes)

lemma strip_msg_success_failed [simp]: "strip msg_success_failed \<noteq> []"
  by (rule strip_nonblank) (simp_all add: msg_success_failed_def u8_Cons utf8_bytes_def char_classes)

lemma strip_msg_recover_missing [simp]: "strip msg_recover_missing \<noteq> []"
  by (rule strip_nonblank) (simp_all add: msg_recover_missing_def u8_Cons utf8_bytes_def char_classes)

lemma strip_msg_terminated [simp]: "strip msg_terminated \<noteq> []"
  by (rule strip_nonblank) (simp_all add: msg_terminated_def u8_Cons utf8_bytes_def char_classes)

lemma strip_msg_partial_state [simp]: "strip msg_partial_state \<noteq> []"
  by (rule strip_nonblank) (simp_all add: msg_partial_state_def u8_Cons utf8_bytes_def char_classes)

lemma strip_msg_event_active [simp]: "strip msg_event_active \<noteq> []"
  by (rule strip_nonblank) (simp_all add: msg_event_active_def u8_Cons utf8_bytes_def char_classes)

lemma strip_msg_session_busy [simp]: "strip msg_session_busy \<noteq> []"
  by (rule strip_nonblank) (simp_all add: msg_session_busy_def u8_Cons utf8_bytes_def char_classes)

lemma strip_msg_no_evidence [simp]: "strip msg_no_evidence \<noteq> []"
  by (rule strip_nonblank) (simp_all add: msg_no_evidence_def u8_Cons utf8_bytes_def char_classes)

lemma strip_msg_agent_unsafe [simp]: "strip msg_agent_unsafe \<noteq> []"
  by (rule strip_nonblank) (simp_all add: msg_agent_unsafe_def u8_Cons utf8_bytes_def char_classes)

lemma strip_msg_session_lost [simp]: "strip msg_session_lost \<noteq> []"
  by (rule strip_nonblank) (simp_all add: msg_session_lost_def u8_Cons utf8_bytes_def char_classes)

lemma strip_msg_event_changed [simp]: "strip msg_event_changed \<noteq> []"
  by (rule strip_nonblank) (simp_all add: msg_event_changed_def u8_Cons utf8_bytes_def char_classes)

lemma strip_msg_gate_lost [simp]: "strip msg_gate_lost \<noteq> []"
  by (rule strip_nonblank) (simp_all add: msg_gate_lost_def u8_Cons utf8_bytes_def char_classes)

lemma strip_msg_commit_busy [simp]: "strip msg_commit_busy \<noteq> []"
  by (rule strip_nonblank) (simp_all add: msg_commit_busy_def u8_Cons utf8_bytes_def char_classes)

lemma strip_msg_agent_failed [simp]: "strip msg_agent_failed \<noteq> []"
  by (rule strip_nonblank) (simp_all add: msg_agent_failed_def u8_Cons utf8_bytes_def char_classes)

lemma strip_msg_success_unmatched [simp]: "strip msg_success_unmatched \<noteq> []"
  by (rule strip_nonblank) (simp_all add: msg_success_unmatched_def u8_Cons utf8_bytes_def char_classes)

lemma strip_msg_success_lost [simp]: "strip msg_success_lost \<noteq> []"
  by (rule strip_nonblank) (simp_all add: msg_success_lost_def u8_Cons utf8_bytes_def char_classes)

lemma strip_msg_success_confirmed [simp]: "strip msg_success_confirmed \<noteq> []"
  by (rule strip_nonblank) (simp_all add: msg_success_confirmed_def u8_Cons utf8_bytes_def char_classes)

lemma strip_msg_memory_degraded [simp]: "strip msg_memory_degraded \<noteq> []"
  by (rule strip_nonblank) (simp_all add: msg_memory_degraded_def u8_Cons utf8_bytes_def char_classes)

lemma strip_reason_llm_prereflection [simp]: "strip reason_llm_prereflection \<noteq> []"
  by (rule strip_nonblank) (simp_all add: reason_llm_prereflection_def u8_Cons utf8_bytes_def char_classes)

lemma strip_reason_minimal [simp]: "strip reason_minimal \<noteq> []"
  by (rule strip_nonblank) (simp_all add: reason_minimal_def u8_Cons utf8_bytes_def char_classes)

lemma strip_reason_unfaithful [simp]: "strip reason_unfaithful \<noteq> []"
  by (rule strip_nonblank) (simp_all add: reason_unfaithful_def u8_Cons utf8_bytes_def char_classes)

lemma strip_reason_oscillation [simp]: "strip reason_oscillation \<noteq> []"
  by (rule strip_nonblank) (simp_all add: reason_oscillation_def u8_Cons utf8_bytes_def char_classes)

lemma strip_reason_same_fingerprint [simp]: "strip reason_same_fingerprint \<noteq> []"
  by (rule strip_nonblank) (simp_all add: reason_same_fingerprint_def u8_Cons utf8_bytes_def char_classes)

lemma strip_reason_type_changed [simp]: "strip reason_type_changed \<noteq> []"
  by (rule strip_nonblank) (simp_all add: reason_type_changed_def u8_Cons utf8_bytes_def char_classes)

lemma strip_reason_unrelated [simp]: "strip reason_unrelated \<noteq> []"
  by (rule strip_nonblank) (simp_all add: reason_unrelated_def u8_Cons utf8_bytes_def char_classes)

lemma strip_reason_contradictory [simp]: "strip reason_contradictory \<noteq> []"
  by (rule strip_nonblank) (simp_all add: reason_contradictory_def u8_Cons utf8_bytes_def char_classes)

lemma strip_reason_no_instruction [simp]: "strip reason_no_instruction \<noteq> []"
  by (rule strip_nonblank) (simp_all add: reason_no_instruction_def u8_Cons utf8_bytes_def char_classes)

lemma strip_msg_oscillating [simp]: "strip msg_oscillating \<noteq> []"
  by (rule strip_nonblank) (simp_all add: msg_oscillating_def u8_Cons utf8_bytes_def char_classes)

lemma strip_msg_not_repairable [simp]: "strip msg_not_repairable \<noteq> []"
  by (rule strip_nonblank) (simp_all add: msg_not_repairable_def u8_Cons utf8_bytes_def char_classes)

lemma strip_msg_type_field [simp]: "strip msg_type_field \<noteq> []"
  by (rule strip_nonblank) (simp_all add: msg_type_field_def u8_Cons utf8_bytes_def char_classes)

lemma strip_msg_type_metadata [simp]: "strip msg_type_metadata \<noteq> []"
  by (rule strip_nonblank) (simp_all add: msg_type_metadata_def u8_Cons utf8_bytes_def char_classes)

lemma strip_reason_cast [simp]: "strip reason_cast \<noteq> []"
  by (rule strip_nonblank) (simp_all add: reason_cast_def u8_Cons utf8_bytes_def char_classes)

lemma strip_msg_no_action [simp]: "strip msg_no_action \<noteq> []"
  by (rule strip_nonblank) (simp_all add: msg_no_action_def u8_Cons utf8_bytes_def char_classes)

lemma strip_msg_column_unknown [simp]: "strip msg_column_unknown \<noteq> []"
  by (rule strip_nonblank) (simp_all add: msg_column_unknown_def u8_Cons utf8_bytes_def char_classes)

lemma strip_msg_no_column [simp]: "strip msg_no_column \<noteq> []"
  by (rule strip_nonblank) (simp_all add: msg_no_column_def u8_Cons utf8_bytes_def char_classes)

lemma strip_msg_ambiguous_column [simp]: "strip msg_ambiguous_column \<noteq> []"
  by (rule strip_nonblank) (simp_all add: msg_ambiguous_column_def u8_Cons utf8_bytes_def char_classes)

lemma strip_reason_memory_supported [simp]: "strip reason_memory_supported \<noteq> []"
  by (rule strip_nonblank) (simp_all add: reason_memory_supported_def u8_Cons utf8_bytes_def char_classes)

lemma strip_reason_metadata_only [simp]: "strip reason_metadata_only \<noteq> []"
  by (rule strip_nonblank) (simp_all add: reason_metadata_only_def u8_Cons utf8_bytes_def char_classes)

lemma strip_reason_llm_generation [simp]: "strip reason_llm_generation \<noteq> []"
  by (rule strip_nonblank) (simp_all add: reason_llm_generation_def u8_Cons utf8_bytes_def char_classes)

lemma strip_msg_dangerous [simp]: "strip msg_dangerous \<noteq> []"
  by (rule strip_nonblank) (simp_all add: msg_dangerous_def u8_Cons utf8_bytes_def char_classes)

lemma strip_msg_write_introduced [simp]: "strip msg_write_introduced \<noteq> []"
  by (rule strip_nonblank) (simp_all add: msg_write_introduced_def u8_Cons utf8_bytes_def char_classes)

lemma strip_msg_unsupported_write [simp]: "strip msg_unsupported_write \<noteq> []"
  by (rule strip_nonblank) (simp_all add: msg_unsupported_write_def u8_Cons utf8_bytes_def char_classes)

lemma strip_msg_insert_unverified [simp]: "strip msg_insert_unverified \<noteq> []"
  by (rule strip_nonblank) (simp_all add: msg_insert_unverified_def u8_Cons utf8_bytes_def char_classes)

lemma strip_msg_where_weakened [simp]: "strip msg_where_weakened \<noteq> []"
  by (rule strip_nonblank) (simp_all add: msg_where_weakened_def u8_Cons utf8_bytes_def char_classes)

lemma strip_msg_join_changed [simp]: "strip msg_join_changed \<noteq> []"
  by (rule strip_nonblank) (simp_all add: msg_join_changed_def u8_Cons utf8_bytes_def char_classes)

lemma strip_msg_group_changed [simp]: "strip msg_group_changed \<noteq> []"
  by (rule strip_nonblank) (simp_all add: msg_group_changed_def u8_Cons utf8_bytes_def char_classes)

lemma strip_msg_unauthorized [simp]: "strip msg_unauthorized \<noteq> []"
  by (rule strip_nonblank) (simp_all add: msg_unauthorized_def u8_Cons utf8_bytes_def char_classes)

lemma strip_msg_count_mismatch [simp]: "strip msg_count_mismatch \<noteq> []"
  by (rule strip_nonblank) (simp_all add: msg_count_mismatch_def u8_Cons utf8_bytes_def char_classes)

lemma strip_msg_validation_blocked [simp]: "strip msg_validation_blocked \<noteq> []"
  by (rule strip_nonblank) (simp_all add: msg_validation_blocked_def u8_Cons utf8_bytes_def char_classes)

end
