(* ===== verification/Core_Models.thy ===== *)
theory Core_Models
  imports Messages
begin

text \<open>
  The enumerations of \<open>core/enums.py\<close>, the two models that cross the boundary of the agent
  (\<open>UpstreamTaskEvent\<close>, \<open>AgentExternalResult\<close> of \<open>core/models.py\<close>) with the
  validator of the second, and the factory every external result goes through
  (\<open>orchestrator/external_result_factory.py\<close>). A pydantic model with a validator is a record
  together with a constructor function that fails where the validator raises.
\<close>

text \<open>
  What \<open>uuid4().hex\<close> and the clock give an operation that makes one record.
\<close>

record stamp =
  sp_uuid :: string
  sp_now :: string

section \<open>Enumerations\<close>

datatype session_status =
    SS_CREATED | SS_RUNNING | SS_SQL_READY_PENDING_UPSTREAM | SS_UPSTREAM_CONFIRMED_SUCCESS
  | SS_HUMAN_REQUIRED | SS_SYSTEM_ERROR

datatype attempt_status =
    AS_CREATED | AS_DIAGNOSED | AS_PLANNED | AS_GENERATED | AS_VALIDATION_BLOCKED
  | AS_REFLECTION_BLOCKED | AS_SQL_READY | AS_UPSTREAM_FAILED | AS_UPSTREAM_CONFIRMED_SUCCESS
  | AS_HUMAN_REQUIRED | AS_SYSTEM_ERROR

datatype risk_level = LOW | MEDIUM | HIGH | BLOCKED

datatype error_type =
    SQL_SYNTAX_ERROR | COLUMN_NOT_FOUND | TABLE_NOT_FOUND | AMBIGUOUS_COLUMN | TYPE_MISMATCH
  | INVALID_FUNCTION | AGGREGATION_ERROR | PARTITION_ERROR | DIALECT_INCOMPATIBILITY
  | PERMISSION_ERROR | RESOURCE_EXHAUSTED | INFRASTRUCTURE_ERROR | DATA_QUALITY_ERROR | UNKNOWN

text \<open>\<open>error_type.value\<close> and \<open>DiagnosedErrorType(text)\<close>.\<close>

fun error_type_value :: "error_type \<Rightarrow> string" where
  "error_type_value SQL_SYNTAX_ERROR = ''SQL_SYNTAX_ERROR''"
| "error_type_value COLUMN_NOT_FOUND = ''COLUMN_NOT_FOUND''"
| "error_type_value TABLE_NOT_FOUND = ''TABLE_NOT_FOUND''"
| "error_type_value AMBIGUOUS_COLUMN = ''AMBIGUOUS_COLUMN''"
| "error_type_value TYPE_MISMATCH = ''TYPE_MISMATCH''"
| "error_type_value INVALID_FUNCTION = ''INVALID_FUNCTION''"
| "error_type_value AGGREGATION_ERROR = ''AGGREGATION_ERROR''"
| "error_type_value PARTITION_ERROR = ''PARTITION_ERROR''"
| "error_type_value DIALECT_INCOMPATIBILITY = ''DIALECT_INCOMPATIBILITY''"
| "error_type_value PERMISSION_ERROR = ''PERMISSION_ERROR''"
| "error_type_value RESOURCE_EXHAUSTED = ''RESOURCE_EXHAUSTED''"
| "error_type_value INFRASTRUCTURE_ERROR = ''INFRASTRUCTURE_ERROR''"
| "error_type_value DATA_QUALITY_ERROR = ''DATA_QUALITY_ERROR''"
| "error_type_value UNKNOWN = ''UNKNOWN''"

definition all_error_types :: "error_type list" where
  "all_error_types =
    [SQL_SYNTAX_ERROR, COLUMN_NOT_FOUND, TABLE_NOT_FOUND, AMBIGUOUS_COLUMN, TYPE_MISMATCH,
     INVALID_FUNCTION, AGGREGATION_ERROR, PARTITION_ERROR, DIALECT_INCOMPATIBILITY,
     PERMISSION_ERROR, RESOURCE_EXHAUSTED, INFRASTRUCTURE_ERROR, DATA_QUALITY_ERROR, UNKNOWN]"

definition error_type_of :: "string \<Rightarrow> error_type option" where
  "error_type_of s = List.find (\<lambda>t. error_type_value t = s) all_error_types"

lemma error_type_of_value [simp]: "error_type_of (error_type_value t) = Some t"
  by (cases t) (simp_all add: error_type_of_def all_error_types_def)

lemma error_type_value_of: "error_type_of s = Some t \<Longrightarrow> error_type_value t = s"
  by (auto simp: error_type_of_def dest: find_Some_in)

lemma error_type_value_inject [simp]: "error_type_value t = error_type_value u \<longleftrightarrow> t = u"
  by (metis error_type_of_value option.inject)

lemma error_type_value_nonempty [simp]: "error_type_value t \<noteq> []"
  by (cases t) simp_all

section \<open>The order of risk levels\<close>

text \<open>\<open>_RISK_ORDER\<close> of \<open>risk_aggregator.py\<close>.\<close>

fun risk_rank :: "risk_level \<Rightarrow> nat" where
  "risk_rank LOW = 0" | "risk_rank MEDIUM = 1" | "risk_rank HIGH = 2" | "risk_rank BLOCKED = 3"

lemma risk_rank_inject: "risk_rank a = risk_rank b \<longleftrightarrow> a = b"
  by (cases a; cases b) simp_all

instantiation risk_level :: linorder
begin
definition less_eq_risk_level :: "risk_level \<Rightarrow> risk_level \<Rightarrow> bool" where
  "a \<le> b \<longleftrightarrow> risk_rank a \<le> risk_rank b"
definition less_risk_level :: "risk_level \<Rightarrow> risk_level \<Rightarrow> bool" where
  "a < b \<longleftrightarrow> risk_rank a < risk_rank b"
instance
  by standard (auto simp: less_eq_risk_level_def less_risk_level_def risk_rank_inject)
end

lemma risk_LOW_le [simp]: "LOW \<le> r" and risk_le_BLOCKED [simp]: "r \<le> BLOCKED"
  by (cases r; simp add: less_eq_risk_level_def)+

lemmas risk_order = less_eq_risk_level_def less_risk_level_def

section \<open>Events of the upstream system\<close>

datatype upstream_status = US_FAILED | US_SUCCESS

fun upstream_status_value :: "upstream_status \<Rightarrow> string" where
  "upstream_status_value US_FAILED = ''FAILED''"
| "upstream_status_value US_SUCCESS = ''SUCCESS''"

lemma upstream_status_value_inject [simp]:
  "upstream_status_value a = upstream_status_value b \<longleftrightarrow> a = b"
  by (cases a; cases b) simp_all

record upstream_event =
  ev_id :: string
  ev_status :: upstream_status
  ev_sql :: string
  ev_error_message :: "string option"
  ev_log_path :: "string option"

section \<open>Results returned to the upstream system\<close>

datatype external_status = SQL_READY | NO_SQL | HUMAN_REQUIRED | SUCCESS_ACK

record external_result =
  xr_status :: external_status
  xr_sql :: "string option"
  xr_message :: "string option"

text \<open>\<open>value and value.strip()\<close> on an optional text.\<close>

definition has_text :: "string option \<Rightarrow> bool" where
  "has_text v = (case v of None \<Rightarrow> False | Some s \<Rightarrow> s \<noteq> [] \<and> strip s \<noteq> [])"

lemma has_text_Some [simp]: "has_text (Some s) \<longleftrightarrow> strip s \<noteq> []"
  by (auto simp: has_text_def)

lemma has_text_None [simp]: "\<not> has_text None"
  by (simp add: has_text_def)

text \<open>\<open>AgentExternalResult(...)\<close>: the constructor with the \<open>validate_status_fields\<close> validator.\<close>

definition mk_external_result ::
  "external_status \<Rightarrow> string option \<Rightarrow> string option \<Rightarrow> external_result outcome" where
  "mk_external_result st sql msg =
     (if st = SQL_READY \<and> \<not> has_text sql then Inl (ValidationError ''SQL_READY requires sql'')
      else if st = HUMAN_REQUIRED \<and> \<not> has_text msg
        then Inl (ValidationError ''HUMAN_REQUIRED requires message'')
      else if st \<noteq> SQL_READY \<and> sql \<noteq> None then Inl (ValidationError ''must not include sql'')
      else Inr \<lparr>xr_status = st, xr_sql = sql, xr_message = msg\<rparr>)"

text \<open>What the outside may rely on for any result.\<close>

definition valid_external_result :: "external_result \<Rightarrow> bool" where
  "valid_external_result r \<longleftrightarrow>
     (xr_status r = SQL_READY \<longleftrightarrow> xr_sql r \<noteq> None) \<and>
     (xr_status r = SQL_READY \<longrightarrow> has_text (xr_sql r)) \<and>
     (xr_status r = HUMAN_REQUIRED \<longrightarrow> has_text (xr_message r))"

lemma mk_external_result_iff:
  "mk_external_result st sql msg = Inr r \<longleftrightarrow>
     r = \<lparr>xr_status = st, xr_sql = sql, xr_message = msg\<rparr> \<and> valid_external_result r"
  by (auto simp: mk_external_result_def valid_external_result_def has_text_def split: option.splits)

definition result_sql_ready :: "string \<Rightarrow> external_result outcome" where
  "result_sql_ready sql = mk_external_result SQL_READY (Some sql) None"

definition result_no_sql :: "string option \<Rightarrow> external_result outcome" where
  "result_no_sql msg = mk_external_result NO_SQL None msg"

definition result_human_required :: "string \<Rightarrow> external_result outcome" where
  "result_human_required msg = mk_external_result HUMAN_REQUIRED None (Some msg)"

definition result_success_ack :: "string option \<Rightarrow> external_result outcome" where
  "result_success_ack msg = mk_external_result SUCCESS_ACK None msg"

lemmas result_factory_defs =
  result_sql_ready_def result_no_sql_def result_human_required_def result_success_ack_def

lemma result_no_sql_simp [simp]:
  "result_no_sql m = Inr \<lparr>xr_status = NO_SQL, xr_sql = None, xr_message = m\<rparr>"
  by (simp add: result_no_sql_def mk_external_result_def)

lemma result_success_ack_simp [simp]:
  "result_success_ack m = Inr \<lparr>xr_status = SUCCESS_ACK, xr_sql = None, xr_message = m\<rparr>"
  by (simp add: result_success_ack_def mk_external_result_def)

lemma result_human_required_simp [simp]:
  "strip m \<noteq> [] \<Longrightarrow>
     result_human_required m = Inr \<lparr>xr_status = HUMAN_REQUIRED, xr_sql = None, xr_message = Some m\<rparr>"
  by (simp add: result_human_required_def mk_external_result_def)

lemma result_factory_valid:
  "result_sql_ready s = Inr r \<Longrightarrow> valid_external_result r"
  "result_human_required m = Inr r \<Longrightarrow> valid_external_result r"
  by (auto simp: result_factory_defs mk_external_result_iff)

end
