(* ===== verification/Sha256.thy ===== *)
theory Sha256
  imports Prelude "HOL-Library.Word"
begin

text \<open>
  \<open>hashlib.sha256(text.encode("utf-8")).hexdigest()\<close> of Python's standard library, which the
  program calls for event keys, candidate hashes, artifact hashes and context hashes (FIPS 180-4).
  Proofs of the other theories never unfold it: all they use is that it is a function and that a
  digest has 64 characters.
\<close>

unbundle bit_operations_syntax

type_synonym w32 = "32 word"

definition rotr :: "nat \<Rightarrow> w32 \<Rightarrow> w32" where
  "rotr n x = drop_bit n x OR push_bit (32 - n) x"

definition small_sigma0 :: "w32 \<Rightarrow> w32" where
  "small_sigma0 x = rotr 7 x XOR rotr 18 x XOR drop_bit 3 x"
definition small_sigma1 :: "w32 \<Rightarrow> w32" where
  "small_sigma1 x = rotr 17 x XOR rotr 19 x XOR drop_bit 10 x"
definition big_sigma0 :: "w32 \<Rightarrow> w32" where
  "big_sigma0 x = rotr 2 x XOR rotr 13 x XOR rotr 22 x"
definition big_sigma1 :: "w32 \<Rightarrow> w32" where
  "big_sigma1 x = rotr 6 x XOR rotr 11 x XOR rotr 25 x"
definition ch_select :: "w32 \<Rightarrow> w32 \<Rightarrow> w32 \<Rightarrow> w32" where
  "ch_select e f g = (e AND f) XOR (NOT e AND g)"
definition maj_select :: "w32 \<Rightarrow> w32 \<Rightarrow> w32 \<Rightarrow> w32" where
  "maj_select a b c = (a AND b) XOR (a AND c) XOR (b AND c)"

text \<open>
  The constants of the standard are the first 32 bits of the fractional parts of the cube roots of
  the first 64 primes and of the square roots of the first 8. They are computed here by bisection:
  \<open>root_bits k n b r\<close> finds the largest number \<open>x\<close> with \<open>x ^ k \<le> n\<close> that extends \<open>r\<close>
  by bits below \<open>2 ^ b\<close>.
\<close>

fun root_bits :: "nat \<Rightarrow> nat \<Rightarrow> nat \<Rightarrow> nat \<Rightarrow> nat" where
  "root_bits k n 0 r = r"
| "root_bits k n (Suc b) r =
     (let r' = r + 2 ^ b in root_bits k n b (if r' ^ k \<le> n then r' else r))"

definition root_fraction :: "nat \<Rightarrow> nat \<Rightarrow> w32" where
  "root_fraction k p = of_nat (root_bits k (p * 2 ^ (32 * k)) 40 0)"

definition first_primes :: "nat list" where
  "first_primes = filter (\<lambda>n. \<forall>d \<in> set [2..<n]. n mod d \<noteq> 0) [2..<312]"

definition round_constants :: "w32 list" where
  "round_constants = map (root_fraction 3) first_primes"

definition initial_hash :: "w32 list" where
  "initial_hash = map (root_fraction 2) [2, 3, 5, 7, 11, 13, 17, 19]"

text \<open>Padding to blocks of 64 bytes: a one bit, zeros, and the length in bits (big endian).\<close>

definition pad_message :: "nat list \<Rightarrow> nat list" where
  "pad_message bs =
     bs @ [128] @ replicate ((119 - length bs mod 64) mod 64) 0 @
     map (\<lambda>i. (8 * length bs) div 256 ^ i mod 256) [7, 6, 5, 4, 3, 2, 1, 0]"

fun words_of_bytes :: "nat list \<Rightarrow> w32 list" where
  "words_of_bytes (a # b # c # d # bs) =
     of_nat (16777216 * a + 65536 * b + 256 * c + d) # words_of_bytes bs"
| "words_of_bytes _ = []"

text \<open>The message schedule, kept newest first.\<close>

fun extend_schedule :: "nat \<Rightarrow> w32 list \<Rightarrow> w32 list" where
  "extend_schedule 0 ws = ws"
| "extend_schedule (Suc n) ws =
     extend_schedule n
       ((small_sigma1 (ws ! 1) + ws ! 6 + small_sigma0 (ws ! 14) + ws ! 15) # ws)"

fun compress_rounds :: "(w32 \<times> w32) list \<Rightarrow> w32 list \<Rightarrow> w32 list" where
  "compress_rounds ((k, w) # kws) [a, b, c, d, e, f, g, h] =
     (let t1 = h + big_sigma1 e + ch_select e f g + k + w; t2 = big_sigma0 a + maj_select a b c
      in compress_rounds kws [t1 + t2, a, b, c, d + t1, e, f, g])"
| "compress_rounds _ st = st"

definition compress :: "w32 list \<Rightarrow> w32 list \<Rightarrow> w32 list" where
  "compress st block =
     map2 (+) st (compress_rounds (zip round_constants (rev (extend_schedule 48 (rev block)))) st)"

fun digest_blocks :: "nat \<Rightarrow> w32 list \<Rightarrow> w32 list \<Rightarrow> w32 list" where
  "digest_blocks 0 st ws = st"
| "digest_blocks (Suc n) st ws = digest_blocks n (compress st (take 16 ws)) (drop 16 ws)"

definition hex_digit :: "nat \<Rightarrow> char" where
  "hex_digit n = char_of (if n < 10 then 48 + n else 87 + n)"

definition hex_word :: "w32 \<Rightarrow> string" where
  "hex_word w = map (\<lambda>i. hex_digit (unat w div 16 ^ i mod 16)) [7, 6, 5, 4, 3, 2, 1, 0]"

definition sha256 :: "string \<Rightarrow> string" where
  "sha256 s =
     (let ws = words_of_bytes (pad_message (map code s))
      in concat (map hex_word (digest_blocks (length ws div 16) initial_hash ws)))"

lemma length_compress_rounds: "length (compress_rounds kws st) = length st"
  by (induction kws st rule: compress_rounds.induct) (simp_all add: Let_def)

lemma length_digest_blocks: "length (digest_blocks n st ws) = length st"
  by (induction n arbitrary: st ws) (simp_all add: compress_def length_compress_rounds)

lemma length_sha256: "length (sha256 s) = 64"
proof -
  have concat_hex: "length (concat (map hex_word ws)) = 8 * length ws" for ws
    by (induction ws) (simp_all add: hex_word_def)
  show ?thesis
    unfolding sha256_def Let_def concat_hex by (simp add: length_digest_blocks initial_hash_def)
qed

lemma sha256_nonempty: "sha256 s \<noteq> []"
  using length_sha256 [of s] by auto

end
