(* ===== verification/Json.thy ===== *)
theory Json
  imports Sha256
begin

text \<open>
  JSON values, their text as \<open>json.dumps(..., ensure_ascii=False)\<close> writes it (compact separators,
  default separators, or \<open>indent=2\<close>; pydantic's \<open>model_dump_json\<close> writes the compact form), and
  \<open>json.loads\<close>. What is written is read back, so compact texts are equal only for equal values.
  A number with a fraction or an exponent is read as a rational; writing floats is a parameter
  (\<open>repr\<close> of a double), and the facts below are about values without floats.
\<close>

datatype json =
    Js_null | Js_bool bool | Js_int int | Js_float rat | Js_text string
  | Js_list "json list" | Js_dict "(string \<times> json) list"

definition json_of_opt :: "string option \<Rightarrow> json" where
  "json_of_opt v = (case v of None \<Rightarrow> Js_null | Some s \<Rightarrow> Js_text s)"

lemma json_of_opt_inject [simp]: "json_of_opt a = json_of_opt b \<longleftrightarrow> a = b"
  by (cases a; cases b) (simp_all add: json_of_opt_def)

section \<open>Strings\<close>

definition esc_char :: "char \<Rightarrow> string" where
  "esc_char c =
     (if code c = 34 then [CHR 0x5C, CHR 0x22]
      else if code c = 92 then [CHR 0x5C, CHR 0x5C]
      else if code c = 10 then [CHR 0x5C, CHR ''n'']
      else if code c = 13 then [CHR 0x5C, CHR ''r'']
      else if code c = 9 then [CHR 0x5C, CHR ''t'']
      else if code c = 8 then [CHR 0x5C, CHR ''b'']
      else if code c = 12 then [CHR 0x5C, CHR ''f'']
      else if code c < 32
        then [CHR 0x5C, CHR ''u'', CHR ''0'', CHR ''0'', hex_digit (code c div 16), hex_digit (code c mod 16)]
      else [c])"

definition json_string :: "string \<Rightarrow> string" where
  "json_string s = CHR 0x22 # concat (map esc_char s) @ [CHR 0x22]"

text \<open>
  Reading a string after its opening quote: the decoded text and what follows the closing quote.
  An escape of a surrogate pair is one code point.
\<close>

definition hex_value :: "char \<Rightarrow> nat option" where
  "hex_value c =
     (if is_digit c then Some (code c - 48)
      else if 97 \<le> code c \<and> code c \<le> 102 then Some (code c - 87)
      else if 65 \<le> code c \<and> code c \<le> 70 then Some (code c - 55) else None)"

fun hex4 :: "string \<Rightarrow> (nat \<times> string) option" where
  "hex4 (a # b # c # d # r) =
     (case (hex_value a, hex_value b, hex_value c, hex_value d) of
        (Some x, Some y, Some z, Some w) \<Rightarrow> Some (4096 * x + 256 * y + 16 * z + w, r)
      | _ \<Rightarrow> None)"
| "hex4 _ = None"

definition low_surrogate :: "string \<Rightarrow> (nat \<times> string) option" where
  "low_surrogate s =
     (if is_prefix [CHR 0x5C, CHR ''u''] s
      then case hex4 (drop 2 s) of
             Some (n, r) \<Rightarrow> if 56320 \<le> n \<and> n < 57344 then Some (n, r) else None
           | None \<Rightarrow> None
      else None)"

definition unicode_escape :: "string \<Rightarrow> (string \<times> string) option" where
  "unicode_escape s =
     (case hex4 s of
        None \<Rightarrow> None
      | Some (n, r) \<Rightarrow>
          if 55296 \<le> n \<and> n < 56320
          then (case low_surrogate r of
                  Some (m, r') \<Rightarrow> Some (u8 [65536 + 1024 * (n - 55296) + (m - 56320)], r')
                | None \<Rightarrow> Some (u8 [n], r))
          else Some (u8 [n], r))"

definition simple_escape :: "char \<Rightarrow> char option" where
  "simple_escape c =
     (if c = CHR 0x22 then Some (CHR 0x22) else if c = CHR 0x5C then Some (CHR 0x5C)
      else if c = CHR ''/'' then Some (CHR ''/'')
      else if c = CHR ''n'' then Some (CHR 0x0A) else if c = CHR ''r'' then Some (CHR 0x0D)
      else if c = CHR ''t'' then Some (CHR 0x09) else if c = CHR ''b'' then Some (CHR 0x08)
      else if c = CHR ''f'' then Some (CHR 0x0C) else None)"

lemma hex4_length: "hex4 s = Some (n, r) \<Longrightarrow> length r < length s"
  by (cases s rule: hex4.cases) (auto split: option.splits)

lemma low_surrogate_length: "low_surrogate s = Some (n, r) \<Longrightarrow> length r < length s"
  by (auto simp: low_surrogate_def dest!: hex4_length split: if_splits option.splits)

lemma unicode_escape_length: "unicode_escape s = Some (t, r) \<Longrightarrow> length r < length s"
  by (auto simp: unicode_escape_def dest!: hex4_length low_surrogate_length split: if_splits option.splits)

function scan_string :: "string \<Rightarrow> (string \<times> string) option" where
  "scan_string [] = None"
| "scan_string (c # cs) =
     (if c = CHR 0x22 then Some ([], cs)
      else if c = CHR 0x5C then
        (case cs of
           [] \<Rightarrow> None
         | e # es \<Rightarrow>
             if e = CHR ''u'' then
               (case unicode_escape es of
                  None \<Rightarrow> None
                | Some (t, r) \<Rightarrow> map_option (map_prod ((@) t) id) (scan_string r))
             else case simple_escape e of
                 None \<Rightarrow> None
               | Some d \<Rightarrow> map_option (map_prod ((#) d) id) (scan_string es))
      else if code c < 32 then None
      else map_option (map_prod ((#) c) id) (scan_string cs))"
  by pat_completeness auto
termination
  by (relation "measure length") (auto dest: unicode_escape_length)

lemma hex_value_digit: "n < 16 \<Longrightarrow> hex_value (hex_digit n) = Some n"
  by (auto simp: hex_value_def hex_digit_def code_def is_digit_def)

lemma hex_digit_printable: "n < 16 \<Longrightarrow> hex_value c = None \<Longrightarrow> hex_digit n \<noteq> c"
  using hex_value_digit [of n] by auto

lemma code_inject: "code a = code b \<longleftrightarrow> a = b"
  by (simp add: code_def)

lemma code_escapes:
  "code c = 34 \<longleftrightarrow> c = CHR 0x22" "code c = 92 \<longleftrightarrow> c = CHR 0x5C"
  "code c = 10 \<longleftrightarrow> c = CHR 0x0A" "code c = 13 \<longleftrightarrow> c = CHR 0x0D"
  "code c = 9 \<longleftrightarrow> c = CHR 0x09" "code c = 8 \<longleftrightarrow> c = CHR 0x08"
  "code c = 12 \<longleftrightarrow> c = CHR 0x0C"
  by (simp_all add: code_inject [symmetric], simp_all add: code_def)

lemma char_of_code [simp]: "char_of (code c) = c"
  by (simp add: code_def)

lemma scan_escapes:
  "scan_string (esc_char (CHR 0x22) @ rest) = map_option (map_prod ((#) (CHR 0x22)) id) (scan_string rest)"
  "scan_string (esc_char (CHR 0x5C) @ rest) = map_option (map_prod ((#) (CHR 0x5C)) id) (scan_string rest)"
  "scan_string (esc_char (CHR 0x0A) @ rest) = map_option (map_prod ((#) (CHR 0x0A)) id) (scan_string rest)"
  "scan_string (esc_char (CHR 0x0D) @ rest) = map_option (map_prod ((#) (CHR 0x0D)) id) (scan_string rest)"
  "scan_string (esc_char (CHR 0x09) @ rest) = map_option (map_prod ((#) (CHR 0x09)) id) (scan_string rest)"
  "scan_string (esc_char (CHR 0x08) @ rest) = map_option (map_prod ((#) (CHR 0x08)) id) (scan_string rest)"
  "scan_string (esc_char (CHR 0x0C) @ rest) = map_option (map_prod ((#) (CHR 0x0C)) id) (scan_string rest)"
  by (simp_all add: esc_char_def code_def simple_escape_def)

lemma unicode_escape_control:
  "code c < 32 \<Longrightarrow>
     unicode_escape (CHR ''0'' # CHR ''0'' # hex_digit (code c div 16) # hex_digit (code c mod 16) # r) = Some ([c], r)"
proof -
  assume c: "code c < 32"
  have "hex_value (CHR ''0'') = Some 0" by (simp add: hex_value_def is_digit_def code_def)
  then have "hex4 (CHR ''0'' # CHR ''0'' # hex_digit (code c div 16) # hex_digit (code c mod 16) # r) =
      Some (code c, r)"
    using c by (simp add: hex_value_digit)
  moreover have "u8 [code c] = [c]" using c by (simp add: u8_def utf8_bytes_def)
  ultimately show ?thesis using c by (simp add: unicode_escape_def)
qed

lemma scan_esc_char: "scan_string (esc_char c @ rest) = map_option (map_prod ((#) c) id) (scan_string rest)"
proof -
  consider (q) "code c = 34" | (b) "code c = 92" | (n) "code c = 10" | (r) "code c = 13"
    | (t) "code c = 9" | (bs) "code c = 8" | (ff) "code c = 12"
    | (ctl) "code c < 32" "code c \<notin> {8, 9, 10, 12, 13}"
    | (other) "32 \<le> code c" "code c \<noteq> 34" "code c \<noteq> 92"
    by fastforce
  then show ?thesis
  proof cases
    case ctl
    moreover have "(@) [c] = (#) c" by auto
    ultimately show ?thesis by (simp add: esc_char_def unicode_escape_control)
  next
    case other
    then have "c \<noteq> CHR 0x22" "c \<noteq> CHR 0x5C" by (auto simp: code_def)
    then show ?thesis using other by (simp add: esc_char_def)
  qed (auto simp: code_escapes scan_escapes)
qed

lemma scan_json_body: "scan_string (concat (map esc_char s) @ CHR 0x22 # rest) = Some (s, rest)"
  by (induction s) (simp_all add: scan_esc_char)

section \<open>Writing\<close>

text \<open>
  A style says what stands before an element at a nesting level (a line break and its indentation, or
  nothing), between two elements, and between a key and its value.
\<close>

record json_style =
  js_break :: "nat \<Rightarrow> string"
  js_comma :: string
  js_colon :: string

definition compact_style :: json_style where
  "compact_style = \<lparr>js_break = (\<lambda>_. []), js_comma = '','', js_colon = '':''\<rparr>"

definition spaced_style :: json_style where
  "spaced_style = \<lparr>js_break = (\<lambda>_. []), js_comma = '', '', js_colon = '': ''\<rparr>"

definition indent_style :: json_style where
  "indent_style = \<lparr>js_break = (\<lambda>l. CHR 0x0A # replicate (2 * l) (CHR '' '')), js_comma = '','', js_colon = '': ''\<rparr>"

fun json_write :: "json_style \<Rightarrow> (rat \<Rightarrow> string) \<Rightarrow> nat \<Rightarrow> json \<Rightarrow> string"
  and json_write_items :: "json_style \<Rightarrow> (rat \<Rightarrow> string) \<Rightarrow> nat \<Rightarrow> json list \<Rightarrow> string"
  and json_write_pairs :: "json_style \<Rightarrow> (rat \<Rightarrow> string) \<Rightarrow> nat \<Rightarrow> (string \<times> json) list \<Rightarrow> string" where
  "json_write st fl l Js_null = ''null''"
| "json_write st fl l (Js_bool b) = (if b then ''true'' else ''false'')"
| "json_write st fl l (Js_int i) = int_text i"
| "json_write st fl l (Js_float q) = fl q"
| "json_write st fl l (Js_text s) = json_string s"
| "json_write st fl l (Js_list vs) =
     (if vs = [] then ''[]'' else ''['' @ json_write_items st fl (Suc l) vs @ js_break st l @ '']'')"
| "json_write st fl l (Js_dict kvs) =
     (if kvs = [] then ''{}'' else ''{'' @ json_write_pairs st fl (Suc l) kvs @ js_break st l @ ''}'')"
| "json_write_items st fl l [] = []"
| "json_write_items st fl l (v # vs) =
     js_break st l @ json_write st fl l v @
     (if vs = [] then [] else js_comma st @ json_write_items st fl l vs)"
| "json_write_pairs st fl l [] = []"
| "json_write_pairs st fl l ((k, v) # kvs) =
     js_break st l @ json_string k @ js_colon st @ json_write st fl l v @
     (if kvs = [] then [] else js_comma st @ json_write_pairs st fl l kvs)"

section \<open>Reading\<close>

definition json_space :: "char \<Rightarrow> bool" where
  "json_space c \<longleftrightarrow> code c = 32 \<or> code c = 9 \<or> code c = 10 \<or> code c = 13"

definition skip_ws :: "string \<Rightarrow> string" where
  "skip_ws s = dropWhile json_space s"

definition int_digits :: "string \<Rightarrow> string" where
  "int_digits s =
     (case s of [] \<Rightarrow> [] | c # cs \<Rightarrow> if c = CHR ''0'' then ''0'' else takeWhile is_digit s)"

definition fraction_digits :: "string \<Rightarrow> string" where
  "fraction_digits s = (case s of [] \<Rightarrow> [] | c # cs \<Rightarrow> if c = CHR ''.'' then takeWhile is_digit cs else [])"

text \<open>\<open>[eE][-+]?\d+\<close>: the exponent and the length of its text.\<close>

definition exponent_part :: "string \<Rightarrow> (int \<times> nat) option" where
  "exponent_part s =
     (case s of
        c # cs \<Rightarrow>
          if c = CHR ''e'' \<or> c = CHR ''E'' then
            (let sign = (case cs of d # _ \<Rightarrow> if d = CHR ''-'' \<or> d = CHR ''+'' then 1 else 0 | [] \<Rightarrow> 0);
                 ds = takeWhile is_digit (drop sign cs);
                 n = int (decimal_value ds)
             in if ds = [] then None
                else Some (if is_prefix ''-'' cs then - n else n, 1 + sign + length ds))
          else None
      | [] \<Rightarrow> None)"

definition pow10 :: "int \<Rightarrow> rat" where
  "pow10 i = (if i \<ge> 0 then 10 ^ nat i else 1 / 10 ^ nat (- i))"

definition json_number :: "string \<Rightarrow> (json \<times> string) option" where
  "json_number s =
     (let neg = is_prefix ''-'' s; s1 = (if neg then drop 1 s else s); ds = int_digits s1;
          s2 = drop (length ds) s1; fs = fraction_digits s2;
          s3 = (if fs = [] then s2 else drop (1 + length fs) s2); ex = exponent_part s3;
          n = int (decimal_value ds); sgn = (if neg then - 1 else 1 :: int)
      in if ds = [] \<or> \<not> is_digit (hd ds) then None
         else case ex of
           None \<Rightarrow>
             if fs = [] then Some (Js_int (sgn * n), s2)
             else Some (Js_float (of_int sgn * (of_int n + of_nat (decimal_value fs) / 10 ^ length fs)), s3)
         | Some (x, k) \<Rightarrow>
             Some (Js_float (of_int sgn * (of_int n + of_nat (decimal_value fs) / 10 ^ length fs) * pow10 x), drop k s3))"

definition json_word :: "string \<Rightarrow> (json \<times> string) option" where
  "json_word s =
     (if is_prefix ''null'' s then Some (Js_null, drop 4 s)
      else if is_prefix ''true'' s then Some (Js_bool True, drop 4 s)
      else if is_prefix ''false'' s then Some (Js_bool False, drop 5 s)
      else json_number s)"

text \<open>
  The recursive descent. The fuel bounds the nesting and the number of elements; \<open>json_loads\<close>
  takes twice the length of the text, which no text needs.
\<close>

fun json_value :: "nat \<Rightarrow> string \<Rightarrow> (json \<times> string) option"
  and json_items :: "nat \<Rightarrow> string \<Rightarrow> (json list \<times> string) option"
  and json_pairs :: "nat \<Rightarrow> string \<Rightarrow> ((string \<times> json) list \<times> string) option" where
  "json_value 0 s = None"
| "json_value (Suc n) s =
     (case skip_ws s of
        [] \<Rightarrow> None
      | c # cs \<Rightarrow>
          if c = CHR 0x22 then map_option (map_prod Js_text id) (scan_string cs)
          else if c = CHR ''['' then
            (if is_prefix '']'' (skip_ws cs) then Some (Js_list [], drop 1 (skip_ws cs))
             else map_option (map_prod Js_list id) (json_items n cs))
          else if c = CHR ''{'' then
            (if is_prefix ''}'' (skip_ws cs) then Some (Js_dict [], drop 1 (skip_ws cs))
             else map_option (map_prod (\<lambda>kvs. Js_dict (dict_of kvs)) id) (json_pairs n cs))
          else json_word (c # cs))"
| "json_items 0 s = None"
| "json_items (Suc n) s =
     (case json_value n s of
        None \<Rightarrow> None
      | Some (v, r) \<Rightarrow>
          (case skip_ws r of
             [] \<Rightarrow> None
           | c # cs \<Rightarrow>
               if c = CHR '']'' then Some ([v], cs)
               else if c = CHR '','' then map_option (map_prod ((#) v) id) (json_items n cs)
               else None))"
| "json_pairs 0 s = None"
| "json_pairs (Suc n) s =
     (case skip_ws s of
        [] \<Rightarrow> None
      | q # qs \<Rightarrow>
          if q \<noteq> CHR 0x22 then None
          else case scan_string qs of
            None \<Rightarrow> None
          | Some (k, r) \<Rightarrow>
              if \<not> is_prefix '':'' (skip_ws r) then None
              else (case json_value n (drop 1 (skip_ws r)) of
                None \<Rightarrow> None
              | Some (v, r2) \<Rightarrow>
                  (case skip_ws r2 of
                     [] \<Rightarrow> None
                   | c # cs \<Rightarrow>
                       if c = CHR ''}'' then Some ([(k, v)], cs)
                       else if c = CHR '','' then map_option (map_prod ((#) (k, v)) id) (json_pairs n cs)
                       else None)))"

definition json_loads :: "string \<Rightarrow> json outcome" where
  "json_loads s =
     (case json_value (2 * length s) s of
        None \<Rightarrow> Inl (ValueError ''JSONDecodeError'')
      | Some (v, r) \<Rightarrow> if skip_ws r = [] then Inr v else Inl (ValueError ''JSONDecodeError''))"

section \<open>What is written is read back\<close>

text \<open>Values without floats, with distinct keys in every dict.\<close>

fun plain_json :: "json \<Rightarrow> bool" and plain_jsons :: "json list \<Rightarrow> bool"
  and plain_pairs :: "(string \<times> json) list \<Rightarrow> bool" where
  "plain_json (Js_float q) = False"
| "plain_json (Js_list vs) = plain_jsons vs"
| "plain_json (Js_dict kvs) = (distinct (map fst kvs) \<and> plain_pairs kvs)"
| "plain_json _ = True"
| "plain_jsons [] = True"
| "plain_jsons (v # vs) = (plain_json v \<and> plain_jsons vs)"
| "plain_pairs [] = True"
| "plain_pairs ((k, v) # kvs) = (plain_json v \<and> plain_pairs kvs)"

definition good_style :: "json_style \<Rightarrow> bool" where
  "good_style st \<longleftrightarrow>
     (\<forall>l. \<forall>c \<in> set (js_break st l). json_space c) \<and>
     (\<exists>w. js_comma st = '','' @ w \<and> (\<forall>c \<in> set w. json_space c)) \<and>
     (\<exists>w. js_colon st = '':'' @ w \<and> (\<forall>c \<in> set w. json_space c))"

lemma good_styles [simp]: "good_style compact_style" "good_style spaced_style" "good_style indent_style"
  by (auto simp: good_style_def compact_style_def spaced_style_def indent_style_def json_space_def code_def)

fun json_weight :: "json \<Rightarrow> nat" and json_weights :: "json list \<Rightarrow> nat"
  and pair_weights :: "(string \<times> json) list \<Rightarrow> nat" where
  "json_weight (Js_list vs) = Suc (json_weights vs)"
| "json_weight (Js_dict kvs) = Suc (pair_weights kvs)"
| "json_weight _ = 1"
| "json_weights [] = 0"
| "json_weights (v # vs) = Suc (json_weight v + json_weights vs)"
| "pair_weights [] = 0"
| "pair_weights ((k, v) # kvs) = Suc (json_weight v + pair_weights kvs)"

text \<open>What may follow a value: nothing, or a character no number goes on with.\<close>

definition ends_value :: "string \<Rightarrow> bool" where
  "ends_value r \<longleftrightarrow> (case r of [] \<Rightarrow> True
     | c # _ \<Rightarrow> \<not> is_digit c \<and> c \<noteq> CHR ''.'' \<and> c \<noteq> CHR ''e'' \<and> c \<noteq> CHR ''E'')"

lemma set_digits: "c \<in> set (digits n) \<Longrightarrow> is_digit c"
proof (induction n rule: digits.induct)
  case (1 n)
  have last: "is_digit (char_of (48 + n mod 10) :: char)"
    by (simp add: is_digit_def code_def)
  show ?case
  proof (cases "n < 10")
    case True
    with 1 last show ?thesis by (subst (asm) (2) digits.simps) (auto simp: is_digit_def code_def)
  next
    case False
    with 1 last show ?thesis by (subst (asm) (2) digits.simps) auto
  qed
qed

lemma digits_nonempty [simp]: "digits n \<noteq> []"
  by (subst digits.simps) simp

lemma hd_digits: "hd (digits n) = CHR ''0'' \<longleftrightarrow> n = 0"
proof (induction n rule: digits.induct)
  case (1 n)
  show ?case
  proof (cases "n < 10")
    case True
    have "char_of (48 + n) = CHR ''0'' \<longleftrightarrow> code (char_of (48 + n)) = code (CHR ''0'')"
      by (simp only: code_inject)
    then show ?thesis using True by (subst digits.simps) (simp add: code_def)
  next
    case False
    then show ?thesis using 1 by (subst digits.simps) (simp add: div_eq_0_iff)
  qed
qed

lemma takeWhile_digits: "ends_value r \<Longrightarrow> takeWhile is_digit (digits n @ r) = digits n"
proof -
  assume "ends_value r"
  then have "takeWhile is_digit r = []" by (auto simp: ends_value_def split: list.splits)
  moreover have "\<forall>c \<in> set (digits n). is_digit c" using set_digits by blast
  ultimately show ?thesis by (simp add: takeWhile_append2)
qed

lemma digits_0: "digits 0 = ''0''"
  by (subst digits.simps) code_simp

lemma int_digits_digits: "ends_value r \<Longrightarrow> int_digits (digits n @ r) = digits n"
proof (cases "n = 0")
  case True
  then show ?thesis by (simp add: digits_0 int_digits_def)
next
  case False
  assume r: "ends_value r"
  obtain c cs where c: "digits n = c # cs" by (cases "digits n") auto
  then have "c \<noteq> CHR ''0''" using hd_digits [of n] False by simp
  then show ?thesis using takeWhile_digits [OF r, of n] by (simp add: c int_digits_def)
qed

lemma json_number_int:
  assumes r: "ends_value r"
  shows "json_number (int_text i @ r) = Some (Js_int i, r)"
proof -
  have tail: "fraction_digits r = []" "exponent_part r = None"
    using r by (auto simp: ends_value_def fraction_digits_def exponent_part_def split: list.splits)
  have hd: "is_digit (hd (digits n))" for n by (rule set_digits [of _ n]) simp
  obtain c cs where c: "digits (nat i) = c # cs" by (cases "digits (nat i)") auto
  have "is_digit c" using hd [of "nat i"] c by simp
  then have nneg: "\<not> is_prefix ''-'' (digits (nat i) @ r)"
    by (auto simp: c is_prefix_def is_digit_def code_def)
  show ?thesis
  proof (cases "i < 0")
    case True
    then show ?thesis
      using tail hd by (simp add: json_number_def int_text_def Let_def is_prefix_def
          int_digits_digits [OF r] decimal_value_digits)
  next
    case False
    then show ?thesis
      using tail hd nneg by (simp add: json_number_def int_text_def Let_def
          int_digits_digits [OF r] decimal_value_digits)
  qed
qed

lemma int_text_first: "\<exists>c cs. int_text i = c # cs \<and> (is_digit c \<or> c = CHR ''-'')"
proof (cases "i < 0")
  case False
  obtain c cs where "digits (nat i) = c # cs" by (cases "digits (nat i)") auto
  moreover from this have "is_digit c" using set_digits [of c "nat i"] by simp
  ultimately show ?thesis using False by (simp add: int_text_def)
qed (simp add: int_text_def)

text \<open>The first character of a value's text is neither white space nor a closing bracket.\<close>

lemma json_write_first:
  "plain_json j \<Longrightarrow> \<exists>c cs. json_write st fl l j = c # cs \<and> \<not> json_space c \<and> c \<noteq> CHR '']'' \<and> c \<noteq> CHR ''}''"
proof (cases j)
  case (Js_int i)
  then show ?thesis using int_text_first [of i] by (auto simp: is_digit_def json_space_def code_def)
qed (auto simp: json_string_def json_space_def code_def)

lemma skip_spaces: "\<forall>c \<in> set w. json_space c \<Longrightarrow> skip_ws (w @ s) = skip_ws s"
  by (simp add: skip_ws_def)

lemma skip_ws_Cons: "\<not> json_space c \<Longrightarrow> skip_ws (c # s) = c # s"
  by (simp add: skip_ws_def)

lemma skip_ws_write: "plain_json j \<Longrightarrow> skip_ws (json_write st fl l j @ r) = json_write st fl l j @ r"
  using json_write_first [of j st fl l] by (auto simp: skip_ws_def)

lemma not_closing:
  "plain_json j \<Longrightarrow> \<not> is_prefix '']'' (json_write st fl l j @ r) \<and> \<not> is_prefix ''}'' (json_write st fl l j @ r)"
  using json_write_first [of j st fl l] by (auto simp: is_prefix_def)

lemma json_value_spaces: "\<forall>c \<in> set w. json_space c \<Longrightarrow> json_value n (w @ s) = json_value n s"
  by (cases n) (simp_all add: skip_spaces)

lemma ends_value_chars:
  "ends_value (CHR '','' # r)" "ends_value (CHR '']'' # r)" "ends_value (CHR ''}'' # r)"
  by (auto simp: ends_value_def is_digit_def code_def)

lemma ends_value_space: "\<forall>c \<in> set w. json_space c \<Longrightarrow> ends_value r \<Longrightarrow> ends_value (w @ r)"
  by (cases w) (auto simp: ends_value_def json_space_def is_digit_def code_def)

lemma bracket_spaces [simp]:
  "\<not> json_space (CHR '']'')" "\<not> json_space (CHR ''}'')" "\<not> json_space (CHR ''['')" "\<not> json_space (CHR ''{'')"
  "\<not> json_space (CHR '','')" "\<not> json_space (CHR '':'')" "\<not> json_space (CHR 0x22)"
  by (simp_all add: json_space_def code_def)

lemma good_break: "good_style st \<Longrightarrow> \<forall>c \<in> set (js_break st l). json_space c"
  by (simp add: good_style_def)

lemma skip_break: "good_style st \<Longrightarrow> skip_ws (js_break st l @ s) = skip_ws s"
  by (simp add: good_break skip_spaces)

lemma good_comma: "good_style st \<Longrightarrow> \<exists>w. js_comma st = '','' @ w \<and> (\<forall>c \<in> set w. json_space c)"
  by (simp add: good_style_def)

lemma good_colon: "good_style st \<Longrightarrow> \<exists>w. js_colon st = '':'' @ w \<and> (\<forall>c \<in> set w. json_space c)"
  by (simp add: good_style_def)

lemma json_items_spaces: "\<forall>c \<in> set w. json_space c \<Longrightarrow> json_items n (w @ s) = json_items n s"
  by (cases n) (simp_all add: json_value_spaces)

lemma json_pairs_spaces: "\<forall>c \<in> set w. json_space c \<Longrightarrow> json_pairs n (w @ s) = json_pairs n s"
  by (cases n) (simp_all add: skip_spaces)

lemma json_items_first:
  "good_style st \<Longrightarrow> plain_jsons vs \<Longrightarrow> vs \<noteq> [] \<Longrightarrow>
     \<not> is_prefix '']'' (skip_ws (json_write_items st fl l vs @ r))"
  by (cases vs) (simp_all add: skip_break skip_ws_write not_closing)

lemma json_pairs_first:
  "good_style st \<Longrightarrow> kvs \<noteq> [] \<Longrightarrow> \<not> is_prefix ''}'' (skip_ws (json_write_pairs st fl l kvs @ r))"
  by (cases kvs) (auto simp: skip_break json_string_def skip_ws_Cons is_prefix_def)

lemma json_value_string: "json_value (Suc n) (json_string s @ r) = Some (Js_text s, r)"
  by (simp add: json_string_def skip_ws_Cons scan_json_body)

lemma json_value_int: "ends_value r \<Longrightarrow> json_value (Suc n) (int_text i @ r) = Some (Js_int i, r)"
proof -
  assume r: "ends_value r"
  obtain c cs where c: "int_text i = c # cs" "is_digit c \<or> c = CHR ''-''" using int_text_first by blast
  then have "\<not> json_space c" "c \<noteq> CHR 0x22" "c \<noteq> CHR ''[''" "c \<noteq> CHR ''{''" "c \<noteq> CHR ''n''"
    "c \<noteq> CHR ''t''" "c \<noteq> CHR ''f''"
    by (auto simp: is_digit_def json_space_def code_def)
  then show ?thesis
    using json_number_int [OF r, of i] by (simp add: c skip_ws_Cons json_word_def is_prefix_def)
qed

lemma json_roundtrip_aux:
  shows "good_style st \<Longrightarrow> json_weight j \<le> n \<Longrightarrow> plain_json j \<Longrightarrow> ends_value r \<Longrightarrow>
      json_value n (json_write st fl l j @ r) = Some (j, r)"
    and "good_style st \<Longrightarrow> json_weights vs \<le> n \<Longrightarrow> plain_jsons vs \<Longrightarrow> vs \<noteq> [] \<Longrightarrow>
      \<forall>c \<in> set w. json_space c \<Longrightarrow>
      json_items n (json_write_items st fl l vs @ w @ CHR '']'' # r) = Some (vs, r)"
    and "good_style st \<Longrightarrow> pair_weights kvs \<le> n \<Longrightarrow> plain_pairs kvs \<Longrightarrow> kvs \<noteq> [] \<Longrightarrow>
      \<forall>c \<in> set w. json_space c \<Longrightarrow>
      json_pairs n (json_write_pairs st fl l kvs @ w @ CHR ''}'' # r) = Some (kvs, r)"
proof (induction st fl l j and st fl l vs and st fl l kvs arbitrary: n r and n r w and n r w
    rule: json_write_json_write_items_json_write_pairs.induct)
  case (1 st fl l)
  then show ?case by (cases n) (simp_all add: skip_ws_def json_space_def code_def json_word_def is_prefix_def)
next
  case (2 st fl l b)
  then show ?case
    by (cases n; cases b) (simp_all add: skip_ws_def json_space_def code_def json_word_def is_prefix_def)
next
  case (3 st fl l i)
  then show ?case by (cases n) (simp_all add: json_value_int del: json_value.simps(2))
next
  case (4 st fl l q)
  then show ?case by simp
next
  case (5 st fl l s)
  then show ?case by (cases n) (simp_all add: json_value_string del: json_value.simps(2))
next
  case (6 st fl l vs)
  then obtain m where n: "n = Suc m" by (cases n) auto
  show ?case
  proof (cases "vs = []")
    case True
    then show ?thesis by (simp add: n skip_ws_Cons is_prefix_def)
  next
    case False
    then show ?thesis
      using "6.IH" [OF False "6.prems"(1), of m "js_break st l" r] "6.prems"
      by (simp add: n skip_ws_Cons json_items_first good_break)
  qed
next
  case (7 st fl l kvs)
  then obtain m where n: "n = Suc m" by (cases n) auto
  show ?case
  proof (cases "kvs = []")
    case True
    then show ?thesis by (simp add: n skip_ws_Cons is_prefix_def)
  next
    case False
    then show ?thesis
      using "7.IH" [OF False "7.prems"(1), of m "js_break st l" r] "7.prems"
      by (simp add: n skip_ws_Cons json_pairs_first good_break dict_of_distinct)
  qed
next
  case (8 st fl l)
  then show ?case by simp
next
  case (9 st fl l v vs)
  then obtain m where n: "n = Suc m" by (cases n) auto
  note prems = "9.prems" [unfolded n]
  show ?case
  proof (cases "vs = []")
    case True
    have "json_value m (json_write st fl l v @ w @ CHR '']'' # r) = Some (v, w @ CHR '']'' # r)"
      using prems by (intro "9.IH"(1)) (simp_all add: ends_value_space ends_value_chars)
    with True prems show ?thesis
      by (simp add: n json_value_spaces good_break skip_spaces skip_ws_Cons)
  next
    case False
    obtain u where u: "js_comma st = CHR '','' # u" "\<forall>c \<in> set u. json_space c"
      using good_comma [OF prems(1)] by auto
    have "json_value m (json_write st fl l v @ CHR '','' # x) = Some (v, CHR '','' # x)" for x
      using prems by (intro "9.IH"(1)) (simp_all add: ends_value_chars)
    moreover have "json_items m (json_write_items st fl l vs @ w @ CHR '']'' # r) = Some (vs, r)"
      using prems False by (intro "9.IH"(2)) simp_all
    ultimately show ?thesis
      using False prems u by (simp add: n json_value_spaces good_break skip_ws_Cons json_items_spaces)
  qed
next
  case (10 st fl l)
  then show ?case by simp
next
  case (11 st fl l k v kvs)
  then obtain m where n: "n = Suc m" by (cases n) auto
  note prems = "11.prems" [unfolded n]
  obtain u where u: "js_colon st = CHR '':'' # u" "\<forall>c \<in> set u. json_space c"
    using good_colon [OF prems(1)] by auto
  show ?case
  proof (cases "kvs = []")
    case True
    have "json_value m (json_write st fl l v @ w @ CHR ''}'' # r) = Some (v, w @ CHR ''}'' # r)"
      using prems by (intro "11.IH"(1)) (simp_all add: ends_value_space ends_value_chars)
    with True prems u show ?thesis
      by (simp add: n skip_break json_string_def skip_ws_Cons scan_json_body is_prefix_def json_value_spaces
          skip_spaces)
  next
    case False
    obtain x where x: "js_comma st = CHR '','' # x" "\<forall>c \<in> set x. json_space c"
      using good_comma [OF prems(1)] by auto
    have "json_value m (json_write st fl l v @ CHR '','' # y) = Some (v, CHR '','' # y)" for y
      using prems by (intro "11.IH"(1)) (simp_all add: ends_value_chars)
    moreover have "json_pairs m (json_write_pairs st fl l kvs @ w @ CHR ''}'' # r) = Some (kvs, r)"
      using prems False by (intro "11.IH"(2)) simp_all
    ultimately show ?thesis
      using False prems u x by (simp add: n skip_break json_string_def skip_ws_Cons scan_json_body
          is_prefix_def json_value_spaces json_pairs_spaces)
  qed
qed

lemma json_weight_length:
  "good_style st \<Longrightarrow> plain_json j \<Longrightarrow> json_weight j \<le> 2 * length (json_write st fl l j)"
  "good_style st \<Longrightarrow> plain_jsons vs \<Longrightarrow> json_weights vs \<le> 2 * length (json_write_items st fl l vs) + 1"
  "good_style st \<Longrightarrow> plain_pairs kvs \<Longrightarrow> pair_weights kvs \<le> 2 * length (json_write_pairs st fl l kvs)"
proof (induction st fl l j and st fl l vs and st fl l kvs
    rule: json_write_json_write_items_json_write_pairs.induct)
  case (3 st fl l i)
  then show ?case using int_text_first [of i] by auto
next
  case (9 st fl l v vs)
  then show ?case using good_comma [of st] by (cases "vs = []") auto
qed (auto simp: json_string_def)

lemma json_loads_write:
  assumes "good_style st" "plain_json j" "\<forall>c \<in> set w. json_space c"
  shows "json_loads (json_write st fl l j @ w) = Inr j"
proof -
  have "json_weight j \<le> 2 * length (json_write st fl l j @ w)"
    using json_weight_length(1) [OF assms(1,2), of fl l] by simp
  moreover have "ends_value w" using ends_value_space [OF assms(3), of "[]"] by (simp add: ends_value_def)
  ultimately have "json_value (2 * length (json_write st fl l j @ w)) (json_write st fl l j @ w) = Some (j, w)"
    using json_roundtrip_aux(1) assms(1,2) by blast
  moreover have "skip_ws w = []" using skip_spaces [OF assms(3), of "[]"] by (simp add: skip_ws_def)
  ultimately show ?thesis by (simp add: json_loads_def)
qed

section \<open>The three writers\<close>

definition no_float :: "rat \<Rightarrow> string" where
  "no_float q = ''0''"

text \<open>Compact text, for values without floats.\<close>

definition json_compact :: "json \<Rightarrow> string" where
  "json_compact j = json_write compact_style no_float 0 j"

text \<open>\<open>json.dumps(value, ensure_ascii=False, indent=2) + "\n"\<close>\<close>

definition json_file_text :: "(rat \<Rightarrow> string) \<Rightarrow> json \<Rightarrow> string" where
  "json_file_text fl j = json_write indent_style fl 0 j @ [CHR 0x0A]"

lemma json_compact_loads: "plain_json j \<Longrightarrow> json_loads (json_compact j) = Inr j"
  using json_loads_write [of compact_style j "[]" no_float 0] by (simp add: json_compact_def)

lemma json_compact_inject: "plain_json i \<Longrightarrow> plain_json j \<Longrightarrow> json_compact i = json_compact j \<longleftrightarrow> i = j"
  by (metis json_compact_loads sum.inject(2))

lemma json_file_loads: "plain_json j \<Longrightarrow> json_loads (json_file_text fl j) = Inr j"
  unfolding json_file_text_def by (intro json_loads_write) (simp_all add: json_space_def code_def)

end
