(* ===== verification/Event_Key.thy ===== *)
theory Event_Key
  imports Core_Models Json
begin

text \<open>
  \<open>session/event_key_builder.py\<close>: the normal forms of an event's fields, the canonical JSON
  text (\<open>json.dumps\<close> with sorted keys and compact separators) and the event key, its SHA-256
  digest. The main facts: the canonical text determines the normalised fields (JSON text can be read
  back), two SQL texts have the same normal form iff they have the same words,
  and so two events share a key iff they agree up to white space, or exhibit a SHA-256 collision.
\<close>

section \<open>Normal forms of the fields\<close>

definition normalize_newlines :: "string \<Rightarrow> string" where
  "normalize_newlines s =
     fst (replace_all [CHR 0x0D] [CHR 0x0A] (fst (replace_all [CHR 0x0D, CHR 0x0A] [CHR 0x0A] s)))"

definition normalize_text :: "string option \<Rightarrow> string option" where
  "normalize_text v = map_option (\<lambda>s. strip (normalize_newlines s)) v"

definition normalize_sql :: "string \<Rightarrow> string" where
  "normalize_sql s = strip (collapse_ws s)"

lemma normalize_sql_words: "normalize_sql s = join_with '' '' (words s)"
  by (simp add: normalize_sql_def strip_collapse_eq_join)

lemma words_normalize_sql: "words (normalize_sql s) = words s"
  by (simp add: normalize_sql_def words_strip words_collapse)

lemma normalize_sql_idem: "normalize_sql (normalize_sql s) = normalize_sql s"
  by (metis normalize_sql_words words_normalize_sql)

lemma normalize_sql_eq_iff: "normalize_sql s = normalize_sql t \<longleftrightarrow> words s = words t"
  by (metis normalize_sql_words words_normalize_sql)

interpretation sql_nf: canonicaliser normalize_sql
  by unfold_locales (rule normalize_sql_idem)

lemma replace_all_none: "hd pat \<notin> set s \<Longrightarrow> pat \<noteq> [] \<Longrightarrow> replace_all pat new s = (s, 0)"
proof (induction s)
  case Nil
  then show ?case by simp
next
  case (Cons c s)
  then have "\<not> is_prefix pat (c # s)" by (cases pat) (auto simp: is_prefix_def)
  with Cons show ?case by simp
qed

lemma replace_all_char: "fst (replace_all [a] [b] s) = map (\<lambda>c. if c = a then b else c) s"
proof (induction s)
  case Nil
  then show ?case by simp
next
  case (Cons c s)
  then show ?case by (cases "replace_all [a] [b] s") (auto simp: is_prefix_def)
qed

lemma no_return_normalize_newlines: "CHR 0x0D \<notin> set (normalize_newlines s)"
  by (auto simp: normalize_newlines_def replace_all_char)

lemma normalize_newlines_id: "CHR 0x0D \<notin> set s \<Longrightarrow> normalize_newlines s = s"
  by (simp add: normalize_newlines_def replace_all_none)

lemma set_strip: "set (strip s) \<subseteq> set s"
  by (auto simp: strip_def rstrip_def lstrip_def dest!: set_dropWhileD)

lemma normalize_text_idem: "normalize_text (normalize_text v) = normalize_text v"
proof (cases v)
  case None
  then show ?thesis by (simp add: normalize_text_def)
next
  case (Some s)
  have "CHR 0x0D \<notin> set (strip (normalize_newlines s))"
    using set_strip [of "normalize_newlines s"] no_return_normalize_newlines [of s] by blast
  then show ?thesis using Some by (simp add: normalize_text_def normalize_newlines_id)
qed

interpretation text_nf: canonicaliser normalize_text
  by unfold_locales (rule normalize_text_idem)

section \<open>The event key\<close>

definition canonical_event :: "upstream_event \<Rightarrow> string" where
  "canonical_event e = json_compact (Js_dict
     [(''error_message'', json_of_opt (normalize_text (ev_error_message e))),
      (''id'', Js_text (ev_id e)),
      (''log_path'', json_of_opt (normalize_text (ev_log_path e))),
      (''sql'', Js_text (normalize_sql (ev_sql e))),
      (''status'', Js_text (upstream_status_value (ev_status e)))])"

definition build_event_key :: "upstream_event \<Rightarrow> string" where
  "build_event_key e = sha256 (canonical_event e)"

text \<open>Two events the key is meant to identify: equal up to white space and newline style.\<close>

definition same_event :: "upstream_event \<Rightarrow> upstream_event \<Rightarrow> bool" where
  "same_event a b \<longleftrightarrow>
     ev_id a = ev_id b \<and> ev_status a = ev_status b \<and> words (ev_sql a) = words (ev_sql b) \<and>
     normalize_text (ev_error_message a) = normalize_text (ev_error_message b) \<and>
     normalize_text (ev_log_path a) = normalize_text (ev_log_path b)"

lemma canonical_event_eq_iff: "canonical_event a = canonical_event b \<longleftrightarrow> same_event a b"
proof -
  have "plain_json (Js_dict
     [(''error_message'', json_of_opt (normalize_text (ev_error_message e))), (''id'', Js_text (ev_id e)),
      (''log_path'', json_of_opt (normalize_text (ev_log_path e))), (''sql'', Js_text (normalize_sql (ev_sql e))),
      (''status'', Js_text (upstream_status_value (ev_status e)))])" for e
    by (simp add: json_of_opt_def split: option.split)
  then show ?thesis
    unfolding canonical_event_def
    by (subst json_compact_inject) (auto simp: same_event_def normalize_sql_eq_iff)
qed

lemma build_event_key_nonempty [simp]: "build_event_key e \<noteq> []"
  by (simp add: build_event_key_def sha256_nonempty)

end
