(* ===== verification/Effects.thy ===== *)
theory Effects
  imports Prelude
begin

text \<open>
  Effects. An operation that reads and writes stored state is a function from the state to an
  outcome and the new state. The state survives an exception: what was written before the
  exception stays written, as it does on disk.
\<close>

type_synonym ('s, 'a) io = "'s \<Rightarrow> 'a outcome \<times> 's"

definition ret :: "'a \<Rightarrow> ('s, 'a) io" where
  "ret x s = (Inr x, s)"

definition raise :: "py_error \<Rightarrow> ('s, 'a) io" where
  "raise e s = (Inl e, s)"

definition lift :: "'a outcome \<Rightarrow> ('s, 'a) io" where
  "lift r s = (r, s)"

definition gets :: "('s \<Rightarrow> 'a) \<Rightarrow> ('s, 'a) io" where
  "gets f s = (Inr (f s), s)"

definition modify :: "('s \<Rightarrow> 's) \<Rightarrow> ('s, unit) io" where
  "modify f s = (Inr (), f s)"

definition bind :: "('s, 'a) io \<Rightarrow> ('a \<Rightarrow> ('s, 'b) io) \<Rightarrow> ('s, 'b) io" where
  "bind m f s = (case m s of (Inl e, s') \<Rightarrow> (Inl e, s') | (Inr x, s') \<Rightarrow> f x s')"

definition seq :: "('s, 'a) io \<Rightarrow> ('s, 'b) io \<Rightarrow> ('s, 'b) io" where
  "seq m n = bind m (\<lambda>_. n)"

text \<open>\<open>try: m except e: h(e)\<close>; the handler sees the state the exception left.\<close>

definition try_catch :: "('s, 'a) io \<Rightarrow> (py_error \<Rightarrow> ('s, 'a) io) \<Rightarrow> ('s, 'a) io" where
  "try_catch m h s = (case m s of (Inl e, s') \<Rightarrow> h e s' | (Inr x, s') \<Rightarrow> (Inr x, s'))"

text \<open>\<open>try: m except C as e: h(e)\<close>, where \<open>p\<close> says which exceptions are of class \<open>C\<close>.\<close>

definition catch_if ::
  "(py_error \<Rightarrow> bool) \<Rightarrow> ('s, 'a) io \<Rightarrow> (py_error \<Rightarrow> ('s, 'a) io) \<Rightarrow> ('s, 'a) io" where
  "catch_if p m h s =
     (case m s of (Inl e, s') \<Rightarrow> if p e then h e s' else (Inl e, s') | (Inr x, s') \<Rightarrow> (Inr x, s'))"

definition io_when :: "bool \<Rightarrow> ('s, unit) io \<Rightarrow> ('s, unit) io" where
  "io_when b m = (if b then m else ret ())"

lemmas io_defs = ret_def raise_def lift_def gets_def modify_def seq_def io_when_def

lemma bind_simps [simp]:
  "bind (ret x) f = f x"
  "bind (raise e) f = raise e"
  "bind (gets g) f s = f (g s) s"
  "bind (modify g) h s = h () (g s)"
  by (simp_all add: fun_eq_iff bind_def ret_def raise_def gets_def modify_def)

lemma seq_simps [simp]:
  "seq (ret x) n = n"
  "seq (modify g) n s = n (g s)"
  by (simp_all add: seq_def fun_eq_iff bind_def ret_def modify_def)

lemma ret_app [simp]: "ret x s = (Inr x, s)" by (simp add: ret_def)
lemma raise_app [simp]: "raise e s = (Inl e, s)" by (simp add: raise_def)
lemma modify_app [simp]: "modify f s = (Inr (), f s)" by (simp add: modify_def)
lemma gets_app [simp]: "gets f s = (Inr (f s), s)" by (simp add: gets_def)
lemma lift_app [simp]: "lift r s = (r, s)" by (simp add: lift_def)

lemma bind_cong_value: "m s = (Inr x, s') \<Longrightarrow> bind m f s = f x s'"
  by (simp add: bind_def)

lemma bind_cong_error: "m s = (Inl e, s') \<Longrightarrow> bind m f s = (Inl e, s')"
  by (simp add: bind_def)

lemma seq_cong_value: "m s = (Inr x, s') \<Longrightarrow> seq m n s = n s'"
  by (simp add: seq_def bind_def)

lemma bind_Inr_iff: "bind m f s = (Inr y, s') \<longleftrightarrow> (\<exists>x s1. m s = (Inr x, s1) \<and> f x s1 = (Inr y, s'))"
  by (auto simp: bind_def split: prod.splits sum.splits)

lemma seq_Inr_iff: "seq m n s = (Inr y, s') \<longleftrightarrow> (\<exists>x s1. m s = (Inr x, s1) \<and> n s1 = (Inr y, s'))"
  by (simp add: seq_def bind_Inr_iff)

lemma bind_assoc: "bind (bind m f) g = bind m (\<lambda>x. bind (f x) g)"
  by (auto simp: bind_def fun_eq_iff split: prod.splits sum.splits)

text \<open>
  \<open>preserves P m\<close>: from a state with \<open>P\<close> the operation ends in one, whether it returns or
  raises. The rules compose the fact along the structure of an operation.
\<close>

definition preserves :: "('s \<Rightarrow> bool) \<Rightarrow> ('s, 'a) io \<Rightarrow> bool" where
  "preserves P m \<longleftrightarrow> (\<forall>s. P s \<longrightarrow> P (snd (m s)))"

lemma preserves_run: "preserves P m \<Longrightarrow> P s \<Longrightarrow> m s = (r, s') \<Longrightarrow> P s'"
  unfolding preserves_def by (metis snd_conv)

lemma preserves_bind [keeps]:
  "preserves P m \<Longrightarrow> (\<And>x. preserves P (f x)) \<Longrightarrow> preserves P (bind m f)"
  by (auto simp: preserves_def bind_def split: prod.splits sum.splits)

lemma preserves_seq [keeps]: "preserves P m \<Longrightarrow> preserves P n \<Longrightarrow> preserves P (seq m n)"
  by (simp add: seq_def preserves_bind)

lemma preserves_try [keeps]:
  "preserves P m \<Longrightarrow> (\<And>e. preserves P (h e)) \<Longrightarrow> preserves P (try_catch m h)"
  by (auto simp: preserves_def try_catch_def split: prod.splits sum.splits)

lemma preserves_catch_if [keeps]:
  "preserves P m \<Longrightarrow> (\<And>e. preserves P (h e)) \<Longrightarrow> preserves P (catch_if p m h)"
  by (auto simp: preserves_def catch_if_def split: prod.splits sum.splits)

lemma preserves_pure [keeps]:
  "preserves P (ret x)" "preserves P (raise e)" "preserves P (gets f)" "preserves P (lift r)"
  by (simp_all add: preserves_def)

lemma preserves_modify: "(\<And>s. P s \<Longrightarrow> P (f s)) \<Longrightarrow> preserves P (modify f)"
  by (simp add: preserves_def)

lemma preserves_when [keeps]: "preserves P m \<Longrightarrow> preserves P (io_when b m)"
  by (simp add: io_when_def preserves_pure)

lemma preserves_case [keeps]:
  "(\<And>x. preserves P (f x)) \<Longrightarrow> preserves P g \<Longrightarrow> preserves P (case v of None \<Rightarrow> g | Some x \<Rightarrow> f x)"
  by (cases v) simp_all

lemma preserves_if [keeps]:
  "preserves P m \<Longrightarrow> preserves P n \<Longrightarrow> preserves P (if b then m else n)"
  by simp

section \<open>Both ends of an operation\<close>

text \<open>
  \<open>triple P m Q R\<close>: from a state with \<open>P\<close>, the operation returns an \<open>x\<close> in a state with
  \<open>Q x\<close> or raises in a state with \<open>R\<close>.
\<close>

definition triple ::
  "('s \<Rightarrow> bool) \<Rightarrow> ('s, 'a) io \<Rightarrow> ('a \<Rightarrow> 's \<Rightarrow> bool) \<Rightarrow> ('s \<Rightarrow> bool) \<Rightarrow> bool" where
  "triple P m Q R \<longleftrightarrow> (\<forall>s. P s \<longrightarrow> (case m s of (Inl e, s') \<Rightarrow> R s' | (Inr x, s') \<Rightarrow> Q x s'))"

lemma triple_Inr: "triple P m Q R \<Longrightarrow> P s \<Longrightarrow> m s = (Inr x, s') \<Longrightarrow> Q x s'"
  unfolding triple_def by fastforce

lemma triple_Inl: "triple P m Q R \<Longrightarrow> P s \<Longrightarrow> m s = (Inl e, s') \<Longrightarrow> R s'"
  unfolding triple_def by fastforce

lemma tripleI:
  "(\<And>s x s'. P s \<Longrightarrow> m s = (Inr x, s') \<Longrightarrow> Q x s') \<Longrightarrow> (\<And>s e s'. P s \<Longrightarrow> m s = (Inl e, s') \<Longrightarrow> R s') \<Longrightarrow>
     triple P m Q R"
  by (auto simp: triple_def split: prod.splits sum.splits)

lemma triple_bind:
  "triple P m M R \<Longrightarrow> (\<And>x. triple (M x) (f x) Q R) \<Longrightarrow> triple P (bind m f) Q R"
  by (fastforce simp: triple_def bind_def split: prod.splits sum.splits)

lemma triple_seq: "triple P m M R \<Longrightarrow> (\<And>x. triple (M x) n Q R) \<Longrightarrow> triple P (seq m n) Q R"
  by (simp add: seq_def triple_bind)

lemma triple_gets: "(\<And>x. triple (\<lambda>s. P s \<and> g s = x) (f x) Q R) \<Longrightarrow> triple P (bind (gets g) f) Q R"
  by (auto simp: triple_def bind_def gets_def)

lemma triple_modify: "(\<And>s. P s \<Longrightarrow> Q () (f s)) \<Longrightarrow> triple P (modify f) Q R"
  by (simp add: triple_def)

lemma triple_ret: "(\<And>s. P s \<Longrightarrow> Q x s) \<Longrightarrow> triple P (ret x) Q R"
  by (simp add: triple_def)

lemma triple_lift:
  "(\<And>s x. P s \<Longrightarrow> r = Inr x \<Longrightarrow> Q x s) \<Longrightarrow> (\<And>s e. P s \<Longrightarrow> r = Inl e \<Longrightarrow> R s) \<Longrightarrow> triple P (lift r) Q R"
  by (cases r) (simp_all add: triple_def)

lemma triple_try: "triple P m Q M \<Longrightarrow> (\<And>e. triple M (h e) Q R) \<Longrightarrow> triple P (try_catch m h) Q R"
  by (fastforce simp: triple_def try_catch_def split: prod.splits sum.splits)

lemma triple_catch:
  "triple P m Q M \<Longrightarrow> (\<And>e. triple M (h e) Q R) \<Longrightarrow> (\<And>s. M s \<Longrightarrow> R s) \<Longrightarrow> triple P (catch_if p m h) Q R"
  by (fastforce simp: triple_def catch_if_def split: prod.splits sum.splits if_splits)

lemma triple_if: "(b \<Longrightarrow> triple P m Q R) \<Longrightarrow> (\<not> b \<Longrightarrow> triple P n Q R) \<Longrightarrow> triple P (if b then m else n) Q R"
  by simp

lemma triple_weaken:
  "triple P m Q R \<Longrightarrow> (\<And>s. P' s \<Longrightarrow> P s) \<Longrightarrow> (\<And>x s. Q x s \<Longrightarrow> Q' x s) \<Longrightarrow> (\<And>s. R s \<Longrightarrow> R' s) \<Longrightarrow> triple P' m Q' R'"
  by (fastforce simp: triple_def split: prod.splits sum.splits)

lemma triple_preserves: "preserves P m \<Longrightarrow> triple P m (\<lambda>_. P) P"
  by (fastforce simp: triple_def preserves_def split: prod.splits sum.splits)

lemma triple_any: "triple P m (\<lambda>_ _. True) (\<lambda>_. True)"
  by (auto simp: triple_def split: prod.splits sum.splits)

end
