(* ===== verification/Diagnosis_Models.thy ===== *)
theory Diagnosis_Models
  imports Core_Models
begin

text \<open>
  The records of \<open>diagnostics/diagnosis_models.py\<close>. A confidence is a Python float in the code
  and a rational here. \<open>LogDigest\<close> belongs to the package \<open>logs\<close>, which the repository does
  not hold (its directory is ignored by git): \<open>log_digest\<close> lists the attributes the code under
  src/ reads, and how a digest is computed is a parameter wherever it is needed. The keyword
  vocabulary, also a file of that package, is a finite map given as an association list.
\<close>

record log_digest =
  ld_readable :: bool
  ld_matched_categories :: "string list"
  ld_suspected_engine_error :: "string option"
  ld_root_cause_summary :: "string option"

type_synonym keyword_vocab = "(string \<times> string list) list"

text \<open>\<open>keyword_vocab.get(key, default)\<close>.\<close>

definition vocab_get :: "keyword_vocab \<Rightarrow> string \<Rightarrow> string list \<Rightarrow> string list" where
  "vocab_get v k d = (case map_of v k of None \<Rightarrow> d | Some ks \<Rightarrow> ks)"

record history_item =
  hi_attempt_id :: string
  hi_error_type :: error_type
  hi_keywords :: "string list"
  hi_fingerprint :: string
  hi_primary_entity :: "string option"
  hi_confidence :: rat
  hi_created_at :: string

record diagnosis_input =
  di_failed_sql :: string
  di_error_message :: "string option"
  di_log_digest :: log_digest
  di_keyword_vocab :: keyword_vocab
  di_allowed_error_types :: "string list"

record rule_diagnosis =
  rd_error_type :: error_type
  rd_keywords :: "string list"
  rd_primary_evidence :: "string option"
  rd_confidence :: rat
  rd_matched_rules :: "string list"

record llm_diagnosis =
  lm_error_type :: error_type
  lm_keywords :: "string list"
  lm_primary_evidence :: "string option"
  lm_root_cause_summary :: string
  lm_confidence :: rat
  lm_is_repairable :: bool
  lm_manual_reason :: "string option"

record diagnosis_result =
  dr_error_type :: error_type
  dr_keywords :: "string list"
  dr_fingerprint :: string
  dr_primary_evidence :: "string option"
  dr_root_cause_summary :: "string option"
  dr_confidence :: rat
  dr_rule_result :: "rule_diagnosis option"
  dr_llm_result :: "llm_diagnosis option"
  dr_fusion_reason :: "string option"
  dr_is_repairable :: bool
  dr_manual_reason :: "string option"
  dr_primary_entity :: "string option"
  dr_engine_hint :: "string option"

text \<open>\<open>Field(ge=0.0, le=1.0)\<close>.\<close>

definition unit_interval :: "rat \<Rightarrow> bool" where
  "unit_interval q \<longleftrightarrow> 0 \<le> q \<and> q \<le> 1"

end
