(* ===== verification/Session_Store.thy ===== *)
theory Session_Store
  imports Event_Key Effects Diagnosis_Models
begin

text \<open>
  \<open>session/session_models.py\<close> and \<open>session/session_store.py\<close>. The records are the pydantic
  models; \<open>disk\<close> is what the store keeps on the file system: the session file and the attempt
  files of every session (a JSON file is modelled by the model value it decodes to), and the text
  files of the artifact store. The current time is an argument of the operations.
\<close>

section \<open>Models\<close>

datatype processing_status = EP_RECEIVED | EP_PROCESSING | EP_SUCCEEDED | EP_FAILED | EP_SYSTEM_ERROR

record event_record =
  er_event_key :: string
  er_task_id :: string
  er_session_id :: string
  er_status :: upstream_status
  er_sql :: string
  er_error_message :: "string option"
  er_log_path :: "string option"
  er_received_at :: string
  er_processing_status :: processing_status
  er_attempt_id :: "string option"
  er_result_ref :: "string option"
  er_error_code :: "string option"
  er_finished_at :: "string option"

record repair_session =
  rs_schema_version :: int
  rs_session_id :: string
  rs_task_id :: string
  rs_original_sql :: string
  rs_status :: session_status
  rs_latest_sql_candidate :: "string option"
  rs_latest_attempt_id :: "string option"
  rs_confirmed_sql :: "string option"
  rs_confirmed_attempt_id :: "string option"
  rs_events :: "event_record list"
  rs_attempt_ids :: "string list"
  rs_diagnosis_history :: "history_item list"
  rs_trace_path :: string
  rs_artifact_dir :: string
  rs_last_result_ref :: "string option"
  rs_terminal_status :: "string option"
  rs_created_at :: string
  rs_updated_at :: string

record repair_attempt =
  ra_schema_version :: int
  ra_attempt_id :: string
  ra_attempt_no :: nat
  ra_status :: attempt_status
  ra_source_event_key :: string
  ra_input_event_id :: string
  ra_input_failed_sql :: string
  ra_input_error_message :: "string option"
  ra_input_log_path :: "string option"
  ra_previous_attempt_id :: "string option"
  ra_post_reflection_path :: "string option"
  ra_run_state_path :: "string option"
  ra_log_digest_path :: "string option"
  ra_diagnosis_path :: "string option"
  ra_metadata_path :: "string option"
  ra_memory_path :: "string option"
  ra_plan_path :: "string option"
  ra_candidate_path :: "string option"
  ra_validation_path :: "string option"
  ra_pre_reflection_path :: "string option"
  ra_sql_candidate :: "string option"
  ra_error_type :: "string option"
  ra_keywords :: "string list"
  ra_fingerprint :: "string option"
  ra_stop_reason :: "string option"
  ra_created_at :: string
  ra_updated_at :: string

text \<open>The model validator \<open>validate_candidate_pair\<close>, which runs whenever a session is loaded.\<close>

definition validate_candidate_pair :: "repair_session \<Rightarrow> repair_session outcome" where
  "validate_candidate_pair s =
     (if (rs_latest_sql_candidate s = None) \<noteq> (rs_latest_attempt_id s = None)
      then Inl (ValidationError ''latest candidate and attempt id must be updated together'')
      else Inr s)"

section \<open>The disk\<close>

datatype artifact_path =
    Session_Artifact string string
  | Attempt_Artifact string string string
  | Legacy_Artifact string string string

record trace_event =
  te_session_id :: string
  te_type :: string
  te_stage :: string
  te_payload :: "(string, json) dict"
  te_attempt_id :: "string option"

record disk =
  d_base :: string
  d_sessions :: "string \<Rightarrow> repair_session option"
  d_attempts :: "string \<times> string \<Rightarrow> repair_attempt option"
  d_files :: "artifact_path \<Rightarrow> string option"
  d_trace :: "trace_event list"

section \<open>Names\<close>

definition id_char :: "char \<Rightarrow> bool" where
  "id_char c \<longleftrightarrow> is_alnum c \<or> c = CHR ''.'' \<or> c = CHR ''_'' \<or> c = CHR ''-''"

text \<open>
  \<open>re.sub(r"[^A-Za-z0-9._-]", "_", task_id) or "task"\<close>. A code point outside the class becomes
  one underscore, however many bytes it has.
\<close>

definition safe_task_id :: "string \<Rightarrow> string" where
  "safe_task_id t =
     (let s = map (\<lambda>c. if id_char c then c else CHR ''_'') (filter (\<lambda>c. \<not> is_cont c) t)
      in if s = [] then ''task'' else s)"

definition session_id_for_task :: "string \<Rightarrow> string" where
  "session_id_for_task t = ''sess_'' @ safe_task_id t"

text \<open>\<open>f"attempt_{n:03d}"\<close>\<close>

definition zero_pad3 :: "nat \<Rightarrow> string" where
  "zero_pad3 n = replicate (3 - length (digits n)) (CHR ''0'') @ digits n"

definition attempt_name :: "nat \<Rightarrow> string" where
  "attempt_name n = ''attempt_'' @ zero_pad3 n"

lemma attempt_name_inject: "attempt_name m = attempt_name n \<longleftrightarrow> m = n"
proof
  assume "attempt_name m = attempt_name n"
  then have "decimal_value (zero_pad3 m) = decimal_value (zero_pad3 n)"
    by (simp add: attempt_name_def)
  then show "m = n"
    by (simp add: zero_pad3_def decimal_value_zeros decimal_value_digits)
qed simp

lemma attempt_name_1: "attempt_name (Suc 0) = ''attempt_001''"
  by code_simp

definition attempt_names :: "nat \<Rightarrow> string list" where
  "attempt_names n = map attempt_name [1..<Suc n]"

lemma attempt_names_simps [simp]:
  "attempt_names 0 = []" "attempt_names (Suc n) = attempt_names n @ [attempt_name (Suc n)]"
  "length (attempt_names n) = n"
  by (simp_all add: attempt_names_def)

lemma distinct_attempt_names: "distinct (attempt_names n)"
  by (auto simp: attempt_names_def distinct_map inj_on_def attempt_name_inject)

lemma attempt_name_fresh: "n < m \<Longrightarrow> attempt_name m \<notin> set (attempt_names n)"
  by (auto simp: attempt_names_def attempt_name_inject)

section \<open>Operations of SessionStore\<close>

definition load_for_task :: "string \<Rightarrow> ('a disk_scheme, repair_session option) io" where
  "load_for_task t d =
     (case d_sessions d (session_id_for_task t) of
        None \<Rightarrow> (Inr None, d)
      | Some s \<Rightarrow> (and_then (validate_candidate_pair s) (\<lambda>s. Inr (Some s)), d))"

definition put_session :: "repair_session \<Rightarrow> 'a disk_scheme \<Rightarrow> 'a disk_scheme" where
  "put_session s d = d\<lparr>d_sessions := (d_sessions d)(rs_session_id s := Some s)\<rparr>"

definition save_session :: "repair_session \<Rightarrow> ('a disk_scheme, unit) io" where
  "save_session s = modify (put_session s)"

definition put_attempt :: "repair_session \<Rightarrow> repair_attempt \<Rightarrow> 'a disk_scheme \<Rightarrow> 'a disk_scheme" where
  "put_attempt s a d = d\<lparr>d_attempts := (d_attempts d)((rs_session_id s, ra_attempt_id a) := Some a)\<rparr>"

definition save_attempt :: "repair_session \<Rightarrow> repair_attempt \<Rightarrow> ('a disk_scheme, unit) io" where
  "save_attempt s a = modify (put_attempt s a)"

definition load_attempt :: "repair_session \<Rightarrow> string \<Rightarrow> ('a disk_scheme, repair_attempt) io" where
  "load_attempt s a d =
     (case d_attempts d (rs_session_id s, a) of
        None \<Rightarrow> (Inl (FileNotFound a), d)
      | Some att \<Rightarrow> (Inr att, d))"

definition new_session :: "string \<Rightarrow> upstream_event \<Rightarrow> string \<Rightarrow> repair_session" where
  "new_session base e now =
     (let sid = session_id_for_task (ev_id e); dir = base @ ''/'' @ sid in
      \<lparr>rs_schema_version = 2, rs_session_id = sid, rs_task_id = ev_id e,
       rs_original_sql = ev_sql e, rs_status = SS_CREATED, rs_latest_sql_candidate = None,
       rs_latest_attempt_id = None, rs_confirmed_sql = None, rs_confirmed_attempt_id = None,
       rs_events = [], rs_attempt_ids = [], rs_diagnosis_history = [],
       rs_trace_path = dir @ ''/trace.jsonl'', rs_artifact_dir = dir @ ''/artifacts'',
       rs_last_result_ref = None, rs_terminal_status = None, rs_created_at = now, rs_updated_at = now\<rparr>)"

definition load_or_create_for_event ::
  "upstream_event \<Rightarrow> string \<Rightarrow> ('a disk_scheme, repair_session) io" where
  "load_or_create_for_event e now =
     bind (load_for_task (ev_id e)) (\<lambda>existing.
       case existing of
         Some s \<Rightarrow> ret s
       | None \<Rightarrow> bind (gets (\<lambda>d. new_session (d_base d) e now)) (\<lambda>s.
           seq (save_session s) (ret s)))"

definition create_event_record ::
  "repair_session \<Rightarrow> upstream_event \<Rightarrow> string \<Rightarrow> event_record" where
  "create_event_record s e now =
     \<lparr>er_event_key = build_event_key e, er_task_id = ev_id e, er_session_id = rs_session_id s,
      er_status = ev_status e, er_sql = ev_sql e, er_error_message = ev_error_message e,
      er_log_path = ev_log_path e, er_received_at = now, er_processing_status = EP_RECEIVED,
      er_attempt_id = None, er_result_ref = None, er_error_code = None, er_finished_at = None\<rparr>"

definition find_event :: "repair_session \<Rightarrow> string \<Rightarrow> event_record option" where
  "find_event s k = List.find (\<lambda>r. er_event_key r = k) (rs_events s)"

definition append_upstream_event ::
  "repair_session \<Rightarrow> event_record \<Rightarrow> string \<Rightarrow> ('a disk_scheme, repair_session) io" where
  "append_upstream_event s r now =
     (if find_event s (er_event_key r) = None
      then let s' = s\<lparr>rs_events := rs_events s @ [r], rs_updated_at := now\<rparr>
           in seq (save_session s') (ret s')
      else ret s)"

text \<open>The loop of \<open>save_event_record\<close>: the first record with the key is replaced.\<close>

fun replace_event :: "event_record \<Rightarrow> event_record list \<Rightarrow> event_record list option" where
  "replace_event r [] = None"
| "replace_event r (x # xs) =
     (if er_event_key x = er_event_key r then Some (r # xs) else map_option ((#) x) (replace_event r xs))"

definition save_event_record ::
  "repair_session \<Rightarrow> event_record \<Rightarrow> string \<Rightarrow> ('a disk_scheme, repair_session) io" where
  "save_event_record s r now =
     (case replace_event r (rs_events s) of
        None \<Rightarrow> raise (ValueError ''event record is not attached to session'')
      | Some rs \<Rightarrow> let s' = s\<lparr>rs_events := rs, rs_updated_at := now\<rparr>
          in seq (save_session s') (ret s'))"

definition finish_event ::
  "repair_session \<Rightarrow> event_record \<Rightarrow> string option \<Rightarrow> string option \<Rightarrow> processing_status \<Rightarrow> string \<Rightarrow>
     ('a disk_scheme, repair_session) io" where
  "finish_event s r ref code_opt st now =
     save_event_record s
       (r\<lparr>er_processing_status := st, er_result_ref := ref, er_error_code := code_opt,
          er_finished_at := Some now\<rparr>) now"

definition new_attempt :: "repair_session \<Rightarrow> event_record \<Rightarrow> string \<Rightarrow> repair_attempt" where
  "new_attempt s r now =
     (let n = length (rs_attempt_ids s) + 1 in
      \<lparr>ra_schema_version = 2, ra_attempt_id = attempt_name n, ra_attempt_no = n,
       ra_status = AS_CREATED, ra_source_event_key = er_event_key r,
       ra_input_event_id = er_event_key r, ra_input_failed_sql = er_sql r,
       ra_input_error_message = er_error_message r, ra_input_log_path = er_log_path r,
       ra_previous_attempt_id = last_opt (rs_attempt_ids s), ra_post_reflection_path = None,
       ra_run_state_path = None, ra_log_digest_path = None, ra_diagnosis_path = None,
       ra_metadata_path = None, ra_memory_path = None, ra_plan_path = None,
       ra_candidate_path = None, ra_validation_path = None, ra_pre_reflection_path = None,
       ra_sql_candidate = None, ra_error_type = None, ra_keywords = [], ra_fingerprint = None,
       ra_stop_reason = None, ra_created_at = now, ra_updated_at = now\<rparr>)"

text \<open>
  \<open>create_attempt\<close> mutates the session and the event record it is given and returns the attempt;
  the model returns the new session and the attempt (the record is the one with the event's key in
  the session).
\<close>

definition create_attempt ::
  "repair_session \<Rightarrow> event_record \<Rightarrow> string \<Rightarrow> ('a disk_scheme, repair_session \<times> repair_attempt) io" where
  "create_attempt s r now =
     (if er_status r \<noteq> US_FAILED then raise (ValueError ''only FAILED events create attempts'')
      else case er_attempt_id r of
        Some a \<Rightarrow> bind (load_attempt s a) (\<lambda>att. ret (s, att))
      | None \<Rightarrow>
          let att = new_attempt s r now;
              r' = r\<lparr>er_attempt_id := Some (ra_attempt_id att), er_processing_status := EP_PROCESSING\<rparr>;
              s' = s\<lparr>rs_attempt_ids := rs_attempt_ids s @ [ra_attempt_id att], rs_updated_at := now\<rparr>
          in seq (save_attempt s' att)
               (bind (save_event_record s' r' now) (\<lambda>s''. ret (s'', att))))"

definition load_by_task_id_and_sql_hash ::
  "string \<Rightarrow> string \<Rightarrow> ('a disk_scheme, repair_session option) io" where
  "load_by_task_id_and_sql_hash t sql =
     bind (load_for_task t) (\<lambda>x. case x of
       None \<Rightarrow> ret None
     | Some s \<Rightarrow> ret (if rs_original_sql s = sql then Some s else None))"

section \<open>Traces\<close>

definition emit_trace ::
  "string \<Rightarrow> string \<Rightarrow> string \<Rightarrow> (string, json) dict \<Rightarrow> string option \<Rightarrow> ('a disk_scheme, unit) io" where
  "emit_trace sid ty stage payload aid =
     modify (\<lambda>d. d\<lparr>d_trace := d_trace d @
       [\<lparr>te_session_id = sid, te_type = ty, te_stage = stage, te_payload = payload, te_attempt_id = aid\<rparr>]\<rparr>)"

end
