(* ===== verification/Artifact_Store.thy ===== *)
theory Artifact_Store
  imports Sanitizer Session_Store
begin

text \<open>
  \<open>agent/artifacts/artifact_ref.py\<close> and \<open>artifacts/artifact_store.py\<close>: references to
  artifacts and their JSON text, the store that writes sanitized files and reads them back after
  checking ownership and hash. The main facts: a reference is read back from its JSON text; what was
  saved is what is loaded, unless it holds a carriage return, which reading in text mode turns into a
  line feed; a load on behalf of a session reads a file of that session; every file of the store is
  free of API keys.

  The sanitizer is the one of the code. Session and attempt identifiers are path components of the
  code's own making (\<open>safe_task_id\<close>, \<open>attempt_name\<close>), which hold no slash.
\<close>

section \<open>References\<close>

datatype artifact_type =
    RAW_LOG | LOG_DIGEST | DIAGNOSIS | METADATA_SNAPSHOT | MEMORY_RETRIEVAL | CANDIDATE_SQL
  | GATE_RESULT | SUB_AGENT_OUTPUT | CONTEXT_SNAPSHOT | TRACE_PAYLOAD

fun artifact_type_value :: "artifact_type \<Rightarrow> string" where
  "artifact_type_value RAW_LOG = ''RAW_LOG''"
| "artifact_type_value LOG_DIGEST = ''LOG_DIGEST''"
| "artifact_type_value DIAGNOSIS = ''DIAGNOSIS''"
| "artifact_type_value METADATA_SNAPSHOT = ''METADATA_SNAPSHOT''"
| "artifact_type_value MEMORY_RETRIEVAL = ''MEMORY_RETRIEVAL''"
| "artifact_type_value CANDIDATE_SQL = ''CANDIDATE_SQL''"
| "artifact_type_value GATE_RESULT = ''GATE_RESULT''"
| "artifact_type_value SUB_AGENT_OUTPUT = ''SUB_AGENT_OUTPUT''"
| "artifact_type_value CONTEXT_SNAPSHOT = ''CONTEXT_SNAPSHOT''"
| "artifact_type_value TRACE_PAYLOAD = ''TRACE_PAYLOAD''"

definition artifact_types :: "artifact_type list" where
  "artifact_types =
     [RAW_LOG, LOG_DIGEST, DIAGNOSIS, METADATA_SNAPSHOT, MEMORY_RETRIEVAL, CANDIDATE_SQL, GATE_RESULT,
      SUB_AGENT_OUTPUT, CONTEXT_SNAPSHOT, TRACE_PAYLOAD]"

definition artifact_type_of :: "string \<Rightarrow> artifact_type option" where
  "artifact_type_of s = List.find (\<lambda>t. artifact_type_value t = s) artifact_types"

lemma artifact_type_of_value [simp]: "artifact_type_of (artifact_type_value t) = Some t"
  by (cases t) (simp_all add: artifact_type_of_def artifact_types_def)

record artifact_ref =
  ar_id :: string
  ar_session :: string
  ar_attempt :: "string option"
  ar_type :: artifact_type
  ar_path :: string
  ar_hash :: string
  ar_size :: int
  ar_tokens :: int
  ar_sanitized :: bool
  ar_created_at :: string

text \<open>\<open>ref.model_dump_json()\<close>\<close>

definition ref_fields :: "artifact_ref \<Rightarrow> (string \<times> json) list" where
  "ref_fields r =
     [(''artifact_id'', Js_text (ar_id r)), (''session_id'', Js_text (ar_session r)),
      (''attempt_id'', json_of_opt (ar_attempt r)), (''artifact_type'', Js_text (artifact_type_value (ar_type r))),
      (''path'', Js_text (ar_path r)), (''content_hash'', Js_text (ar_hash r)),
      (''size_bytes'', Js_int (ar_size r)), (''token_estimate'', Js_int (ar_tokens r)),
      (''sanitized'', Js_bool (ar_sanitized r)), (''created_at'', Js_text (ar_created_at r))]"

definition ref_json :: "artifact_ref \<Rightarrow> string" where
  "ref_json r = json_compact (Js_dict (ref_fields r))"

text \<open>
  The validation of a field: a text, an optional text, an integer (pydantic also takes a boolean and a
  float without fraction) and a boolean (also 0 and 1). The further spellings pydantic takes
  for these, such as numbers in quotes, are left out: the code writes none.
\<close>

fun js_text :: "json option \<Rightarrow> string option" where
  "js_text (Some (Js_text s)) = Some s"
| "js_text _ = None"

fun js_opt_text :: "json option \<Rightarrow> string option option" where
  "js_opt_text None = Some None"
| "js_opt_text (Some Js_null) = Some None"
| "js_opt_text (Some (Js_text s)) = Some (Some s)"
| "js_opt_text _ = None"

fun js_int :: "json option \<Rightarrow> int option" where
  "js_int (Some (Js_int i)) = Some i"
| "js_int (Some (Js_bool b)) = Some (if b then 1 else 0)"
| "js_int (Some (Js_float q)) = (if of_int \<lfloor>q\<rfloor> = q then Some \<lfloor>q\<rfloor> else None)"
| "js_int _ = None"

fun js_bool :: "json option \<Rightarrow> bool option" where
  "js_bool (Some (Js_bool b)) = Some b"
| "js_bool (Some (Js_int i)) = (if i = 0 then Some False else if i = 1 then Some True else None)"
| "js_bool _ = None"

definition ref_keys :: "string list" where
  "ref_keys = [''artifact_id'', ''session_id'', ''attempt_id'', ''artifact_type'', ''path'', ''content_hash'',
     ''size_bytes'', ''token_estimate'', ''sanitized'', ''created_at'']"

definition ref_of_dict :: "(string, json) dict \<Rightarrow> artifact_ref option" where
  "ref_of_dict d =
     (if \<not> set (dict_keys d) \<subseteq> set ref_keys then None
      else case (js_text (dict_get d ''artifact_id''), js_text (dict_get d ''session_id''),
                 js_opt_text (dict_get d ''attempt_id''),
                 Option.bind (js_text (dict_get d ''artifact_type'')) artifact_type_of,
                 js_text (dict_get d ''path''), js_text (dict_get d ''content_hash''),
                 js_int (dict_get d ''size_bytes''), js_int (dict_get d ''token_estimate''),
                 js_bool (dict_get d ''sanitized''), js_text (dict_get d ''created_at'')) of
        (Some i, Some s, Some a, Some t, Some p, Some h, Some n, Some k, Some b, Some c) \<Rightarrow>
          if 0 \<le> n \<and> 0 \<le> k
          then Some \<lparr>ar_id = i, ar_session = s, ar_attempt = a, ar_type = t, ar_path = p, ar_hash = h,
                     ar_size = n, ar_tokens = k, ar_sanitized = b, ar_created_at = c\<rparr>
          else None
      | _ \<Rightarrow> None)"

text \<open>\<open>ArtifactRef.model_validate_json(text)\<close>\<close>

definition parse_ref :: "string \<Rightarrow> artifact_ref outcome" where
  "parse_ref s =
     (case json_loads s of
        Inr (Js_dict d) \<Rightarrow>
          (case ref_of_dict d of None \<Rightarrow> Inl (ValidationError ''ArtifactRef'') | Some r \<Rightarrow> Inr r)
      | _ \<Rightarrow> Inl (ValidationError ''ArtifactRef''))"

lemma plain_ref: "plain_json (Js_dict (ref_fields r))"
  by (simp add: ref_fields_def json_of_opt_def split: option.split)

lemma ref_of_dict_fields:
  "0 \<le> ar_size r \<Longrightarrow> 0 \<le> ar_tokens r \<Longrightarrow> ref_of_dict (ref_fields r) = Some r"
  by (cases "ar_attempt r")
    (auto simp: ref_of_dict_def ref_fields_def ref_keys_def dict_keys_def dict_get_def json_of_opt_def)

lemma parse_ref_json: "0 \<le> ar_size r \<Longrightarrow> 0 \<le> ar_tokens r \<Longrightarrow> parse_ref (ref_json r) = Inr r"
  by (simp add: parse_ref_def ref_json_def json_compact_loads [OF plain_ref] ref_of_dict_fields)

lemma ref_json_nonempty [simp]: "ref_json r \<noteq> []"
  by (simp add: ref_json_def json_compact_def)

section \<open>Paths\<close>

text \<open>\<open>Path(name).name == name\<close> and not empty.\<close>

definition plain_name :: "string \<Rightarrow> bool" where
  "plain_name n \<longleftrightarrow> n \<noteq> [] \<and> n \<noteq> ''.'' \<and> CHR ''/'' \<notin> set n"

definition file_of :: "string \<Rightarrow> string option \<Rightarrow> string \<Rightarrow> artifact_path" where
  "file_of sid aid name =
     (case aid of None \<Rightarrow> Session_Artifact sid name | Some a \<Rightarrow> Attempt_Artifact sid a name)"

definition artifact_path_of :: "string \<Rightarrow> string option \<Rightarrow> string \<Rightarrow> artifact_path outcome" where
  "artifact_path_of sid aid name =
     (if plain_name name then Inr (file_of sid aid name)
      else Inl (ValueError ''artifact name must be a plain file name''))"

fun path_session :: "artifact_path \<Rightarrow> string" where
  "path_session (Session_Artifact s _) = s"
| "path_session (Attempt_Artifact s _ _) = s"
| "path_session (Legacy_Artifact s _ _) = s"

lemma path_session_file_of [simp]: "path_session (file_of sid aid name) = sid"
  by (simp add: file_of_def split: option.split)

definition ref_prefix :: "string \<Rightarrow> string option \<Rightarrow> string" where
  "ref_prefix sid aid = ''artifact://'' @ sid @ ''/'' @ or_text aid ''_session'' @ ''/''"

section \<open>Saving\<close>

definition put_file :: "artifact_path \<Rightarrow> string \<Rightarrow> 'a disk_scheme \<Rightarrow> 'a disk_scheme" where
  "put_file p t d = d\<lparr>d_files := (d_files d)(p := Some t)\<rparr>"

interpretation file_store: keyed_store put_file "\<lambda>d :: 'a disk_scheme. d_files d"
  by unfold_locales (simp add: put_file_def)

text \<open>\<open>write_text_atomic\<close>: replacing a directory (the name \<open>..\<close>) by a file fails.\<close>

definition write_file :: "artifact_path \<Rightarrow> string \<Rightarrow> string \<Rightarrow> ('a disk_scheme, unit) io" where
  "write_file p name t =
     (if name = ''..'' then raise (OtherError ''IsADirectoryError'') else modify (put_file p t))"

definition build_ref ::
  "string \<Rightarrow> string option \<Rightarrow> artifact_type \<Rightarrow> string \<Rightarrow> string \<Rightarrow> stamp \<Rightarrow> artifact_ref" where
  "build_ref sid aid ty name content st =
     \<lparr>ar_id = ''art_'' @ sp_uuid st, ar_session = sid, ar_attempt = aid, ar_type = ty,
      ar_path = ref_prefix sid aid @ name, ar_hash = sha256 content, ar_size = int (length content),
      ar_tokens = (int (py_len content) + 3) div 4, ar_sanitized = True, ar_created_at = sp_now st\<rparr>"

definition save_text_ref ::
  "string \<Rightarrow> string option \<Rightarrow> string \<Rightarrow> string \<Rightarrow> artifact_type \<Rightarrow> stamp \<Rightarrow> ('a disk_scheme, artifact_ref) io" where
  "save_text_ref sid aid name content ty st =
     bind (lift (sanitize content)) (\<lambda>t.
     bind (lift (artifact_path_of sid aid name)) (\<lambda>p.
     seq (write_file p name t) (ret (build_ref sid aid ty name t st))))"

definition save_json_ref ::
  "(rat \<Rightarrow> string) \<Rightarrow> string \<Rightarrow> string option \<Rightarrow> string \<Rightarrow> json \<Rightarrow> artifact_type \<Rightarrow> stamp \<Rightarrow>
     ('a disk_scheme, artifact_ref) io" where
  "save_json_ref fl sid aid name v ty st = save_text_ref sid aid name (json_file_text fl v) ty st"

section \<open>Resolving and loading\<close>

definition resolve :: "artifact_ref \<Rightarrow> artifact_path outcome" where
  "resolve r =
     (let pre = ref_prefix (ar_session r) (ar_attempt r) in
      if \<not> ar_sanitized r then Inl (ArtifactAccessError ''unsanitized artifact is forbidden'')
      else if \<not> is_prefix pre (ar_path r) then Inl (ArtifactAccessError ''artifact ownership mismatch'')
      else artifact_path_of (ar_session r) (ar_attempt r) (drop (length pre) (ar_path r)))"

definition artifact_exists :: "artifact_ref \<Rightarrow> 'a disk_scheme \<Rightarrow> bool" where
  "artifact_exists r d = (case resolve r of Inl _ \<Rightarrow> False | Inr p \<Rightarrow> d_files d p \<noteq> None)"

definition ownership :: "artifact_ref \<Rightarrow> string option \<Rightarrow> string option \<Rightarrow> unit outcome" where
  "ownership r sid aid =
     (if sid \<noteq> None \<and> sid \<noteq> Some (ar_session r) then Inl (ArtifactAccessError ''artifact session ownership mismatch'')
      else if aid \<noteq> None \<and> ar_attempt r \<noteq> aid then Inl (ArtifactAccessError ''artifact attempt ownership mismatch'')
      else Inr ())"

text \<open>\<open>read_text\<close> opens the file in text mode, which reads every line end as a line feed.\<close>

definition load_artifact ::
  "artifact_ref \<Rightarrow> nat option \<Rightarrow> string option \<Rightarrow> string option \<Rightarrow> 'a disk_scheme \<Rightarrow> string outcome" where
  "load_artifact r max_chars sid aid d =
     and_then (ownership r sid aid) (\<lambda>_.
     and_then (resolve r) (\<lambda>p.
       case d_files d p of
         None \<Rightarrow> Inl (FileNotFound (ar_path r))
       | Some raw \<Rightarrow>
           let content = normalize_newlines raw in
           if sha256 content \<noteq> ar_hash r then Inl (ArtifactIntegrityError ''artifact hash mismatch'')
           else Inr (case max_chars of None \<Rightarrow> content | Some n \<Rightarrow> py_take n content)))"

section \<open>The path-returning interface\<close>

definition legacy_text :: "string \<Rightarrow> string \<Rightarrow> string \<Rightarrow> string \<Rightarrow> string" where
  "legacy_text base sid aid name = base @ ''/'' @ sid @ ''/artifacts/'' @ aid @ ''/'' @ name"

definition save_legacy :: "string \<Rightarrow> string \<Rightarrow> string \<Rightarrow> string \<Rightarrow> ('a disk_scheme, string) io" where
  "save_legacy sid aid name text =
     bind (lift (sanitize text)) (\<lambda>t.
     seq (modify (put_file (Legacy_Artifact sid aid name) t))
         (gets (\<lambda>d. legacy_text (d_base d) sid aid name)))"

definition save_json_legacy ::
  "(rat \<Rightarrow> string) \<Rightarrow> string \<Rightarrow> string \<Rightarrow> string \<Rightarrow> json \<Rightarrow> ('a disk_scheme, string) io" where
  "save_json_legacy fl sid aid name v = save_legacy sid aid name (json_file_text fl v)"

text \<open>The file a path text below the base directory names.\<close>

fun split_from :: "string \<Rightarrow> string \<Rightarrow> string list" where
  "split_from acc [] = [rev acc]"
| "split_from acc (c # cs) =
     (if c = CHR ''/'' then rev acc # split_from [] cs else split_from (c # acc) cs)"

definition split_slash :: "string \<Rightarrow> string list" where
  "split_slash s = split_from [] s"

definition locate :: "string \<Rightarrow> string \<Rightarrow> artifact_path option" where
  "locate base text =
     (if \<not> is_prefix (base @ ''/'') text then None
      else case split_slash (drop (length base + 1) text) of
        [s, k, n] \<Rightarrow> if k = ''artifacts'' then Some (Session_Artifact s n) else None
      | [s, k, a, n] \<Rightarrow> if k = ''artifacts'' then Some (Legacy_Artifact s a n) else None
      | [s, k, a, k2, n] \<Rightarrow> if k = ''attempts'' \<and> k2 = ''artifacts'' then Some (Attempt_Artifact s a n) else None
      | _ \<Rightarrow> None)"

definition file_at :: "string \<Rightarrow> 'a disk_scheme \<Rightarrow> string option" where
  "file_at text d = Option.bind (locate (d_base d) text) (d_files d)"

text \<open>\<open>read_json(Path(text))\<close>\<close>

definition read_json :: "string \<Rightarrow> 'a disk_scheme \<Rightarrow> json outcome" where
  "read_json text d =
     (case file_at text d of None \<Rightarrow> Inl (FileNotFound text) | Some t \<Rightarrow> json_loads (normalize_newlines t))"

section \<open>What is saved is what is loaded\<close>

definition files_clean :: "'a disk_scheme \<Rightarrow> bool" where
  "files_clean d \<longleftrightarrow> (\<forall>p t. d_files d p = Some t \<longrightarrow> key_free t)"

lemma artifact_path_of_Inr:
  "artifact_path_of sid aid name = Inr p \<longleftrightarrow> plain_name name \<and> p = file_of sid aid name"
  by (auto simp: artifact_path_of_def)

lemma save_text_ref_Inr:
  "save_text_ref sid aid name content ty st d = (Inr r, d') \<longleftrightarrow>
     (\<exists>t. sanitize content = Inr t \<and> plain_name name \<and> name \<noteq> ''..'' \<and>
        d' = put_file (file_of sid aid name) t d \<and> r = build_ref sid aid ty name t st)"
  by (cases "sanitize content"; cases "artifact_path_of sid aid name")
    (auto simp: save_text_ref_def write_file_def bind_def seq_def artifact_path_of_Inr artifact_path_of_def
      split: if_splits)

lemma save_text_ref_total:
  assumes "plain_name name" "name \<noteq> ''..''" "sanitize content = Inr t"
  shows "save_text_ref sid aid name content ty st d =
    (Inr (build_ref sid aid ty name t st), put_file (file_of sid aid name) t d)"
  using save_text_ref_Inr assms by fastforce

lemma resolve_build_ref: "plain_name name \<Longrightarrow> resolve (build_ref sid aid ty name t st) = Inr (file_of sid aid name)"
  by (simp add: resolve_def build_ref_def Let_def is_prefix_def artifact_path_of_def)

lemma build_ref_sizes: "0 \<le> ar_size (build_ref sid aid ty name t st)" "0 \<le> ar_tokens (build_ref sid aid ty name t st)"
  by (simp_all add: build_ref_def)

lemma build_ref_frame [frame, simp]:
  "ar_session (build_ref sid aid ty name t st) = sid" "ar_attempt (build_ref sid aid ty name t st) = aid"
  "ar_sanitized (build_ref sid aid ty name t st)" "ar_hash (build_ref sid aid ty name t st) = sha256 t"
  by (simp_all add: build_ref_def)

lemma parse_built_ref: "parse_ref (ref_json (build_ref sid aid ty name t st)) = Inr (build_ref sid aid ty name t st)"
  by (intro parse_ref_json build_ref_sizes)

lemma exists_after_save:
  "save_text_ref sid aid name content ty st d = (Inr r, d') \<Longrightarrow> artifact_exists r d'"
  by (auto simp: save_text_ref_Inr artifact_exists_def resolve_build_ref put_file_def)

lemma load_after_save:
  assumes "save_text_ref sid aid name content ty st d = (Inr r, d')"
  shows "\<exists>t. sanitize content = Inr t \<and>
    load_artifact r None (Some sid) aid d' =
      (if sha256 (normalize_newlines t) = sha256 t then Inr (normalize_newlines t)
       else Inl (ArtifactIntegrityError ''artifact hash mismatch''))"
  using assms
  by (auto simp: save_text_ref_Inr load_artifact_def ownership_def resolve_build_ref put_file_def Let_def)

lemma load_owned:
  assumes "load_artifact r m (Some sid) aid d = Inr t"
  shows "\<exists>p raw. resolve r = Inr p \<and> path_session p = sid \<and> d_files d p = Some raw \<and>
    sha256 (normalize_newlines raw) = ar_hash r \<and> prefix t (normalize_newlines raw) \<and>
    (case m of None \<Rightarrow> t = normalize_newlines raw | Some n \<Rightarrow> py_len t \<le> n)"
proof -
  obtain p where p: "ownership r (Some sid) aid = Inr ()" "resolve r = Inr p"
    using assms by (auto simp: load_artifact_def and_then_Inr_iff)
  then have "path_session p = sid"
    by (auto simp: resolve_def Let_def ownership_def artifact_path_of_Inr split: if_splits)
  then show ?thesis
    using assms p
    by (auto simp: load_artifact_def Let_def py_take_prefix py_len_take split: option.splits if_splits)
qed

lemma save_text_ref_files:
  "d_files (snd (save_text_ref sid aid name content ty st d)) p =
     (if is_ok (fst (save_text_ref sid aid name content ty st d)) \<and> p = file_of sid aid name
      then (case sanitize content of Inl _ \<Rightarrow> None | Inr t \<Rightarrow> Some t) else d_files d p)"
  by (cases "sanitize content"; cases "artifact_path_of sid aid name")
    (auto simp: save_text_ref_def write_file_def bind_def seq_def put_file_def artifact_path_of_def split: if_splits)

lemma save_text_ref_clean [keeps]: "preserves files_clean (save_text_ref sid aid name content ty st)"
  by (auto simp: preserves_def files_clean_def save_text_ref_files dest!: sanitize_key_free split: if_splits sum.splits)

lemma save_json_ref_clean [keeps]: "preserves files_clean (save_json_ref fl sid aid name v ty st)"
  by (simp add: save_json_ref_def [abs_def] save_text_ref_clean)

lemma save_legacy_Inr:
  "save_legacy sid aid name text d = (Inr ref, d') \<longleftrightarrow>
     (\<exists>t. sanitize text = Inr t \<and> d' = put_file (Legacy_Artifact sid aid name) t d \<and>
        ref = legacy_text (d_base d) sid aid name)"
  by (cases "sanitize text") (auto simp: save_legacy_def bind_def seq_def put_file_def)

lemma save_legacy_clean [keeps]: "preserves files_clean (save_legacy sid aid name text)"
proof -
  have "files_clean (snd (save_legacy sid aid name text d))" if "files_clean d" for d :: "'a disk_scheme"
    using that
    by (cases "sanitize text")
      (auto simp: save_legacy_def bind_def seq_def put_file_def files_clean_def dest: sanitize_key_free)
  then show ?thesis by (simp add: preserves_def)
qed

lemma save_json_legacy_clean [keeps]: "preserves files_clean (save_json_legacy fl sid aid name v)"
  by (simp add: save_json_legacy_def [abs_def] save_legacy_clean)

lemma split_from_part: "CHR ''/'' \<notin> set a \<Longrightarrow> split_from acc (a @ CHR ''/'' # r) = (rev acc @ a) # split_from [] r"
  by (induction a arbitrary: acc) auto

lemma split_from_last: "CHR ''/'' \<notin> set a \<Longrightarrow> split_from acc a = [rev acc @ a]"
  by (induction a arbitrary: acc) auto

lemma locate_legacy:
  assumes "CHR ''/'' \<notin> set sid" "CHR ''/'' \<notin> set aid" "CHR ''/'' \<notin> set name"
  shows "locate base (legacy_text base sid aid name) = Some (Legacy_Artifact sid aid name)"
proof -
  have "split_slash (sid @ ''/artifacts/'' @ aid @ ''/'' @ name) = [sid, ''artifacts'', aid, name]"
    using split_from_part [of sid "[]" "''artifacts/'' @ aid @ ''/'' @ name"]
      split_from_part [of aid "[]" name] assms
    by (simp add: split_slash_def split_from_last)
  moreover have "is_prefix (base @ ''/'') (legacy_text base sid aid name)"
    "drop (length base + 1) (legacy_text base sid aid name) = sid @ ''/artifacts/'' @ aid @ ''/'' @ name"
    by (simp_all add: legacy_text_def is_prefix_def)
  ultimately show ?thesis by (simp add: locate_def)
qed

lemma read_back_legacy:
  assumes "save_json_legacy fl sid aid name v d = (Inr ref, d')" "plain_json v" "unaffected (json_file_text fl v)"
    and "CHR ''/'' \<notin> set sid" "CHR ''/'' \<notin> set aid" "CHR ''/'' \<notin> set name"
    and "CHR 0x0D \<notin> set (json_file_text fl v)"
  shows "read_json ref d' = Inr v"
  using assms sanitize_unaffected [OF assms(3)]
  by (auto simp: save_json_legacy_def save_legacy_Inr read_json_def file_at_def put_file_def locate_legacy
      normalize_newlines_id json_file_loads)

end
