(* ===== verification/Repair_Models.thy ===== *)
theory Repair_Models
  imports Diagnosis_Models Session_Store
begin

text \<open>
  The records of \<open>metadata/metadata_models.py\<close>, \<open>memory/memory_models.py\<close>,
  \<open>repair/repair_models.py\<close>, \<open>repair/reflection.py\<close> and \<open>agent/gates/gate_models.py\<close>.
  Scores and confidences, floats in the code, are rationals.
\<close>

section \<open>Metadata\<close>

datatype source_clause = SC_FROM | SC_JOIN | SC_INSERT_TARGET | SC_CTE | SC_UNKNOWN

record table_ref =
  tb_raw_name :: string
  tb_normalized_name :: string
  tb_alias :: "string option"
  tb_source :: source_clause

record extraction_result =
  ex_tables :: "table_ref list"
  ex_ctes :: "string list"
  ex_parse_success :: bool
  ex_parse_error :: "string option"

record column_metadata =
  cm_name :: string
  cm_normalized_name :: string
  cm_data_type :: "string option"
  cm_comment :: "string option"
  cm_is_partition :: bool

datatype metadata_source = MS_MOCK | MS_REAL | MS_UNKNOWN

record table_metadata =
  tm_table_name :: string
  tm_normalized_name :: string
  tm_exists :: bool
  tm_columns :: "column_metadata list"
  tm_partition_columns :: "column_metadata list"
  tm_owner :: "string option"
  tm_source :: metadata_source
  tm_error :: "string option"

record metadata_snapshot =
  ms_extraction :: extraction_result
  ms_tables :: "table_metadata list"
  ms_missing_tables :: "string list"
  ms_provider_errors :: "string list"
  ms_created_at :: string

datatype candidate_source = CO_EXACT | CO_NORMALIZED | CO_EDIT_DISTANCE | CO_COMMENT | CO_MEMORY

record column_candidate =
  cc_original_name :: string
  cc_candidate_name :: string
  cc_table_name :: string
  cc_data_type :: "string option"
  cc_score :: rat
  cc_reason :: string
  cc_source :: candidate_source

section \<open>Memory\<close>

record experience_summary =
  es_experience_id :: string
  es_keyword :: "string list"
  es_description :: string
  es_matched_by :: "string list"
  es_artifact_ref :: "string option"

record memory_result =
  mr_matched :: bool
  mr_experiences :: "experience_summary list"
  mr_scanned :: int
  mr_discarded :: int
  mr_artifact_ref :: "string option"
  mr_warnings :: "string list"

section \<open>Plans, candidates and their validation\<close>

datatype repair_action_type =
    REPLACE_COLUMN | ADD_CAST | REPLACE_TABLE | ADD_PARTITION_FILTER | REWRITE_FUNCTION
  | QUALIFY_COLUMN | FIX_SYNTAX | NO_SAFE_REPAIR

text \<open>The literal risk levels of an action exclude \<open>BLOCKED\<close>.\<close>

datatype action_risk = AR_LOW | AR_MEDIUM | AR_HIGH

record repair_action =
  rp_type :: repair_action_type
  rp_target :: "string option"
  rp_replacement :: "string option"
  rp_reason :: string
  rp_evidence :: "string option"
  rp_risk :: action_risk

record repair_plan =
  pl_id :: string
  pl_repairable :: bool
  pl_actions :: "repair_action list"
  pl_constraints :: "string list"
  pl_experience_ids :: "string list"
  pl_manual :: "string option"
  pl_confidence :: rat

record planner_input =
  pi_failed_sql :: string
  pi_diagnosis :: diagnosis_result
  pi_log_digest :: log_digest
  pi_metadata :: "metadata_snapshot option"
  pi_memory :: "memory_result option"
  pi_post_status :: "string option"

record changed_fragment =
  cg_before :: string
  cg_after :: string
  cg_type :: repair_action_type
  cg_reason :: string

record generation_result =
  gr_generated :: bool
  gr_candidate :: "string option"
  gr_cannot :: bool
  gr_reason :: "string option"

record llm_generation =
  lg_result :: generation_result
  lg_fragments :: "changed_fragment list"

record diff_summary =
  df_count :: nat
  df_fragments :: "changed_fragment list"
  df_removed_where :: bool
  df_removed_join :: bool
  df_changed_group_by :: bool
  df_changed_target :: bool
  df_changed_partition :: bool
  df_parse_success :: bool

record validation_issue =
  vi_code :: string
  vi_message :: string
  vi_risk :: risk_level
  vi_evidence :: "string option"

record validation_result =
  vr_risk :: risk_level
  vr_passed :: bool
  vr_issues :: "validation_issue list"
  vr_allow :: bool
  vr_reason :: "string option"

section \<open>Reflection\<close>

datatype pre_decision = PR_RETURN_SQL | PR_REGENERATE | PR_BLOCK | PR_MANUAL_REQUIRED

record pre_input =
  pn_failed_sql :: string
  pn_candidate :: string
  pn_diagnosis :: diagnosis_result
  pn_plan :: repair_plan
  pn_validation :: validation_result
  pn_diff :: diff_summary
  pn_metadata :: "metadata_snapshot option"
  pn_memory :: "memory_result option"

record pre_result =
  pr_decision :: pre_decision
  pr_confidence :: rat
  pr_follows :: bool
  pr_minimal :: bool
  pr_risk :: risk_level
  pr_reasons :: "string list"
  pr_violated :: "string list"
  pr_instruction :: "string option"

datatype post_status =
    PO_PROGRESSING | PO_UNCHANGED | PO_REGRESSED | PO_UNRELATED | PO_MANUAL_REQUIRED | PO_OSCILLATING

record post_input =
  pt_previous_attempt :: repair_attempt
  pt_previous_diagnosis :: diagnosis_result
  pt_previous_plan :: repair_plan
  pt_previous_candidate :: string
  pt_current_sql :: string
  pt_current_log :: log_digest
  pt_current_diagnosis :: diagnosis_result
  pt_history :: "history_item list"

record post_result =
  po_status :: post_status
  po_resolved :: bool
  po_new_error :: bool
  po_recommendation :: "string option"
  po_reasons :: "string list"
  po_confidence :: rat

section \<open>Gates\<close>

datatype severity = SV_INFO | SV_WARNING | SV_ERROR | SV_BLOCK

datatype gate_decision = GD_PASS | GD_PASS_WITH_WARNING | GD_REJECT | GD_HUMAN_REQUIRED

record gate_note =
  gn_id :: string
  gn_gate :: string
  gn_code :: string
  gn_severity :: severity
  gn_message :: string
  gn_hint :: "string option"
  gn_evidence :: "string list"
  gn_hash :: string
  gn_created_at :: string

record gate_result =
  gt_decision :: gate_decision
  gt_risk :: risk_level
  gt_gate :: string
  gt_hash :: string
  gt_feedback :: "gate_note list"
  gt_evidence :: "string list"
  gt_checked :: "string list"
  gt_failed :: "string list"
  gt_created_at :: string

record gate_request =
  gq_original_sql :: string
  gq_candidate_sql :: string
  gq_diagnosis :: diagnosis_result
  gq_metadata :: "metadata_snapshot option"
  gq_memory :: "memory_result option"
  gq_existing_plan :: "repair_plan option"
  gq_artifact_ref :: "string option"
  gq_attempt_id :: string
  gq_event_key :: string
  gq_allow_medium :: bool

record static_outcome =
  so_result :: gate_result
  so_plan :: "repair_plan option"
  so_diff :: "diff_summary option"
  so_validation :: "validation_result option"

end
