(* ===== verification/Sql_Generator.thy ===== *)
theory Sql_Generator
  imports Repair_Models Regex Effects
begin

text \<open>
  \<open>repair/sql_generator.py\<close>: applying a repair plan to the failed text, the generator around it,
  and the summary of what a candidate changed. The SQL parser \<open>sqlglot\<close> is not part of the
  repository: \<open>sql_engine\<close> holds what the code uses of it (parsing, rendering of a tree, and the
  parts of a tree it looks at).
\<close>

section \<open>The parser, a parameter\<close>

text \<open>
  \<open>en_parse\<close> is \<open>sqlglot.parse_one(sql, read="hive")\<close>, \<open>None\<close> where it raises
  \<open>SqlglotError\<close> or \<open>ValueError\<close>; \<open>en_render\<close> is \<open>tree.sql(dialect="hive", normalize=True)\<close>.
  \<open>en_insert_query\<close> is the query of an insert tree (its argument \<open>expression\<close>), \<open>en_where\<close> the
  condition under the argument \<open>where\<close>, \<open>en_and_terms\<close> the flattened operands of a conjunction,
  \<open>en_joins\<close> the \<open>on\<close> arguments of all joins, \<open>en_group\<close> the expressions of a group clause,
  \<open>en_insert\<close> the insert node of the tree (itself or a descendant), \<open>en_target\<close> the target of one.
\<close>

record 't sql_engine =
  en_parse :: "string \<Rightarrow> 't option"
  en_render :: "'t \<Rightarrow> string outcome"
  en_insert_query :: "'t \<Rightarrow> 't option"
  en_where :: "'t \<Rightarrow> 't option"
  en_and_terms :: "'t \<Rightarrow> 't list option"
  en_joins :: "'t \<Rightarrow> 't option list"
  en_group :: "'t \<Rightarrow> 't list option"
  en_insert :: "'t \<Rightarrow> 't option"
  en_target :: "'t \<Rightarrow> 't option"

text \<open>\<open>except (AttributeError, TypeError, ValueError, SqlglotError)\<close>\<close>

fun is_tree_error :: "py_error \<Rightarrow> bool" where
  "is_tree_error (OtherError _) = True"
| "is_tree_error e = (is_value_error e \<or> is_type_error e)"

fun map_outcome :: "('a \<Rightarrow> 'b outcome) \<Rightarrow> 'a list \<Rightarrow> 'b list outcome" where
  "map_outcome f [] = Inr []"
| "map_outcome f (x # xs) = and_then (f x) (\<lambda>y. and_then (map_outcome f xs) (\<lambda>ys. Inr (y # ys)))"

section \<open>Replacing a fragment\<close>

definition ident_char :: "char \<Rightarrow> bool" where
  "ident_char c \<longleftrightarrow> is_alnum c \<or> c = CHR ''_''"

text \<open>
  \<open>re.subn(r"(?<![A-Za-z0-9_])TARGET(?![A-Za-z0-9_])", new, sql, flags=re.IGNORECASE)\<close> for a target
  that is not empty, with the number of replacements; \<open>prev\<close> is the character before the rest. A
  replacement with a backslash, which \<open>re\<close> would read as a template, is outside the model.
\<close>

definition ident_match :: "string \<Rightarrow> char option \<Rightarrow> string \<Rightarrow> bool" where
  "ident_match target prev s \<longleftrightarrow>
     (case prev of None \<Rightarrow> True | Some c \<Rightarrow> \<not> ident_char c) \<and>
     is_prefix (casefold target) (casefold s) \<and>
     (case drop (length target) s of [] \<Rightarrow> True | c # _ \<Rightarrow> \<not> ident_char c)"

function replace_ident :: "string \<Rightarrow> string \<Rightarrow> char option \<Rightarrow> string \<Rightarrow> string \<times> nat" where
  "replace_ident target new prev [] = ([], 0)"
| "replace_ident target new prev (c # cs) =
     (if target \<noteq> [] \<and> ident_match target prev (c # cs)
      then let (t, n) = replace_ident target new (Some (last (take (length target) (c # cs))))
                          (drop (length target) (c # cs)) in (new @ t, Suc n)
      else let (t, n) = replace_ident target new (Some c) cs in (c # t, n))"
  by pat_completeness auto
termination
  by (relation "measure (\<lambda>(target, new, prev, s). length s)") auto

definition identifier_actions :: "repair_action_type list" where
  "identifier_actions = [REPLACE_COLUMN, REPLACE_TABLE, QUALIFY_COLUMN]"

definition replace_action :: "string \<Rightarrow> repair_action \<Rightarrow> string \<times> nat" where
  "replace_action sql a =
     (case rp_replacement a of
        None \<Rightarrow> (sql, 0)
      | Some new \<Rightarrow>
          if \<not> truthy (rp_target a) then (sql, 0)
          else if rp_type a \<in> set identifier_actions
            then replace_ident (or_text (rp_target a) []) new None sql
          else replace_all (or_text (rp_target a) []) new sql)"

definition fragment_of :: "repair_action \<Rightarrow> changed_fragment" where
  "fragment_of a =
     \<lparr>cg_before = or_text (rp_target a) [], cg_after = or_text (rp_replacement a) [],
      cg_type = rp_type a, cg_reason = rp_reason a\<rparr>"

fun apply_actions :: "string \<Rightarrow> repair_action list \<Rightarrow> (string \<times> changed_fragment list) option" where
  "apply_actions sql [] = Some (sql, [])"
| "apply_actions sql (a # as) =
     (if rp_type a = NO_SAFE_REPAIR then None
      else let (t, n) = replace_action sql a in
        if n \<noteq> 1 then None
        else map_option (map_prod id ((#) (fragment_of a))) (apply_actions t as))"

text \<open>The candidate and the changes; no candidate comes with no changes.\<close>

definition apply_repair_plan :: "string \<Rightarrow> repair_plan \<Rightarrow> string option \<times> changed_fragment list" where
  "apply_repair_plan failed_sql p =
     (case apply_actions failed_sql (pl_actions p) of
        None \<Rightarrow> (None, [])
      | Some (c, changes) \<Rightarrow> (Some c, changes))"

definition action_of_fragment :: "changed_fragment \<Rightarrow> repair_action" where
  "action_of_fragment f =
     \<lparr>rp_type = cg_type f, rp_target = Some (cg_before f), rp_replacement = Some (cg_after f),
      rp_reason = cg_reason f, rp_evidence = None, rp_risk = AR_LOW\<rparr>"

fun apply_changed_fragments :: "string \<Rightarrow> changed_fragment list \<Rightarrow> string option" where
  "apply_changed_fragments sql [] = Some sql"
| "apply_changed_fragments sql (f # fs) =
     (let (t, n) = replace_action sql (action_of_fragment f) in
      if n \<noteq> 1 then None else apply_changed_fragments t fs)"

section \<open>The generator\<close>

definition not_generated :: "string \<Rightarrow> generation_result" where
  "not_generated reason = \<lparr>gr_generated = False, gr_candidate = None, gr_cannot = True, gr_reason = Some reason\<rparr>"

definition generated :: "string \<Rightarrow> generation_result" where
  "generated sql = \<lparr>gr_generated = True, gr_candidate = Some sql, gr_cannot = False, gr_reason = None\<rparr>"

definition accept_llm_generation :: "string \<Rightarrow> llm_generation \<Rightarrow> generation_result" where
  "accept_llm_generation failed_sql g =
     (let r = lg_result g;
          plain = \<lparr>gr_generated = gr_generated r, gr_candidate = gr_candidate r, gr_cannot = gr_cannot r,
                   gr_reason = gr_reason r\<rparr>
      in if lg_fragments g \<noteq> [] \<and> \<not> gr_cannot r
         then case apply_changed_fragments failed_sql (lg_fragments g) of
             None \<Rightarrow> plain
           | Some c \<Rightarrow>
               if has_text (gr_candidate r) \<and> gr_candidate r \<noteq> Some c then plain else generated c
         else plain)"

text \<open>
  \<open>ask\<close> is the adapter's structured call on the prompt made of the failed text, the plan and the
  regeneration instruction; it is absent when no client is configured.
\<close>

definition generate_sql ::
  "(string \<Rightarrow> repair_plan \<Rightarrow> string option \<Rightarrow> ('w, llm_generation) io) option \<Rightarrow>
     string \<Rightarrow> repair_plan \<Rightarrow> string option \<Rightarrow> ('w, generation_result) io" where
  "generate_sql llm failed_sql p instruction w =
     (if \<not> pl_repairable p then (Inr (not_generated ''RepairPlan is not repairable''), w)
      else case llm of
        Some ask \<Rightarrow>
          catch_if is_llm_error
            (bind (ask failed_sql p instruction) (\<lambda>g. ret (accept_llm_generation failed_sql g)))
            (\<lambda>_. ret (not_generated reason_llm_generation)) w
      | None \<Rightarrow>
          (case fst (apply_repair_plan failed_sql p) of
             None \<Rightarrow> (Inr (not_generated ''RepairPlan cannot be applied uniquely and safely''), w)
           | Some c \<Rightarrow> (Inr (generated c), w)))"

section \<open>Equivalence of two texts\<close>

definition normalized_text :: "string \<Rightarrow> string" where
  "normalized_text s =
     casefold (rev (dropWhile (\<lambda>c. c = CHR '';'') (rev (strip (collapse_ws s)))))"

definition canonical_sql :: "'t sql_engine \<Rightarrow> string \<Rightarrow> (string \<times> 't) option outcome" where
  "canonical_sql en s =
     (case en_parse en s of
        None \<Rightarrow> Inr None
      | Some t \<Rightarrow> and_then (en_render en t) (\<lambda>c. Inr (Some (c, t))))"

definition sql_equivalent :: "'t sql_engine \<Rightarrow> string \<Rightarrow> string \<Rightarrow> bool outcome" where
  "sql_equivalent en l r =
     and_then (canonical_sql en l) (\<lambda>cl. and_then (canonical_sql en r) (\<lambda>cr.
       case (cl, cr) of
         (Some (a, _), Some (b, _)) \<Rightarrow> Inr (a = b)
       | _ \<Rightarrow> Inr (normalized_text l = normalized_text r)))"

definition candidate_matches_plan :: "'t sql_engine \<Rightarrow> string \<Rightarrow> string \<Rightarrow> repair_plan \<Rightarrow> bool outcome" where
  "candidate_matches_plan en failed_sql candidate p =
     (case fst (apply_repair_plan failed_sql p) of
        None \<Rightarrow> Inr False
      | Some expected \<Rightarrow> sql_equivalent en expected candidate)"

section \<open>What a candidate changed\<close>

definition query_expression :: "'t sql_engine \<Rightarrow> 't \<Rightarrow> 't" where
  "query_expression en t = (case en_insert_query en t of None \<Rightarrow> t | Some q \<Rightarrow> q)"

definition where_terms :: "'t sql_engine \<Rightarrow> 't \<Rightarrow> string list outcome" where
  "where_terms en t =
     (case en_where en (query_expression en t) of
        None \<Rightarrow> Inr []
      | Some c \<Rightarrow> map_outcome (en_render en) (case en_and_terms en c of None \<Rightarrow> [c] | Some ts \<Rightarrow> ts))"

definition join_conditions :: "'t sql_engine \<Rightarrow> 't \<Rightarrow> string option list outcome" where
  "join_conditions en t =
     map_outcome (\<lambda>on. case on of None \<Rightarrow> Inr None | Some c \<Rightarrow> and_then (en_render en c) (\<lambda>s. Inr (Some s)))
       (en_joins en t)"

definition group_expressions :: "'t sql_engine \<Rightarrow> 't \<Rightarrow> string list outcome" where
  "group_expressions en t =
     (case en_group en (query_expression en t) of
        None \<Rightarrow> Inr []
      | Some es \<Rightarrow> map_outcome (en_render en) es)"

definition insert_target :: "'t sql_engine \<Rightarrow> 't \<Rightarrow> string option outcome" where
  "insert_target en t =
     (case en_insert en t of
        None \<Rightarrow> Inr None
      | Some i \<Rightarrow> (case en_target en i of
           None \<Rightarrow> Inr None
         | Some x \<Rightarrow> and_then (en_render en x) (\<lambda>s. Inr (Some s))))"

definition pat_partition :: regex where
  "pat_partition = rx_cat
     [Bound, rx_ilit ''partition'', Star rx_space, rx_lit ''('',
      Group 1 (Star (Chars (\<lambda>c. c \<noteq> CHR '')''))), rx_lit '')'']"

definition static_partition :: "string \<Rightarrow> string option" where
  "static_partition sql = map_option (\<lambda>g. normalized_text (rx_group 1 g)) (rx_search pat_partition sql)"

definition pat_word :: "string \<Rightarrow> regex" where
  "pat_word w = rx_cat [Bound, rx_lit w, Bound]"

definition pat_group_by :: regex where
  "pat_group_by = rx_cat [Bound, rx_lit ''group'', rx_plus rx_space, rx_lit ''by'', Bound]"

text \<open>The comparison of two trees: where removed, join changed, group changed, target changed.\<close>

definition tree_changes :: "'t sql_engine \<Rightarrow> 't \<Rightarrow> 't \<Rightarrow> (bool \<times> bool \<times> bool \<times> bool) outcome" where
  "tree_changes en p c =
     and_then (where_terms en p) (\<lambda>pw. and_then (where_terms en c) (\<lambda>cw.
     and_then (join_conditions en p) (\<lambda>pj. and_then (join_conditions en c) (\<lambda>cj.
     and_then (group_expressions en p) (\<lambda>pg. and_then (group_expressions en c) (\<lambda>cg.
     and_then (insert_target en p) (\<lambda>pt. and_then (insert_target en c) (\<lambda>ct.
       Inr (\<not> set pw \<subseteq> set cw, pj \<noteq> cj, pg \<noteq> cg, pt \<noteq> ct)))))))))"

text \<open>
  The comparison on text when there is no tree to compare. When the comparison of trees fails half
  way, the flag of the insert target keeps its initial value \<open>False\<close>, since it is the last one set.
\<close>

definition text_changes :: "string \<Rightarrow> string \<Rightarrow> bool \<times> bool \<times> bool \<times> bool" where
  "text_changes p c =
     (let pf = normalized_text p; cf = normalized_text c in
      (rx_found (pat_word ''where'') pf \<and> \<not> rx_found (pat_word ''where'') cf,
       rx_found (pat_word ''join'') pf \<and> \<not> rx_found (pat_word ''join'') cf,
       rx_found pat_group_by pf \<noteq> rx_found pat_group_by cf,
       False))"

definition build_diff ::
  "'t sql_engine \<Rightarrow> string \<Rightarrow> generation_result \<Rightarrow> repair_plan \<Rightarrow> diff_summary outcome" where
  "build_diff en failed_sql g p =
     (let candidate = or_text (gr_candidate g) [];
          (expected, changes) = apply_repair_plan failed_sql p
      in and_then (canonical_sql en failed_sql) (\<lambda>failed.
         and_then (canonical_sql en (or_text expected [])) (\<lambda>exp.
         and_then (canonical_sql en candidate) (\<lambda>cand.
         and_then (case expected of None \<Rightarrow> Inr False | Some e \<Rightarrow> sql_equivalent en e candidate) (\<lambda>plan_match.
           let protected_tree = (if exp \<noteq> None then exp else failed);
               protected_sql = (case expected of None \<Rightarrow> failed_sql | Some e \<Rightarrow> e);
               partition_changed = static_partition protected_sql \<noteq> static_partition candidate;
               summary = (\<lambda>(w, j, gb, t) ok.
                 \<lparr>df_count = (if plan_match then length changes else 0),
                  df_fragments = (if plan_match then changes else []), df_removed_where = w,
                  df_removed_join = j, df_changed_group_by = gb, df_changed_target = t,
                  df_changed_partition = partition_changed, df_parse_success = ok\<rparr>)
           in case (protected_tree, cand) of
             (Some (_, pt), Some (_, ct)) \<Rightarrow>
               (case tree_changes en pt ct of
                  Inr cs \<Rightarrow> Inr (summary cs (failed \<noteq> None))
                | Inl e \<Rightarrow>
                    if is_tree_error e then Inr (summary (text_changes protected_sql candidate) False)
                    else Inl e)
           | _ \<Rightarrow> Inr (summary (text_changes protected_sql candidate) False))))))"

end
