(* ===== verification/Validation.thy ===== *)
theory Validation
  imports Sql_Generator
begin

text \<open>
  \<open>repair/validator.py\<close>, \<open>repair/evaluator.py\<close>, \<open>repair/error_oscillation_detector.py\<close>: the
  red lines a candidate must not cross, the semantic reflection before delivery with its consistency
  check on the language model's answer, and the reflection after a failure.
\<close>

section \<open>The validator\<close>

definition pat_dangerous :: regex where
  "pat_dangerous = rx_cat
     [Bound, Group 1 (rx_alt [rx_ilit ''DROP'', rx_ilit ''DELETE'', rx_ilit ''TRUNCATE'', rx_ilit ''ALTER'']), Bound]"

definition pat_insert_into :: regex where
  "pat_insert_into =
     rx_cat [rx_ilit ''INSERT'', rx_plus rx_space, rx_alt [rx_ilit ''INTO'', rx_ilit ''OVERWRITE'']]"

definition pat_write :: regex where
  "pat_write = rx_cat
     [Bound, Group 1 (rx_alt [pat_insert_into, rx_ilit ''UPDATE'', rx_ilit ''MERGE'', rx_ilit ''CREATE'',
        rx_ilit ''REPLACE'']), Bound]"

definition pat_insert :: regex where
  "pat_insert = rx_cat [Bound, pat_insert_into, Bound]"

definition blocking :: "bool \<Rightarrow> string \<Rightarrow> string \<Rightarrow> validation_issue list" where
  "blocking b c m =
     (if b then [\<lparr>vi_code = c, vi_message = m, vi_risk = BLOCKED, vi_evidence = None\<rparr>] else [])"

definition validation_issues :: "string \<Rightarrow> string \<Rightarrow> repair_plan \<Rightarrow> diff_summary \<Rightarrow> bool \<Rightarrow> validation_issue list" where
  "validation_issues failed_sql candidate p d matches =
     (let failed_write = rx_found pat_write failed_sql;
          candidate_write = rx_found pat_write candidate;
          candidate_insert = rx_found pat_insert candidate
      in blocking (rx_found pat_dangerous candidate) ''DANGEROUS_SQL'' msg_dangerous @
         blocking (candidate_write \<and> \<not> failed_write) ''WRITE_INTRODUCED'' msg_write_introduced @
         blocking (candidate_write \<and> \<not> candidate_insert) ''UNSUPPORTED_WRITE_SQL'' msg_unsupported_write @
         blocking (candidate_insert \<and> (\<not> df_parse_success d \<or> df_changed_target d \<or> df_changed_partition d))
           ''INSERT_TARGET_UNVERIFIED'' msg_insert_unverified @
         blocking (df_removed_where d) ''WHERE_WEAKENED'' msg_where_weakened @
         blocking (df_removed_join d) ''JOIN_CONDITION_CHANGED'' msg_join_changed @
         blocking (df_changed_group_by d) ''GROUP_BY_CHANGED'' msg_group_changed @
         blocking (\<not> matches) ''UNAUTHORIZED_CHANGE'' msg_unauthorized @
         blocking (df_count d \<noteq> length (pl_actions p)) ''PLAN_ACTION_COUNT_MISMATCH'' msg_count_mismatch)"

definition plan_risk :: "repair_plan \<Rightarrow> risk_level" where
  "plan_risk p =
     (if AR_HIGH \<in> set (map rp_risk (pl_actions p)) then HIGH
      else if AR_MEDIUM \<in> set (map rp_risk (pl_actions p)) \<or> ADD_CAST \<in> set (map rp_type (pl_actions p)) then MEDIUM
      else LOW)"

definition validate_candidate ::
  "'t sql_engine \<Rightarrow> bool \<Rightarrow> string \<Rightarrow> string \<Rightarrow> repair_plan \<Rightarrow> diff_summary \<Rightarrow> validation_result outcome" where
  "validate_candidate en allow_medium failed_sql candidate p d =
     and_then (candidate_matches_plan en failed_sql candidate p) (\<lambda>matches.
       let issues = validation_issues failed_sql candidate p d matches;
           risk = (if issues \<noteq> [] then BLOCKED else plan_risk p);
           allow = (risk = LOW \<or> risk = MEDIUM \<and> allow_medium)
       in Inr \<lparr>vr_risk = risk, vr_passed = (issues = []), vr_issues = issues, vr_allow = allow,
               vr_reason = (if allow then None else Some msg_validation_blocked)\<rparr>)"

text \<open>The red lines, stated on the candidate and the summary of its changes.\<close>

definition crosses_red_line :: "string \<Rightarrow> string \<Rightarrow> repair_plan \<Rightarrow> diff_summary \<Rightarrow> bool" where
  "crosses_red_line failed_sql candidate p d \<longleftrightarrow>
     rx_found pat_dangerous candidate \<or>
     (rx_found pat_write candidate \<and> (\<not> rx_found pat_write failed_sql \<or> \<not> rx_found pat_insert candidate)) \<or>
     (rx_found pat_insert candidate \<and> (\<not> df_parse_success d \<or> df_changed_target d \<or> df_changed_partition d)) \<or>
     df_removed_where d \<or> df_removed_join d \<or> df_changed_group_by d \<or> df_count d \<noteq> length (pl_actions p)"

lemma blocking_Nil [simp]: "blocking b c m = [] \<longleftrightarrow> \<not> b"
  by (simp add: blocking_def)

lemma validation_issues_Nil:
  "validation_issues f c p d matches = [] \<longleftrightarrow> matches \<and> \<not> crosses_red_line f c p d"
  by (auto simp: validation_issues_def Let_def crosses_red_line_def)

lemma plan_risk_not_blocked [simp]: "plan_risk p \<noteq> BLOCKED"
  by (simp add: plan_risk_def)

lemma validate_candidate_allows:
  "validate_candidate en allow f c p d = Inr v \<Longrightarrow> vr_allow v \<Longrightarrow>
     candidate_matches_plan en f c p = Inr True \<and> \<not> crosses_red_line f c p d \<and> vr_passed v \<and>
     vr_risk v = plan_risk p \<and> vr_issues v = [] \<and> (plan_risk p = LOW \<or> plan_risk p = MEDIUM \<and> allow)"
  by (auto simp: validate_candidate_def and_then_Inr_iff Let_def validation_issues_Nil split: if_splits)

lemma validate_candidate_risk:
  "validate_candidate en allow f c p d = Inr v \<Longrightarrow>
     (vr_risk v = BLOCKED \<longleftrightarrow> vr_issues v \<noteq> []) \<and> (vr_passed v \<longleftrightarrow> vr_issues v = []) \<and>
     (vr_allow v \<longleftrightarrow> vr_risk v = LOW \<or> vr_risk v = MEDIUM \<and> allow)"
  by (auto simp: validate_candidate_def and_then_Inr_iff Let_def)

section \<open>Reflection before delivery\<close>

definition enforce_consistency :: "pre_result \<Rightarrow> pre_result" where
  "enforce_consistency r =
     (if pr_decision r = PR_RETURN_SQL \<and>
         \<not> (pr_follows r \<and> pr_minimal r \<and> pr_risk r \<in> {LOW, MEDIUM} \<and> pr_violated r = [])
      then r\<lparr>pr_decision := PR_BLOCK, pr_reasons := pr_reasons r @ [reason_contradictory]\<rparr>
      else if pr_decision r = PR_REGENERATE \<and> \<not> truthy (pr_instruction r)
      then r\<lparr>pr_decision := PR_BLOCK, pr_reasons := pr_reasons r @ [reason_no_instruction]\<rparr>
      else r)"

definition pre_reflect ::
  "(pre_input \<Rightarrow> ('w, pre_result) io) option \<Rightarrow> pre_input \<Rightarrow> ('w, pre_result) io" where
  "pre_reflect llm x w =
     (let v = pn_validation x; d = pn_diff x in
      if \<not> vr_allow v
      then (Inr \<lparr>pr_decision = PR_BLOCK, pr_confidence = 1, pr_follows = False, pr_minimal = False,
                 pr_risk = vr_risk v, pr_reasons = [or_text (vr_reason v) ''Validation blocked''],
                 pr_violated = map vi_code (vr_issues v), pr_instruction = None\<rparr>, w)
      else case llm of
        Some ask \<Rightarrow>
          catch_if is_llm_error (bind (ask x) (\<lambda>r. ret (enforce_consistency r)))
            (\<lambda>_. ret \<lparr>pr_decision = PR_BLOCK, pr_confidence = 0, pr_follows = False, pr_minimal = False,
                       pr_risk = vr_risk v, pr_reasons = [reason_llm_prereflection], pr_violated = [],
                       pr_instruction = None\<rparr>) w
      | None \<Rightarrow>
          (let follows = (df_count d = length (pl_actions (pn_plan x)));
               minimal = (follows \<and> \<not> (df_removed_where d \<or> df_removed_join d \<or> df_changed_group_by d \<or>
                            df_changed_target d \<or> df_changed_partition d));
               decision = (if follows \<and> minimal then PR_RETURN_SQL else PR_BLOCK)
           in (Inr \<lparr>pr_decision = decision, pr_confidence = 95 / 100, pr_follows = follows, pr_minimal = minimal,
                    pr_risk = vr_risk v,
                    pr_reasons = [if decision = PR_RETURN_SQL then reason_minimal else reason_unfaithful],
                    pr_violated = [], pr_instruction = None\<rparr>, w)))"

text \<open>What a reflection that lets a candidate pass says of it, whoever gave the answer.\<close>

definition coherent :: "pre_result \<Rightarrow> bool" where
  "coherent r \<longleftrightarrow>
     (pr_decision r = PR_RETURN_SQL \<longrightarrow> pr_follows r \<and> pr_minimal r \<and> pr_violated r = []) \<and>
     (pr_decision r = PR_REGENERATE \<longrightarrow> truthy (pr_instruction r))"

lemma enforce_consistency_coherent:
  "coherent (enforce_consistency r) \<and>
   (pr_decision (enforce_consistency r) = PR_RETURN_SQL \<longrightarrow> enforce_consistency r = r \<and> pr_risk r \<le> MEDIUM)"
  by (auto simp: enforce_consistency_def coherent_def risk_order)

lemma enforce_consistency_idem: "enforce_consistency (enforce_consistency r) = enforce_consistency r"
  by (simp add: enforce_consistency_def)

interpretation consistent_nf: canonicaliser enforce_consistency
  by unfold_locales (rule enforce_consistency_idem)

lemma pre_reflect_returns:
  assumes "pre_reflect llm x w = (Inr r, w')" "pr_decision r = PR_RETURN_SQL"
  shows "vr_allow (pn_validation x) \<and> coherent r \<and> (llm = None \<longrightarrow> pr_risk r = vr_risk (pn_validation x))"
proof -
  have allow: "vr_allow (pn_validation x)"
  proof (rule ccontr)
    assume "\<not> vr_allow (pn_validation x)"
    then have "pr_decision r = PR_BLOCK" using assms(1) by (auto simp: pre_reflect_def Let_def)
    with assms(2) show False by simp
  qed
  show ?thesis
  proof (cases llm)
    case None
    then show ?thesis using assms allow by (auto simp: pre_reflect_def Let_def coherent_def split: if_splits)
  next
    case (Some ask)
    then have "\<exists>q. r = enforce_consistency q"
      using assms allow by (auto simp: pre_reflect_def Let_def catch_if_def bind_def split: prod.splits sum.splits if_splits)
    then show ?thesis using allow Some enforce_consistency_coherent by auto
  qed
qed

section \<open>Oscillation and reflection after a failure\<close>

definition last_n :: "nat \<Rightarrow> 'a list \<Rightarrow> 'a list" where
  "last_n n xs = drop (length xs - n) xs"

definition detect_oscillation :: "history_item list \<Rightarrow> bool" where
  "detect_oscillation history =
     (let fs = map hi_fingerprint history; r3 = last_n 3 fs; r4 = last_n 4 fs in
      (length fs \<ge> 3 \<and> r3 ! 0 = r3 ! 2 \<and> r3 ! 0 \<noteq> r3 ! 1) \<or>
      (length fs \<ge> 4 \<and> r4 ! 0 = r4 ! 2 \<and> r4 ! 1 = r4 ! 3 \<and> r4 ! 0 \<noteq> r4 ! 1))"

lemma last_n_append: "length ys = n \<Longrightarrow> last_n n (xs @ ys) = ys"
  by (simp add: last_n_def)

lemma last3: "length xs \<ge> 3 \<Longrightarrow> \<exists>ys a b c. xs = ys @ [a, b, c]"
proof -
  assume "length xs \<ge> 3"
  then have "length (drop (length xs - 3) xs) = Suc (Suc (Suc 0))" by simp
  then obtain a b c where "drop (length xs - 3) xs = [a, b, c]"
    unfolding length_Suc_conv by auto
  then show ?thesis by (metis append_take_drop_id)
qed

text \<open>The second test adds nothing: a history that ends in A, B, A, B also ends in B, A, B.\<close>

lemma detect_oscillation_iff:
  "detect_oscillation history \<longleftrightarrow>
     (\<exists>older a b. map hi_fingerprint history = older @ [a, b, a] \<and> a \<noteq> b)"
proof (cases "length history \<ge> 3")
  case False
  have "map hi_fingerprint history \<noteq> older @ [a, b, a]" for older a b
  proof
    assume "map hi_fingerprint history = older @ [a, b, a]"
    then have "length history = length older + 3" by (metis length_append length_map length_Cons list.size(3) numeral_3_eq_3)
    with False show False by simp
  qed
  then show ?thesis using False by (auto simp: detect_oscillation_def Let_def)
next
  case True
  then obtain ys x y z where fs: "map hi_fingerprint history = ys @ [x, y, z]"
    using last3 [of "map hi_fingerprint history"] by auto
  have r3: "last_n 3 (map hi_fingerprint history) = [x, y, z]" by (simp add: fs last_n_append)
  have len: "length (map hi_fingerprint history) = length ys + 3" by (simp add: fs)
  have four: "y = z \<or> x \<noteq> z \<or> True" by simp
  have r4: "length history \<ge> 4 \<Longrightarrow> \<exists>w. last_n 4 (map hi_fingerprint history) = [w, x, y, z]"
  proof -
    assume "length history \<ge> 4"
    then have "ys \<noteq> []" using len by auto
    then obtain zs w where "ys = zs @ [w]" by (cases ys rule: rev_cases) auto
    then have "map hi_fingerprint history = zs @ [w, x, y, z]" by (simp add: fs)
    then show ?thesis by (simp add: last_n_append)
  qed
  have "detect_oscillation history \<longleftrightarrow> x = z \<and> x \<noteq> y"
  proof
    assume "detect_oscillation history"
    then show "x = z \<and> x \<noteq> y" using r3 r4 len by (auto simp: detect_oscillation_def Let_def)
  qed (use r3 len in \<open>auto simp: detect_oscillation_def Let_def\<close>)
  then show ?thesis by (auto simp: fs)
qed

definition post_reflect ::
  "(post_input \<Rightarrow> ('w, post_result) io) option \<Rightarrow> post_input \<Rightarrow> ('w, post_result) io" where
  "post_reflect llm x w =
     (let previous = pt_previous_diagnosis x; current = pt_current_diagnosis x;
          local =
            (if dr_fingerprint previous = dr_fingerprint current
             then \<lparr>po_status = PO_UNCHANGED, po_resolved = False, po_new_error = False,
                   po_recommendation = Some rec_no_repeat, po_reasons = [reason_same_fingerprint],
                   po_confidence = 9 / 10\<rparr>
             else if dr_error_type previous \<noteq> dr_error_type current
             then \<lparr>po_status = PO_PROGRESSING, po_resolved = True, po_new_error = True,
                   po_recommendation = Some rec_keep, po_reasons = [reason_type_changed],
                   po_confidence = 85 / 100\<rparr>
             else \<lparr>po_status = PO_UNRELATED, po_resolved = False, po_new_error = True,
                   po_recommendation = Some rec_reassess, po_reasons = [reason_unrelated],
                   po_confidence = 6 / 10\<rparr>)
      in if detect_oscillation (pt_history x)
         then (Inr \<lparr>po_status = PO_OSCILLATING, po_resolved = False, po_new_error = True,
                    po_recommendation = Some rec_stop, po_reasons = [reason_oscillation],
                    po_confidence = 1\<rparr>, w)
         else case llm of
           None \<Rightarrow> (Inr local, w)
         | Some ask \<Rightarrow>
             catch_if is_llm_error (ask x) (\<lambda>_. ret local) w)"

end
