(* ===== verification/Agent_Models.thy ===== *)
theory Agent_Models
  imports Core_Models Json
begin

text \<open>
  The models of \<open>agent/models/\<close>: limits, sub-agent requests and results, the execution plan,
  actions with their field validator, observations, the candidate state, the agent context and the
  run state. A \<open>Field(ge, le)\<close> constraint or a model validator becomes a predicate that the
  constructor checks.
\<close>

section \<open>Sub-agents\<close>

record subagent_limits =
  sl_max_steps :: int
  sl_max_tool_calls :: int
  sl_max_wall_time_ms :: int
  sl_max_no_progress_steps :: int
  sl_max_context_requests :: int
  sl_allow_recursive :: bool

definition default_subagent_limits :: subagent_limits where
  "default_subagent_limits =
     \<lparr>sl_max_steps = 10, sl_max_tool_calls = 3, sl_max_wall_time_ms = 30000,
      sl_max_no_progress_steps = 2, sl_max_context_requests = 1, sl_allow_recursive = False\<rparr>"

definition mk_subagent_limits :: "subagent_limits \<Rightarrow> subagent_limits outcome" where
  "mk_subagent_limits l =
     (if \<not> (1 \<le> sl_max_steps l \<and> sl_max_steps l \<le> 10 \<and>
             0 \<le> sl_max_tool_calls l \<and> sl_max_tool_calls l \<le> 3 \<and>
             1 \<le> sl_max_wall_time_ms l \<and> sl_max_wall_time_ms l \<le> 30000 \<and>
             1 \<le> sl_max_no_progress_steps l \<and> sl_max_no_progress_steps l \<le> 2 \<and>
             0 \<le> sl_max_context_requests l \<and> sl_max_context_requests l \<le> 1)
      then Inl (ValidationError ''SubAgentLimits'')
      else if sl_allow_recursive l then Inl (ValidationError ''recursive sub-agent is forbidden'')
      else Inr l)"

record subagent_budget =
  sb_max_steps :: int
  sb_max_tool_calls :: int
  sb_max_wall_time_ms :: int
  sb_max_context_requests :: int
  sb_step_count :: int
  sb_tool_call_count :: int
  sb_context_request_count :: int

definition budget_exceeded :: "subagent_budget \<Rightarrow> bool" where
  "budget_exceeded b \<longleftrightarrow>
     sb_step_count b \<ge> sb_max_steps b \<or> sb_tool_call_count b > sb_max_tool_calls b \<or>
     sb_context_request_count b > sb_max_context_requests b"

record subagent_request =
  sr_task_name :: string
  sr_objective :: string
  sr_context_refs :: "string list"
  sr_allowed_tools :: "string list"
  sr_expected_schema :: string
  sr_limits :: subagent_limits

datatype subagent_status = SA_SUCCEEDED | SA_NEED_MORE_CONTEXT | SA_FAILED | SA_BUDGET_EXCEEDED | SA_HUMAN_REQUIRED

record subagent_result =
  sa_status :: subagent_status
  sa_summary :: string
  sa_artifact_ref :: "string option"
  sa_requested_refs :: "string list"
  sa_output :: "(string, json) dict option"
  sa_stop_reason :: "string option"

section \<open>Execution plans\<close>

datatype plan_action = PA_TOOL_CALL | PA_RUN_SUB_AGENT | PA_PROPOSE_SQL_CANDIDATE

datatype step_status = ST_PENDING | ST_IN_PROGRESS | ST_COMPLETED | ST_BLOCKED | ST_SKIPPED

record exec_step =
  es_step_id :: string
  es_title :: string
  es_action_type :: plan_action
  es_tool_name :: "string option"
  es_tool_input :: "(string, json) dict"
  es_request :: "subagent_request option"
  es_status :: step_status
  es_depends_on :: "string list"
  es_execution_count :: int
  es_result_refs :: "string list"
  es_failure_reason :: "string option"

record exec_plan =
  ep_revision :: int
  ep_steps :: "exec_step list"
  ep_current :: "string option"
  ep_summary :: "string option"

definition plan_step :: "string \<Rightarrow> string \<Rightarrow> string \<Rightarrow> string list \<Rightarrow> exec_step" where
  "plan_step sid title tool deps =
     \<lparr>es_step_id = sid, es_title = title, es_action_type = PA_TOOL_CALL, es_tool_name = Some tool,
      es_tool_input = [], es_request = None, es_status = ST_PENDING, es_depends_on = deps,
      es_execution_count = 0, es_result_refs = [], es_failure_reason = None\<rparr>"

definition build_initial_execution_plan :: exec_plan where
  "build_initial_execution_plan =
     \<lparr>ep_revision = 0,
      ep_steps =
        [plan_step ''read_log'' title_read_log ''build_log_digest'' [],
         plan_step ''diagnose'' title_diagnose ''diagnose'' [''read_log''],
         plan_step ''query_metadata'' title_metadata ''query_metadata'' [''diagnose''],
         plan_step ''retrieve_memory'' title_memory ''retrieve_memory'' [''diagnose''],
         plan_step ''generate_candidate'' title_generate ''generate_candidate''
           [''diagnose'', ''query_metadata'', ''retrieve_memory'']],
      ep_current = Some ''read_log'', ep_summary = None\<rparr>"

section \<open>Actions and observations\<close>

datatype action_type =
    TOOL_CALL | UPDATE_PLAN | RUN_SUB_AGENT | PROPOSE_SQL_CANDIDATE | RETURN_NO_SQL | RETURN_HUMAN_REQUIRED

fun action_type_value :: "action_type \<Rightarrow> string" where
  "action_type_value TOOL_CALL = ''TOOL_CALL''"
| "action_type_value UPDATE_PLAN = ''UPDATE_PLAN''"
| "action_type_value RUN_SUB_AGENT = ''RUN_SUB_AGENT''"
| "action_type_value PROPOSE_SQL_CANDIDATE = ''PROPOSE_SQL_CANDIDATE''"
| "action_type_value RETURN_NO_SQL = ''RETURN_NO_SQL''"
| "action_type_value RETURN_HUMAN_REQUIRED = ''RETURN_HUMAN_REQUIRED''"

record agent_action =
  ac_type :: action_type
  ac_tool_name :: "string option"
  ac_tool_input :: "(string, json) dict option"
  ac_plan :: "exec_plan option"
  ac_request :: "subagent_request option"
  ac_candidate_sql :: "string option"
  ac_reason :: "string option"

definition action_fields_ok :: "agent_action \<Rightarrow> bool" where
  "action_fields_ok a =
     (case ac_type a of
        TOOL_CALL \<Rightarrow> ac_tool_name a \<noteq> None \<and> ac_tool_input a \<noteq> None
      | UPDATE_PLAN \<Rightarrow> ac_plan a \<noteq> None
      | RUN_SUB_AGENT \<Rightarrow> ac_request a \<noteq> None
      | PROPOSE_SQL_CANDIDATE \<Rightarrow> has_text (ac_candidate_sql a)
      | RETURN_NO_SQL \<Rightarrow> truthy (ac_reason a)
      | RETURN_HUMAN_REQUIRED \<Rightarrow> truthy (ac_reason a))"

definition mk_agent_action :: "agent_action \<Rightarrow> agent_action outcome" where
  "mk_agent_action a =
     (if action_fields_ok a then Inr a
      else Inl (ValidationError (''invalid fields for action '' @ action_type_value (ac_type a))))"

definition blank_action :: "action_type \<Rightarrow> agent_action" where
  "blank_action t =
     \<lparr>ac_type = t, ac_tool_name = None, ac_tool_input = None, ac_plan = None, ac_request = None,
      ac_candidate_sql = None, ac_reason = None\<rparr>"

datatype obs_status = OB_SUCCEEDED | OB_FAILED | OB_BLOCKED | OB_SKIPPED

fun obs_status_value :: "obs_status \<Rightarrow> string" where
  "obs_status_value OB_SUCCEEDED = ''SUCCEEDED''"
| "obs_status_value OB_FAILED = ''FAILED''"
| "obs_status_value OB_BLOCKED = ''BLOCKED''"
| "obs_status_value OB_SKIPPED = ''SKIPPED''"

record observation =
  ob_id :: string
  ob_action_type :: string
  ob_status :: obs_status
  ob_summary :: string
  ob_artifact_refs :: "string list"
  ob_workspace_keys :: "string list"
  ob_plan_step_id :: "string option"
  ob_created_at :: string

section \<open>Context and run state\<close>

datatype workspace_status = WS_AVAILABLE | WS_FAILED | WS_MISSING

fun workspace_status_value :: "workspace_status \<Rightarrow> string" where
  "workspace_status_value WS_AVAILABLE = ''AVAILABLE''"
| "workspace_status_value WS_FAILED = ''FAILED''"
| "workspace_status_value WS_MISSING = ''MISSING''"

record workspace_value =
  wv_status :: workspace_status
  wv_summary :: "string option"
  wv_artifact_ref :: "string option"
  wv_updated_at :: string

datatype gate_vote = GV_PASS | GV_REJECT | GV_HUMAN_REQUIRED

record gate_feedback =
  gf_gate :: string
  gf_decision :: gate_vote
  gf_reason :: string

datatype candidate_status = CS_NONE | CS_DRAFT | CS_GATE_REJECTED | CS_READY

record candidate_state =
  cs_draft_sql :: "string option"
  cs_draft_ref :: "string option"
  cs_formal_sql :: "string option"
  cs_status :: candidate_status
  cs_feedback :: "gate_feedback list"

definition empty_candidate :: candidate_state where
  "empty_candidate =
     \<lparr>cs_draft_sql = None, cs_draft_ref = None, cs_formal_sql = None, cs_status = CS_NONE, cs_feedback = []\<rparr>"

datatype agent_phase = PH_INIT | PH_DIAGNOSING | PH_PLANNING | PH_GENERATING | PH_GATING | PH_COMPLETED

record agent_context =
  cx_session_id :: string
  cx_attempt_id :: string
  cx_event_key :: string
  cx_original_sql :: string
  cx_error_message :: "string option"
  cx_log_path :: "string option"
  cx_workspace :: "(string, workspace_value) dict"
  cx_plan :: exec_plan
  cx_candidate :: candidate_state
  cx_observations :: "observation list"
  cx_phase :: agent_phase
  cx_last_action :: "agent_action option"
  cx_last_error :: "string option"

datatype run_status = RUNNING | RUN_SUCCEEDED | RUN_NO_SQL | RUN_HUMAN_REQUIRED | RUN_FAILED

record run_state =
  st_started_at :: string
  st_step_count :: int
  st_tool_calls :: int
  st_sub_agent_calls :: int
  st_llm_calls :: int
  st_wall_time_ms :: int
  st_gate_rounds :: int
  st_plan_revisions :: int
  st_no_progress :: int
  st_status :: run_status
  st_stop_reason :: "string option"

definition new_run_state :: "string \<Rightarrow> run_state" where
  "new_run_state now =
     \<lparr>st_started_at = now, st_step_count = 0, st_tool_calls = 0, st_sub_agent_calls = 0, st_llm_calls = 0,
      st_wall_time_ms = 0, st_gate_rounds = 0, st_plan_revisions = 0, st_no_progress = 0,
      st_status = RUNNING, st_stop_reason = None\<rparr>"

record run_limits =
  lm_max_steps :: int
  lm_max_tool_calls :: int
  lm_max_sub_agent_calls :: int
  lm_max_wall_time_ms :: int
  lm_max_plan_revisions :: int
  lm_max_gate_rounds :: int
  lm_max_no_progress :: int

definition default_run_limits :: run_limits where
  "default_run_limits =
     \<lparr>lm_max_steps = 12, lm_max_tool_calls = 10, lm_max_sub_agent_calls = 4, lm_max_wall_time_ms = 240000,
      lm_max_plan_revisions = 6, lm_max_gate_rounds = 1, lm_max_no_progress = 2\<rparr>"

datatype agent_run_status = CANDIDATE_READY | AR_NO_SQL | AR_HUMAN_REQUIRED | AR_FAILED

record run_result =
  rr_status :: agent_run_status
  rr_candidate_sql :: "string option"
  rr_candidate_ref :: "string option"
  rr_risk :: "risk_level option"
  rr_gate_result_ref :: "string option"
  rr_reason :: "string option"
  rr_stop_reason :: "string option"
  rr_plan_revision :: int
  rr_step_count :: int
  rr_trace_ref :: "string option"

section \<open>Tool calls\<close>

datatype tool_status = TS_SUCCEEDED | TS_FAILED | TS_BLOCKED | TS_TIMEOUT | TS_INVALID_INPUT

datatype side_effect_level = READ_ONLY | INTERNAL_ARTIFACT_WRITE | NO_EXTERNAL_SIDE_EFFECT

record tool_spec =
  ts_name :: string
  ts_description :: string
  ts_input_schema :: "(string, json) dict"
  ts_allowed_phases :: "string list"
  ts_side_effect :: side_effect_level

record tool_result =
  tr_tool_name :: string
  tr_status :: tool_status
  tr_summary :: "string option"
  tr_artifact_refs :: "string list"
  tr_workspace_updates :: "(string, workspace_value) dict"
  tr_error_code :: "string option"
  tr_error_message :: "string option"
  tr_started_at :: string
  tr_finished_at :: string

section \<open>Configuration\<close>

record compaction_limits =
  cl_max_calls :: int
  cl_max_output_tokens :: int
  cl_timeout_ms :: int

definition default_compaction_limits :: compaction_limits where
  "default_compaction_limits = \<lparr>cl_max_calls = 2, cl_max_output_tokens = 2000, cl_timeout_ms = 10000\<rparr>"

definition compaction_limits_ok :: "compaction_limits \<Rightarrow> bool" where
  "compaction_limits_ok l \<longleftrightarrow>
     0 \<le> cl_max_calls l \<and> cl_max_calls l \<le> 2 \<and> 1 \<le> cl_max_output_tokens l \<and>
     cl_max_output_tokens l \<le> 2000 \<and> 1 \<le> cl_timeout_ms l \<and> cl_timeout_ms l \<le> 10000"

record agent_config =
  cf_run_limits :: run_limits
  cf_subagent_limits :: subagent_limits
  cf_compaction :: compaction_limits
  cf_memory_max_hits :: int
  cf_memory_scan_budget :: int
  cf_schema_retries :: int
  cf_transient_retries :: int
  cf_planning_timeout_ms :: int
  cf_agentic_enabled :: bool
  cf_llm_main_agent_enabled :: bool

definition default_agent_config :: agent_config where
  "default_agent_config =
     \<lparr>cf_run_limits = default_run_limits, cf_subagent_limits = default_subagent_limits,
      cf_compaction = default_compaction_limits, cf_memory_max_hits = 5, cf_memory_scan_budget = 500,
      cf_schema_retries = 1, cf_transient_retries = 2, cf_planning_timeout_ms = 120000,
      cf_agentic_enabled = True, cf_llm_main_agent_enabled = True\<rparr>"

definition config_fields_ok :: "agent_config \<Rightarrow> bool" where
  "config_fields_ok c \<longleftrightarrow>
     1 \<le> cf_memory_max_hits c \<and> cf_memory_max_hits c \<le> 20 \<and> 1 \<le> cf_memory_scan_budget c \<and>
     0 \<le> cf_schema_retries c \<and> cf_schema_retries c \<le> 1 \<and>
     0 \<le> cf_transient_retries c \<and> cf_transient_retries c \<le> 2 \<and>
     10000 \<le> cf_planning_timeout_ms c \<and> cf_planning_timeout_ms c \<le> 180000"

definition mk_agent_config :: "agent_config \<Rightarrow> agent_config outcome" where
  "mk_agent_config c =
     (if \<not> config_fields_ok c \<or> \<not> compaction_limits_ok (cf_compaction c) \<or>
         \<not> is_ok (mk_subagent_limits (cf_subagent_limits c))
      then Inl (ValidationError ''AgentConfig'')
      else if lm_max_gate_rounds (cf_run_limits c) \<noteq> 1
        then Inl (ValidationError ''max_gate_repair_rounds must equal 1'')
      else if sl_max_steps (cf_subagent_limits c) > lm_max_steps (cf_run_limits c)
        then Inl (ValidationError ''SubAgent steps cannot exceed parent Agent'')
      else if sl_max_tool_calls (cf_subagent_limits c) > lm_max_tool_calls (cf_run_limits c)
        then Inl (ValidationError ''SubAgent tool calls cannot exceed parent Agent'')
      else if sl_max_wall_time_ms (cf_subagent_limits c) > lm_max_wall_time_ms (cf_run_limits c)
        then Inl (ValidationError ''SubAgent wall time cannot exceed parent Agent'')
      else if cl_max_calls (cf_compaction c) > 2 \<or> cl_timeout_ms (cf_compaction c) > 10000
        then Inl (ValidationError ''compaction budget exceeds independent safety ceiling'')
      else Inr c)"

lemma mk_agent_config_ok:
  "mk_agent_config c = Inr c' \<Longrightarrow>
     c' = c \<and> sl_max_steps (cf_subagent_limits c) \<le> lm_max_steps (cf_run_limits c) \<and>
     lm_max_gate_rounds (cf_run_limits c) = 1 \<and> 1 \<le> lm_max_steps (cf_run_limits c)"
  by (auto simp: mk_agent_config_def mk_subagent_limits_def split: if_splits)

lemma default_agent_config_ok: "mk_agent_config default_agent_config = Inr default_agent_config"
  by (simp add: mk_agent_config_def default_agent_config_def config_fields_ok_def
      compaction_limits_ok_def mk_subagent_limits_def default_run_limits_def
      default_subagent_limits_def default_compaction_limits_def)

end
