(* ===== verification/Gates.thy ===== *)
theory Gates
  imports Validation Agent_Models
begin

text \<open>
  \<open>agent/gates/\<close>: the three gates a candidate passes before it may be returned, the aggregation of
  their results, and the gate runner. The result of the whole is that a candidate let through is the
  plan applied to the failed text (up to SQL equivalence), crosses no red line, was let through by the
  reflection, and is the very text whose hash the result carries. Fresh identifiers and times come
  from a stamp (\<open>Core_Models\<close>); nothing depends on them.
\<close>

section \<open>Results\<close>

definition candidate_hash :: "string \<Rightarrow> string" where
  "candidate_hash sql = sha256 sql"

definition note_severity :: "gate_decision \<Rightarrow> risk_level \<Rightarrow> severity" where
  "note_severity d r =
     (if r = BLOCKED then SV_BLOCK
      else if d = GD_REJECT \<or> d = GD_HUMAN_REQUIRED then SV_ERROR else SV_WARNING)"

text \<open>\<open>gate_utils.result\<close>\<close>

definition gate_outcome ::
  "stamp \<Rightarrow> string \<Rightarrow> string \<Rightarrow> gate_decision \<Rightarrow> risk_level \<Rightarrow> string option \<Rightarrow> string option \<Rightarrow>
     string list \<Rightarrow> string list \<Rightarrow> string list \<Rightarrow> gate_result" where
  "gate_outcome s name sql d r code_opt msg failed checked evidence =
     \<lparr>gt_decision = d, gt_risk = r, gt_gate = name, gt_hash = candidate_hash sql,
      gt_feedback =
        (if truthy code_opt \<and> truthy msg
         then [\<lparr>gn_id = ''feedback_'' @ sp_uuid s, gn_gate = name, gn_code = or_text code_opt [],
                gn_severity = note_severity d r, gn_message = or_text msg [], gn_hint = None,
                gn_evidence = [], gn_hash = candidate_hash sql, gn_created_at = sp_now s\<rparr>]
         else []),
      gt_evidence = evidence, gt_checked = checked, gt_failed = failed, gt_created_at = sp_now s\<rparr>"

lemma gate_outcome_fields [simp]:
  "gt_decision (gate_outcome s n sql d r c m f ch ev) = d" "gt_risk (gate_outcome s n sql d r c m f ch ev) = r"
  "gt_hash (gate_outcome s n sql d r c m f ch ev) = candidate_hash sql"
  by (simp_all add: gate_outcome_def)

section \<open>Aggregation\<close>

definition max_risk :: "risk_level list \<Rightarrow> risk_level" where
  "max_risk rs = foldl max (hd rs) (tl rs)"

definition aggregate_decision :: "gate_decision set \<Rightarrow> risk_level \<Rightarrow> bool \<Rightarrow> gate_decision" where
  "aggregate_decision ds risk allow =
     (if risk = BLOCKED \<or> GD_REJECT \<in> ds then GD_REJECT
      else if risk = HIGH \<or> GD_HUMAN_REQUIRED \<in> ds then GD_HUMAN_REQUIRED
      else if risk = MEDIUM then (if allow then GD_PASS_WITH_WARNING else GD_HUMAN_REQUIRED)
      else if GD_PASS_WITH_WARNING \<in> ds then GD_PASS_WITH_WARNING else GD_PASS)"

definition aggregate_results :: "stamp \<Rightarrow> gate_result list \<Rightarrow> bool \<Rightarrow> gate_result outcome" where
  "aggregate_results s rs allow =
     (if rs = [] then Inl (ValueError ''at least one GateResult is required'')
      else let risk = max_risk (map gt_risk rs) in
        Inr \<lparr>gt_decision = aggregate_decision (set (map gt_decision rs)) risk allow, gt_risk = risk,
             gt_gate = ''GateRunner'', gt_hash = gt_hash (hd rs), gt_feedback = concat (map gt_feedback rs),
             gt_evidence = dedup (concat (map gt_evidence rs)),
             gt_checked = dedup (concat (map gt_checked rs)),
             gt_failed = dedup (concat (map gt_failed rs)), gt_created_at = sp_now s\<rparr>)"

lemma foldl_max: "foldl max (a :: risk_level) rs = Max (set (a # rs))"
proof (induction rs arbitrary: a)
  case (Cons r rs)
  then show ?case by (cases "rs = []") (simp_all add: max.assoc)
qed simp

lemma max_risk_Max: "rs \<noteq> [] \<Longrightarrow> max_risk rs = Max (set rs)"
  using foldl_max [of "hd rs" "tl rs"] by (cases rs) (simp_all add: max_risk_def)

definition lets_pass :: "gate_decision \<Rightarrow> bool" where
  "lets_pass d \<longleftrightarrow> d = GD_PASS \<or> d = GD_PASS_WITH_WARNING"

lemma risk_cases: "r \<noteq> BLOCKED \<Longrightarrow> r \<noteq> HIGH \<Longrightarrow> r = LOW \<or> r = MEDIUM"
  by (cases r) simp_all

lemma aggregate_lets_pass:
  "lets_pass (aggregate_decision ds risk allow) \<longleftrightarrow>
     GD_REJECT \<notin> ds \<and> GD_HUMAN_REQUIRED \<notin> ds \<and> (risk = LOW \<or> risk = MEDIUM \<and> allow)"
  by (cases risk) (auto simp: aggregate_decision_def lets_pass_def)

section \<open>The static gate\<close>

text \<open>\<open>RepairPlanBuilder.build\<close>: the existing plan, or one that the planner makes.\<close>

definition build_plan ::
  "(planner_input \<Rightarrow> repair_plan outcome) option \<Rightarrow> gate_request \<Rightarrow> repair_plan outcome" where
  "build_plan planner q =
     (case gq_existing_plan q of
        Some p \<Rightarrow> Inr p
      | None \<Rightarrow>
          (case planner of
             None \<Rightarrow> Inl (ValueError ''RepairPlanner is required when no existing plan is supplied'')
           | Some f \<Rightarrow>
               and_then (f \<lparr>pi_failed_sql = gq_original_sql q, pi_diagnosis = gq_diagnosis q,
                            pi_log_digest = \<lparr>ld_readable = False, ld_matched_categories = [],
                              ld_suspected_engine_error = None,
                              ld_root_cause_summary = dr_root_cause_summary (gq_diagnosis q)\<rparr>,
                            pi_metadata = gq_metadata q, pi_memory = gq_memory q, pi_post_status = None\<rparr>)
                 (\<lambda>p. if \<not> pl_repairable p \<or> pl_actions p = []
                      then Inl (ValueError ''cannot construct a repairable RepairPlan'') else Inr p)))"

text \<open>\<open>SQLDiffBuilder.build\<close>\<close>

definition diff_of_candidate :: "'t sql_engine \<Rightarrow> string \<Rightarrow> string \<Rightarrow> repair_plan \<Rightarrow> diff_summary outcome" where
  "diff_of_candidate en failed_sql candidate p =
     (if strip candidate = [] then Inl (ValueError ''candidate SQL is empty'')
      else build_diff en failed_sql (generated candidate) p)"

definition static_decision :: "bool \<Rightarrow> validation_result \<Rightarrow> gate_decision" where
  "static_decision allow v =
     (case vr_risk v of
        BLOCKED \<Rightarrow> GD_REJECT
      | HIGH \<Rightarrow> GD_HUMAN_REQUIRED
      | MEDIUM \<Rightarrow> (if allow \<and> vr_allow v then GD_PASS_WITH_WARNING else GD_HUMAN_REQUIRED)
      | LOW \<Rightarrow> (if \<not> vr_allow v \<or> \<not> vr_passed v then GD_REJECT else GD_PASS))"

definition static_gate ::
  "'t sql_engine \<Rightarrow> (planner_input \<Rightarrow> repair_plan outcome) option \<Rightarrow> bool \<Rightarrow> stamp \<Rightarrow> gate_request \<Rightarrow>
     static_outcome outcome" where
  "static_gate en planner default_allow s q =
     (let sql = gq_candidate_sql q in
      case and_then (build_plan planner q)
             (\<lambda>p. and_then (diff_of_candidate en (gq_original_sql q) sql p) (\<lambda>d. Inr (p, d))) of
        Inl _ \<Rightarrow>
          Inr \<lparr>so_result = gate_outcome s ''StaticValidationGate'' sql GD_HUMAN_REQUIRED HIGH
                 (Some ''PLAN_OR_DIFF_UNAVAILABLE'') (Some msg_plan_or_diff) [''PLAN_AND_DIFF_AVAILABLE''] [] [],
               so_plan = None, so_diff = None, so_validation = None\<rparr>
      | Inr (p, d) \<Rightarrow>
          and_then (validate_candidate en (gq_allow_medium q \<or> default_allow) (gq_original_sql q) sql p d) (\<lambda>v.
            let dec = static_decision (gq_allow_medium q) v;
                issues = vr_issues v;
                code_opt = (if issues \<noteq> [] then Some (vi_code (hd issues))
                            else if dec = GD_HUMAN_REQUIRED then Some ''RISK_REQUIRES_REVIEW'' else None);
                msg = (if issues \<noteq> [] then Some (vi_message (hd issues))
                       else if dec = GD_HUMAN_REQUIRED then Some (or_text (vr_reason v) msg_risk_review) else None)
            in Inr \<lparr>so_result = gate_outcome s ''StaticValidationGate'' sql dec (vr_risk v) code_opt msg
                      (map vi_code issues)
                      [''REPAIR_PLAN_BOUNDARY'', ''SQL_DIFF_BOUNDARY'', ''VALIDATOR_RED_LINES'']
                      (if truthy (gq_artifact_ref q) then [or_text (gq_artifact_ref q) []] else []),
                    so_plan = Some p, so_diff = Some d, so_validation = Some v\<rparr>))"

section \<open>The semantic gate\<close>

definition semantic_decision :: "bool \<Rightarrow> pre_result \<Rightarrow> gate_decision" where
  "semantic_decision allow r =
     (if pr_decision r = PR_RETURN_SQL \<and> pr_risk r = LOW then GD_PASS
      else if pr_decision r = PR_RETURN_SQL \<and> pr_risk r = MEDIUM
        then (if allow then GD_PASS_WITH_WARNING else GD_HUMAN_REQUIRED)
      else if pr_decision r = PR_REGENERATE then GD_REJECT
      else if pr_decision r = PR_MANUAL_REQUIRED \<or> pr_risk r = HIGH \<or> pr_risk r = MEDIUM then GD_HUMAN_REQUIRED
      else GD_REJECT)"

definition semantic_gate ::
  "(pre_input \<Rightarrow> ('w, pre_result) io) \<Rightarrow> stamp \<Rightarrow> gate_request \<Rightarrow> static_outcome \<Rightarrow> ('w, gate_result) io" where
  "semantic_gate reflect s q static w =
     (let sql = gq_candidate_sql q; name = ''SemanticPreReflectionGate'' in
      case (so_plan static, so_diff static, so_validation static) of
        (Some p, Some d, Some v) \<Rightarrow>
          (case reflect \<lparr>pn_failed_sql = gq_original_sql q, pn_candidate = sql, pn_diagnosis = gq_diagnosis q,
                         pn_plan = p, pn_validation = v, pn_diff = d, pn_metadata = gq_metadata q,
                         pn_memory = gq_memory q\<rparr> w of
             (Inl _, w') \<Rightarrow>
               (Inr (gate_outcome s name sql GD_HUMAN_REQUIRED HIGH (Some ''SEMANTIC_GATE_FAILED'')
                  (Some msg_semantic_failed) [''SEMANTIC_REFLECTION_SUCCEEDED''] [] []), w')
           | (Inr r, w') \<Rightarrow>
               (let dec = semantic_decision (gq_allow_medium q) r;
                    regen = (pr_decision r = PR_REGENERATE);
                    code_opt = (if dec = GD_PASS then None
                                else if regen then Some ''SEMANTIC_REGENERATE'' else Some ''SEMANTIC_REFLECTION_BLOCKED'');
                    joined = join_with ''; '' (pr_reasons r);
                    msg = (if dec = GD_PASS then None
                           else if regen then pr_instruction r
                           else Some (if joined = [] then msg_reflection_default else joined))
                in (Inr (gate_outcome s name sql dec (pr_risk r) code_opt msg (pr_violated r)
                      [''FOLLOWS_REPAIR_PLAN'', ''MINIMAL_CHANGE'', ''SEMANTIC_RISK''] []), w')))
      | _ \<Rightarrow>
          (Inr (gate_outcome s name sql GD_HUMAN_REQUIRED HIGH (Some ''STATIC_EVIDENCE_MISSING'')
             (Some msg_static_evidence) [''STATIC_EVIDENCE_AVAILABLE''] [] []), w))"

section \<open>The output gate\<close>

definition gate_blocks :: "bool \<Rightarrow> gate_result \<Rightarrow> bool" where
  "gate_blocks allow g \<longleftrightarrow>
     gt_decision g \<in> {GD_REJECT, GD_HUMAN_REQUIRED} \<or> gt_risk g \<in> {HIGH, BLOCKED} \<or>
     (gt_risk g = MEDIUM \<and> \<not> allow)"

definition output_gate :: "stamp \<Rightarrow> gate_request \<Rightarrow> gate_result list \<Rightarrow> gate_result" where
  "output_gate s q previous =
     (let sql = gq_candidate_sql q; name = ''OutputContractGate'' in
      if filter (gate_blocks (gq_allow_medium q)) previous \<noteq> []
      then gate_outcome s name sql GD_HUMAN_REQUIRED HIGH (Some ''PRIOR_GATE_NOT_PASS'') (Some msg_prior_gate)
             [''ALL_PRIOR_GATES_PASS''] [] []
      else if strip sql = [] \<or> (\<exists>g \<in> set previous. gt_hash g \<noteq> candidate_hash sql)
      then gate_outcome s name sql GD_HUMAN_REQUIRED HIGH (Some ''OUTPUT_CONTRACT_INVALID'') (Some msg_output_contract)
             [''CANDIDATE_HASH_STABLE''] [] []
      else gate_outcome s name sql GD_PASS LOW None None []
             [''CANDIDATE_NON_EMPTY'', ''CANDIDATE_HASH_STABLE'', ''PRIOR_GATES_PASS''] [])"

section \<open>The runner\<close>

record ('t, 'w) gates =
  ga_engine :: "'t sql_engine"
  ga_planner :: "(planner_input \<Rightarrow> repair_plan outcome) option"
  ga_default_allow :: bool
  ga_reflect :: "pre_input \<Rightarrow> ('w, pre_result) io"

record 'w gate_env =
  ge_last :: "gate_result option"
  ge_order :: "string list"
  ge_world :: 'w

definition stops :: "gate_result \<Rightarrow> bool" where
  "stops g \<longleftrightarrow> gt_decision g = GD_REJECT \<or> gt_decision g = GD_HUMAN_REQUIRED"

definition run_request :: "('t, 'w) gates \<Rightarrow> stamp \<Rightarrow> gate_request \<Rightarrow> ('w gate_env, gate_result) io" where
  "run_request G s q e =
     (let e1 = e\<lparr>ge_order := [''StaticValidationGate'']\<rparr> in
      case static_gate (ga_engine G) (ga_planner G) (ga_default_allow G) s q of
        Inl err \<Rightarrow> (Inl err, e1)
      | Inr static \<Rightarrow>
          if stops (so_result static) then (Inr (so_result static), e1\<lparr>ge_last := Some (so_result static)\<rparr>)
          else let e2 = e1\<lparr>ge_order := ge_order e1 @ [''SemanticPreReflectionGate'']\<rparr> in
            (case semantic_gate (ga_reflect G) s q static (ge_world e2) of
               (Inl err, w) \<Rightarrow> (Inl err, e2\<lparr>ge_world := w\<rparr>)
             | (Inr semantic, w) \<Rightarrow>
                 if stops semantic then (Inr semantic, e2\<lparr>ge_world := w, ge_last := Some semantic\<rparr>)
                 else let e3 = e2\<lparr>ge_world := w, ge_order := ge_order e2 @ [''OutputContractGate'']\<rparr>;
                          out = output_gate s q [so_result static, semantic]
                      in case aggregate_results s [so_result static, semantic, out] (gq_allow_medium q) of
                           Inl err \<Rightarrow> (Inl err, e3)
                         | Inr agg \<Rightarrow> (Inr agg, e3\<lparr>ge_last := Some agg\<rparr>)))"

text \<open>What a pass of the whole means.\<close>

definition released :: "('t, 'w) gates \<Rightarrow> gate_request \<Rightarrow> gate_result \<Rightarrow> bool" where
  "released G q g \<longleftrightarrow>
     (\<exists>p d v w r w'.
        build_plan (ga_planner G) q = Inr p \<and>
        diff_of_candidate (ga_engine G) (gq_original_sql q) (gq_candidate_sql q) p = Inr d \<and>
        candidate_matches_plan (ga_engine G) (gq_original_sql q) (gq_candidate_sql q) p = Inr True \<and>
        \<not> crosses_red_line (gq_original_sql q) (gq_candidate_sql q) p d \<and>
        (plan_risk p = LOW \<or> plan_risk p = MEDIUM \<and> gq_allow_medium q) \<and>
        vr_allow v \<and>
        ga_reflect G \<lparr>pn_failed_sql = gq_original_sql q, pn_candidate = gq_candidate_sql q,
          pn_diagnosis = gq_diagnosis q, pn_plan = p, pn_validation = v, pn_diff = d,
          pn_metadata = gq_metadata q, pn_memory = gq_memory q\<rparr> w = (Inr r, w') \<and>
        pr_decision r = PR_RETURN_SQL \<and> (pr_risk r = LOW \<or> pr_risk r = MEDIUM \<and> gq_allow_medium q)) \<and>
     strip (gq_candidate_sql q) \<noteq> [] \<and> gt_hash g = candidate_hash (gq_candidate_sql q)"

lemma static_decision_passes:
  "validate_candidate en (allow \<or> dflt) f c p d = Inr v \<Longrightarrow>
     static_decision allow v \<notin> {GD_REJECT, GD_HUMAN_REQUIRED} \<Longrightarrow>
     vr_allow v \<and> (vr_risk v = LOW \<or> vr_risk v = MEDIUM \<and> allow)"
  by (cases "vr_risk v") (auto simp: static_decision_def split: if_splits)

lemma static_gate_passes:
  assumes run: "static_gate en planner dflt s q = Inr o1" and go: "\<not> stops (so_result o1)"
  shows "\<exists>p d v. so_plan o1 = Some p \<and> so_diff o1 = Some d \<and> so_validation o1 = Some v \<and>
    build_plan planner q = Inr p \<and>
    diff_of_candidate en (gq_original_sql q) (gq_candidate_sql q) p = Inr d \<and>
    candidate_matches_plan en (gq_original_sql q) (gq_candidate_sql q) p = Inr True \<and>
    \<not> crosses_red_line (gq_original_sql q) (gq_candidate_sql q) p d \<and>
    (plan_risk p = LOW \<or> plan_risk p = MEDIUM \<and> gq_allow_medium q) \<and> vr_allow v \<and>
    gt_risk (so_result o1) = plan_risk p \<and> gt_hash (so_result o1) = candidate_hash (gq_candidate_sql q)"
proof (cases "and_then (build_plan planner q)
    (\<lambda>p. and_then (diff_of_candidate en (gq_original_sql q) (gq_candidate_sql q) p) (\<lambda>d. Inr (p, d)))")
  case (Inl err)
  then show ?thesis using run go by (auto simp: static_gate_def Let_def stops_def)
next
  case (Inr pd)
  then obtain p d where pd: "pd = (p, d)" "build_plan planner q = Inr p"
      "diff_of_candidate en (gq_original_sql q) (gq_candidate_sql q) p = Inr d"
    by (auto simp: and_then_Inr_iff)
  obtain v where v: "validate_candidate en (gq_allow_medium q \<or> dflt) (gq_original_sql q) (gq_candidate_sql q) p d = Inr v"
    using run Inr pd by (auto simp: static_gate_def Let_def and_then_Inr_iff)
  have fields: "so_plan o1 = Some p \<and> so_diff o1 = Some d \<and> so_validation o1 = Some v \<and>
      gt_decision (so_result o1) = static_decision (gq_allow_medium q) v \<and>
      gt_risk (so_result o1) = vr_risk v \<and> gt_hash (so_result o1) = candidate_hash (gq_candidate_sql q)"
    using run Inr pd v by (auto simp: static_gate_def Let_def)
  then have "static_decision (gq_allow_medium q) v \<notin> {GD_REJECT, GD_HUMAN_REQUIRED}"
    using go by (simp add: stops_def)
  note allow = static_decision_passes [OF v this]
  note checked = validate_candidate_allows [OF v conjunct1 [OF allow]]
  then have "plan_risk p = LOW \<or> plan_risk p = MEDIUM \<and> gq_allow_medium q"
    using allow by simp
  with checked fields pd allow show ?thesis by metis
qed

lemma semantic_gate_passes:
  assumes "semantic_gate reflect s q o1 w = (Inr g, w')" "\<not> stops g"
    and "so_plan o1 = Some p" "so_diff o1 = Some d" "so_validation o1 = Some v"
  shows "\<exists>r. reflect \<lparr>pn_failed_sql = gq_original_sql q, pn_candidate = gq_candidate_sql q,
      pn_diagnosis = gq_diagnosis q, pn_plan = p, pn_validation = v, pn_diff = d,
      pn_metadata = gq_metadata q, pn_memory = gq_memory q\<rparr> w = (Inr r, w') \<and>
    pr_decision r = PR_RETURN_SQL \<and> (pr_risk r = LOW \<or> pr_risk r = MEDIUM \<and> gq_allow_medium q)"
  using assms
  by (auto simp: semantic_gate_def Let_def stops_def semantic_decision_def split: prod.splits sum.splits if_splits)

lemma output_gate_passes:
  "\<not> stops (output_gate s q gs) \<Longrightarrow>
     strip (gq_candidate_sql q) \<noteq> [] \<and> (\<forall>g \<in> set gs. gt_hash g = candidate_hash (gq_candidate_sql q))"
  by (auto simp: output_gate_def Let_def stops_def split: if_splits)

text \<open>The runner lets a candidate pass only if it is released, after all three gates in their order.\<close>

lemma run_request_released:
  assumes run: "run_request G s q e = (Inr g, e')" and pass: "lets_pass (gt_decision g)"
  shows "released G q g \<and> ge_last e' = Some g \<and>
    ge_order e' = [''StaticValidationGate'', ''SemanticPreReflectionGate'', ''OutputContractGate''] \<and>
    (gt_decision g = GD_PASS_WITH_WARNING \<and> gt_risk g = MEDIUM \<longrightarrow> gq_allow_medium q)"
proof -
  obtain o1 where o1: "static_gate (ga_engine G) (ga_planner G) (ga_default_allow G) s q = Inr o1"
    using run by (cases "static_gate (ga_engine G) (ga_planner G) (ga_default_allow G) s q")
      (auto simp: run_request_def Let_def)
  have go1: "\<not> stops (so_result o1)"
    using run pass o1 by (auto simp: run_request_def Let_def stops_def lets_pass_def)
  obtain p d v where pdv: "so_plan o1 = Some p" "so_diff o1 = Some d" "so_validation o1 = Some v"
    "build_plan (ga_planner G) q = Inr p"
    "diff_of_candidate (ga_engine G) (gq_original_sql q) (gq_candidate_sql q) p = Inr d"
    "candidate_matches_plan (ga_engine G) (gq_original_sql q) (gq_candidate_sql q) p = Inr True"
    "\<not> crosses_red_line (gq_original_sql q) (gq_candidate_sql q) p d"
    "plan_risk p = LOW \<or> plan_risk p = MEDIUM \<and> gq_allow_medium q" "vr_allow v"
    "gt_hash (so_result o1) = candidate_hash (gq_candidate_sql q)"
    using static_gate_passes [OF o1 go1] by blast
  obtain y w' where sem: "semantic_gate (ga_reflect G) s q o1 (ge_world e) = (y, w')" by fastforce
  then obtain g2 where g2: "y = Inr g2" using run o1 go1 by (cases y) (auto simp: run_request_def Let_def)
  have go2: "\<not> stops g2"
    using run pass o1 go1 sem g2 by (auto simp: run_request_def Let_def stops_def lets_pass_def)
  from semantic_gate_passes [OF sem [unfolded g2] go2 pdv(1,2,3)]
  obtain r where r: "ga_reflect G \<lparr>pn_failed_sql = gq_original_sql q, pn_candidate = gq_candidate_sql q,
      pn_diagnosis = gq_diagnosis q, pn_plan = p, pn_validation = v, pn_diff = d,
      pn_metadata = gq_metadata q, pn_memory = gq_memory q\<rparr> (ge_world e) = (Inr r, w')"
    "pr_decision r = PR_RETURN_SQL" "pr_risk r = LOW \<or> pr_risk r = MEDIUM \<and> gq_allow_medium q"
    by blast
  let ?rs = "[so_result o1, g2, output_gate s q [so_result o1, g2]]"
  have agg: "aggregate_results s ?rs (gq_allow_medium q) = Inr g"
    and e': "ge_last e' = Some g"
      "ge_order e' = [''StaticValidationGate'', ''SemanticPreReflectionGate'', ''OutputContractGate'']"
    using run o1 go1 sem g2 go2 by (auto simp: run_request_def Let_def split: sum.splits)
  have dec: "gt_decision g = aggregate_decision (set (map gt_decision ?rs)) (gt_risk g) (gq_allow_medium q)"
    and hash: "gt_hash g = gt_hash (so_result o1)"
    using agg by (auto simp: aggregate_results_def Let_def)
  have ok: "GD_REJECT \<notin> set (map gt_decision ?rs) \<and> GD_HUMAN_REQUIRED \<notin> set (map gt_decision ?rs) \<and>
      (gt_risk g = LOW \<or> gt_risk g = MEDIUM \<and> gq_allow_medium q)"
    using pass unfolding dec by (simp add: aggregate_lets_pass)
  then have "\<not> stops (output_gate s q [so_result o1, g2])" by (auto simp: stops_def)
  from output_gate_passes [OF this] have "strip (gq_candidate_sql q) \<noteq> []" by simp
  then have "released G q g"
    unfolding released_def using pdv r hash by metis
  with e' ok show ?thesis by auto
qed

text \<open>What the reflection keeps of the world, the whole request keeps.\<close>

lemma semantic_gate_preserves:
  assumes "\<And>x. preserves Q (reflect x)"
  shows "preserves Q (semantic_gate reflect s q o1)"
proof -
  have "Q w \<Longrightarrow> Q (snd (reflect x w))" for x w using assms unfolding preserves_def by blast
  then have step: "Q w \<Longrightarrow> reflect x w = (r, w') \<Longrightarrow> Q w'" for x w r w' by (metis snd_conv)
  show ?thesis
    unfolding preserves_def semantic_gate_def Let_def
    by (auto split: option.split prod.split sum.split dest: step)
qed

lemma run_request_preserves:
  assumes "\<And>x. preserves Q (ga_reflect G x)" "Q (ge_world g)"
  shows "Q (ge_world (snd (run_request G s q g)))"
proof -
  have "semantic_gate (ga_reflect G) s q o1 (ge_world g) = (y, w') \<Longrightarrow> Q w'" for o1 y w'
    using semantic_gate_preserves [of Q "ga_reflect G" s q o1] assms unfolding preserves_def by (metis snd_conv)
  then show ?thesis using assms(2)
    by (auto simp: run_request_def Let_def split: sum.split prod.split)
qed

end
