(* ===== verification/Session_Invariants.thy ===== *)
theory Session_Invariants
  imports Session_Store
begin

text \<open>
  What the session store keeps true. A session's attempt ids are the attempt names 1..n in order,
  its event keys are distinct, an event with an attempt points to a stored attempt of the session
  that points back to the event, every attempt id has its stored attempt, and the latest candidate belongs
  to an attempt of the session.
  \<open>disk_ok\<close> says this of every stored session; \<open>synced\<close> says that the session object in
  memory is the stored one. Every operation of the store keeps both.
\<close>

section \<open>The stores of the disk\<close>

definition put_session_at :: "string \<Rightarrow> repair_session \<Rightarrow> 'a disk_scheme \<Rightarrow> 'a disk_scheme" where
  "put_session_at k s d = d\<lparr>d_sessions := (d_sessions d)(k := Some s)\<rparr>"

interpretation session_files: keyed_store put_session_at d_sessions
  by unfold_locales (simp add: put_session_at_def)

definition put_attempt_at ::
  "string \<times> string \<Rightarrow> repair_attempt \<Rightarrow> 'a disk_scheme \<Rightarrow> 'a disk_scheme" where
  "put_attempt_at k a d = d\<lparr>d_attempts := (d_attempts d)(k := Some a)\<rparr>"

interpretation attempt_files: keyed_store put_attempt_at d_attempts
  by unfold_locales (simp add: put_attempt_at_def)

lemma put_session_alt: "put_session s = put_session_at (rs_session_id s) s"
  by (simp add: put_session_def put_session_at_def fun_eq_iff)

lemma put_attempt_alt: "put_attempt s a = put_attempt_at (rs_session_id s, ra_attempt_id a) a"
  by (simp add: put_attempt_def put_attempt_at_def fun_eq_iff)

lemma put_frame [simp, frame]:
  "d_attempts (put_session s d) = d_attempts d" "d_files (put_session s d) = d_files d"
  "d_trace (put_session s d) = d_trace d" "d_base (put_session s d) = d_base d"
  "d_sessions (put_attempt s a d) = d_sessions d" "d_files (put_attempt s a d) = d_files d"
  "d_trace (put_attempt s a d) = d_trace d" "d_base (put_attempt s a d) = d_base d"
  by (simp_all add: put_session_def put_attempt_def)

lemma d_sessions_put [simp]:
  "d_sessions (put_session s d) k = (if k = rs_session_id s then Some s else d_sessions d k)"
  by (simp add: put_session_def)

lemma d_attempts_put [simp]:
  "d_attempts (put_attempt s a d) k =
     (if k = (rs_session_id s, ra_attempt_id a) then Some a else d_attempts d k)"
  by (simp add: put_attempt_def)

section \<open>The invariant\<close>

definition record_ok :: "'a disk_scheme \<Rightarrow> repair_session \<Rightarrow> event_record \<Rightarrow> bool" where
  "record_ok d s r \<longleftrightarrow>
     er_session_id r = rs_session_id s \<and>
     (\<forall>a. er_attempt_id r = Some a \<longrightarrow>
        er_status r = US_FAILED \<and> a \<in> set (rs_attempt_ids s) \<and>
        (\<exists>att. d_attempts d (rs_session_id s, a) = Some att \<and> ra_attempt_id att = a \<and>
           ra_source_event_key att = er_event_key r))"

definition session_ok :: "'a disk_scheme \<Rightarrow> repair_session \<Rightarrow> bool" where
  "session_ok d s \<longleftrightarrow>
     rs_attempt_ids s = attempt_names (length (rs_attempt_ids s)) \<and>
     distinct (map er_event_key (rs_events s)) \<and>
     (\<forall>r \<in> set (rs_events s). record_ok d s r) \<and>
     (\<forall>a \<in> set (rs_attempt_ids s). \<exists>att. d_attempts d (rs_session_id s, a) = Some att \<and> ra_attempt_id att = a) \<and>
     (rs_latest_sql_candidate s = None \<longleftrightarrow> rs_latest_attempt_id s = None) \<and>
     (\<forall>a. rs_latest_attempt_id s = Some a \<longrightarrow> a \<in> set (rs_attempt_ids s))"

definition disk_ok :: "'a disk_scheme \<Rightarrow> bool" where
  "disk_ok d \<longleftrightarrow>
     (\<forall>k s. d_sessions d k = Some s \<longrightarrow> rs_session_id s = k \<and> session_ok d s) \<and>
     (\<forall>k a. d_attempts d (k, a) \<noteq> None \<longrightarrow> (\<exists>s. d_sessions d k = Some s \<and> a \<in> set (rs_attempt_ids s)))"

definition synced :: "'a disk_scheme \<Rightarrow> repair_session \<Rightarrow> bool" where
  "synced d s \<longleftrightarrow> d_sessions d (rs_session_id s) = Some s"

lemma disk_okD:
  "disk_ok d \<Longrightarrow> synced d s \<Longrightarrow> session_ok d s"
  by (simp add: disk_ok_def synced_def)

lemma disk_okI:
  assumes "\<And>k s. d_sessions d k = Some s \<Longrightarrow> rs_session_id s = k"
    and "\<And>k s. d_sessions d k = Some s \<Longrightarrow> session_ok d s"
    and "\<And>k a. d_attempts d (k, a) \<noteq> None \<Longrightarrow>
      \<exists>s. d_sessions d k = Some s \<and> a \<in> set (rs_attempt_ids s)"
  shows "disk_ok d"
  unfolding disk_ok_def using assms by blast

lemma disk_ok_id: "disk_ok d \<Longrightarrow> d_sessions d k = Some s \<Longrightarrow> rs_session_id s = k"
  unfolding disk_ok_def by blast

lemma disk_ok_session: "disk_ok d \<Longrightarrow> d_sessions d k = Some s \<Longrightarrow> session_ok d s"
  unfolding disk_ok_def by blast

lemma disk_ok_attempt:
  "disk_ok d \<Longrightarrow> d_attempts d (k, a) \<noteq> None \<Longrightarrow>
     \<exists>s. d_sessions d k = Some s \<and> a \<in> set (rs_attempt_ids s)"
  unfolding disk_ok_def by blast

lemma session_ok_put_session [simp]: "session_ok (put_session s' d) s \<longleftrightarrow> session_ok d s"
  by (simp add: session_ok_def record_ok_def)

text \<open>
  Saving a good session keeps the disk good, provided the session stored so far under the id, if
  any, loses no attempt.
\<close>

lemma disk_ok_put_session_gen:
  assumes ok: "disk_ok d" "session_ok d s'"
    and grow: "\<And>s. d_sessions d (rs_session_id s') = Some s \<Longrightarrow> set (rs_attempt_ids s) \<subseteq> set (rs_attempt_ids s')"
  shows "disk_ok (put_session s' d) \<and> synced (put_session s' d) s'"
proof (rule conjI)
  show "disk_ok (put_session s' d)"
  proof (rule disk_okI)
    fix k s assume "d_sessions (put_session s' d) k = Some s"
    then show "rs_session_id s = k"
      using disk_ok_id [OF ok(1), of k s] by (simp split: if_splits)
  next
    fix k s assume "d_sessions (put_session s' d) k = Some s"
    then show "session_ok (put_session s' d) s"
      using disk_ok_session [OF ok(1), of k s] ok(2) by (simp split: if_splits)
  next
    fix k a assume "d_attempts (put_session s' d) (k, a) \<noteq> None"
    then obtain s where s: "d_sessions d k = Some s" "a \<in> set (rs_attempt_ids s)"
      using disk_ok_attempt [OF ok(1), of k a] by auto
    show "\<exists>s. d_sessions (put_session s' d) k = Some s \<and> a \<in> set (rs_attempt_ids s)"
    proof (cases "k = rs_session_id s'")
      case True
      with s grow [of s] have "a \<in> set (rs_attempt_ids s')" by blast
      with True show ?thesis by simp
    qed (use s in simp)
  qed
qed (simp add: synced_def)

lemma disk_ok_put_session:
  assumes "disk_ok d" "session_ok d s'" "synced d s" "rs_session_id s' = rs_session_id s"
    and "set (rs_attempt_ids s) \<subseteq> set (rs_attempt_ids s')"
  shows "disk_ok (put_session s' d) \<and> synced (put_session s' d) s'"
  using assms by (intro disk_ok_put_session_gen) (simp_all add: synced_def)

lemma disk_ok_put_new_session:
  assumes "disk_ok d" "session_ok d s'" "d_sessions d (rs_session_id s') = None"
  shows "disk_ok (put_session s' d) \<and> synced (put_session s' d) s'"
  using assms by (intro disk_ok_put_session_gen) simp_all

text \<open>Saving an attempt of the session that keeps its id and its source event.\<close>

definition attempt_of :: "'a disk_scheme \<Rightarrow> repair_session \<Rightarrow> repair_attempt \<Rightarrow> bool" where
  "attempt_of d s a \<longleftrightarrow>
     (\<exists>b. d_attempts d (rs_session_id s, ra_attempt_id a) = Some b \<and>
        ra_attempt_id b = ra_attempt_id a \<and> ra_source_event_key b = ra_source_event_key a)"

lemma record_ok_put_attempt:
  assumes "record_ok d t r" "attempt_of d s a"
  shows "record_ok (put_attempt s a d) t r"
proof -
  obtain b where b: "d_attempts d (rs_session_id s, ra_attempt_id a) = Some b"
    "ra_attempt_id b = ra_attempt_id a" "ra_source_event_key b = ra_source_event_key a"
    using assms(2) by (auto simp: attempt_of_def)
  show ?thesis
    unfolding record_ok_def
  proof (intro conjI allI impI)
    show "er_session_id r = rs_session_id t" using assms(1) by (simp add: record_ok_def)
    fix x assume x: "er_attempt_id r = Some x"
    with assms(1) show "er_status r = US_FAILED" "x \<in> set (rs_attempt_ids t)"
      by (simp_all add: record_ok_def)
    from x assms(1) obtain att where att: "d_attempts d (rs_session_id t, x) = Some att"
      "ra_attempt_id att = x" "ra_source_event_key att = er_event_key r"
      by (auto simp: record_ok_def)
    show "\<exists>att. d_attempts (put_attempt s a d) (rs_session_id t, x) = Some att \<and>
        ra_attempt_id att = x \<and> ra_source_event_key att = er_event_key r"
      using att b by (cases "(rs_session_id t, x) = (rs_session_id s, ra_attempt_id a)") auto
  qed
qed

lemma disk_ok_put_attempt:
  assumes "disk_ok d" "synced d s" "attempt_of d s a"
  shows "disk_ok (put_attempt s a d) \<and> synced (put_attempt s a d) s"
proof -
  have keep: "session_ok (put_attempt s a d) t" if "session_ok d t" for t
    using that assms(3) by (auto simp: session_ok_def intro: record_ok_put_attempt)
  have there: "d_attempts d (rs_session_id s, ra_attempt_id a) \<noteq> None"
    using assms(3) by (auto simp: attempt_of_def)
  have "disk_ok (put_attempt s a d)"
  proof (rule disk_okI)
    fix k t assume "d_sessions (put_attempt s a d) k = Some t"
    then show "rs_session_id t = k" using disk_ok_id [OF assms(1)] by simp
  next
    fix k t assume "d_sessions (put_attempt s a d) k = Some t"
    then show "session_ok (put_attempt s a d) t" using disk_ok_session [OF assms(1)] keep by simp
  next
    fix k b assume "d_attempts (put_attempt s a d) (k, b) \<noteq> None"
    then have "d_attempts d (k, b) \<noteq> None" using there by (auto split: if_splits)
    then show "\<exists>t. d_sessions (put_attempt s a d) k = Some t \<and> b \<in> set (rs_attempt_ids t)"
      using disk_ok_attempt [OF assms(1)] by simp
  qed
  then show ?thesis using assms(2) by (simp add: synced_def)
qed

section \<open>The operations keep it\<close>

lemma find_event_Some: "find_event s k = Some r \<Longrightarrow> r \<in> set (rs_events s) \<and> er_event_key r = k"
  by (auto simp: find_event_def dest: find_Some_in)

lemma find_event_None: "find_event s k = None \<longleftrightarrow> k \<notin> er_event_key ` set (rs_events s)"
  by (auto simp: find_event_def find_None_iff_all)

lemma session_ok_new_session: "session_ok d (new_session base e now)"
  by (simp add: session_ok_def new_session_def Let_def)

lemma load_or_create_ok:
  assumes "disk_ok d"
  shows "\<exists>s d'. load_or_create_for_event e now d = (Inr s, d') \<and> disk_ok d' \<and> synced d' s \<and>
    rs_session_id s = session_id_for_task (ev_id e) \<and> d_attempts d' = d_attempts d \<and> d_files d' = d_files d"
proof (cases "d_sessions d (session_id_for_task (ev_id e))")
  case None
  let ?s = "new_session (d_base d) e now"
  have "rs_session_id ?s = session_id_for_task (ev_id e)"
    by (simp add: new_session_def Let_def)
  then show ?thesis
    using None disk_ok_put_new_session [OF assms session_ok_new_session [of d "d_base d" e now]]
    by (simp add: load_or_create_for_event_def bind_def load_for_task_def save_session_def)
next
  case (Some s)
  with assms have s: "session_ok d s" "rs_session_id s = session_id_for_task (ev_id e)"
    by (auto simp: disk_ok_def)
  then have "validate_candidate_pair s = Inr s"
    by (auto simp: session_ok_def validate_candidate_pair_def)
  with Some s assms show ?thesis
    by (simp add: load_or_create_for_event_def bind_def load_for_task_def synced_def)
qed

lemma replace_event_keys:
  "replace_event r xs = Some ys \<Longrightarrow> map er_event_key ys = map er_event_key xs"
  by (induction xs arbitrary: ys) (auto split: if_splits)

lemma replace_event_set:
  "replace_event r xs = Some ys \<Longrightarrow> distinct (map er_event_key xs) \<Longrightarrow>
     set ys = insert r {x \<in> set xs. er_event_key x \<noteq> er_event_key r}"
proof (induction xs arbitrary: ys)
  case Nil
  then show ?case by simp
next
  case (Cons x xs)
  have "er_event_key x \<notin> er_event_key ` set xs" using Cons.prems(2) by simp
  then have other: "y \<in> set xs \<Longrightarrow> er_event_key y \<noteq> er_event_key x" for y by (metis image_eqI)
  show ?case
  proof (cases "er_event_key x = er_event_key r")
    case True
    with Cons.prems(1) have ys: "ys = r # xs" by simp
    have "{y \<in> set (x # xs). er_event_key y \<noteq> er_event_key r} = set xs"
      unfolding True [symmetric] using other by fastforce
    with ys show ?thesis by simp
  next
    case False
    with Cons.prems(1) obtain zs where "replace_event r xs = Some zs" "ys = x # zs" by auto
    with False Cons show ?thesis by auto
  qed
qed

lemma replace_event_None: "replace_event r xs = None \<longleftrightarrow> er_event_key r \<notin> er_event_key ` set xs"
  by (induction xs) auto

lemma append_upstream_event_ok:
  assumes "disk_ok d" "synced d s" "er_session_id r = rs_session_id s"
    and "er_attempt_id r = None"
  shows "\<exists>s' d'. append_upstream_event s r now d = (Inr s', d') \<and> disk_ok d' \<and> synced d' s' \<and>
    rs_session_id s' = rs_session_id s \<and> find_event s' (er_event_key r) \<noteq> None \<and>
    d_attempts d' = d_attempts d \<and> d_files d' = d_files d"
proof (cases "find_event s (er_event_key r)")
  case (Some r')
  with assms show ?thesis by (auto simp: append_upstream_event_def)
next
  case None
  let ?s = "s\<lparr>rs_events := rs_events s @ [r], rs_updated_at := now\<rparr>"
  have "session_ok d s" using assms by (simp add: disk_okD)
  then have "session_ok d ?s"
    using None assms by (simp add: session_ok_def record_ok_def find_event_None)
  then have "disk_ok (put_session ?s d) \<and> synced (put_session ?s d) ?s"
    using assms by (intro disk_ok_put_session) auto
  moreover have "find_event ?s (er_event_key r) \<noteq> None"
    by (simp add: find_event_None)
  ultimately show ?thesis
    using None by (simp add: append_upstream_event_def Let_def seq_def bind_def save_session_def)
qed

lemma save_event_record_ok:
  assumes "disk_ok d" "synced d s" "record_ok d s r" "er_event_key r \<in> er_event_key ` set (rs_events s)"
  shows "\<exists>s' d'. save_event_record s r now d = (Inr s', d') \<and> disk_ok d' \<and> synced d' s' \<and>
    d' = put_session s' d \<and> rs_session_id s' = rs_session_id s \<and> rs_attempt_ids s' = rs_attempt_ids s \<and>
    set (rs_events s') = insert r {x \<in> set (rs_events s). er_event_key x \<noteq> er_event_key r} \<and>
    map er_event_key (rs_events s') = map er_event_key (rs_events s)"
proof -
  obtain ys where ys: "replace_event r (rs_events s) = Some ys"
    using assms(4) by (cases "replace_event r (rs_events s)") (auto simp: replace_event_None)
  let ?s = "s\<lparr>rs_events := ys, rs_updated_at := now\<rparr>"
  have ok: "session_ok d s" using assms by (simp add: disk_okD)
  then have set: "set ys = insert r {x \<in> set (rs_events s). er_event_key x \<noteq> er_event_key r}"
    using ys by (auto simp: session_ok_def dest!: replace_event_set)
  moreover have "\<forall>x \<in> set ys. record_ok d ?s x"
    using set ok assms(3) by (auto simp: session_ok_def record_ok_def)
  ultimately have "session_ok d ?s"
    using ok by (simp add: session_ok_def replace_event_keys [OF ys])
  then have "disk_ok (put_session ?s d) \<and> synced (put_session ?s d) ?s"
    using assms by (intro disk_ok_put_session) auto
  then show ?thesis
    using ys set replace_event_keys [OF ys]
    by (simp add: save_event_record_def Let_def seq_def bind_def save_session_def)
qed

lemma finish_event_ok:
  assumes "disk_ok d" "synced d s" "find_event s k = Some r"
  shows "\<exists>s' d'. finish_event s r ref c st now d = (Inr s', d') \<and> disk_ok d' \<and> synced d' s' \<and>
    d' = put_session s' d \<and> rs_session_id s' = rs_session_id s \<and> rs_attempt_ids s' = rs_attempt_ids s"
proof -
  let ?r = "r\<lparr>er_processing_status := st, er_result_ref := ref, er_error_code := c, er_finished_at := Some now\<rparr>"
  have r: "r \<in> set (rs_events s)" using assms(3) by (simp add: find_event_Some)
  moreover have "session_ok d s" using assms by (simp add: disk_okD)
  ultimately have "record_ok d s ?r" by (auto simp: session_ok_def record_ok_def)
  moreover have "er_event_key ?r \<in> er_event_key ` set (rs_events s)" using r by simp
  ultimately show ?thesis
    using save_event_record_ok [OF assms(1,2)] unfolding finish_event_def by blast
qed

text \<open>The core step: a FAILED event gets its attempt.\<close>

lemma create_attempt_ok:
  assumes ok: "disk_ok d" "synced d s" and r: "find_event s k = Some r"
    and fresh: "er_status r = US_FAILED" "er_attempt_id r = None"
  shows "\<exists>s' att d'. create_attempt s r now d = (Inr (s', att), d') \<and> disk_ok d' \<and> synced d' s' \<and>
    att = new_attempt s r now \<and> rs_session_id s' = rs_session_id s \<and>
    rs_attempt_ids s' = rs_attempt_ids s @ [ra_attempt_id att] \<and>
    ra_attempt_id att \<notin> set (rs_attempt_ids s) \<and>
    d_attempts d' = (d_attempts d)((rs_session_id s, ra_attempt_id att) \<mapsto> att)"
proof -
  define att where "att = new_attempt s r now"
  define r' where "r' = r\<lparr>er_attempt_id := Some (ra_attempt_id att), er_processing_status := EP_PROCESSING\<rparr>"
  define s1 where "s1 = s\<lparr>rs_attempt_ids := rs_attempt_ids s @ [ra_attempt_id att], rs_updated_at := now\<rparr>"
  have sok: "session_ok d s" using ok by (simp add: disk_okD)
  have rin: "r \<in> set (rs_events s)" using r by (simp add: find_event_Some)
  have name: "ra_attempt_id att = attempt_name (Suc (length (rs_attempt_ids s)))"
    and key: "ra_source_event_key att = er_event_key r"
    by (simp_all add: att_def new_attempt_def Let_def)
  have new: "ra_attempt_id att \<notin> set (rs_attempt_ids s)"
    using sok attempt_name_fresh [of "length (rs_attempt_ids s)"] by (simp add: session_ok_def name)
  obtain ys where ys: "replace_event r' (rs_events s) = Some ys"
    using rin by (cases "replace_event r' (rs_events s)") (auto simp: replace_event_None r'_def)
  have set: "set ys = insert r' {x \<in> set (rs_events s). er_event_key x \<noteq> er_event_key r'}"
    using ys sok by (auto simp: session_ok_def dest!: replace_event_set)
  define s2 where "s2 = s1\<lparr>rs_events := ys, rs_updated_at := now\<rparr>"
  define d2 where "d2 = put_session s2 (put_attempt s1 att d)"
  have sid: "rs_session_id s2 = rs_session_id s" "rs_session_id s1 = rs_session_id s"
    by (simp_all add: s2_def s1_def)
  have run: "create_attempt s r now d = (Inr (s2, att), d2)"
    using fresh ys
    by (simp add: create_attempt_def Let_def seq_def bind_def save_attempt_def save_event_record_def
        save_session_def d2_def s2_def s1_def r'_def att_def)
  have atts: "d_attempts d2 = (d_attempts d)((rs_session_id s, ra_attempt_id att) \<mapsto> att)"
    by (auto simp: d2_def sid)
  have "\<forall>x \<in> set ys. record_ok d2 s2 x"
  proof
    fix x assume "x \<in> set ys"
    then consider "x = r'" | "x \<in> set (rs_events s)" "er_event_key x \<noteq> er_event_key r" 
      by (auto simp: set r'_def)
    then show "record_ok d2 s2 x"
    proof cases
      case 1
      have "er_session_id r = rs_session_id s" using sok rin by (simp add: session_ok_def record_ok_def)
      then show ?thesis using 1 fresh key by (simp add: record_ok_def atts sid r'_def s2_def s1_def)
    next
      case 2
      with sok have "record_ok d s x" by (simp add: session_ok_def)
      then show ?thesis using new by (auto simp: record_ok_def atts sid s2_def s1_def)
    qed
  qed
  moreover have "\<exists>b. d_attempts d2 (rs_session_id s, a) = Some b \<and> ra_attempt_id b = a"
    if "a \<in> set (rs_attempt_ids s) \<or> a = ra_attempt_id att" for a
    using that sok by (auto simp: session_ok_def atts)
  ultimately have s2ok: "session_ok d2 s2"
    using sok replace_event_keys [OF ys] name
    by (auto simp: session_ok_def s2_def s1_def r'_def)
  have keep: "session_ok d2 t" if "session_ok d t" "rs_session_id t \<noteq> rs_session_id s" for t
    using that by (auto simp: session_ok_def record_ok_def atts)
  have sess: "d_sessions d2 = (d_sessions d)(rs_session_id s \<mapsto> s2)"
    by (auto simp: d2_def sid)
  have stored: "d_sessions d (rs_session_id s) = Some s" using ok(2) by (simp add: synced_def)
  have ids: "rs_attempt_ids s2 = rs_attempt_ids s @ [ra_attempt_id att]"
    by (simp add: s2_def s1_def)
  have "disk_ok d2"
  proof (rule disk_okI)
    fix k t assume "d_sessions d2 k = Some t"
    then show "rs_session_id t = k"
      using disk_ok_id [OF ok(1)] sid by (auto simp: sess split: if_splits)
  next
    fix k t assume t: "d_sessions d2 k = Some t"
    show "session_ok d2 t"
    proof (cases "k = rs_session_id s")
      case True
      with t s2ok show ?thesis by (simp add: sess)
    next
      case False
      with t have "d_sessions d k = Some t" by (simp add: sess)
      with disk_ok_id [OF ok(1)] disk_ok_session [OF ok(1)] False show ?thesis by (metis keep)
    qed
  next
    fix k a assume a: "d_attempts d2 (k, a) \<noteq> None"
    show "\<exists>t. d_sessions d2 k = Some t \<and> a \<in> set (rs_attempt_ids t)"
    proof (cases "(k, a) = (rs_session_id s, ra_attempt_id att)")
      case True
      then show ?thesis by (simp add: sess ids)
    next
      case False
      with a have "d_attempts d (k, a) \<noteq> None" by (auto simp: atts)
      then obtain t where "d_sessions d k = Some t" "a \<in> set (rs_attempt_ids t)"
        using disk_ok_attempt [OF ok(1)] by blast
      with stored show ?thesis by (cases "k = rs_session_id s") (auto simp: sess ids)
    qed
  qed
  then have "disk_ok d2 \<and> synced d2 s2" by (simp add: synced_def sess sid)
  then show ?thesis
    using run atts sid new by (auto simp: att_def s2_def s1_def)
qed

text \<open>Asking again for the attempt of an event returns the stored one and changes nothing.\<close>

lemma create_attempt_again:
  assumes "disk_ok d" "synced d s" "find_event s k = Some r" "er_attempt_id r = Some a"
  shows "\<exists>att. create_attempt s r now d = (Inr (s, att), d) \<and> ra_attempt_id att = a \<and>
    ra_source_event_key att = k"
proof -
  have r: "r \<in> set (rs_events s)" "er_event_key r = k" using assms(3) by (simp_all add: find_event_Some)
  have "session_ok d s" using assms by (simp add: disk_okD)
  with r assms(4) have "er_status r = US_FAILED"
    and "\<exists>att. d_attempts d (rs_session_id s, a) = Some att \<and> ra_attempt_id att = a \<and>
      ra_source_event_key att = k"
    by (auto simp: session_ok_def record_ok_def)
  then show ?thesis
    using assms(4) by (auto simp: create_attempt_def bind_def load_attempt_def)
qed

end
