(* ===== verification/Candidate_Committer.thy ===== *)
theory Candidate_Committer
  imports Artifact_Store Gates Session_Invariants
begin

text \<open>
  \<open>agent/gates/candidate_committer.py\<close>: the last check before a candidate becomes the one the
  session waits for. A commit happens exactly when every check holds; then the candidate and its
  attempt are recorded together, and otherwise nothing is written.
\<close>

definition committed_session :: "repair_session \<Rightarrow> repair_attempt \<Rightarrow> string \<Rightarrow> string \<Rightarrow> repair_session" where
  "committed_session s a sql now =
     s\<lparr>rs_latest_sql_candidate := Some sql, rs_latest_attempt_id := Some (ra_attempt_id a),
       rs_status := SS_SQL_READY_PENDING_UPSTREAM, rs_updated_at := now\<rparr>"

definition committed_attempt :: "repair_attempt \<Rightarrow> string \<Rightarrow> string \<Rightarrow> repair_attempt" where
  "committed_attempt a sql now = a\<lparr>ra_sql_candidate := Some sql, ra_status := AS_SQL_READY, ra_updated_at := now\<rparr>"

definition check_commit ::
  "repair_session \<Rightarrow> repair_attempt \<Rightarrow> candidate_state \<Rightarrow> gate_result \<Rightarrow> 'a disk_scheme \<Rightarrow> string outcome" where
  "check_commit s a c g d =
     (if cs_status c \<noteq> CS_READY \<or> \<not> truthy (cs_formal_sql c) \<or> \<not> lets_pass (gt_decision g)
      then Inl (ValueError ''candidate is not ready for commit'')
      else case last_opt (rs_attempt_ids s) of
        None \<Rightarrow> Inl IndexError
      | Some last_id \<Rightarrow>
          if ra_attempt_id a \<noteq> last_id \<or> ra_source_event_key a = []
          then Inl (ValueError ''attempt ownership mismatch'')
          else if candidate_hash (or_text (cs_formal_sql c) []) \<noteq> gt_hash g
          then Inl (ValueError ''candidate hash mismatch'')
          else if \<not> truthy (cs_draft_ref c) then Inl (ValueError ''candidate artifact is missing'')
          else and_then (parse_ref (or_text (cs_draft_ref c) [])) (\<lambda>r.
            if ar_session r \<noteq> rs_session_id s \<or> ar_attempt r \<noteq> Some (ra_attempt_id a) \<or>
               \<not> ar_sanitized r \<or> \<not> artifact_exists r d
            then Inl (ValueError ''candidate artifact is invalid'')
            else Inr (or_text (cs_formal_sql c) [])))"

definition commit ::
  "repair_session \<Rightarrow> repair_attempt \<Rightarrow> candidate_state \<Rightarrow> gate_result \<Rightarrow> string \<Rightarrow>
     ('a disk_scheme, repair_session \<times> repair_attempt) io" where
  "commit s a c g now =
     bind (\<lambda>d. (check_commit s a c g d, d)) (\<lambda>sql.
       let s' = committed_session s a sql now; a' = committed_attempt a sql now
       in seq (save_attempt s' a') (seq (save_session s') (ret (s', a'))))"

text \<open>What a candidate must be to be committed.\<close>

definition committable ::
  "repair_session \<Rightarrow> repair_attempt \<Rightarrow> candidate_state \<Rightarrow> gate_result \<Rightarrow> 'a disk_scheme \<Rightarrow> string \<Rightarrow> bool" where
  "committable s a c g d sql \<longleftrightarrow>
     cs_status c = CS_READY \<and> cs_formal_sql c = Some sql \<and> sql \<noteq> [] \<and> lets_pass (gt_decision g) \<and>
     rs_attempt_ids s \<noteq> [] \<and> last (rs_attempt_ids s) = ra_attempt_id a \<and> ra_source_event_key a \<noteq> [] \<and>
     gt_hash g = candidate_hash sql \<and>
     (\<exists>t r. cs_draft_ref c = Some t \<and> t \<noteq> [] \<and> parse_ref t = Inr r \<and> ar_session r = rs_session_id s \<and>
        ar_attempt r = Some (ra_attempt_id a) \<and> ar_sanitized r \<and> artifact_exists r d)"

lemma check_commit_iff: "check_commit s a c g d = Inr sql \<longleftrightarrow> committable s a c g d sql"
proof
  assume ok: "check_commit s a c g d = Inr sql"
  then have ready: "cs_status c = CS_READY" "truthy (cs_formal_sql c)" "lets_pass (gt_decision g)"
    by (auto simp: check_commit_def split: if_splits)
  then obtain f where f: "cs_formal_sql c = Some f" "f \<noteq> []" by (auto simp: truthy_iff)
  obtain l where l: "last_opt (rs_attempt_ids s) = Some l" "ra_attempt_id a = l" "ra_source_event_key a \<noteq> []"
    using ok ready by (auto simp: check_commit_def split: if_splits option.splits)
  have h: "candidate_hash f = gt_hash g" "truthy (cs_draft_ref c)"
    using ok ready f l by (auto simp: check_commit_def split: if_splits)
  then obtain t where t: "cs_draft_ref c = Some t" "t \<noteq> []" by (auto simp: truthy_iff)
  obtain r where "parse_ref t = Inr r" "ar_session r = rs_session_id s"
      "ar_attempt r = Some (ra_attempt_id a)" "ar_sanitized r" "artifact_exists r d" "sql = f"
    using ok ready f l h t by (auto simp: check_commit_def and_then_Inr_iff split: if_splits)
  with ready f l h t show "committable s a c g d sql"
    by (auto simp: committable_def last_opt_conv split: if_splits)
next
  assume "committable s a c g d sql"
  then show "check_commit s a c g d = Inr sql"
    by (auto simp: committable_def check_commit_def last_opt_conv)
qed

lemma commit_result:
  "commit s a c g now d =
     (case check_commit s a c g d of
        Inl e \<Rightarrow> (Inl e, d)
      | Inr sql \<Rightarrow>
          let s' = committed_session s a sql now; a' = committed_attempt a sql now
          in (Inr (s', a'), put_session s' (put_attempt s' a' d)))"
  by (auto simp: commit_def bind_def seq_def save_attempt_def save_session_def Let_def split: sum.split)

lemma commit_Inr:
  "commit s a c g now d = (Inr (s', a'), d') \<longleftrightarrow>
     (\<exists>sql. committable s a c g d sql \<and> s' = committed_session s a sql now \<and> a' = committed_attempt a sql now \<and>
        d' = put_session s' (put_attempt s' a' d))"
  by (auto simp: commit_result check_commit_iff [symmetric] Let_def split: sum.splits)

lemma commit_Inl: "commit s a c g now d = (Inl e, d') \<Longrightarrow> d' = d"
  by (auto simp: commit_result Let_def split: sum.splits)

lemma commit_keeps_disk:
  assumes "commit s a c g now d = (Inr (s', a'), d')" "disk_ok d" "synced d s" "attempt_of d s a"
  shows "disk_ok d' \<and> synced d' s' \<and> attempt_of d' s' a' \<and> d_files d' = d_files d"
proof -
  obtain sql where ok: "committable s a c g d sql"
    and s': "s' = committed_session s a sql now" and a': "a' = committed_attempt a sql now"
    and d': "d' = put_session s' (put_attempt s' a' d)"
    using assms(1) by (auto simp: commit_Inr)
  have ids: "rs_session_id s' = rs_session_id s" "rs_attempt_ids s' = rs_attempt_ids s" "rs_events s' = rs_events s"
    by (simp_all add: s' committed_session_def)
  have "attempt_of d s a'" using assms(4) by (simp add: a' committed_attempt_def attempt_of_def)
  from disk_ok_put_attempt [OF assms(2,3) this]
  have one: "disk_ok (put_attempt s a' d)" "synced (put_attempt s a' d) s" by auto
  have same: "put_attempt s' a' d = put_attempt s a' d" by (simp add: put_attempt_def ids)
  have "session_ok (put_attempt s a' d) s" using one by (rule disk_okD)
  moreover have "ra_attempt_id a \<in> set (rs_attempt_ids s)"
    using ok unfolding committable_def by (metis last_in_set)
  ultimately have "session_ok (put_attempt s a' d) s'"
    by (auto simp: session_ok_def record_ok_def ids s' committed_session_def)
  from disk_ok_put_session [OF one(1) this one(2)] ids
  have "disk_ok d' \<and> synced d' s'" by (simp add: d' same)
  then show ?thesis
    by (auto simp: attempt_of_def d' ids)
qed

end
