(* ===== verification/Session_Lock.thy ===== *)
theory Session_Lock
  imports Session_Store
begin

text \<open>
  \<open>session/session_lock.py\<close>: the name of a task's lock file, the acquisition loop of
  \<open>__enter__\<close> over what one process observes, and the concurrent behaviour of all processes on
  one lock file as a step relation. \<open>_remove_if_stale\<close> is two steps there, the \<open>stat\<close> and
  the \<open>unlink\<close>, since nothing makes them atomic.
\<close>

section \<open>Lock file names\<close>

text \<open>The UTF-8 bytes of the code points of a text, one list per code point.\<close>

function code_points :: "string \<Rightarrow> string list" where
  "code_points [] = []"
| "code_points (c # cs) = (c # takeWhile is_cont cs) # code_points (dropWhile is_cont cs)"
  by pat_completeness auto
termination
  by (relation "measure length") (simp_all add: le_imp_less_Suc length_dropWhile_le)

text \<open>
  \<open>_safe_key\<close>: unlike the session id, the lock key keeps every alphanumeric character of Unicode.
  \<open>uni_alnum\<close> is \<open>str.isalnum\<close> on code points beyond ASCII (the Unicode database).
\<close>

definition safe_key :: "(string \<Rightarrow> bool) \<Rightarrow> string \<Rightarrow> string" where
  "safe_key uni_alnum t =
     (let s = concat (map (\<lambda>p. case p of
                 [c] \<Rightarrow> if id_char c then [c] else ''_''
               | _ \<Rightarrow> if uni_alnum p then p else ''_'') (code_points t))
      in if s = [] then ''task'' else s)"

definition lock_file :: "(string \<Rightarrow> bool) \<Rightarrow> string \<Rightarrow> string" where
  "lock_file uni_alnum t = ''session_'' @ safe_key uni_alnum t @ ''.lock''"

definition is_ascii :: "string \<Rightarrow> bool" where
  "is_ascii t \<longleftrightarrow> (\<forall>c \<in> set t. code c < 128)"

lemma code_points_ascii: "is_ascii t \<Longrightarrow> code_points t = map (\<lambda>c. [c]) t"
proof (induction t)
  case Nil
  then show ?case by simp
next
  case (Cons c t)
  then have "takeWhile is_cont t = []" "dropWhile is_cont t = t"
    by (cases t; simp add: is_ascii_def is_cont_def)+
  with Cons show ?case by (simp add: is_ascii_def)
qed

lemma safe_key_ascii: "is_ascii t \<Longrightarrow> safe_key u t = safe_task_id t"
proof -
  assume t: "is_ascii t"
  then have "filter (\<lambda>c. \<not> is_cont c) t = t"
    by (intro filter_True) (auto simp: is_ascii_def is_cont_def)
  moreover have "concat (map (\<lambda>c. if id_char c then [c] else ''_'') t) =
      map (\<lambda>c. if id_char c then c else CHR ''_'') t"
    by (induction t) auto
  ultimately show ?thesis
    by (simp add: safe_key_def safe_task_id_def code_points_ascii [OF t] comp_def)
qed

section \<open>The acquisition loop\<close>

datatype open_result = Created | Exists | OpenFailed

text \<open>
  What one turn of the loop observes: the result of the exclusive create, the modification time
  \<open>stat\<close> reads (none if the file is gone), the wall clock and the monotonic clock.
\<close>

record poll =
  p_open :: open_result
  p_mtime :: "rat option"
  p_wall :: rat
  p_mono :: rat

datatype enter_result = Acquired | TimedOut | OpenRaised

definition is_stale :: "rat \<Rightarrow> rat option \<Rightarrow> rat \<Rightarrow> bool" where
  "is_stale stale_seconds mtime now =
     (case mtime of None \<Rightarrow> False | Some m \<Rightarrow> now - m > stale_seconds)"

text \<open>
  The result, \<open>None\<close> while the loop is still polling, and the number of stale files it unlinked.
\<close>

fun enter_loop :: "rat \<Rightarrow> rat \<Rightarrow> poll list \<Rightarrow> enter_result option \<times> nat" where
  "enter_loop deadline stale [] = (None, 0)"
| "enter_loop deadline stale (p # ps) =
     (case p_open p of
        Created \<Rightarrow> (Some Acquired, 0)
      | OpenFailed \<Rightarrow> (Some OpenRaised, 0)
      | Exists \<Rightarrow>
          let k = (if is_stale stale (p_mtime p) (p_wall p) then 1 else 0) in
          if p_mono p \<ge> deadline then (Some TimedOut, k)
          else let (r, n) = enter_loop deadline stale ps in (r, k + n))"

lemma enter_loop_None:
  "fst (enter_loop deadline stale ps) = None \<longleftrightarrow> (\<forall>p \<in> set ps. p_open p = Exists \<and> p_mono p < deadline)"
  by (induction ps) (auto split: open_result.splits prod.splits simp: Let_def)

lemma enter_loop_deadline:
  assumes clock: "\<And>i. i < length ps \<Longrightarrow> t0 + of_nat i * poll_seconds \<le> p_mono (ps ! i)"
    and long: "ps \<noteq> []" "timeout \<le> of_nat (length ps - 1) * poll_seconds"
  shows "fst (enter_loop (t0 + timeout) stale ps) \<noteq> None"
proof -
  let ?i = "length ps - 1"
  have i: "?i < length ps" using long(1) by (cases ps) auto
  then have "t0 + timeout \<le> p_mono (ps ! ?i)" using clock [of ?i] long(2) by simp
  then have "\<not> p_mono (ps ! ?i) < t0 + timeout" by simp
  with nth_mem [OF i] show ?thesis unfolding enter_loop_None by blast
qed

section \<open>All processes on one lock file\<close>

record lock_sys =
  ls_file :: "(nat \<times> rat) option"
  ls_now :: rat
  ls_holding :: "nat \<Rightarrow> bool"
  ls_doomed :: "nat \<Rightarrow> bool"

definition lock_init :: lock_sys where
  "lock_init = \<lparr>ls_file = None, ls_now = 0, ls_holding = (\<lambda>_. False), ls_doomed = (\<lambda>_. False)\<rparr>"

datatype lock_label = Tick | Acquire nat | SeeStale nat | Unlink nat | Release nat | Crash nat

text \<open>
  \<open>Acquire\<close> is the exclusive create, \<open>SeeStale\<close> and \<open>Unlink\<close> the two halves of
  \<open>_remove_if_stale\<close>, \<open>Release\<close> is \<open>__exit__\<close> (which unlinks whatever file is there), and
  \<open>Crash\<close> is a process that dies while it holds the lock.
\<close>

inductive lock_step :: "rat \<Rightarrow> lock_sys \<Rightarrow> lock_label \<Rightarrow> lock_sys \<Rightarrow> bool" for stale where
  tick: "0 \<le> dt \<Longrightarrow> lock_step stale s Tick (s\<lparr>ls_now := ls_now s + dt\<rparr>)"
| acquire: "ls_file s = None \<Longrightarrow> \<not> ls_holding s p \<Longrightarrow>
    lock_step stale s (Acquire p)
      (s\<lparr>ls_file := Some (p, ls_now s), ls_holding := (ls_holding s)(p := True)\<rparr>)"
| see_stale: "ls_file s = Some (q, m) \<Longrightarrow> is_stale stale (Some m) (ls_now s) \<Longrightarrow>
    lock_step stale s (SeeStale p) (s\<lparr>ls_doomed := (ls_doomed s)(p := True)\<rparr>)"
| unlink: "ls_doomed s p \<Longrightarrow>
    lock_step stale s (Unlink p) (s\<lparr>ls_file := None, ls_doomed := (ls_doomed s)(p := False)\<rparr>)"
| release: "ls_holding s p \<Longrightarrow>
    lock_step stale s (Release p) (s\<lparr>ls_file := None, ls_holding := (ls_holding s)(p := False)\<rparr>)"
| crash: "ls_holding s p \<Longrightarrow>
    lock_step stale s (Crash p) (s\<lparr>ls_holding := (ls_holding s)(p := False)\<rparr>)"

inductive_cases lock_stepE: "lock_step stale s l t"

inductive lock_reach :: "rat \<Rightarrow> lock_sys \<Rightarrow> bool" for stale where
  start: "lock_reach stale lock_init"
| step: "lock_reach stale s \<Longrightarrow> lock_step stale s l t \<Longrightarrow> lock_reach stale t"

text \<open>
  The environment in which the lock is meant to work: nobody dies holding it and nobody holds it
  longer than the stale time.
\<close>

definition in_time :: "rat \<Rightarrow> lock_sys \<Rightarrow> bool" where
  "in_time stale s \<longleftrightarrow> (\<forall>p m. ls_file s = Some (p, m) \<longrightarrow> ls_now s - m \<le> stale)"

fun is_crash :: "lock_label \<Rightarrow> bool" where
  "is_crash (Crash p) = True" | "is_crash _ = False"

inductive timely_reach :: "rat \<Rightarrow> lock_sys \<Rightarrow> bool" for stale where
  start: "timely_reach stale lock_init"
| step: "timely_reach stale s \<Longrightarrow> lock_step stale s l t \<Longrightarrow> \<not> is_crash l \<Longrightarrow> in_time stale t \<Longrightarrow>
    timely_reach stale t"

definition lock_inv :: "rat \<Rightarrow> lock_sys \<Rightarrow> bool" where
  "lock_inv stale s \<longleftrightarrow>
     in_time stale s \<and> (\<forall>p. \<not> ls_doomed s p) \<and> (\<forall>p. ls_holding s p \<longrightarrow> (\<exists>m. ls_file s = Some (p, m)))"

lemma lock_inv_holders: "lock_inv stale s \<Longrightarrow> ls_holding s p \<Longrightarrow> ls_holding s q \<Longrightarrow> p = q"
  unfolding lock_inv_def by (metis option.inject prod.inject)

lemma lock_step_inv:
  "lock_step stale s l t \<Longrightarrow> lock_inv stale s \<Longrightarrow> \<not> is_crash l \<Longrightarrow> in_time stale t \<Longrightarrow> lock_inv stale t"
proof (induction rule: lock_step.induct)
  case (see_stale s q m p)
  then have "ls_now s - m \<le> stale" by (simp add: lock_inv_def in_time_def)
  with see_stale show ?case by (simp add: is_stale_def)
next
  case (acquire s p)
  then show ?case by (auto simp: lock_inv_def)
next
  case (release s p)
  have "ls_holding s q \<Longrightarrow> q = p" for q
    using lock_inv_holders [OF release(2) _ release(1)] .
  with release(2,4) show ?case by (auto simp: lock_inv_def)
qed (simp_all add: lock_inv_def)

lemma timely_reach_inv: "timely_reach stale s \<Longrightarrow> lock_inv stale s"
proof (induction rule: timely_reach.induct)
  case start
  show ?case by (simp add: lock_inv_def in_time_def lock_init_def)
next
  case (step s l t)
  then show ?case by (blast intro: lock_step_inv)
qed

lemma timely_holders_agree:
  assumes "timely_reach stale s" "ls_holding s p" "ls_holding s q"
  shows "p = q"
  using timely_reach_inv [OF assms(1)] assms(2,3) by (rule lock_inv_holders)

text \<open>
  Beyond that environment the lock does not exclude. One process dies holding the lock; two others
  find its file stale; the first removes it and acquires the lock; the second then removes the
  first one's fresh file and acquires the lock too.
\<close>

definition race_end :: "lock_sys \<Rightarrow> bool" where
  "race_end s \<longleftrightarrow> ls_holding s 1 \<and> ls_holding s 2"

lemma nobody_upd [simp]: "(\<lambda>_. False)(p := False) = (\<lambda>_. False)"
  by auto

lemma lock_race: "0 \<le> stale \<Longrightarrow> \<exists>s. lock_reach stale s \<and> race_end s"
proof -
  assume stale: "0 \<le> stale"
  let ?hold = "\<lambda>p. (\<lambda>_. False)(p := True) :: nat \<Rightarrow> bool"
  let ?none = "\<lambda>_. False :: bool"
  define s1 where "s1 = \<lparr>ls_file = Some (0::nat, 0::rat), ls_now = 0, ls_holding = ?hold 0, ls_doomed = ?none\<rparr>"
  define s2 where "s2 = s1\<lparr>ls_holding := ?none\<rparr>"
  define s3 where "s3 = s2\<lparr>ls_now := stale + 1\<rparr>"
  define s4 where "s4 = s3\<lparr>ls_doomed := ?none(1 := True)\<rparr>"
  define s5 where "s5 = s4\<lparr>ls_doomed := ?none(1 := True, 2 := True)\<rparr>"
  define s6 where "s6 = s5\<lparr>ls_file := None, ls_doomed := ?none(2 := True)\<rparr>"
  define s7 where "s7 = s6\<lparr>ls_file := Some (1, stale + 1), ls_holding := ?none(1 := True)\<rparr>"
  define s8 where "s8 = s7\<lparr>ls_file := None, ls_doomed := ?none\<rparr>"
  define s9 where "s9 = s8\<lparr>ls_file := Some (2, stale + 1), ls_holding := ?none(1 := True, 2 := True)\<rparr>"
  note defs = s1_def s2_def s3_def s4_def s5_def s6_def s7_def s8_def s9_def lock_init_def
  have a1: "lock_step stale lock_init (Acquire 0) s1"
    using lock_step.acquire [of lock_init 0 stale] by (simp add: defs)
  have a2: "lock_step stale s1 (Crash 0) s2"
    using lock_step.crash [of s1 0 stale] by (simp add: defs)
  have a3: "lock_step stale s2 Tick s3"
    using lock_step.tick [of "stale + 1" stale s2] stale by (simp add: defs)
  have a4: "lock_step stale s3 (SeeStale 1) s4"
    using lock_step.see_stale [of s3 0 0 stale 1] by (simp add: defs is_stale_def)
  have a5: "lock_step stale s4 (SeeStale 2) s5"
    using lock_step.see_stale [of s4 0 0 stale 2] by (simp add: defs is_stale_def)
  have a6: "lock_step stale s5 (Unlink 1) s6"
    using lock_step.unlink [of s5 1 stale] by (simp add: defs fun_upd_twist [of 2 "Suc 0"])
  have a7: "lock_step stale s6 (Acquire 1) s7"
    using lock_step.acquire [of s6 1 stale] by (simp add: defs)
  have a8: "lock_step stale s7 (Unlink 2) s8"
    using lock_step.unlink [of s7 2 stale] by (simp add: defs)
  have a9: "lock_step stale s8 (Acquire 2) s9"
    using lock_step.acquire [of s8 2 stale] by (simp add: defs)
  have "lock_reach stale s9"
    by (rule lock_reach.step [OF _ a9], rule lock_reach.step [OF _ a8], rule lock_reach.step [OF _ a7],
      rule lock_reach.step [OF _ a6], rule lock_reach.step [OF _ a5], rule lock_reach.step [OF _ a4],
      rule lock_reach.step [OF _ a3], rule lock_reach.step [OF _ a2], rule lock_reach.step [OF _ a1],
      rule lock_reach.start)
  moreover have "race_end s9" by (simp add: race_end_def defs)
  ultimately show ?thesis by blast
qed

end
