(* ===== verification/Store_Properties.thy ===== *)
theory Store_Properties
  imports Candidate_Committer Session_Lock
begin

text \<open>
  The properties of what is stored: results, event keys, sessions, the session lock, JSON texts,
  artifacts and the commit of a candidate, each with a witness at a concrete input.
\<close>

section \<open>Results and keys\<close>

text \<open>C22. A result for the upstream system is built exactly if it is valid: SQL if and only if the
  status is SQL_READY, and then not blank, and a message for a human.\<close>

theorem external_result_valid:
  "mk_external_result st sql msg = Inr r \<longleftrightarrow>
     r = \<lparr>xr_status = st, xr_sql = sql, xr_message = msg\<rparr> \<and>
     (st = SQL_READY \<longleftrightarrow> sql \<noteq> None) \<and> (if st = SQL_READY then has_text sql else True) \<and>
     (if st = HUMAN_REQUIRED then has_text msg else True)"
  unfolding mk_external_result_iff by (auto simp: valid_external_result_def)

text \<open>C21. Two events get the same key text, before hashing, exactly if they agree in identifier and
  status, in the words of the SQL, and in error message and log path up to line ends and outer space.\<close>

theorem event_key_identifies_event:
  "canonical_event a = canonical_event b \<longleftrightarrow>
     ev_id a = ev_id b \<and> ev_status a = ev_status b \<and> words (ev_sql a) = words (ev_sql b) \<and>
     normalize_text (ev_error_message a) = normalize_text (ev_error_message b) \<and>
     normalize_text (ev_log_path a) = normalize_text (ev_log_path b)"
  unfolding canonical_event_eq_iff same_event_def ..

text \<open>Different tasks may share a session: the session id replaces every other character by an
  underscore.\<close>

theorem session_ids_collide:
  "session_id_for_task ''etl/daily'' = session_id_for_task ''etl:daily'' \<and> ''etl/daily'' \<noteq> ''etl:daily''"
  by code_simp

section \<open>The session lock\<close>

text \<open>C23. While nobody dies holding the lock and nobody holds it longer than the stale time, at most
  one process holds it.\<close>

theorem lock_excludes:
  assumes "timely_reach stale s" "ls_holding s p" "ls_holding s q"
  shows "p = q"
  using assms by (rule timely_holders_agree)

definition sample_held :: lock_sys where
  "sample_held = lock_init\<lparr>ls_file := Some (7, 0), ls_holding := (\<lambda>p. p = 7)\<rparr>"

lemma sample_held_reached: "timely_reach 300 sample_held"
proof (rule timely_reach.step [OF timely_reach.start])
  have "sample_held = lock_init\<lparr>ls_file := Some (7, ls_now lock_init), ls_holding := (ls_holding lock_init)(7 := True)\<rparr>"
    by (simp add: sample_held_def lock_init_def fun_eq_iff)
  then show "lock_step 300 lock_init (Acquire 7) sample_held"
    using lock_step.acquire [of lock_init 7 300] by (simp add: lock_init_def)
  show "\<not> is_crash (Acquire 7)" by simp
  show "in_time 300 sample_held" by (simp add: in_time_def sample_held_def lock_init_def)
qed

theorem lock_excludes_witness: "ls_holding sample_held 7 \<and> {q. ls_holding sample_held q} \<subseteq> {7}"
proof -
  have held: "ls_holding sample_held 7" by (simp add: sample_held_def)
  show ?thesis using lock_excludes [OF sample_held_reached held] held by blast
qed

text \<open>Without that assumption the lock does not exclude: after a crash two processes can hold it,
  since one removes as stale the file the other has just created.\<close>

theorem lock_race_possible: "\<exists>s. lock_reach 300 s \<and> ls_holding s 1 \<and> ls_holding s 2"
  using lock_race [of 300] by (simp add: race_end_def)

text \<open>C24. The acquisition loop ends: once the monotonic clock, which a turn advances by at least the
  polling interval, has passed the deadline, the loop has a result.\<close>

theorem lock_acquisition_ends:
  assumes "\<And>i. i < length ps \<Longrightarrow> t0 + of_nat i * poll_seconds \<le> p_mono (ps ! i)"
    and "ps \<noteq> []" "timeout \<le> of_nat (length ps - 1) * poll_seconds"
  shows "fst (enter_loop (t0 + timeout) stale ps) \<noteq> None"
  using assms by (rule enter_loop_deadline)

definition sample_poll :: "rat \<Rightarrow> poll" where
  "sample_poll t = \<lparr>p_open = Exists, p_mtime = Some 0, p_wall = t, p_mono = t\<rparr>"

theorem lock_acquisition_ends_witness: "fst (enter_loop 2 300 [sample_poll 0, sample_poll 1, sample_poll 2]) \<noteq> None"
proof -
  have "fst (enter_loop (0 + 2) 300 [sample_poll 0, sample_poll 1, sample_poll 2]) \<noteq> None"
    by (rule lock_acquisition_ends [where poll_seconds = 1])
      (auto simp: less_Suc_eq numeral_3_eq_3 sample_poll_def)
  then show ?thesis by simp
qed

section \<open>Texts and artifacts\<close>

text \<open>Reading a JSON text the program wrote gives the value back, in each of its styles and with
  space behind it, for values without floats and with distinct keys.\<close>

theorem json_round_trip:
  assumes "good_style st" "plain_json j" "\<forall>c \<in> set w. json_space c"
  shows "json_loads (json_write st fl l j @ w) = Inr j"
  using assms by (rule json_loads_write)

definition sample_json :: json where
  "sample_json = Js_dict [(''sql'', Js_text [CHR ''a'', CHR 0x22, CHR 0x0A]), (''n'', Js_list [Js_int (-7), Js_null])]"

theorem json_round_trip_witness:
  "json_loads (json_write indent_style no_float 0 sample_json @ [CHR 0x0A]) = Inr sample_json"
  by (rule json_round_trip) (simp_all add: sample_json_def json_space_def code_def)


text \<open>C18. What is saved is what is loaded on behalf of the same session and attempt: the sanitized text,
  with the line ends of text mode, provided it has no other line ends.\<close>

theorem artifact_round_trip:
  assumes "save_text_ref sid aid name content ty st d = (Inr r, d')"
  shows "\<exists>t. sanitize content = Inr t \<and>
    load_artifact r None (Some sid) aid d' =
      (if sha256 (normalize_newlines t) = sha256 t then Inr (normalize_newlines t)
       else Inl (ArtifactIntegrityError ''artifact hash mismatch''))"
  using assms by (rule load_after_save)

definition blank_disk :: disk where
  "blank_disk = \<lparr>d_base = ''.s'', d_sessions = Map.empty, d_attempts = Map.empty, d_files = Map.empty, d_trace = []\<rparr>"

definition sample_stamp :: stamp where "sample_stamp = \<lparr>sp_uuid = ''u1'', sp_now = ''T0''\<rparr>"

lemma sample_sanitized: "sanitize ''SELECT 1'' = Inr ''SELECT 1''" by code_simp

lemma sample_save:
  "save_text_ref ''s'' (Some ''a'') ''c.sql'' ''SELECT 1'' CANDIDATE_SQL sample_stamp blank_disk =
     (Inr (build_ref ''s'' (Some ''a'') CANDIDATE_SQL ''c.sql'' ''SELECT 1'' sample_stamp),
      put_file (Attempt_Artifact ''s'' ''a'' ''c.sql'') ''SELECT 1'' blank_disk)"
  by (simp add: save_text_ref_def bind_def seq_def sample_sanitized artifact_path_of_def plain_name_def file_of_def
      write_file_def)

theorem artifact_round_trip_witness:
  "load_artifact (build_ref ''s'' (Some ''a'') CANDIDATE_SQL ''c.sql'' ''SELECT 1'' sample_stamp) None (Some ''s'') (Some ''a'')
     (put_file (Attempt_Artifact ''s'' ''a'' ''c.sql'') ''SELECT 1'' blank_disk) = Inr ''SELECT 1''"
proof -
  have same: "normalize_newlines ''SELECT 1'' = ''SELECT 1''" by code_simp
  show ?thesis using artifact_round_trip [OF sample_save] by (simp add: sample_sanitized same)
qed

text \<open>C19. A load on behalf of a session reads a file of that session, whose content has the hash of the
  reference, and at most the requested number of characters of it.\<close>

theorem artifact_load_owned:
  assumes "load_artifact r m (Some sid) aid d = Inr t"
  shows "\<exists>p raw. resolve r = Inr p \<and> path_session p = sid \<and> d_files d p = Some raw \<and>
    sha256 (normalize_newlines raw) = ar_hash r \<and> prefix t (normalize_newlines raw) \<and>
    (case m of None \<Rightarrow> t = normalize_newlines raw | Some n \<Rightarrow> py_len t \<le> n)"
  using assms by (rule load_owned)

theorem artifact_load_owned_witness:
  "\<exists>p raw. resolve (build_ref ''s'' (Some ''a'') CANDIDATE_SQL ''c.sql'' ''SELECT 1'' sample_stamp) = Inr p \<and>
     path_session p = ''s'' \<and>
     d_files (put_file (Attempt_Artifact ''s'' ''a'' ''c.sql'') ''SELECT 1'' blank_disk) p = Some raw"
proof -
  have same: "normalize_newlines ''SELECT 1'' = ''SELECT 1''" by code_simp
  have "load_artifact (build_ref ''s'' (Some ''a'') CANDIDATE_SQL ''c.sql'' ''SELECT 1'' sample_stamp) None (Some ''s'') (Some ''a'')
     (put_file (Attempt_Artifact ''s'' ''a'' ''c.sql'') ''SELECT 1'' blank_disk) = Inr ''SELECT 1''"
    using load_after_save [OF sample_save] by (simp add: sample_sanitized same)
  from artifact_load_owned [OF this] show ?thesis by blast
qed

section \<open>The commit of a candidate\<close>

text \<open>C9. A candidate is committed exactly if it is ready, released by a verdict on its own hash, produced
  by the latest attempt of the session, and stored in a sanitized artifact of that attempt; then the
  session and the attempt record the same SQL, and nothing else is written.\<close>

theorem candidate_commit:
  "commit s a c g now d = (Inr (s', a'), d') \<longleftrightarrow>
     (\<exists>sql t r. cs_status c = CS_READY \<and> cs_formal_sql c = Some sql \<and> sql \<noteq> [] \<and> lets_pass (gt_decision g) \<and>
        gt_hash g = candidate_hash sql \<and> rs_attempt_ids s \<noteq> [] \<and> last (rs_attempt_ids s) = ra_attempt_id a \<and>
        ra_source_event_key a \<noteq> [] \<and> cs_draft_ref c = Some t \<and> t \<noteq> [] \<and> parse_ref t = Inr r \<and>
        ar_session r = rs_session_id s \<and> ar_attempt r = Some (ra_attempt_id a) \<and> ar_sanitized r \<and> artifact_exists r d \<and>
        s' = s\<lparr>rs_latest_sql_candidate := Some sql, rs_latest_attempt_id := Some (ra_attempt_id a),
                rs_status := SS_SQL_READY_PENDING_UPSTREAM, rs_updated_at := now\<rparr> \<and>
        a' = a\<lparr>ra_sql_candidate := Some sql, ra_status := AS_SQL_READY, ra_updated_at := now\<rparr> \<and>
        d' = put_session s' (put_attempt s' a' d))"
  unfolding commit_Inr committable_def committed_session_def committed_attempt_def by blast

end
