(* ===== verification/Hooks.thy ===== *)
theory Hooks
  imports Sanitizer Agent_Models Effects
begin

text \<open>
  \<open>agent/hooks/\<close> and \<open>llm/retry_hook.py\<close>: every call to a model, tool, sub-agent or gate
  runs between the hooks of the run. The main facts: a blocked operation does not run at all; every
  hook that was asked before is told after, in reverse order, whatever happened; the retry loop
  ends after at most one call more than its two budgets allow, and the error it lets out is one it may
  not retry.
\<close>

section \<open>Operations and hooks\<close>

datatype operation_type = OP_LLM_CALL | OP_TOOL_CALL | OP_SUB_AGENT_RUN | OP_GATE_RUN | OP_CONTEXT_COMPACTION

fun operation_type_value :: "operation_type \<Rightarrow> string" where
  "operation_type_value OP_LLM_CALL = ''LLM_CALL''"
| "operation_type_value OP_TOOL_CALL = ''TOOL_CALL''"
| "operation_type_value OP_SUB_AGENT_RUN = ''SUB_AGENT_RUN''"
| "operation_type_value OP_GATE_RUN = ''GATE_RUN''"
| "operation_type_value OP_CONTEXT_COMPACTION = ''CONTEXT_COMPACTION''"

datatype op_caller = CALLER_MAIN_AGENT | CALLER_SUB_AGENT | CALLER_GATE_RUNNER | CALLER_CONTEXT_MANAGER | CALLER_SYSTEM

fun op_caller_value :: "op_caller \<Rightarrow> string" where
  "op_caller_value CALLER_MAIN_AGENT = ''MAIN_AGENT''"
| "op_caller_value CALLER_SUB_AGENT = ''SUB_AGENT''"
| "op_caller_value CALLER_GATE_RUNNER = ''GATE_RUNNER''"
| "op_caller_value CALLER_CONTEXT_MANAGER = ''CONTEXT_MANAGER''"
| "op_caller_value CALLER_SYSTEM = ''SYSTEM''"

datatype op_status = OPS_CREATED | OPS_RUNNING | OPS_SUCCEEDED | OPS_BEFORE_BLOCKED | OPS_FAILED | OPS_TIMEOUT | OPS_CANCELLED

fun op_status_value :: "op_status \<Rightarrow> string" where
  "op_status_value OPS_CREATED = ''CREATED''"
| "op_status_value OPS_RUNNING = ''RUNNING''"
| "op_status_value OPS_SUCCEEDED = ''SUCCEEDED''"
| "op_status_value OPS_BEFORE_BLOCKED = ''BEFORE_BLOCKED''"
| "op_status_value OPS_FAILED = ''FAILED''"
| "op_status_value OPS_TIMEOUT = ''TIMEOUT''"
| "op_status_value OPS_CANCELLED = ''CANCELLED''"

record operation =
  op_id :: string
  op_type :: operation_type
  op_session :: string
  op_attempt :: "string option"
  op_parent :: "string option"
  op_caller :: op_caller
  op_purpose :: string
  op_started_at :: string
  op_finished_at :: "string option"
  op_status :: op_status
  op_error_code :: "string option"
  op_artifact_ref :: "string option"
  op_input_summary :: "string option"
  op_output_summary :: "string option"

definition create_operation ::
  "operation_type \<Rightarrow> string \<Rightarrow> string option \<Rightarrow> op_caller \<Rightarrow> string \<Rightarrow> string option \<Rightarrow> stamp \<Rightarrow> operation" where
  "create_operation ty sid aid caller purpose input st =
     \<lparr>op_id = ''op_'' @ sp_uuid st, op_type = ty, op_session = sid, op_attempt = aid, op_parent = None,
      op_caller = caller, op_purpose = purpose, op_started_at = sp_now st, op_finished_at = None,
      op_status = OPS_CREATED, op_error_code = None, op_artifact_ref = None, op_input_summary = input,
      op_output_summary = None\<rparr>"

datatype hook_decision = Continue | Block "string option" "string option"

text \<open>
  A hook. \<open>hk_after\<close> gets the operation with its final status; it returns the state it leaves,
  its exceptions being swallowed by the manager.
\<close>

record 'w hook =
  hk_name :: string
  hk_order :: int
  hk_applies :: "operation \<Rightarrow> bool"
  hk_before :: "operation \<Rightarrow> ('w, hook_decision) io"
  hk_after :: "operation \<Rightarrow> ('w, unit) io"

section \<open>The manager\<close>

text \<open>\<open>sorted(hooks, key=order)\<close>\<close>

definition sorted_hooks :: "'w hook list \<Rightarrow> 'w hook list" where
  "sorted_hooks hs = sort_key hk_order hs"

definition blocked_by :: "string option \<Rightarrow> string option \<Rightarrow> py_error" where
  "blocked_by c m = HookBlocked (or_text c ''HOOK_BLOCKED'') m"

text \<open>
  The loop over the hooks before the call: the exception that ends it, if any, and the hooks that
  have been asked (one whose \<open>before\<close> raises is not among them).
\<close>

fun ask_before :: "operation \<Rightarrow> 'w hook list \<Rightarrow> 'w \<Rightarrow> (py_error option \<times> 'w hook list) \<times> 'w" where
  "ask_before op [] w = ((None, []), w)"
| "ask_before op (h # hs) w =
     (if \<not> hk_applies h op then ask_before op hs w
      else case hk_before h op w of
        (Inl err, w1) \<Rightarrow> ((Some err, []), w1)
      | (Inr (Block c m), w1) \<Rightarrow> ((Some (blocked_by c m), [h]), w1)
      | (Inr Continue, w1) \<Rightarrow> (let ((r, asked), w2) = ask_before op hs w1 in ((r, h # asked), w2)))"

definition failed_operation :: "operation \<Rightarrow> py_error \<Rightarrow> operation" where
  "failed_operation op err =
     (if is_timeout err then op\<lparr>op_status := OPS_TIMEOUT, op_error_code := Some ''OPERATION_TIMEOUT''\<rparr>
      else case err of
        HookBlocked c m \<Rightarrow> op\<lparr>op_status := OPS_BEFORE_BLOCKED, op_error_code := Some c\<rparr>
      | _ \<Rightarrow> op\<lparr>op_status := OPS_FAILED, op_error_code := Some (error_class err)\<rparr>)"

definition finished_operation :: "('a \<Rightarrow> string) \<Rightarrow> operation \<Rightarrow> 'a outcome \<Rightarrow> operation" where
  "finished_operation summary op r =
     (case r of
        Inl err \<Rightarrow> failed_operation op err
      | Inr x \<Rightarrow> op\<lparr>op_status := OPS_SUCCEEDED, op_output_summary := Some (summary x)\<rparr>)"

definition tell_after :: "operation \<Rightarrow> 'w hook list \<Rightarrow> 'w \<Rightarrow> 'w" where
  "tell_after op asked w = fold (\<lambda>h w. snd (hk_after h op w)) (rev asked) w"

text \<open>
  \<open>execute_operation\<close>. It also returns the operation as it is left in \<open>operations\<close>, the
  manager's log, which nothing under src/ reads. \<open>now\<close> reads the clock of the world.
\<close>

definition execute_operation ::
  "'w hook list \<Rightarrow> ('a \<Rightarrow> string) \<Rightarrow> operation \<Rightarrow> ('w \<Rightarrow> string) \<Rightarrow> ('w, 'a) io \<Rightarrow> 'w \<Rightarrow> ('a outcome \<times> operation) \<times> 'w" where
  "execute_operation hooks summary op now run w =
     (let op1 = op\<lparr>op_status := OPS_RUNNING\<rparr>;
          ((stop, asked), w1) = ask_before op1 (sorted_hooks hooks) w;
          (r, w2) = (case stop of Some err \<Rightarrow> (Inl err, w1) | None \<Rightarrow> run w1);
          op2 = (finished_operation summary op1 r)\<lparr>op_finished_at := Some (now w2)\<rparr>
      in ((r, op2), tell_after op2 asked w2))"

definition execute ::
  "'w hook list \<Rightarrow> ('a \<Rightarrow> string) \<Rightarrow> operation \<Rightarrow> ('w \<Rightarrow> string) \<Rightarrow> ('w, 'a) io \<Rightarrow> ('w, 'a) io" where
  "execute hooks summary op now run w = (let ((r, _), w') = execute_operation hooks summary op now run w in (r, w'))"

section \<open>Retries\<close>

record retry_limits =
  rl_schema :: nat
  rl_transient :: nat

text \<open>\<open>error_type in {TRANSIENT_ERROR, TIMEOUT, SERVICE_ERROR}\<close>\<close>

fun is_schema_error :: "py_error \<Rightarrow> bool" where
  "is_schema_error (LLMClientError t _) = (t = LE_SCHEMA_ERROR)"
| "is_schema_error _ = False"

fun is_transient_error :: "py_error \<Rightarrow> bool" where
  "is_transient_error (LLMClientError t _) = (t = LE_TRANSIENT_ERROR \<or> t = LE_TIMEOUT \<or> t = LE_SERVICE_ERROR)"
| "is_transient_error _ = False"

function retry_loop ::
  "retry_limits \<Rightarrow> nat \<Rightarrow> nat \<Rightarrow> string option \<Rightarrow> (string option \<Rightarrow> ('w, 'a) io) \<Rightarrow> ('w, 'a) io" where
  "retry_loop L s t feedback call w =
     (case call feedback w of
        (Inr x, w1) \<Rightarrow> (Inr x, w1)
      | (Inl err, w1) \<Rightarrow>
          if is_schema_error err \<and> s < rl_schema L then retry_loop L (Suc s) t (Some schema_feedback_text) call w1
          else if is_transient_error err \<and> t < rl_transient L then retry_loop L s (Suc t) feedback call w1
          else (Inl err, w1))"
  by pat_completeness auto
termination
  by (relation "measure (\<lambda>(L, s, t, _). (rl_schema L - s) + (rl_transient L - t))") auto

declare retry_loop.simps [simp del]

definition retry_run :: "retry_limits \<Rightarrow> (string option \<Rightarrow> ('w, 'a) io) \<Rightarrow> ('w, 'a) io" where
  "retry_run L call = retry_loop L 0 0 None call"

section \<open>The hooks of the service\<close>

text \<open>
  \<open>BudgetHook\<close>. The run state it reads and counts in is the one of the run (the same object in
  the code); \<open>budget_view\<close> says where the world keeps it and the count of compactions.
\<close>

record 'w budget_view =
  bv_state :: "'w \<Rightarrow> run_state option"
  bv_count_llm :: "'w \<Rightarrow> 'w"
  bv_compactions :: "'w \<Rightarrow> int"
  bv_compacted :: "'w \<Rightarrow> 'w"

definition compaction_max_calls :: int where "compaction_max_calls = 2"

definition over_budget :: "run_limits \<Rightarrow> run_state \<Rightarrow> operation_type \<Rightarrow> bool" where
  "over_budget l s ty =
     (case ty of
        OP_TOOL_CALL \<Rightarrow> st_tool_calls s \<ge> lm_max_tool_calls l
      | OP_SUB_AGENT_RUN \<Rightarrow> st_sub_agent_calls s \<ge> lm_max_sub_agent_calls l
      | OP_GATE_RUN \<Rightarrow> st_gate_rounds s > lm_max_gate_rounds l
      | OP_LLM_CALL \<Rightarrow> st_wall_time_ms s \<ge> lm_max_wall_time_ms l
      | OP_CONTEXT_COMPACTION \<Rightarrow> False)"

definition budget_before :: "'w budget_view \<Rightarrow> run_limits \<Rightarrow> operation \<Rightarrow> ('w, hook_decision) io" where
  "budget_before v l op =
     gets (\<lambda>w. if op_type op = OP_CONTEXT_COMPACTION
       then (if bv_compactions v w \<ge> compaction_max_calls then Block (Some ''COMPACTION_BUDGET_EXCEEDED'') None
             else Continue)
       else case bv_state v w of
         None \<Rightarrow> Continue
       | Some s \<Rightarrow> if over_budget l s (op_type op) then Block (Some ''OPERATION_BUDGET_EXCEEDED'') None else Continue)"

definition budget_after :: "'w budget_view \<Rightarrow> operation \<Rightarrow> ('w, unit) io" where
  "budget_after v op =
     seq (modify (\<lambda>w. if op_type op = OP_CONTEXT_COMPACTION \<and> op_status op = OPS_SUCCEEDED then bv_compacted v w else w))
         (modify (\<lambda>w. if bv_state v w \<noteq> None \<and> op_type op = OP_LLM_CALL then bv_count_llm v w else w))"

definition budget_hook :: "'w budget_view \<Rightarrow> run_limits \<Rightarrow> 'w hook" where
  "budget_hook v l = \<lparr>hk_name = ''BudgetHook'', hk_order = 20, hk_applies = (\<lambda>_. True),
     hk_before = budget_before v l, hk_after = budget_after v\<rparr>"

text \<open>\<open>SafetyHook\<close>\<close>

definition pat_forbidden_intent :: regex where
  "pat_forbidden_intent = rx_alt
     [rx_cat [rx_ilit ''authorization'', Star rx_space, rx_lit '':''],
      rx_ilit ''ark_api_key'',
      rx_cat [rx_ilit ''execute'', rx_plus rx_space,
        rx_opt (Cat (rx_ilit ''production'') (rx_plus rx_space)), rx_ilit ''sql''],
      rx_cat [rx_ilit ''bypass'', rx_plus rx_space, rx_ilit ''gate''],
      rx_cat [rx_ilit ''write'', rx_alt [rx_ilit ''session'', rx_ilit ''attempt'', rx_ilit ''memory'']],
      rx_ilit ''submit_without_gate'']"

definition caller_allowed :: "operation \<Rightarrow> bool" where
  "caller_allowed op =
     (case op_type op of
        OP_SUB_AGENT_RUN \<Rightarrow> op_caller op = CALLER_MAIN_AGENT
      | OP_GATE_RUN \<Rightarrow> op_caller op = CALLER_GATE_RUNNER
      | OP_CONTEXT_COMPACTION \<Rightarrow> op_caller op = CALLER_CONTEXT_MANAGER
      | _ \<Rightarrow> True)"

definition safety_decision :: "operation \<Rightarrow> hook_decision" where
  "safety_decision op =
     (if \<not> caller_allowed op then Block (Some ''OPERATION_CALLER_FORBIDDEN'') (Some msg_caller_forbidden)
      else if op_session op = [] \<or> (op_type op \<noteq> OP_CONTEXT_COMPACTION \<and> op_attempt op = None)
      then Block (Some ''OPERATION_OWNERSHIP_MISSING'') (Some msg_ownership_missing)
      else if truthy (op_input_summary op) \<and> rx_found pat_forbidden_intent (or_text (op_input_summary op) [])
      then Block (Some ''SAFETY_POLICY_BLOCKED'') (Some msg_safety_blocked)
      else Continue)"

definition safety_hook :: "'w hook" where
  "safety_hook = \<lparr>hk_name = ''SafetyHook'', hk_order = 30, hk_applies = (\<lambda>_. True),
     hk_before = (\<lambda>op. ret (safety_decision op)), hk_after = (\<lambda>_. ret ())\<rparr>"

text \<open>\<open>TraceHook\<close>; \<open>emit\<close> is the trace writer of the world.\<close>

type_synonym 'w emitter =
  "string \<Rightarrow> string \<Rightarrow> string \<Rightarrow> (string, json) dict \<Rightarrow> string option \<Rightarrow> ('w, unit) io"

definition trace_before :: "'w emitter \<Rightarrow> operation \<Rightarrow> ('w, hook_decision) io" where
  "trace_before emit op =
     seq (emit (op_session op) ''operation_started'' (operation_type_value (op_type op))
            [(''operation_id'', Js_text (op_id op)), (''caller'', Js_text (op_caller_value (op_caller op))),
             (''purpose'', Js_text (op_purpose op))] (op_attempt op))
         (ret Continue)"

definition trace_after :: "'w emitter \<Rightarrow> operation \<Rightarrow> ('w, unit) io" where
  "trace_after emit op =
     bind (lift (sanitize (or_text (op_output_summary op) []))) (\<lambda>t.
       emit (op_session op) ''operation_finished'' (operation_type_value (op_type op))
         [(''operation_id'', Js_text (op_id op)), (''status'', Js_text (op_status_value (op_status op))),
          (''error_code'', json_of_opt (op_error_code op)), (''output_summary'', Js_text (py_take 500 t)),
          (''artifact_ref'', json_of_opt (op_artifact_ref op))] (op_attempt op))"

definition trace_hook :: "'w emitter \<Rightarrow> 'w hook" where
  "trace_hook emit = \<lparr>hk_name = ''TraceHook'', hk_order = 10, hk_applies = (\<lambda>_. True),
     hk_before = trace_before emit, hk_after = trace_after emit\<rparr>"

text \<open>\<open>CompressionAdapterHook\<close> (the service passes no function) and \<open>RetryAdapterHook\<close>.\<close>

definition compression_hook :: "('w, unit) io option \<Rightarrow> 'w hook" where
  "compression_hook compact_fn = \<lparr>hk_name = ''ContextCompressionHook'', hk_order = 40,
     hk_applies = (\<lambda>op. op_type op = OP_LLM_CALL \<or> op_type op = OP_SUB_AGENT_RUN),
     hk_before = (\<lambda>op. case compact_fn of
        None \<Rightarrow> ret Continue
      | Some f \<Rightarrow> try_catch (seq f (ret Continue)) (\<lambda>_. ret (Block (Some ''CONTEXT_COMPACTION_FAILED'') None))),
     hk_after = (\<lambda>_. ret ())\<rparr>"

definition retry_adapter_hook :: "'w hook" where
  "retry_adapter_hook = \<lparr>hk_name = ''LLMRetryHook'', hk_order = 50,
     hk_applies = (\<lambda>op. op_type op \<noteq> OP_TOOL_CALL), hk_before = (\<lambda>_. ret Continue), hk_after = (\<lambda>_. ret ())\<rparr>"

text \<open>The list that \<open>RepairAgentService._build_run_components\<close> gives the manager of a run.\<close>

definition service_hooks :: "'w emitter \<Rightarrow> 'w budget_view \<Rightarrow> run_limits \<Rightarrow> 'w hook list" where
  "service_hooks emit v l = [trace_hook emit, budget_hook v l, safety_hook, compression_hook None, retry_adapter_hook]"

lemma sorted_service_hooks: "sorted_hooks (service_hooks emit v l) = service_hooks emit v l"
  by (simp add: sorted_hooks_def service_hooks_def trace_hook_def budget_hook_def safety_hook_def
      compression_hook_def retry_adapter_hook_def)

section \<open>What the manager guarantees\<close>

lemma blocked_not_run:
  "ask_before (op\<lparr>op_status := OPS_RUNNING\<rparr>) (sorted_hooks hooks) w = ((Some err, asked), w1) \<Longrightarrow>
     execute hooks summary op now run w = (Inl err, tell_after
       ((failed_operation (op\<lparr>op_status := OPS_RUNNING\<rparr>) err)\<lparr>op_finished_at := Some (now w1)\<rparr>) asked w1)"
  by (simp add: execute_def execute_operation_def Let_def finished_operation_def)

lemma unblocked_runs:
  "ask_before (op\<lparr>op_status := OPS_RUNNING\<rparr>) (sorted_hooks hooks) w = ((None, asked), w1) \<Longrightarrow>
     run w1 = (r, w2) \<Longrightarrow>
     execute hooks summary op now run w = (r, tell_after
       ((finished_operation summary (op\<lparr>op_status := OPS_RUNNING\<rparr>) r)\<lparr>op_finished_at := Some (now w2)\<rparr>) asked w2)"
  by (simp add: execute_def execute_operation_def Let_def)

text \<open>Without a block every hook that applies is asked, in the order of the list.\<close>

lemma ask_before_all:
  "ask_before op hs w = ((None, asked), w1) \<Longrightarrow> asked = filter (\<lambda>h. hk_applies h op) hs"
proof (induction hs arbitrary: w asked)
  case (Cons h hs)
  then show ?case
    by (auto simp: Let_def split: if_splits prod.splits sum.splits hook_decision.splits)
qed simp

lemma ask_before_prefix:
  "ask_before op hs w = ((r, asked), w1) \<Longrightarrow> prefix asked (filter (\<lambda>h. hk_applies h op) hs)"
proof (induction hs arbitrary: w asked r)
  case (Cons h hs)
  then show ?case
    by (auto simp: Let_def split: if_splits prod.splits sum.splits hook_decision.splits)
qed simp

text \<open>A property that all hooks and the call keep is kept by the execution.\<close>

definition hook_preserves :: "('w \<Rightarrow> bool) \<Rightarrow> 'w hook \<Rightarrow> bool" where
  "hook_preserves P h \<longleftrightarrow> (\<forall>op. preserves P (hk_before h op) \<and> preserves P (hk_after h op))"

lemma ask_before_preserves:
  "\<forall>h \<in> set hs. hook_preserves P h \<Longrightarrow> P w \<Longrightarrow> P (snd (ask_before op hs w))"
proof (induction hs arbitrary: w)
  case (Cons h hs)
  obtain x w1 where x: "hk_before h op w = (x, w1)" by fastforce
  moreover have "P (snd (hk_before h op w))" using Cons.prems by (simp add: hook_preserves_def preserves_def)
  ultimately have "P w1" by simp
  with Cons x show ?case
    by (auto simp: Let_def split: prod.splits sum.splits hook_decision.splits) (metis snd_conv)+
qed simp

lemma ask_before_asked: "ask_before op hs w = ((r, asked), w1) \<Longrightarrow> set asked \<subseteq> set hs"
  by (drule ask_before_prefix) (auto dest!: set_mono_prefix)

lemma tell_after_preserves:
  "\<forall>h \<in> set hs. hook_preserves P h \<Longrightarrow> P w \<Longrightarrow> P (tell_after op hs w)"
proof -
  have "\<forall>h \<in> set hs. hook_preserves P h \<Longrightarrow> P w \<Longrightarrow> P (fold (\<lambda>h w. snd (hk_after h op w)) hs w)" for hs
    by (induction hs arbitrary: w) (auto simp: hook_preserves_def preserves_def)
  from this [of "rev hs"] show "\<forall>h \<in> set hs. hook_preserves P h \<Longrightarrow> P w \<Longrightarrow> P (tell_after op hs w)"
    by (simp add: tell_after_def)
qed

lemma execute_preserves:
  assumes "\<forall>h \<in> set hooks. hook_preserves P h" "preserves P run"
  shows "preserves P (execute hooks summary op now run)"
  unfolding preserves_def
proof (intro allI impI)
  fix w assume w: "P w"
  let ?op = "op\<lparr>op_status := OPS_RUNNING\<rparr>"
  obtain stop asked w1 where ask: "ask_before ?op (sorted_hooks hooks) w = ((stop, asked), w1)" by (metis prod.exhaust)
  have hs: "\<forall>h \<in> set (sorted_hooks hooks). hook_preserves P h" using assms(1) by (simp add: sorted_hooks_def)
  have w1: "P w1" using ask_before_preserves [OF hs w, of ?op] ask by simp
  have asked: "\<forall>h \<in> set asked. hook_preserves P h" using ask_before_asked [OF ask] hs by blast
  show "P (snd (execute hooks summary op now run w))"
  proof (cases stop)
    case (Some err)
    then show ?thesis by (simp add: blocked_not_run [OF ask [unfolded Some]] tell_after_preserves [OF asked w1])
  next
    case None
    obtain r w2 where run: "run w1 = (r, w2)" by fastforce
    then have "P w2" using assms(2) w1 by (auto simp: preserves_def dest: spec [of _ w1])
    then show ?thesis by (simp add: unblocked_runs [OF ask [unfolded None], of run, OF run] tell_after_preserves [OF asked])
  qed
qed

section \<open>What the retry loop guarantees\<close>

text \<open>\<open>counted call\<close> counts the calls in the first component of the state.\<close>

definition counted :: "(string option \<Rightarrow> ('w, 'a) io) \<Rightarrow> string option \<Rightarrow> (nat \<times> 'w, 'a) io" where
  "counted call feedback nw = (let (r, w') = call feedback (snd nw) in (r, (Suc (fst nw), w')))"

lemma retry_loop_count:
  "fst (snd (retry_loop L s t fb (counted call) (n, w))) \<le> Suc (n + (rl_schema L - s) + (rl_transient L - t))"
proof (induction "(rl_schema L - s) + (rl_transient L - t)" arbitrary: s t fb n w rule: less_induct)
  case less
  obtain r w' where c: "call fb w = (r, w')" by fastforce
  show ?case
  proof (cases r)
    case (Inr x)
    then show ?thesis by (subst retry_loop.simps) (simp add: counted_def c)
  next
    case (Inl err)
    consider (s) "is_schema_error err" "s < rl_schema L" | (t) "\<not> (is_schema_error err \<and> s < rl_schema L)"
        "is_transient_error err" "t < rl_transient L" | (e) "\<not> (is_schema_error err \<and> s < rl_schema L)"
        "\<not> (is_transient_error err \<and> t < rl_transient L)" by blast
    then show ?thesis
    proof cases
      case s
      then have "fst (snd (retry_loop L (Suc s) t (Some schema_feedback_text) (counted call) (Suc n, w')))
          \<le> Suc (Suc n + (rl_schema L - Suc s) + (rl_transient L - t))"
        by (intro less) linarith
      also have "\<dots> = Suc (n + (rl_schema L - s) + (rl_transient L - t))" using s by linarith
      finally show ?thesis using s by (subst retry_loop.simps) (simp add: counted_def c Inl)
    next
      case t
      then have "fst (snd (retry_loop L s (Suc t) fb (counted call) (Suc n, w')))
          \<le> Suc (Suc n + (rl_schema L - s) + (rl_transient L - Suc t))"
        by (intro less) linarith
      also have "\<dots> = Suc (n + (rl_schema L - s) + (rl_transient L - t))" using t by linarith
      finally show ?thesis using t by (subst retry_loop.simps) (auto simp: counted_def c Inl)
    next
      case e
      then show ?thesis by (subst retry_loop.simps) (auto simp: counted_def c Inl)
    qed
  qed
qed

lemma retry_run_count: "fst (snd (retry_run L (counted call) (0, w))) \<le> 1 + rl_schema L + rl_transient L"
  using retry_loop_count [of L 0 0 None call 0 w] by (simp add: retry_run_def)

text \<open>An error of another kind ends the loop at once; only an error that may be retried is.\<close>

lemma retry_run_at_once:
  "call None w = (Inl err, w') \<Longrightarrow> \<not> is_schema_error err \<Longrightarrow> \<not> is_transient_error err \<Longrightarrow>
     retry_run L call w = (Inl err, w')"
  unfolding retry_run_def by (subst retry_loop.simps) simp

lemma retry_loop_preserves: "(\<And>f. preserves P (call f)) \<Longrightarrow> preserves P (retry_loop L s t fb call)"
proof -
  assume call: "\<And>f. preserves P (call f)"
  have "P w \<Longrightarrow> P (snd (retry_loop L s t fb call w))" for w
  proof (induction "(rl_schema L - s) + (rl_transient L - t)" arbitrary: s t fb w rule: less_induct)
    case less
    obtain r w' where c: "call fb w = (r, w')" by fastforce
    then have "P w'" using call [of fb] less.prems by (auto simp: preserves_def dest: spec [of _ w])
    then show ?case
      using less.hyps [of "Suc s" t w' "Some schema_feedback_text"] less.hyps [of s "Suc t" w' fb]
      by (subst retry_loop.simps) (auto simp: c split: sum.split)
  qed
  then show ?thesis by (simp add: preserves_def)
qed

lemma retry_run_preserves [keeps]: "(\<And>f. preserves P (call f)) \<Longrightarrow> preserves P (retry_run L call)"
  unfolding retry_run_def by (rule retry_loop_preserves)

end
