(* ===== verification/Execution_Plan.thy ===== *)
theory Execution_Plan
  imports Agent_Models Effects
begin

text \<open>
  \<open>agent/planning/\<close>: the validator of execution plans with its depth first cycle check, the
  updater, and the progress detector. The main facts: the cycle check accepts exactly the acyclic
  dependency relations, the validator accepts exactly the well-formed plans, a replaced plan is
  well-formed and keeps every step, and after an observation the current step is the first ready
  step of the plan, which exists unless every step is done or something is blocked.
\<close>

section \<open>The cycle check\<close>

type_synonym dep_graph = "(string, string list) dict"

text \<open>
  \<open>visit_all g visiting visited ns\<close> is the loop \<open>for n in ns: visit(n)\<close> with the two sets of
  the closure. \<open>visit(n)\<close> adds \<open>n\<close> to \<open>visiting\<close>, loops over its dependencies, removes it
  again and adds it to \<open>visited\<close>.
\<close>

function visit_all :: "dep_graph \<Rightarrow> string set \<Rightarrow> string set \<Rightarrow> string list \<Rightarrow> string set outcome" where
  "visit_all g visiting visited [] = Inr visited"
| "visit_all g visiting visited (n # ns) =
     (if n \<in> visiting then Inl (InvalidExecutionPlan ''execution plan contains a cycle'')
      else if n \<in> visited then visit_all g visiting visited ns
      else case dict_get g n of
        None \<Rightarrow> Inl (KeyError n)
      | Some deps \<Rightarrow>
          (case visit_all g (insert n visiting) visited deps of
             Inl e \<Rightarrow> Inl e
           | Inr visited' \<Rightarrow> visit_all g visiting (insert n visited') ns))"
  by pat_completeness auto
termination
proof (relation "measures [\<lambda>(g, visiting, _, _). card (set (dict_keys g) - visiting), \<lambda>(_, _, _, ns). length ns]",
    goal_cases)
  case (3 g visiting visited n ns deps)
  then have "n \<in> set (dict_keys g) - visiting"
    by (auto simp: dict_get_def dict_keys_def dest: map_of_SomeD intro: rev_image_eqI)
  then have "card (set (dict_keys g) - insert n visiting) < card (set (dict_keys g) - visiting)"
    by (intro psubset_card_mono) auto
  then show ?case by simp
qed auto

definition dep_edges :: "dep_graph \<Rightarrow> (string \<times> string) set" where
  "dep_edges g = {(n, d). \<exists>ds. dict_get g n = Some ds \<and> d \<in> set ds}"

lemma dep_edges_code [code]:
  "dep_edges g = (\<Union>n \<in> set (dict_keys g). case dict_get g n of None \<Rightarrow> {} | Some ds \<Rightarrow> Pair n ` set ds)"
  by (force simp: dep_edges_def dict_get_def dict_keys_def dest: map_of_SomeD split: option.splits)

lemma visit_all_acc:
  "visit_all g visiting visited ns = Inr visited' \<Longrightarrow> visited \<subseteq> Wellfounded.acc ((dep_edges g)\<inverse>) \<Longrightarrow>
     visited \<subseteq> visited' \<and> set ns \<subseteq> visited' \<and> visited' \<subseteq> Wellfounded.acc ((dep_edges g)\<inverse>)"
proof (induction g visiting visited ns arbitrary: visited' rule: visit_all.induct)
  case (1 g visiting visited)
  then show ?case by simp
next
  case (2 g visiting visited n ns)
  show ?case
  proof (cases "n \<in> visited")
    case True
    with 2 show ?thesis by (auto split: if_splits)
  next
    case False
    with "2.prems" obtain deps mid where step: "n \<notin> visiting" "dict_get g n = Some deps"
      "visit_all g (insert n visiting) visited deps = Inr mid"
      "visit_all g visiting (insert n mid) ns = Inr visited'"
      by (auto split: if_splits option.splits sum.splits)
    have mid: "visited \<subseteq> mid" "set deps \<subseteq> mid" "mid \<subseteq> Wellfounded.acc ((dep_edges g)\<inverse>)"
      using "2.IH"(2) [OF step(1) False step(2,3)] "2.prems"(2) by auto
    have "n \<in> Wellfounded.acc ((dep_edges g)\<inverse>)"
    proof (rule accI)
      fix d assume "(d, n) \<in> (dep_edges g)\<inverse>"
      then have "d \<in> set deps" using step(2) by (simp add: dep_edges_def)
      with mid show "d \<in> Wellfounded.acc ((dep_edges g)\<inverse>)" by blast
    qed
    then have "insert n mid \<subseteq> Wellfounded.acc ((dep_edges g)\<inverse>)" using mid by simp
    with "2.IH"(3) [OF step(1) False step(2,3,4)] mid show ?thesis by auto
  qed
qed

definition closed_graph :: "dep_graph \<Rightarrow> bool" where
  "closed_graph g \<longleftrightarrow> (\<forall>(n, d) \<in> dep_edges g. dict_get g d \<noteq> None)"

lemma visit_all_complete:
  "closed_graph g \<Longrightarrow> \<forall>n \<in> set ns. dict_get g n \<noteq> None \<Longrightarrow>
     \<forall>v \<in> visiting. \<forall>n \<in> set ns. (v, n) \<in> (dep_edges g)\<^sup>+ \<Longrightarrow> acyclic (dep_edges g) \<Longrightarrow>
     is_ok (visit_all g visiting visited ns)"
proof (induction g visiting visited ns rule: visit_all.induct)
  case (1 g visiting visited)
  then show ?case by simp
next
  case (2 g visiting visited n ns)
  have n: "n \<notin> visiting" using "2.prems"(3,4) by (auto simp: acyclic_def)
  show ?case
  proof (cases "n \<in> visited")
    case True
    with n 2 show ?thesis by simp
  next
    case False
    obtain deps where deps: "dict_get g n = Some deps" using "2.prems"(2) by auto
    have edge: "d \<in> set deps \<Longrightarrow> (n, d) \<in> dep_edges g" for d using deps by (simp add: dep_edges_def)
    have "\<forall>d \<in> set deps. dict_get g d \<noteq> None"
      using edge "2.prems"(1) by (fastforce simp: closed_graph_def)
    moreover have "\<forall>v \<in> insert n visiting. \<forall>d \<in> set deps. (v, d) \<in> (dep_edges g)\<^sup>+"
      using edge "2.prems"(3) by (auto intro: trancl_into_trancl)
    ultimately have "is_ok (visit_all g (insert n visiting) visited deps)"
      using "2.IH"(2) [OF n False deps] "2.prems"(1,4) by blast
    then obtain mid where mid: "visit_all g (insert n visiting) visited deps = Inr mid"
      by (auto simp: is_ok_def split: sum.splits)
    with "2.IH"(3) [OF n False deps mid] "2.prems" n False deps show ?thesis by simp
  qed
qed

lemma visit_all_iff_acyclic:
  assumes "closed_graph g"
  shows "is_ok (visit_all g {} {} (dict_keys g)) \<longleftrightarrow> acyclic (dep_edges g)"
proof
  assume "acyclic (dep_edges g)"
  moreover have "\<forall>n \<in> set (dict_keys g). dict_get g n \<noteq> None"
    by (simp add: dict_keys_def dict_get_def map_of_eq_None_iff)
  ultimately show "is_ok (visit_all g {} {} (dict_keys g))"
    using assms by (intro visit_all_complete) simp_all
next
  assume "is_ok (visit_all g {} {} (dict_keys g))"
  then obtain all where "visit_all g {} {} (dict_keys g) = Inr all"
    by (auto simp: is_ok_def split: sum.splits)
  from visit_all_acc [OF this] have keys: "set (dict_keys g) \<subseteq> Wellfounded.acc ((dep_edges g)\<inverse>)"
    by blast
  have "n \<in> Wellfounded.acc ((dep_edges g)\<inverse>)" for n
  proof (cases "dict_get g n")
    case None
    then show ?thesis by (auto simp: dep_edges_def intro: accI [of n])
  next
    case (Some ds)
    then have "n \<in> set (dict_keys g)"
      by (auto simp: dict_get_def dict_keys_def dest: map_of_SomeD intro: rev_image_eqI)
    with keys show ?thesis by blast
  qed
  then have "wf ((dep_edges g)\<inverse>)" by (intro acc_wfI) simp
  then have "acyclic ((dep_edges g)\<inverse>)" by (rule wf_acyclic)
  then show "acyclic (dep_edges g)" by (simp add: acyclic_converse)
qed

section \<open>The validator\<close>

definition steps_by_id :: "exec_plan \<Rightarrow> (string, exec_step) dict" where
  "steps_by_id p = dict_of (map (\<lambda>s. (es_step_id s, s)) (ep_steps p))"

definition plan_graph :: "exec_plan \<Rightarrow> dep_graph" where
  "plan_graph p = dict_of (map (\<lambda>s. (es_step_id s, es_depends_on s)) (ep_steps p))"

definition validate_no_cycle :: "exec_plan \<Rightarrow> unit outcome" where
  "validate_no_cycle p =
     and_then (visit_all (plan_graph p) {} {} (dict_keys (plan_graph p))) (\<lambda>_. Inr ())"

definition require :: "bool \<Rightarrow> string \<Rightarrow> unit outcome" where
  "require b msg = (if b then Inr () else Inl (InvalidExecutionPlan msg))"

lemma require_simps [simp]: "require b m = Inr u \<longleftrightarrow> b"
  by (simp add: require_def)

definition runs_production_sql :: "exec_step \<Rightarrow> bool" where
  "runs_production_sql s \<longleftrightarrow>
     contains ''execute_sql'' (casefold (es_step_id s)) \<or>
     contains forbidden_title (casefold (es_title s)) \<or>
     (truthy (es_tool_name s) \<and> contains ''execute'' (casefold (or_text (es_tool_name s) [])) \<and>
      contains ''sql'' (casefold (or_text (es_tool_name s) [])))"

definition current_exists :: "exec_plan \<Rightarrow> bool" where
  "current_exists p \<longleftrightarrow>
     truthy (ep_current p) \<longrightarrow> or_text (ep_current p) [] \<in> set (dict_keys (steps_by_id p))"

definition validate_structure :: "exec_plan \<Rightarrow> unit outcome" where
  "validate_structure p =
     and_then (require (ep_steps p \<noteq> []) ''execution plan cannot be empty'') (\<lambda>_.
     and_then (require (distinct (map es_step_id (ep_steps p))) ''step_id must be unique'') (\<lambda>_.
     and_then (require (\<forall>s \<in> set (ep_steps p). \<forall>d \<in> set (es_depends_on s).
         d \<in> set (dict_keys (steps_by_id p))) ''dependency does not exist'') (\<lambda>_.
     and_then (validate_no_cycle p) (\<lambda>_.
     and_then (require (\<not> (\<exists>s \<in> set (ep_steps p). runs_production_sql s))
         ''production SQL execution is forbidden'') (\<lambda>_.
     and_then (require (\<not> (\<exists>s \<in> set (ep_steps p).
         es_action_type s = PA_TOOL_CALL \<and> \<not> truthy (es_tool_name s)))
         ''TOOL_CALL plan step requires tool_name'') (\<lambda>_.
     and_then (require (\<not> (\<exists>s \<in> set (ep_steps p).
         es_action_type s = PA_RUN_SUB_AGENT \<and> es_request s = None))
         ''RUN_SUB_AGENT plan step requires sub_agent_request'') (\<lambda>_.
     require (current_exists p) ''current step does not exist'')))))))"

definition validate_initial :: "exec_plan \<Rightarrow> unit outcome" where
  "validate_initial p =
     and_then (validate_structure p) (\<lambda>_. require (\<not> ep_revision p < 0) ''initial revision cannot be negative'')"

fun allowed_transitions :: "step_status \<Rightarrow> step_status list" where
  "allowed_transitions ST_PENDING = [ST_PENDING, ST_IN_PROGRESS, ST_SKIPPED]"
| "allowed_transitions ST_IN_PROGRESS = [ST_IN_PROGRESS, ST_COMPLETED, ST_BLOCKED, ST_SKIPPED]"
| "allowed_transitions ST_BLOCKED = [ST_BLOCKED, ST_IN_PROGRESS]"
| "allowed_transitions ST_COMPLETED = [ST_COMPLETED]"
| "allowed_transitions ST_SKIPPED = [ST_SKIPPED]"

text \<open>The loop of \<open>validate_transition\<close> over the items of the old dict.\<close>

fun check_old_steps :: "(string, exec_step) dict \<Rightarrow> (string \<times> exec_step) list \<Rightarrow> unit outcome" where
  "check_old_steps by_id [] = Inr ()"
| "check_old_steps by_id ((k, old) # rest) =
     (case dict_get by_id k of
        None \<Rightarrow> Inl (InvalidExecutionPlan ''existing steps cannot be deleted'')
      | Some new \<Rightarrow>
          if es_status new \<notin> set (allowed_transitions (es_status old))
          then Inl (InvalidExecutionPlan ''invalid step state transition'')
          else check_old_steps by_id rest)"

definition validate_transition :: "exec_plan \<Rightarrow> exec_plan \<Rightarrow> unit outcome" where
  "validate_transition old new =
     and_then (validate_structure new) (\<lambda>_.
     and_then (check_old_steps (steps_by_id new) (steps_by_id old)) (\<lambda>_.
     and_then (require (\<not> ep_revision new \<le> ep_revision old) ''revision must increase'') (\<lambda>_.
     require (current_exists new) ''current step does not exist'')))"

section \<open>What the validator accepts\<close>

definition step_deps :: "exec_plan \<Rightarrow> (string \<times> string) set" where
  "step_deps p = {(es_step_id s, d) |s d. s \<in> set (ep_steps p) \<and> d \<in> set (es_depends_on s)}"

definition well_formed_plan :: "exec_plan \<Rightarrow> bool" where
  "well_formed_plan p \<longleftrightarrow>
     ep_steps p \<noteq> [] \<and> distinct (map es_step_id (ep_steps p)) \<and>
     snd ` step_deps p \<subseteq> es_step_id ` set (ep_steps p) \<and> acyclic (step_deps p) \<and>
     (\<forall>s \<in> set (ep_steps p).
        \<not> runs_production_sql s \<and>
        (es_action_type s = PA_TOOL_CALL \<longrightarrow> truthy (es_tool_name s)) \<and>
        (es_action_type s = PA_RUN_SUB_AGENT \<longrightarrow> es_request s \<noteq> None)) \<and>
     (\<forall>c. ep_current p = Some c \<and> c \<noteq> [] \<longrightarrow> c \<in> es_step_id ` set (ep_steps p))"

lemma step_deps_UN: "step_deps p = (\<Union>s \<in> set (ep_steps p). Pair (es_step_id s) ` set (es_depends_on s))"
  by (auto simp: step_deps_def)

lemma steps_by_id_distinct:
  "distinct (map es_step_id (ep_steps p)) \<Longrightarrow> steps_by_id p = map (\<lambda>s. (es_step_id s, s)) (ep_steps p)"
  by (simp add: steps_by_id_def dict_of_distinct comp_def)

lemma plan_graph_distinct:
  "distinct (map es_step_id (ep_steps p)) \<Longrightarrow>
     plan_graph p = map (\<lambda>s. (es_step_id s, es_depends_on s)) (ep_steps p)"
  by (simp add: plan_graph_def dict_of_distinct comp_def)

lemma dict_get_map:
  "distinct (map f xs) \<Longrightarrow> x \<in> set xs \<Longrightarrow> dict_get (map (\<lambda>x. (f x, h x)) xs) (f x) = Some (h x)"
  by (simp add: dict_get_def map_of_eq_Some_iff comp_def)

lemma dep_edges_plan:
  assumes "distinct (map es_step_id (ep_steps p))"
  shows "dep_edges (plan_graph p) = step_deps p"
  using assms unfolding dep_edges_def step_deps_def plan_graph_distinct [OF assms] dict_get_def
  by (fastforce simp: map_of_eq_Some_iff comp_def)

lemma keys_plan:
  "distinct (map es_step_id (ep_steps p)) \<Longrightarrow> set (dict_keys (steps_by_id p)) = es_step_id ` set (ep_steps p)"
  by (simp add: steps_by_id_distinct dict_keys_def image_comp comp_def)

lemma validate_no_cycle_iff:
  assumes d: "distinct (map es_step_id (ep_steps p))"
    and deps: "snd ` step_deps p \<subseteq> es_step_id ` set (ep_steps p)"
  shows "validate_no_cycle p = Inr () \<longleftrightarrow> acyclic (step_deps p)"
proof -
  have "dict_get (plan_graph p) k \<noteq> None \<longleftrightarrow> k \<in> es_step_id ` set (ep_steps p)" for k
    by (simp add: plan_graph_distinct [OF d] dict_get_def map_of_eq_None_iff image_comp comp_def)
  then have "closed_graph (plan_graph p)"
    using deps unfolding closed_graph_def dep_edges_plan [OF d] by force
  from visit_all_iff_acyclic [OF this] show ?thesis
    unfolding dep_edges_plan [OF d] validate_no_cycle_def
    by (auto simp: is_ok_def and_then_Inr_iff split: sum.splits)
qed

lemma validate_structure_iff: "validate_structure p = Inr () \<longleftrightarrow> well_formed_plan p"
proof (cases "distinct (map es_step_id (ep_steps p)) \<and> snd ` step_deps p \<subseteq> es_step_id ` set (ep_steps p)")
  case True
  then have "validate_no_cycle p = Inr () \<longleftrightarrow> acyclic (step_deps p)"
    by (simp add: validate_no_cycle_iff)
  moreover have "(\<forall>s \<in> set (ep_steps p). \<forall>d \<in> set (es_depends_on s). d \<in> es_step_id ` set (ep_steps p))"
    using True by (force simp: step_deps_def)
  moreover have "current_exists p \<longleftrightarrow>
      (\<forall>c. ep_current p = Some c \<and> c \<noteq> [] \<longrightarrow> c \<in> es_step_id ` set (ep_steps p))"
    using True by (cases "ep_current p") (auto simp: current_exists_def keys_plan)
  ultimately show ?thesis
    using True by (auto simp: validate_structure_def well_formed_plan_def and_then_Inr_iff keys_plan)
next
  case False
  have "(\<forall>s \<in> set (ep_steps p). \<forall>d \<in> set (es_depends_on s). d \<in> es_step_id ` set (ep_steps p)) \<longleftrightarrow>
      snd ` step_deps p \<subseteq> es_step_id ` set (ep_steps p)"
    by (force simp: step_deps_def)
  with False show ?thesis
    by (auto simp: validate_structure_def well_formed_plan_def and_then_Inr_iff keys_plan)
qed

lemma check_old_steps_iff:
  "check_old_steps by_id items = Inr () \<longleftrightarrow>
     (\<forall>(k, old) \<in> set items. \<exists>new. dict_get by_id k = Some new \<and>
        es_status new \<in> set (allowed_transitions (es_status old)))"
  by (induction by_id items rule: check_old_steps.induct) (auto split: option.splits)

section \<open>Replacing a plan\<close>

definition replace_plan ::
  "exec_plan \<Rightarrow> exec_plan \<Rightarrow> run_state \<Rightarrow> run_limits \<Rightarrow> (exec_plan \<times> run_state) outcome" where
  "replace_plan current proposed st l =
     (if st_plan_revisions st \<ge> lm_max_plan_revisions l
      then Inl (ValueError ''max_plan_revisions exceeded'')
      else let updated = proposed\<lparr>ep_revision := ep_revision current + 1\<rparr> in
        and_then (if st_plan_revisions st = 0 then validate_initial updated
                  else validate_transition current updated)
          (\<lambda>_. Inr (updated, st\<lparr>st_plan_revisions := st_plan_revisions st + 1\<rparr>)))"

definition legal_successor :: "exec_plan \<Rightarrow> exec_plan \<Rightarrow> bool" where
  "legal_successor old new \<longleftrightarrow>
     (\<forall>s \<in> set (ep_steps old). \<exists>t \<in> set (ep_steps new). es_step_id t = es_step_id s \<and>
        es_status t \<in> set (allowed_transitions (es_status s)))"

lemma well_formed_plan_revision [simp]:
  "well_formed_plan (p\<lparr>ep_revision := r\<rparr>) = well_formed_plan p"
  by (simp add: well_formed_plan_def step_deps_def)

lemma validate_transition_iff:
  assumes old: "well_formed_plan old"
  shows "validate_transition old new = Inr () \<longleftrightarrow>
    well_formed_plan new \<and> legal_successor old new \<and> ep_revision old < ep_revision new"
proof (cases "well_formed_plan new")
  case True
  have d: "distinct (map es_step_id (ep_steps new))" "distinct (map es_step_id (ep_steps old))"
    using True old by (simp_all add: well_formed_plan_def)
  have get: "dict_get (steps_by_id new) k = Some t \<longleftrightarrow> t \<in> set (ep_steps new) \<and> es_step_id t = k" for k t
    using d(1) by (auto simp: steps_by_id_distinct dict_get_def map_of_eq_Some_iff comp_def)
  have "check_old_steps (steps_by_id new) (steps_by_id old) = Inr () \<longleftrightarrow> legal_successor old new"
    unfolding check_old_steps_iff legal_successor_def get steps_by_id_distinct [OF d(2)] by auto
  moreover have "validate_structure new = Inr ()" using True by (simp add: validate_structure_iff)
  moreover have "current_exists new"
    using \<open>validate_structure new = Inr ()\<close> by (simp add: validate_structure_def and_then_Inr_iff)
  ultimately show ?thesis using True by (auto simp: validate_transition_def and_then_Inr_iff)
next
  case False
  then show ?thesis by (simp add: validate_transition_def and_then_Inr_iff validate_structure_iff)
qed

lemma replace_plan_iff:
  assumes old: "well_formed_plan current"
  shows "replace_plan current proposed st l = Inr (p, st') \<longleftrightarrow>
    st_plan_revisions st < lm_max_plan_revisions l \<and> p = proposed\<lparr>ep_revision := ep_revision current + 1\<rparr> \<and>
    st' = st\<lparr>st_plan_revisions := st_plan_revisions st + 1\<rparr> \<and> well_formed_plan proposed \<and>
    (if st_plan_revisions st = 0 then 0 \<le> ep_revision current + 1 else legal_successor current proposed)"
proof -
  have "legal_successor current (proposed\<lparr>ep_revision := r\<rparr>) = legal_successor current proposed" for r
    by (simp add: legal_successor_def)
  then show ?thesis
    by (auto simp: replace_plan_def Let_def and_then_Inr_iff validate_transition_iff [OF old]
        validate_initial_def validate_structure_iff split: if_splits)
qed

section \<open>Observations\<close>

fun update_last :: "('a \<Rightarrow> bool) \<Rightarrow> ('a \<Rightarrow> 'a) \<Rightarrow> 'a list \<Rightarrow> 'a list" where
  "update_last P f [] = []"
| "update_last P f (x # xs) =
     (if P x \<and> \<not> (\<exists>y \<in> set xs. P y) then f x # xs else x # update_last P f xs)"

definition observe_step :: "observation \<Rightarrow> exec_step \<Rightarrow> exec_step" where
  "observe_step obs s =
     (let s1 = s\<lparr>es_execution_count := es_execution_count s + 1,
                 es_result_refs := dedup (es_result_refs s @ ob_artifact_refs obs)\<rparr> in
      case ob_status obs of
        OB_SUCCEEDED \<Rightarrow> s1\<lparr>es_status := ST_COMPLETED, es_failure_reason := None\<rparr>
      | OB_SKIPPED \<Rightarrow> s1\<lparr>es_status := ST_SKIPPED\<rparr>
      | _ \<Rightarrow> s1\<lparr>es_status := ST_BLOCKED, es_failure_reason := Some (ob_summary obs)\<rparr>)"

definition is_done :: "exec_step \<Rightarrow> bool" where
  "is_done s \<longleftrightarrow> es_status s = ST_COMPLETED \<or> es_status s = ST_SKIPPED"

fun deps_done :: "(string, exec_step) dict \<Rightarrow> string list \<Rightarrow> bool outcome" where
  "deps_done steps [] = Inr True"
| "deps_done steps (d # ds) =
     (case dict_get steps d of
        None \<Rightarrow> Inl (KeyError d)
      | Some s \<Rightarrow> if is_done s then deps_done steps ds else Inr False)"

fun first_ready :: "(string, exec_step) dict \<Rightarrow> exec_step list \<Rightarrow> string option outcome" where
  "first_ready steps [] = Inr None"
| "first_ready steps (s # ss) =
     (if es_status s \<noteq> ST_PENDING then first_ready steps ss
      else and_then (deps_done steps (es_depends_on s))
        (\<lambda>b. if b then Inr (Some (es_step_id s)) else first_ready steps ss))"

definition apply_observation :: "observation \<Rightarrow> (exec_plan, unit) io" where
  "apply_observation obs p =
     (if \<not> truthy (ob_plan_step_id obs) then (Inr (), p)
      else let sid = or_text (ob_plan_step_id obs) [] in
        if dict_get (steps_by_id p) sid = None then (Inr (), p)
        else let p1 = p\<lparr>ep_steps := update_last (\<lambda>s. es_step_id s = sid) (observe_step obs) (ep_steps p)\<rparr> in
          case first_ready (steps_by_id p1) (ep_steps p1) of
            Inl e \<Rightarrow> (Inl e, p1)
          | Inr c \<Rightarrow> (Inr (), p1\<lparr>ep_current := c\<rparr>))"

definition ready_step :: "exec_plan \<Rightarrow> exec_step \<Rightarrow> bool" where
  "ready_step p s \<longleftrightarrow> es_status s = ST_PENDING \<and>
     (\<forall>d \<in> set (es_depends_on s). \<forall>t \<in> set (ep_steps p). es_step_id t = d \<longrightarrow> is_done t)"

lemma observe_step_frame [simp, frame]:
  "es_step_id (observe_step obs s) = es_step_id s" "es_depends_on (observe_step obs s) = es_depends_on s"
  "es_action_type (observe_step obs s) = es_action_type s" "es_tool_name (observe_step obs s) = es_tool_name s"
  "es_title (observe_step obs s) = es_title s" "es_request (observe_step obs s) = es_request s"
  by (simp_all add: observe_step_def Let_def split: obs_status.split)

lemma runs_production_sql_observe [simp]: "runs_production_sql (observe_step obs s) = runs_production_sql s"
  by (simp add: runs_production_sql_def)

lemma update_last_distinct:
  "distinct (map k xs) \<Longrightarrow>
     update_last (\<lambda>x. k x = i) f xs = map (\<lambda>x. if k x = i then f x else x) xs"
proof (induction xs)
  case Nil
  then show ?case by simp
next
  case (Cons x xs)
  have other: "y \<in> set xs \<Longrightarrow> k y \<noteq> k x" for y using Cons.prems by (metis distinct.simps(2) image_eqI list.set_map list.simps(9))
  have "k x = i \<Longrightarrow> map (\<lambda>x. if k x = i then f x else x) xs = xs"
    by (intro map_idI) (metis other)
  then show ?case using Cons other by auto
qed

lemma get_step:
  "distinct (map es_step_id (ep_steps p)) \<Longrightarrow>
     dict_get (steps_by_id p) k = Some t \<longleftrightarrow> t \<in> set (ep_steps p) \<and> es_step_id t = k"
  by (auto simp: steps_by_id_distinct dict_get_def map_of_eq_Some_iff comp_def)

lemma deps_done_eq:
  assumes "distinct (map es_step_id (ep_steps p))" "set ds \<subseteq> es_step_id ` set (ep_steps p)"
  shows "deps_done (steps_by_id p) ds =
    Inr (\<forall>d \<in> set ds. \<forall>t \<in> set (ep_steps p). es_step_id t = d \<longrightarrow> is_done t)"
  using assms(2)
proof (induction ds)
  case Nil
  then show ?case by simp
next
  case (Cons d ds)
  then obtain t where t: "dict_get (steps_by_id p) d = Some t" "t \<in> set (ep_steps p)" "es_step_id t = d"
    using get_step [OF assms(1)] by fastforce
  then have "(\<forall>u \<in> set (ep_steps p). es_step_id u = d \<longrightarrow> is_done u) \<longleftrightarrow> is_done t"
    using assms(1) by (auto simp: distinct_map inj_on_def)
  with Cons t show ?case by auto
qed

lemma first_ready_eq:
  assumes "distinct (map es_step_id (ep_steps p))"
    and "\<forall>s \<in> set ss. set (es_depends_on s) \<subseteq> es_step_id ` set (ep_steps p)"
  shows "first_ready (steps_by_id p) ss = Inr (map_option es_step_id (List.find (ready_step p) ss))"
  using assms(2)
proof (induction ss)
  case Nil
  then show ?case by simp
next
  case (Cons s ss)
  then have "deps_done (steps_by_id p) (es_depends_on s) =
      Inr (\<forall>d \<in> set (es_depends_on s). \<forall>t \<in> set (ep_steps p). es_step_id t = d \<longrightarrow> is_done t)"
    using deps_done_eq [OF assms(1)] by simp
  with Cons show ?case by (auto simp: ready_step_def)
qed

lemma well_formed_deps:
  "well_formed_plan p \<Longrightarrow> s \<in> set (ep_steps p) \<Longrightarrow> set (es_depends_on s) \<subseteq> es_step_id ` set (ep_steps p)"
proof
  fix d assume "well_formed_plan p" "s \<in> set (ep_steps p)" "d \<in> set (es_depends_on s)"
  then have "(es_step_id s, d) \<in> step_deps p" "snd ` step_deps p \<subseteq> es_step_id ` set (ep_steps p)"
    by (auto simp: step_deps_def well_formed_plan_def)
  then show "d \<in> es_step_id ` set (ep_steps p)" by force
qed

text \<open>The observed plan: same steps, same dependencies, and the current step is the first ready one.\<close>

definition observe_at :: "observation \<Rightarrow> string \<Rightarrow> exec_step \<Rightarrow> exec_step" where
  "observe_at obs sid s = (if es_step_id s = sid then observe_step obs s else s)"

lemma observe_at_frame [simp, frame]:
  "es_step_id (observe_at obs sid s) = es_step_id s" "es_depends_on (observe_at obs sid s) = es_depends_on s"
  "es_action_type (observe_at obs sid s) = es_action_type s"
  "es_tool_name (observe_at obs sid s) = es_tool_name s"
  "es_request (observe_at obs sid s) = es_request s"
  "runs_production_sql (observe_at obs sid s) = runs_production_sql s"
  by (simp_all add: observe_at_def)

definition observed :: "observation \<Rightarrow> string \<Rightarrow> exec_plan \<Rightarrow> exec_plan" where
  "observed obs sid p = p\<lparr>ep_steps := map (observe_at obs sid) (ep_steps p)\<rparr>"

lemma observed_frame [simp, frame]:
  "ep_steps (observed obs sid p) = map (observe_at obs sid) (ep_steps p)"
  "ep_revision (observed obs sid p) = ep_revision p" "ep_current (observed obs sid p) = ep_current p"
  by (simp_all add: observed_def)

lemma observed_deps [simp]: "step_deps (observed obs sid p) = step_deps p"
  by (simp add: step_deps_UN)

lemma well_formed_observed: "well_formed_plan p \<Longrightarrow> well_formed_plan (observed obs sid p)"
  by (simp add: well_formed_plan_def comp_def image_comp)

lemma apply_observation_eq:
  assumes wf: "well_formed_plan p"
  shows "apply_observation obs p =
    (Inr (), case ob_plan_step_id obs of
       None \<Rightarrow> p
     | Some sid \<Rightarrow> if sid \<noteq> [] \<and> sid \<in> es_step_id ` set (ep_steps p)
         then (let p1 = observed obs sid p in
               p1\<lparr>ep_current := map_option es_step_id (List.find (ready_step p1) (ep_steps p1))\<rparr>)
         else p)"
proof (cases "ob_plan_step_id obs")
  case None
  then show ?thesis by (simp add: apply_observation_def)
next
  case (Some sid)
  have d: "distinct (map es_step_id (ep_steps p))" using wf by (simp add: well_formed_plan_def)
  show ?thesis
  proof (cases "sid \<noteq> [] \<and> sid \<in> es_step_id ` set (ep_steps p)")
    case True
    then obtain s where "dict_get (steps_by_id p) sid = Some s"
      by (fastforce simp: steps_by_id_distinct [OF d] dict_get_def map_of_eq_None_iff image_comp comp_def)
    moreover have "p\<lparr>ep_steps := update_last (\<lambda>s. es_step_id s = sid) (observe_step obs) (ep_steps p)\<rparr> =
        observed obs sid p"
      by (simp add: observed_def update_last_distinct [OF d] observe_at_def)
    moreover have "first_ready (steps_by_id (observed obs sid p)) (ep_steps (observed obs sid p)) =
        Inr (map_option es_step_id (List.find (ready_step (observed obs sid p)) (ep_steps (observed obs sid p))))"
      using d well_formed_deps [OF wf]
      by (intro first_ready_eq) (simp_all add: comp_def image_comp)
    ultimately show ?thesis using True Some by (simp add: apply_observation_def Let_def)
  next
    case False
    then have "sid = [] \<or> dict_get (steps_by_id p) sid = None"
      by (auto simp: steps_by_id_distinct [OF d] dict_get_def map_of_eq_None_iff image_comp comp_def)
    with False Some show ?thesis by (auto simp: apply_observation_def Let_def)
  qed
qed

lemma well_formed_plan_current:
  "well_formed_plan p \<Longrightarrow> c \<in> set (ep_steps p) \<Longrightarrow> well_formed_plan (p\<lparr>ep_current := Some (es_step_id c)\<rparr>)"
  "well_formed_plan p \<Longrightarrow> well_formed_plan (p\<lparr>ep_current := None\<rparr>)"
  by (auto simp: well_formed_plan_def step_deps_def)

lemma apply_observation_well_formed:
  assumes "well_formed_plan p"
  shows "\<exists>p'. apply_observation obs p = (Inr (), p') \<and> well_formed_plan p' \<and>
    ep_revision p' = ep_revision p \<and> map es_step_id (ep_steps p') = map es_step_id (ep_steps p)"
proof -
  have "well_formed_plan (observed obs sid p\<lparr>ep_current :=
      map_option es_step_id (List.find Q (ep_steps (observed obs sid p)))\<rparr>)" for sid Q
    using well_formed_observed [OF assms, of obs sid]
    by (cases "List.find Q (ep_steps (observed obs sid p))")
      (auto simp: well_formed_plan_current dest!: find_Some_in)
  then show ?thesis
    using assms by (auto simp: apply_observation_eq Let_def split: option.split)
qed

section \<open>No deadlock\<close>

lemma ready_exists:
  assumes wf: "well_formed_plan p"
    and live: "\<forall>s \<in> set (ep_steps p). es_status s = ST_PENDING \<or> is_done s"
    and todo: "\<exists>s \<in> set (ep_steps p). \<not> is_done s"
  shows "\<exists>s \<in> set (ep_steps p). ready_step p s"
proof -
  let ?todo = "es_step_id ` {s \<in> set (ep_steps p). \<not> is_done s}"
  have fin: "finite (step_deps p)"
    by (simp add: step_deps_UN)
  have "wf ((step_deps p)\<inverse>)"
    using wf fin by (intro finite_acyclic_wf_converse) (simp_all add: well_formed_plan_def)
  moreover obtain k where "k \<in> ?todo" using todo by auto
  ultimately obtain m where m: "m \<in> ?todo" "\<And>d. (d, m) \<in> (step_deps p)\<inverse> \<Longrightarrow> d \<notin> ?todo"
    by (rule wfE_min) blast
  then obtain s where s: "s \<in> set (ep_steps p)" "\<not> is_done s" "m = es_step_id s" by auto
  have "is_done t" if "d \<in> set (es_depends_on s)" "t \<in> set (ep_steps p)" "es_step_id t = d" for d t
    using that s m(2) [of d] by (auto simp: step_deps_def)
  with s live show ?thesis by (auto simp: ready_step_def)
qed

lemma apply_observation_current:
  assumes wf: "well_formed_plan p" and sid: "ob_plan_step_id obs = Some sid" "sid \<noteq> []"
      "sid \<in> es_step_id ` set (ep_steps p)"
    and run: "apply_observation obs p = (Inr (), p')"
    and live: "\<forall>s \<in> set (ep_steps p'). es_status s = ST_PENDING \<or> is_done s"
  shows "ep_current p' = None \<longleftrightarrow> (\<forall>s \<in> set (ep_steps p'). is_done s)"
proof -
  let ?q = "observed obs sid p"
  have p': "p' = ?q\<lparr>ep_current := map_option es_step_id (List.find (ready_step ?q) (ep_steps ?q))\<rparr>"
    using run sid by (simp add: apply_observation_eq [OF wf] Let_def)
  have "List.find (ready_step ?q) (ep_steps ?q) = None \<longleftrightarrow> (\<forall>s \<in> set (ep_steps ?q). is_done s)"
  proof -
    have "\<forall>s \<in> set (ep_steps ?q). es_status s = ST_PENDING \<or> is_done s" using live by (simp add: p')
    moreover have "ready_step ?q s \<Longrightarrow> \<not> is_done s" for s by (simp add: ready_step_def is_done_def)
    ultimately show ?thesis
      using ready_exists [OF well_formed_observed [OF wf], of obs sid] unfolding find_None_iff_all by blast
  qed
  then show ?thesis by (simp add: p')
qed

section \<open>Progress\<close>

definition obs_signature :: "observation \<Rightarrow> string \<times> string \<times> string list \<times> string list" where
  "obs_signature o1 = (ob_action_type o1, ob_summary o1, ob_artifact_refs o1, ob_workspace_keys o1)"

definition made_progress :: "observation \<Rightarrow> observation list \<Rightarrow> bool" where
  "made_progress o1 previous \<longleftrightarrow> (\<forall>item \<in> set previous. obs_signature o1 \<noteq> obs_signature item)"

section \<open>The initial plan\<close>

lemma initial_steps_harmless: "\<forall>s \<in> set (ep_steps build_initial_execution_plan). \<not> runs_production_sql s"
  by (simp add: build_initial_execution_plan_def plan_step_def runs_production_sql_def forbidden_title_def u8_def utf8_bytes_def
   title_read_log_def title_diagnose_def title_metadata_def title_memory_def title_generate_def casefold_def fold_char_def is_upper_def code_def)

definition initial_rank :: "string \<Rightarrow> nat" where
  "initial_rank s = (if s = ''read_log'' then 0 else if s = ''diagnose'' then 1 else if s = ''generate_candidate'' then 3 else 2)"

lemma initial_ranks:
  "\<forall>s \<in> set (ep_steps build_initial_execution_plan). \<forall>d \<in> set (es_depends_on s). initial_rank d < initial_rank (es_step_id s)"
  by (simp add: build_initial_execution_plan_def plan_step_def initial_rank_def)

lemma initial_shape:
  "ep_steps build_initial_execution_plan \<noteq> []" "distinct (map es_step_id (ep_steps build_initial_execution_plan))"
  "\<forall>s \<in> set (ep_steps build_initial_execution_plan). set (es_depends_on s) \<subseteq> es_step_id ` set (ep_steps build_initial_execution_plan)"
  "\<forall>s \<in> set (ep_steps build_initial_execution_plan). es_action_type s = PA_TOOL_CALL \<and> truthy (es_tool_name s)"
  "\<exists>s \<in> set (ep_steps build_initial_execution_plan). ep_current build_initial_execution_plan = Some (es_step_id s)"
  by (simp_all add: build_initial_execution_plan_def plan_step_def)

lemma initial_plan_ok: "well_formed_plan build_initial_execution_plan"
proof -
  have "(step_deps build_initial_execution_plan)\<inverse> \<subseteq> measure initial_rank"
    using initial_ranks by (auto simp: step_deps_def)
  then have "acyclic (step_deps build_initial_execution_plan)"
    using wf_acyclic [OF wf_subset [OF wf_measure]] by (metis acyclic_converse)
  moreover have "snd ` step_deps build_initial_execution_plan \<subseteq> es_step_id ` set (ep_steps build_initial_execution_plan)"
    using initial_shape(3) unfolding step_deps_def by (clarsimp simp del: set_simps) blast
  ultimately show ?thesis
    using initial_shape initial_steps_harmless unfolding well_formed_plan_def by auto
qed
end
