(* ===== verification/Agent_Runner.thy ===== *)
theory Agent_Runner
  imports Execution_Plan
begin

text \<open>
  \<open>agent/runner/agent_runner.py\<close>: the loop that asks the main agent for an action, executes it
  and stops on a budget, a terminal action or the candidate gate. The main agent, the executor, the
  gate and the context manager are ports (Python protocols there, a record of operations here), each
  of which may change the context, the run state and the world behind it. The loop runs on fuel;
  under the contract of the ports the remaining step budget is enough fuel.
\<close>

section \<open>Ports\<close>

record 'w run_env =
  re_ctx :: agent_context
  re_state :: run_state
  re_world :: 'w

text \<open>
  \<open>'i\<close> is what the context manager prepares for the main agent. Without a context manager the
  agent gets the context itself. An action that is not an \<open>AgentAction\<close> is validated; one that
  is has been validated by its constructor, so validating it again changes nothing.
\<close>

record ('i, 'w) runner_ports =
  pt_elapsed_ms :: "'w \<Rightarrow> int \<times> 'w"
  pt_obs_id :: "'w \<Rightarrow> string \<times> 'w"
  pt_now :: "'w \<Rightarrow> string \<times> 'w"
  pt_context_manager :: "(('w run_env, unit) io \<times> ('w run_env, 'i) io) option"
  pt_next_action :: "agent_context + 'i \<Rightarrow> ('w run_env, agent_action) io"
  pt_execute :: "agent_action \<Rightarrow> ('w run_env, observation) io"
  pt_gate :: "('w run_env, run_result) io"

section \<open>The loop\<close>

definition stop_reason :: "run_limits \<Rightarrow> run_state \<Rightarrow> string option" where
  "stop_reason l s = map_option snd (List.find fst
     [(st_step_count s \<ge> lm_max_steps l, ''MAX_STEPS''),
      (st_tool_calls s \<ge> lm_max_tool_calls l, ''MAX_TOOL_CALLS''),
      (st_sub_agent_calls s \<ge> lm_max_sub_agent_calls l, ''MAX_SUB_AGENT_CALLS''),
      (st_wall_time_ms s \<ge> lm_max_wall_time_ms l, ''MAX_WALL_TIME''),
      (st_plan_revisions s \<ge> lm_max_plan_revisions l, ''MAX_PLAN_REVISIONS''),
      (st_gate_rounds s > lm_max_gate_rounds l, ''MAX_GATE_REPAIR_ROUNDS''),
      (st_no_progress s \<ge> lm_max_no_progress l, ''NO_PROGRESS'')])"

definition run_result_of :: "agent_run_status \<Rightarrow> agent_context \<Rightarrow> run_state \<Rightarrow> string option \<Rightarrow> run_result" where
  "run_result_of status ctx s reason =
     \<lparr>rr_status = status,
      rr_candidate_sql = (if status = CANDIDATE_READY then cs_formal_sql (cx_candidate ctx) else None),
      rr_candidate_ref = (if status = CANDIDATE_READY then cs_draft_ref (cx_candidate ctx) else None),
      rr_risk = None, rr_gate_result_ref = None, rr_reason = reason, rr_stop_reason = st_stop_reason s,
      rr_plan_revision = ep_revision (cx_plan ctx), rr_step_count = st_step_count s, rr_trace_ref = None\<rparr>"

definition on_state :: "(run_state \<Rightarrow> run_state) \<Rightarrow> ('w run_env, unit) io" where
  "on_state f = modify (\<lambda>e. e\<lparr>re_state := f (re_state e)\<rparr>)"

definition on_ctx :: "(agent_context \<Rightarrow> agent_context) \<Rightarrow> ('w run_env, unit) io" where
  "on_ctx f = modify (\<lambda>e. e\<lparr>re_ctx := f (re_ctx e)\<rparr>)"

definition from_world :: "('w \<Rightarrow> 'a \<times> 'w) \<Rightarrow> ('w run_env, 'a) io" where
  "from_world f e = (let (x, w) = f (re_world e) in (Inr x, e\<lparr>re_world := w\<rparr>))"

text \<open>\<open>return self._result(status, context, run_state, reason)\<close>\<close>

definition finish_run :: "agent_run_status \<Rightarrow> string option \<Rightarrow> ('w run_env, run_result option) io" where
  "finish_run status reason = gets (\<lambda>e. Some (run_result_of status (re_ctx e) (re_state e) reason))"

definition stop_run ::
  "run_status \<Rightarrow> agent_run_status \<Rightarrow> string \<Rightarrow> ('w run_env, run_result option) io" where
  "stop_run rs status reason =
     seq (on_state (\<lambda>s. s\<lparr>st_status := rs, st_stop_reason := Some reason\<rparr>)) (finish_run status (Some reason))"

definition add_observation :: "observation \<Rightarrow> ('w run_env, unit) io" where
  "add_observation o1 = on_ctx (\<lambda>c. c\<lparr>cx_observations := cx_observations c @ [o1]\<rparr>)"

definition plan_observation :: "('i, 'w) runner_ports \<Rightarrow> obs_status \<Rightarrow> string \<Rightarrow> ('w run_env, observation) io" where
  "plan_observation P st summary =
     bind (from_world (pt_obs_id P)) (\<lambda>oid. bind (from_world (pt_now P)) (\<lambda>now. ret
       \<lparr>ob_id = ''obs_'' @ oid, ob_action_type = ''UPDATE_PLAN'', ob_status = st, ob_summary = summary,
        ob_artifact_refs = [], ob_workspace_keys = [], ob_plan_step_id = None, ob_created_at = now\<rparr>))"

text \<open>The first \<open>try\<close> block: compaction, preparation, the agent's answer and its validation.\<close>

definition ask_agent :: "('i, 'w) runner_ports \<Rightarrow> ('w run_env, agent_action) io" where
  "ask_agent P =
     bind (case pt_context_manager P of
             None \<Rightarrow> gets (\<lambda>e. Inl (re_ctx e))
           | Some (trim, prepare) \<Rightarrow> seq trim (bind prepare (\<lambda>i. ret (Inr i))))
       (\<lambda>input. bind (pt_next_action P input) (\<lambda>a. lift (mk_agent_action a)))"

definition plan_rejected :: "('i, 'w) runner_ports \<Rightarrow> string \<Rightarrow> ('w run_env, run_result option) io" where
  "plan_rejected P m =
     seq (bind (plan_observation P OB_BLOCKED (''ExecutionPlan rejected: '' @ m)) add_observation)
     (seq (on_state (\<lambda>s. s\<lparr>st_no_progress := st_no_progress s + 1\<rparr>)) (ret None))"

definition plan_accepted :: "('i, 'w) runner_ports \<Rightarrow> int \<Rightarrow> ('w run_env, run_result option) io" where
  "plan_accepted P r =
     seq (bind (plan_observation P OB_SUCCEEDED (''ExecutionPlan revision='' @ int_text r)) add_observation)
     (seq (on_state (\<lambda>s. s\<lparr>st_no_progress := 0\<rparr>)) (ret None))"

definition update_plan :: "('i, 'w) runner_ports \<Rightarrow> run_limits \<Rightarrow> exec_plan \<Rightarrow> ('w run_env, run_result option) io" where
  "update_plan P l proposed e =
     (case replace_plan (cx_plan (re_ctx e)) proposed (re_state e) l of
        Inl (InvalidExecutionPlan m) \<Rightarrow> plan_rejected P m e
      | Inl err \<Rightarrow> (Inl err, e)
      | Inr (p, s) \<Rightarrow>
          plan_accepted P (ep_revision p) (e\<lparr>re_ctx := (re_ctx e)\<lparr>cx_plan := p\<rparr>, re_state := s\<rparr>))"

definition apply_to_plan :: "observation \<Rightarrow> ('w run_env, unit) io" where
  "apply_to_plan o1 e =
     (let (r, p) = apply_observation o1 (cx_plan (re_ctx e)) in (r, e\<lparr>re_ctx := (re_ctx e)\<lparr>cx_plan := p\<rparr>\<rparr>))"

text \<open>The candidate in the workspace that the proposed one must be, with its artifact.\<close>

definition candidate_backed :: "agent_context \<Rightarrow> string option \<Rightarrow> bool" where
  "candidate_backed ctx sql =
     (case dict_get (cx_workspace ctx) ''candidate_sql'' of
        None \<Rightarrow> False
      | Some v \<Rightarrow> wv_status v = WS_AVAILABLE \<and> truthy (wv_summary v) \<and> wv_summary v = sql \<and>
          truthy (wv_artifact_ref v) \<and> cs_draft_ref (cx_candidate ctx) = wv_artifact_ref v)"

definition workspace_summary :: "agent_context \<Rightarrow> string \<Rightarrow> string option" where
  "workspace_summary ctx k = (case dict_get (cx_workspace ctx) k of None \<Rightarrow> None | Some v \<Rightarrow> wv_summary v)"

definition propose :: "('i, 'w) runner_ports \<Rightarrow> agent_action \<Rightarrow> ('w run_env, run_result option) io" where
  "propose P a e =
     (if \<not> candidate_backed (re_ctx e) (ac_candidate_sql a)
      then stop_run RUN_HUMAN_REQUIRED AR_HUMAN_REQUIRED ''NO_CANDIDATE_ARTIFACT'' e
      else seq (on_ctx (\<lambda>c. c\<lparr>cx_candidate := (cx_candidate c)\<lparr>cs_draft_sql := workspace_summary c ''candidate_sql'', cs_status := CS_DRAFT\<rparr>,
                              cx_phase := PH_GATING\<rparr>))
             (bind (pt_gate P) (\<lambda>r. ret (Some r))) e)"

definition record_observation :: "agent_action \<Rightarrow> observation \<Rightarrow> ('w run_env, unit) io" where
  "record_observation a obs =
     bind (gets (\<lambda>e. if ac_type a = TOOL_CALL \<or> ac_type a = RUN_SUB_AGENT
                     then obs\<lparr>ob_plan_step_id := ep_current (cx_plan (re_ctx e))\<rparr> else obs)) (\<lambda>o1.
     bind (gets (\<lambda>e. made_progress o1 (cx_observations (re_ctx e)))) (\<lambda>progress.
     seq (add_observation o1)
     (seq (on_ctx (\<lambda>c. c\<lparr>cx_last_action := Some a\<rparr>))
     (seq (on_state (\<lambda>s. s\<lparr>st_no_progress := (if progress then 0 else st_no_progress s + 1)\<rparr>))
     (seq (apply_to_plan o1)
       (on_state (\<lambda>s. case ac_type a of
            TOOL_CALL \<Rightarrow> s\<lparr>st_tool_calls := st_tool_calls s + 1\<rparr>
          | RUN_SUB_AGENT \<Rightarrow> s\<lparr>st_sub_agent_calls := st_sub_agent_calls s + 1\<rparr>
          | _ \<Rightarrow> s)))))))"

definition execute_action :: "('i, 'w) runner_ports \<Rightarrow> agent_action \<Rightarrow> ('w run_env, run_result option) io" where
  "execute_action P a e =
     (case pt_execute P a e of
        (Inl err, e') \<Rightarrow> stop_run RUN_FAILED AR_FAILED ''AGENT_RUNTIME_ERROR'' e'
      | (Inr obs, e') \<Rightarrow>
          seq (record_observation a obs)
            (if ac_type a = PROPOSE_SQL_CANDIDATE then propose P a else ret None) e')"

definition take_action :: "('i, 'w) runner_ports \<Rightarrow> run_limits \<Rightarrow> agent_action \<Rightarrow> ('w run_env, run_result option) io" where
  "take_action P l a =
     seq (modify (\<lambda>e. e\<lparr>re_state := (re_state e)\<lparr>st_step_count := st_step_count (re_state e) + 1\<rparr>,
                        re_ctx := (re_ctx e)\<lparr>cx_last_action := Some a\<rparr>\<rparr>))
     (case ac_type a of
        RETURN_NO_SQL \<Rightarrow>
          seq (on_state (\<lambda>s. s\<lparr>st_status := RUN_NO_SQL\<rparr>)) (finish_run AR_NO_SQL (ac_reason a))
      | RETURN_HUMAN_REQUIRED \<Rightarrow>
          seq (on_state (\<lambda>s. s\<lparr>st_status := RUN_HUMAN_REQUIRED\<rparr>)) (finish_run AR_HUMAN_REQUIRED (ac_reason a))
      | UPDATE_PLAN \<Rightarrow>
          (case ac_plan a of None \<Rightarrow> raise (OtherError ''AttributeError'') | Some p \<Rightarrow> update_plan P l p)
      | _ \<Rightarrow> execute_action P a)"

text \<open>One turn of \<open>while run_state.status == "RUNNING"\<close>: a result, or \<open>None\<close> to go on.\<close>

definition run_turn :: "('i, 'w) runner_ports \<Rightarrow> run_limits \<Rightarrow> ('w run_env, run_result option) io" where
  "run_turn P l =
     bind (from_world (pt_elapsed_ms P)) (\<lambda>ms.
     seq (on_state (\<lambda>s. s\<lparr>st_wall_time_ms := ms\<rparr>))
     (bind (gets (\<lambda>e. stop_reason l (re_state e))) (\<lambda>stop.
       case stop of
         Some reason \<Rightarrow> stop_run RUN_HUMAN_REQUIRED AR_HUMAN_REQUIRED reason
       | None \<Rightarrow> (\<lambda>e.
           case ask_agent P e of
             (Inl err, e') \<Rightarrow>
               if is_value_error err \<or> is_type_error err
               then stop_run RUN_HUMAN_REQUIRED AR_HUMAN_REQUIRED ''INVALID_AGENT_ACTION'' e'
               else (Inl err, e')
           | (Inr a, e') \<Rightarrow> take_action P l a e'))))"

fun run_loop :: "nat \<Rightarrow> ('i, 'w) runner_ports \<Rightarrow> run_limits \<Rightarrow> 'w run_env \<Rightarrow> run_result outcome option \<times> 'w run_env" where
  "run_loop 0 P l e = (None, e)"
| "run_loop (Suc n) P l e =
     (if st_status (re_state e) \<noteq> RUNNING
      then (Some (Inr (run_result_of AR_FAILED (re_ctx e) (re_state e) (st_stop_reason (re_state e)))), e)
      else case run_turn P l e of
        (Inl err, e') \<Rightarrow> (Some (Inl err), e')
      | (Inr (Some r), e') \<Rightarrow> (Some (Inr r), e')
      | (Inr None, e') \<Rightarrow> run_loop n P l e')"

definition run_fuel :: "run_limits \<Rightarrow> 'w run_env \<Rightarrow> nat" where
  "run_fuel l e = Suc (nat (lm_max_steps l - st_step_count (re_state e)))"

definition agent_run :: "('i, 'w) runner_ports \<Rightarrow> run_limits \<Rightarrow> 'w run_env \<Rightarrow> run_result outcome option \<times> 'w run_env" where
  "agent_run P l e = run_loop (run_fuel l e) P l e"

section \<open>Where a ready candidate comes from\<close>

text \<open>
  The environment in which the gate is called: the draft is the proposed text, the workspace holds it
  with an artifact, and the artifact is the candidate's.
\<close>

definition gate_entry :: "'w run_env \<Rightarrow> bool" where
  "gate_entry e \<longleftrightarrow>
     candidate_backed (re_ctx e) (cs_draft_sql (cx_candidate (re_ctx e))) \<and>
     cs_status (cx_candidate (re_ctx e)) = CS_DRAFT \<and> cx_phase (re_ctx e) = PH_GATING"

definition gated :: "('i, 'w) runner_ports \<Rightarrow> run_result \<Rightarrow> 'w run_env \<Rightarrow> bool" where
  "gated P r e' \<longleftrightarrow> (\<exists>e. gate_entry e \<and> pt_gate P e = (Inr r, e'))"

lemma stop_run_result:
  "stop_run rs status reason e = (Inr x, e') \<Longrightarrow> \<exists>r. x = Some r \<and> rr_status r = status \<and> rr_reason r = Some reason \<and>
     rr_stop_reason r = Some reason \<and> rr_step_count r = st_step_count (re_state e)"
  by (auto simp: stop_run_def finish_run_def on_state_def seq_def bind_def run_result_of_def)

lemma stop_run_total: "\<exists>r. stop_run rs status reason e =
    (Inr (Some r), e\<lparr>re_state := (re_state e)\<lparr>st_status := rs, st_stop_reason := Some reason\<rparr>\<rparr>) \<and>
    rr_status r = status \<and> rr_reason r = Some reason \<and> rr_stop_reason r = Some reason \<and>
    rr_step_count r = st_step_count (re_state e)"
  by (simp add: stop_run_def finish_run_def on_state_def seq_def bind_def run_result_of_def)

lemma propose_backed:
  assumes "candidate_backed (re_ctx e) (ac_candidate_sql a)"
  shows "\<exists>e1. propose P a e = bind (pt_gate P) (\<lambda>r. ret (Some r)) e1 \<and> gate_entry e1"
proof -
  let ?e1 = "e\<lparr>re_ctx := (re_ctx e)\<lparr>cx_candidate := (cx_candidate (re_ctx e))
      \<lparr>cs_draft_sql := workspace_summary (re_ctx e) ''candidate_sql'', cs_status := CS_DRAFT\<rparr>, cx_phase := PH_GATING\<rparr>\<rparr>"
  have "gate_entry ?e1"
    using assms by (auto simp: gate_entry_def candidate_backed_def workspace_summary_def split: option.splits)
  then show ?thesis using assms by (auto simp: propose_def on_ctx_def intro: exI [of _ ?e1])
qed

lemma propose_gated:
  assumes "propose P a e = (Inr (Some r), e')" "rr_status r = CANDIDATE_READY"
  shows "gated P r e'"
proof (cases "candidate_backed (re_ctx e) (ac_candidate_sql a)")
  case True
  from propose_backed [OF this, of P] assms(1)
  obtain e1 where "bind (pt_gate P) (\<lambda>r. ret (Some r)) e1 = (Inr (Some r), e')" "gate_entry e1" by auto
  then show ?thesis by (auto simp: gated_def bind_def split: prod.splits sum.splits)
next
  case False
  then show ?thesis using assms by (auto simp: propose_def dest!: stop_run_result)
qed

lemma execute_action_gated:
  assumes "execute_action P a e = (Inr (Some r), e')" "rr_status r = CANDIDATE_READY"
  shows "gated P r e'"
proof (cases "pt_execute P a e")
  case (Pair x e1)
  show ?thesis
  proof (cases x)
    case (Inl err)
    then show ?thesis using Pair assms by (auto simp: execute_action_def dest!: stop_run_result)
  next
    case (Inr obs)
    then obtain e2 where "(if ac_type a = PROPOSE_SQL_CANDIDATE then propose P a else ret None) e2 = (Inr (Some r), e')"
      using Pair assms(1) by (auto simp: execute_action_def seq_def bind_def split: prod.splits sum.splits)
    then show ?thesis using assms(2) propose_gated by (auto split: if_splits)
  qed
qed

lemma update_plan_continues: "update_plan P l p e = (Inr x, e') \<Longrightarrow> x = None"
  by (auto simp: update_plan_def plan_rejected_def plan_accepted_def seq_def bind_def split: sum.splits py_error.splits prod.splits)

lemma take_action_gated:
  assumes "take_action P l a e = (Inr (Some r), e')" "rr_status r = CANDIDATE_READY"
  shows "gated P r e'"
  using assms
  by (auto simp: take_action_def finish_run_def run_result_of_def on_state_def intro: execute_action_gated
      dest: update_plan_continues split: action_type.splits option.splits)

text \<open>A turn, with the state after reading the clock and after asking the agent named.\<close>

definition clocked :: "('i, 'w) runner_ports \<Rightarrow> 'w run_env \<Rightarrow> 'w run_env" where
  "clocked P e = (let (ms, w) = pt_elapsed_ms P (re_world e) in
     e\<lparr>re_world := w, re_state := (re_state e)\<lparr>st_wall_time_ms := ms\<rparr>\<rparr>)"

lemma clocked_frame [simp, frame]:
  "re_ctx (clocked P e) = re_ctx e" "st_step_count (re_state (clocked P e)) = st_step_count (re_state e)"
  "st_status (re_state (clocked P e)) = st_status (re_state e)"
  "st_plan_revisions (re_state (clocked P e)) = st_plan_revisions (re_state e)"
  by (simp_all add: clocked_def split: prod.split)

lemma run_turn_eq:
  "run_turn P l e = (case stop_reason l (re_state (clocked P e)) of
      Some reason \<Rightarrow> stop_run RUN_HUMAN_REQUIRED AR_HUMAN_REQUIRED reason (clocked P e)
    | None \<Rightarrow> (case ask_agent P (clocked P e) of
        (Inl err, e2) \<Rightarrow> if is_value_error err \<or> is_type_error err
          then stop_run RUN_HUMAN_REQUIRED AR_HUMAN_REQUIRED ''INVALID_AGENT_ACTION'' e2 else (Inl err, e2)
      | (Inr a, e2) \<Rightarrow> take_action P l a e2))"
  by (simp add: run_turn_def bind_def seq_def from_world_def on_state_def clocked_def
      split: option.split sum.split prod.split)

lemma run_turn_gated:
  assumes turn: "run_turn P l e = (Inr (Some r), e')" and ready: "rr_status r = CANDIDATE_READY"
  shows "gated P r e'"
proof -
  have stop: "stop_run rs AR_HUMAN_REQUIRED reason e1 \<noteq> (Inr (Some r), e')" for rs reason e1
    using ready by (auto dest!: stop_run_result)
  obtain x e2 where "ask_agent P (clocked P e) = (x, e2)" by fastforce
  then have "\<exists>a. take_action P l a e2 = (Inr (Some r), e')"
    using turn stop by (auto simp: run_turn_eq split: option.splits sum.splits if_splits)
  then show ?thesis using ready by (auto intro: take_action_gated)
qed

lemma run_loop_gated:
  "run_loop n P l e = (Some (Inr r), e') \<Longrightarrow> rr_status r = CANDIDATE_READY \<Longrightarrow> gated P r e'"
proof (induction n arbitrary: e)
  case 0
  then show ?case by simp
next
  case (Suc n)
  then show ?case
    by (auto simp: run_result_of_def intro: run_turn_gated split: if_splits prod.splits sum.splits option.splits)
qed

section \<open>The contract of the ports and what a run keeps\<close>

definition steps_done :: "'w run_env \<Rightarrow> int" where
  "steps_done e = st_step_count (re_state e)"

text \<open>
  An operation keeps the run if it leaves the step count alone and leaves a well-formed plan
  well-formed, whether it returns or raises.
\<close>

definition keeps_run :: "('w run_env, 'a) io \<Rightarrow> bool" where
  "keeps_run m \<longleftrightarrow> (\<forall>e. steps_done (snd (m e)) = steps_done e \<and>
     (well_formed_plan (cx_plan (re_ctx e)) \<longrightarrow> well_formed_plan (cx_plan (re_ctx (snd (m e))))))"

named_theorems run_keeps \<open>operations that keep the run\<close>

lemma keeps_run_bind [run_keeps]:
  "keeps_run m \<Longrightarrow> (\<And>x. keeps_run (f x)) \<Longrightarrow> keeps_run (bind m f)"
proof -
  assume m: "keeps_run m" and f: "\<And>x. keeps_run (f x)"
  show ?thesis
    unfolding keeps_run_def
  proof (intro allI)
    fix e
    obtain x e1 where me: "m e = (x, e1)" by fastforce
    have "bind m f e = (case x of Inl err \<Rightarrow> (Inl err, e1) | Inr y \<Rightarrow> f y e1)"
      by (simp add: bind_def me)
    then show "steps_done (snd (bind m f e)) = steps_done e \<and>
      (well_formed_plan (cx_plan (re_ctx e)) \<longrightarrow> well_formed_plan (cx_plan (re_ctx (snd (bind m f e)))))"
      using m f me by (cases x) (auto simp: keeps_run_def dest: spec [of _ e])
  qed
qed

lemma keeps_run_seq [run_keeps]: "keeps_run m \<Longrightarrow> keeps_run n \<Longrightarrow> keeps_run (seq m n)"
  by (simp add: seq_def keeps_run_bind)

lemma keeps_run_pure [run_keeps]:
  "keeps_run (ret x)" "keeps_run (raise err)" "keeps_run (gets f)" "keeps_run (lift r)"
  by (simp_all add: keeps_run_def)

lemma keeps_run_state:
  "(\<And>s. st_step_count (f s) = st_step_count s) \<Longrightarrow> keeps_run (on_state f)"
  by (simp add: keeps_run_def on_state_def steps_done_def)

lemma keeps_run_ctx:
  "(\<And>c. well_formed_plan (cx_plan c) \<Longrightarrow> well_formed_plan (cx_plan (f c))) \<Longrightarrow> keeps_run (on_ctx f)"
  by (simp add: keeps_run_def on_ctx_def steps_done_def)

lemma keeps_run_world [run_keeps]: "keeps_run (from_world f)"
  by (simp add: keeps_run_def from_world_def steps_done_def split: prod.split)

lemma keeps_run_branch [run_keeps]:
  "(b \<Longrightarrow> keeps_run m) \<Longrightarrow> (\<not> b \<Longrightarrow> keeps_run n) \<Longrightarrow> keeps_run (if b then m else n)"
  by simp

lemma keeps_run_test:
  "keeps_run m \<Longrightarrow> keeps_run n \<Longrightarrow> keeps_run (\<lambda>e. if b e then m e else n e)"
  by (simp add: keeps_run_def)

lemma keeps_run_handle:
  assumes "keeps_run m" "\<And>err. keeps_run (h err)" "\<And>x. keeps_run (f x)"
  shows "keeps_run (\<lambda>e. case m e of (Inl err, e1) \<Rightarrow> h err e1 | (Inr x, e1) \<Rightarrow> f x e1)"
  unfolding keeps_run_def
proof (intro allI)
  fix e
  obtain x e1 where me: "m e = (x, e1)" by fastforce
  let ?r = "case m e of (Inl err, e1) \<Rightarrow> h err e1 | (Inr x, e1) \<Rightarrow> f x e1"
  have "steps_done e1 = steps_done e \<and>
      (well_formed_plan (cx_plan (re_ctx e)) \<longrightarrow> well_formed_plan (cx_plan (re_ctx e1)))"
    using assms(1) me by (auto simp: keeps_run_def dest: spec [of _ e])
  moreover have "steps_done (snd ?r) = steps_done e1 \<and>
      (well_formed_plan (cx_plan (re_ctx e1)) \<longrightarrow> well_formed_plan (cx_plan (re_ctx (snd ?r))))"
    using assms(2,3) me by (cases x) (auto simp: keeps_run_def)
  ultimately show "steps_done (snd ?r) = steps_done e \<and>
      (well_formed_plan (cx_plan (re_ctx e)) \<longrightarrow> well_formed_plan (cx_plan (re_ctx (snd ?r))))"
    by simp
qed

lemma keeps_add_observation [run_keeps]: "keeps_run (add_observation o1)"
  by (simp add: add_observation_def keeps_run_ctx)

lemma keeps_apply_to_plan [run_keeps]: "keeps_run (apply_to_plan o1)"
  unfolding keeps_run_def
proof (intro allI conjI impI)
  fix e :: "'w run_env"
  show "steps_done (snd (apply_to_plan o1 e)) = steps_done e"
    by (simp add: apply_to_plan_def steps_done_def split: prod.split)
  assume "well_formed_plan (cx_plan (re_ctx e))"
  from apply_observation_well_formed [OF this, of o1]
  show "well_formed_plan (cx_plan (re_ctx (snd (apply_to_plan o1 e))))"
    by (auto simp: apply_to_plan_def)
qed

lemma keeps_plan_observation [run_keeps]: "keeps_run (plan_observation P st m)"
  unfolding plan_observation_def by (intro run_keeps)

lemma keeps_stop_run [run_keeps]: "keeps_run (stop_run rs status reason)"
  unfolding stop_run_def finish_run_def by (intro run_keeps keeps_run_state) simp

lemma keeps_record_observation [run_keeps]: "keeps_run (record_observation a obs)"
  unfolding record_observation_def
  by (intro run_keeps keeps_run_ctx keeps_run_state) (simp_all split: action_type.split)

lemma keeps_plan_rejected: "keeps_run (plan_rejected P m)"
  unfolding plan_rejected_def by (intro run_keeps keeps_run_state) simp

lemma keeps_plan_accepted: "keeps_run (plan_accepted P r)"
  unfolding plan_accepted_def by (intro run_keeps keeps_run_state) simp

lemma keeps_update_plan [run_keeps]:
  fixes P :: "('i, 'w) runner_ports"
  shows "keeps_run (update_plan P l p)"
  unfolding keeps_run_def
proof (intro allI)
  fix e :: "'w run_env"
  let ?ok = "\<lambda>e'. steps_done e' = steps_done e \<and>
    (well_formed_plan (cx_plan (re_ctx e)) \<longrightarrow> well_formed_plan (cx_plan (re_ctx e')))"
  show "?ok (snd (update_plan P l p e))"
  proof (cases "replace_plan (cx_plan (re_ctx e)) p (re_state e) l")
    case (Inl err)
    have "keeps_run (plan_rejected P m)" for m by (rule keeps_plan_rejected)
    then show ?thesis
      using Inl by (cases err) (simp_all add: update_plan_def keeps_run_def)
  next
    case (Inr ps)
    obtain q s where ps: "ps = (q, s)" by fastforce
    let ?e1 = "e\<lparr>re_ctx := (re_ctx e)\<lparr>cx_plan := q\<rparr>, re_state := s\<rparr>"
    have "?ok ?e1"
      using Inr replace_plan_iff [of "cx_plan (re_ctx e)" p "re_state e" l q s]
      by (auto simp: ps steps_done_def replace_plan_def Let_def and_then_Inr_iff split: if_splits)
    moreover have "keeps_run (plan_accepted P (ep_revision q))" by (rule keeps_plan_accepted)
    ultimately show ?thesis
      using Inr by (simp add: update_plan_def ps keeps_run_def)
  qed
qed

lemma stop_reason_None:
  "stop_reason l s = None \<longleftrightarrow>
     st_step_count s < lm_max_steps l \<and> st_tool_calls s < lm_max_tool_calls l \<and>
     st_sub_agent_calls s < lm_max_sub_agent_calls l \<and> st_wall_time_ms s < lm_max_wall_time_ms l \<and>
     st_plan_revisions s < lm_max_plan_revisions l \<and> st_gate_rounds s \<le> lm_max_gate_rounds l \<and>
     st_no_progress s < lm_max_no_progress l"
  by (auto simp: stop_reason_def)

lemma stop_reason_steps: "st_step_count s \<ge> lm_max_steps l \<Longrightarrow> stop_reason l s = Some ''MAX_STEPS''"
  by (simp add: stop_reason_def)

text \<open>A step further, with a well-formed plan kept well-formed.\<close>

definition advanced :: "'w run_env \<Rightarrow> 'w run_env \<Rightarrow> bool" where
  "advanced e e' \<longleftrightarrow> steps_done e' = steps_done e + 1 \<and>
     (well_formed_plan (cx_plan (re_ctx e)) \<longrightarrow> well_formed_plan (cx_plan (re_ctx e')))"

locale agent_ports_contract =
  fixes P :: "('i, 'w) runner_ports"
  assumes trim_keeps: "pt_context_manager P = Some (t, p) \<Longrightarrow> keeps_run t"
    and prepare_keeps: "pt_context_manager P = Some (t, p) \<Longrightarrow> keeps_run p"
    and agent_keeps: "keeps_run (pt_next_action P i)"
    and execute_keeps: "keeps_run (pt_execute P a)"
    and gate_keeps: "keeps_run (pt_gate P)"
begin

lemma ask_agent_keeps: "keeps_run (ask_agent P)"
proof (cases "pt_context_manager P")
  case None
  then show ?thesis by (simp add: ask_agent_def) (intro run_keeps agent_keeps)
next
  case (Some tp)
  obtain t p where "tp = (t, p)" by fastforce
  with Some show ?thesis
    by (simp add: ask_agent_def) (intro run_keeps agent_keeps trim_keeps prepare_keeps; simp)
qed

lemma propose_keeps: "keeps_run (propose P a)"
  unfolding propose_def by (intro keeps_run_test run_keeps keeps_run_ctx gate_keeps) simp

lemma execute_action_keeps: "keeps_run (execute_action P a)"
  unfolding execute_action_def
  by (intro keeps_run_handle execute_keeps keeps_stop_run keeps_run_seq keeps_record_observation keeps_run_branch
      propose_keeps keeps_run_pure)

lemma take_action_advances: "advanced e (snd (take_action P l a e))"
proof -
  have "keeps_run (case ac_type a of
        RETURN_NO_SQL \<Rightarrow>
          seq (on_state (\<lambda>s. s\<lparr>st_status := RUN_NO_SQL\<rparr>)) (finish_run AR_NO_SQL (ac_reason a))
      | RETURN_HUMAN_REQUIRED \<Rightarrow>
          seq (on_state (\<lambda>s. s\<lparr>st_status := RUN_HUMAN_REQUIRED\<rparr>)) (finish_run AR_HUMAN_REQUIRED (ac_reason a))
      | UPDATE_PLAN \<Rightarrow>
          (case ac_plan a of None \<Rightarrow> raise (OtherError ''AttributeError'') | Some p \<Rightarrow> update_plan P l p)
      | _ \<Rightarrow> execute_action P a)" (is "keeps_run ?m")
    by (simp add: finish_run_def execute_action_keeps keeps_update_plan keeps_run_pure keeps_run_seq
        keeps_run_state split: action_type.split option.split)
  moreover let ?e1 = "e\<lparr>re_state := (re_state e)\<lparr>st_step_count := st_step_count (re_state e) + 1\<rparr>,
      re_ctx := (re_ctx e)\<lparr>cx_last_action := Some a\<rparr>\<rparr>"
  have "take_action P l a e = ?m ?e1" by (simp add: take_action_def)
  ultimately show ?thesis by (simp add: keeps_run_def advanced_def steps_done_def)
qed

lemma run_turn_cases:
  "advanced e (snd (run_turn P l e)) \<and> steps_done e < lm_max_steps l \<or>
   (\<exists>x. fst (run_turn P l e) = x \<and> x \<noteq> Inr None) \<and> steps_done (snd (run_turn P l e)) = steps_done e \<and>
   (well_formed_plan (cx_plan (re_ctx e)) \<longrightarrow> well_formed_plan (cx_plan (re_ctx (snd (run_turn P l e)))))"
proof (cases "stop_reason l (re_state (clocked P e))")
  case (Some reason)
  then show ?thesis
    using stop_run_total [of RUN_HUMAN_REQUIRED AR_HUMAN_REQUIRED reason "clocked P e"]
    by (auto simp: run_turn_eq steps_done_def)
next
  case None
  then have lt: "steps_done e < lm_max_steps l" by (simp add: stop_reason_None steps_done_def)
  obtain x e2 where ask: "ask_agent P (clocked P e) = (x, e2)" by fastforce
  then have e2: "steps_done e2 = steps_done e"
    "well_formed_plan (cx_plan (re_ctx e)) \<longrightarrow> well_formed_plan (cx_plan (re_ctx e2))"
    using ask_agent_keeps unfolding keeps_run_def
    by (metis clocked_frame(1,2) snd_conv steps_done_def)+
  show ?thesis
  proof (cases x)
    case (Inl err)
    then show ?thesis
      using None ask e2 stop_run_total [of RUN_HUMAN_REQUIRED AR_HUMAN_REQUIRED "''INVALID_AGENT_ACTION''" e2]
      by (auto simp: run_turn_eq steps_done_def)
  next
    case (Inr a)
    then have "advanced e2 (snd (run_turn P l e))"
      using None ask take_action_advances by (simp add: run_turn_eq)
    with e2 lt show ?thesis by (auto simp: advanced_def)
  qed
qed

lemma run_loop_returns:
  "nat (lm_max_steps l - steps_done e) < n \<Longrightarrow> fst (run_loop n P l e) \<noteq> None"
proof (induction n arbitrary: e)
  case 0
  then show ?case by simp
next
  case (Suc n)
  obtain x e1 where turn: "run_turn P l e = (x, e1)" by fastforce
  show ?case
  proof (cases "x = Inr None")
    case True
    with run_turn_cases [of e l] turn have "steps_done e1 = steps_done e + 1" "steps_done e < lm_max_steps l"
      by (auto simp: advanced_def)
    then have "nat (lm_max_steps l - steps_done e1) < n" using Suc.prems by simp
    then show ?thesis using Suc.IH turn True by simp
  next
    case False
    then show ?thesis using turn by (auto split: sum.split option.split)
  qed
qed

lemma run_loop_keeps:
  "run_loop n P l e = (x, e') \<Longrightarrow>
     steps_done e' \<le> max (steps_done e) (lm_max_steps l) \<and>
     (well_formed_plan (cx_plan (re_ctx e)) \<longrightarrow> well_formed_plan (cx_plan (re_ctx e')))"
proof (induction n arbitrary: e)
  case 0
  then show ?case by simp
next
  case (Suc n)
  obtain y e1 where turn: "run_turn P l e = (y, e1)" by fastforce
  have e1: "steps_done e1 \<le> max (steps_done e) (lm_max_steps l)"
    "well_formed_plan (cx_plan (re_ctx e)) \<longrightarrow> well_formed_plan (cx_plan (re_ctx e1))"
    using run_turn_cases [of e l] turn by (auto simp: advanced_def)
  show ?case
  proof (cases "y = Inr None \<and> st_status (re_state e) = RUNNING")
    case True
    then have "run_loop n P l e1 = (x, e')" using Suc.prems turn by simp
    from Suc.IH [OF this] e1 show ?thesis by auto
  next
    case False
    then have "e' = e1 \<or> e' = e" using Suc.prems turn by (auto split: if_splits sum.splits option.splits)
    with e1 show ?thesis by auto
  qed
qed

lemma agent_run_total:
  "\<exists>r e'. agent_run P l e = (Some r, e') \<and> steps_done e' \<le> max (steps_done e) (lm_max_steps l) \<and>
     (well_formed_plan (cx_plan (re_ctx e)) \<longrightarrow> well_formed_plan (cx_plan (re_ctx e')))"
proof -
  obtain x e' where run: "agent_run P l e = (x, e')" by fastforce
  have "x \<noteq> None"
    using run_loop_returns [of l e "run_fuel l e"] run by (simp add: agent_run_def run_fuel_def steps_done_def)
  then show ?thesis using run run_loop_keeps [of "run_fuel l e" l e] by (auto simp: agent_run_def)
qed

end

section \<open>What the gate is asked about\<close>

text \<open>
  The run of a fixed session, attempt, event and SQL text, before any candidate is formal. The ports
  other than the gate leave that alone, so the gate is entered in such a state.
\<close>

definition same_run :: "agent_context \<Rightarrow> 'w run_env \<Rightarrow> bool" where
  "same_run c e \<longleftrightarrow>
     cx_session_id (re_ctx e) = cx_session_id c \<and> cx_attempt_id (re_ctx e) = cx_attempt_id c \<and>
     cx_event_key (re_ctx e) = cx_event_key c \<and> cx_original_sql (re_ctx e) = cx_original_sql c \<and>
     cs_formal_sql (cx_candidate (re_ctx e)) = None"

lemma same_run_state [keeps]: "preserves (same_run c) (on_state f)"
  by (simp add: preserves_def on_state_def same_run_def)

lemma same_run_world [keeps]: "preserves (same_run c) (from_world f)"
  by (simp add: preserves_def from_world_def same_run_def split: prod.split)

lemma same_run_ctx:
  "(\<And>x. cx_session_id (f x) = cx_session_id x \<and> cx_attempt_id (f x) = cx_attempt_id x \<and>
     cx_event_key (f x) = cx_event_key x \<and> cx_original_sql (f x) = cx_original_sql x \<and>
     (cs_formal_sql (cx_candidate x) = None \<longrightarrow> cs_formal_sql (cx_candidate (f x)) = None)) \<Longrightarrow>
   preserves (same_run c) (on_ctx f)"
  by (auto simp: preserves_def on_ctx_def same_run_def)

lemma same_run_apply_to_plan [keeps]: "preserves (same_run c) (apply_to_plan o1)"
  by (auto simp: preserves_def apply_to_plan_def same_run_def split: prod.split)

lemma same_run_record: "preserves (same_run c) (record_observation a obs)"
  unfolding record_observation_def add_observation_def by (intro keeps same_run_ctx) simp_all

lemma same_run_plan_observation:
  "preserves (same_run c) (bind (plan_observation P st m) add_observation)"
  unfolding plan_observation_def add_observation_def by (intro keeps same_run_ctx) simp

lemma same_run_update_plan:
  fixes P :: "('i, 'w) runner_ports"
  shows "preserves (same_run c) (update_plan P l p)"
proof -
  have a: "preserves (same_run c) (plan_accepted P r)" and b: "preserves (same_run c) (plan_rejected P m)" for r m
    unfolding plan_accepted_def plan_rejected_def by (intro keeps same_run_plan_observation)+
  show ?thesis
    unfolding preserves_def
  proof (intro allI impI)
    fix e :: "'w run_env" assume e: "same_run c e"
    then have "same_run c (e\<lparr>re_ctx := (re_ctx e)\<lparr>cx_plan := q\<rparr>, re_state := s\<rparr>)" for q s
      by (simp add: same_run_def)
    then show "same_run c (snd (update_plan P l p e))"
      using a b e by (auto simp: update_plan_def preserves_def split: sum.split py_error.split prod.split)
  qed
qed

text \<open>A step's outcome: it goes on in the run, or it reports a candidate the gate let through.\<close>

definition tracked ::
  "('i, 'w) runner_ports \<Rightarrow> agent_context \<Rightarrow> run_result option outcome \<times> 'w run_env \<Rightarrow> bool" where
  "tracked P c x \<longleftrightarrow>
     (fst x = Inr None \<longrightarrow> same_run c (snd x)) \<and>
     (\<forall>r. fst x = Inr (Some r) \<longrightarrow> rr_status r = CANDIDATE_READY \<longrightarrow>
        (\<exists>e1. gate_entry e1 \<and> same_run c e1 \<and> pt_gate P e1 = (Inr r, snd x)))"

lemma tracked_stop: "status \<noteq> CANDIDATE_READY \<Longrightarrow> tracked P c (stop_run rs status reason e)"
  using stop_run_total [of rs status reason e] by (auto simp: tracked_def)

lemma tracked_error [simp]: "tracked P c (Inl err, e)"
  by (simp add: tracked_def)

locale agent_run_identity = agent_ports_contract P for P :: "('i, 'w) runner_ports" +
  assumes trim_same: "pt_context_manager P = Some (t, p) \<Longrightarrow> preserves (same_run c) t"
    and prepare_same: "pt_context_manager P = Some (t, p) \<Longrightarrow> preserves (same_run c) p"
    and agent_same: "preserves (same_run c) (pt_next_action P i)"
    and execute_same: "preserves (same_run c) (pt_execute P a)"
begin

lemma ask_agent_same: "preserves (same_run c) (ask_agent P)"
proof (cases "pt_context_manager P")
  case None
  then show ?thesis by (simp add: ask_agent_def) (intro keeps agent_same)
next
  case (Some tp)
  obtain t p where "tp = (t, p)" by fastforce
  with Some show ?thesis
    by (simp add: ask_agent_def) (intro keeps agent_same trim_same prepare_same; simp)
qed

lemma propose_tracked:
  assumes e: "same_run c e"
  shows "tracked P c (propose P a e)"
proof (cases "candidate_backed (re_ctx e) (ac_candidate_sql a)")
  case False
  then show ?thesis by (simp add: propose_def tracked_stop)
next
  case True
  let ?e1 = "e\<lparr>re_ctx := (re_ctx e)\<lparr>cx_candidate := (cx_candidate (re_ctx e))
      \<lparr>cs_draft_sql := workspace_summary (re_ctx e) ''candidate_sql'', cs_status := CS_DRAFT\<rparr>, cx_phase := PH_GATING\<rparr>\<rparr>"
  have "gate_entry ?e1" "same_run c ?e1"
    using True e by (auto simp: gate_entry_def candidate_backed_def workspace_summary_def same_run_def split: option.splits)
  moreover have "propose P a e = bind (pt_gate P) (\<lambda>r. ret (Some r)) ?e1" using True by (simp add: propose_def on_ctx_def)
  ultimately show ?thesis by (auto simp: tracked_def bind_def split: prod.splits sum.splits)
qed

lemma execute_action_tracked:
  assumes e: "same_run c e"
  shows "tracked P c (execute_action P a e)"
proof -
  obtain x e1 where ex: "pt_execute P a e = (x, e1)" by fastforce
  then have e1: "same_run c e1" using execute_same e unfolding preserves_def by (metis snd_conv)
  obtain y e2 where rec: "record_observation a (projr x) e1 = (y, e2)" by fastforce
  then have e2: "same_run c e2" using same_run_record e1 unfolding preserves_def by (metis snd_conv)
  show ?thesis
    using ex rec e2 propose_tracked [OF e2, of a]
    by (cases x; cases y) (auto simp: execute_action_def seq_def bind_def tracked_stop tracked_def [where x = "(Inr None, e2)"])
qed

lemma take_action_tracked:
  assumes e: "same_run c e"
  shows "tracked P c (take_action P l a e)"
proof -
  let ?e1 = "e\<lparr>re_state := (re_state e)\<lparr>st_step_count := st_step_count (re_state e) + 1\<rparr>,
      re_ctx := (re_ctx e)\<lparr>cx_last_action := Some a\<rparr>\<rparr>"
  have e1: "same_run c ?e1" using e by (simp add: same_run_def)
  have up: "tracked P c (update_plan P l p ?e1)" for p
  proof -
    obtain y e2 where run: "update_plan P l p ?e1 = (y, e2)" by fastforce
    then have "same_run c e2" using same_run_update_plan e1 unfolding preserves_def by (metis snd_conv)
    then show ?thesis using run by (auto simp: tracked_def dest: update_plan_continues)
  qed
  show ?thesis
    using execute_action_tracked [OF e1] up
    by (cases "ac_type a")
      (simp_all add: take_action_def seq_def bind_def on_state_def finish_run_def run_result_of_def
        tracked_def [where x = "(Inr (Some r), e2)" for r e2] split: option.split)
qed

lemma run_turn_tracked:
  assumes e: "same_run c e"
  shows "tracked P c (run_turn P l e)"
proof -
  have e1: "same_run c (clocked P e)" using e by (simp add: same_run_def)
  obtain x e2 where ask: "ask_agent P (clocked P e) = (x, e2)" by fastforce
  then have e2: "same_run c e2" using ask_agent_same e1 unfolding preserves_def by (metis snd_conv)
  show ?thesis
    using take_action_tracked [OF e2] by (auto simp: run_turn_eq ask tracked_stop split: option.split sum.split)
qed

lemma run_loop_tracked:
  "run_loop n P l e = (Some (Inr r), e') \<Longrightarrow> same_run c e \<Longrightarrow> rr_status r = CANDIDATE_READY \<Longrightarrow>
     \<exists>e1. gate_entry e1 \<and> same_run c e1 \<and> pt_gate P e1 = (Inr r, e')"
proof (induction n arbitrary: e)
  case (Suc n)
  obtain x e1 where turn: "run_turn P l e = (x, e1)" by fastforce
  have t: "tracked P c (x, e1)" using run_turn_tracked [OF Suc.prems(2), of l] turn by simp
  show ?case
  proof (cases "x = Inr None")
    case True
    then have "same_run c e1" using t by (simp add: tracked_def)
    moreover have "run_loop n P l e1 = (Some (Inr r), e')"
      using Suc.prems(1,3) turn True by (auto simp: run_result_of_def split: if_splits)
    ultimately show ?thesis using Suc.IH Suc.prems(3) by blast
  next
    case False
    then have "x = Inr (Some r)" "e1 = e'"
      using Suc.prems(1,3) turn by (auto simp: run_result_of_def split: if_splits sum.splits option.splits)
    then show ?thesis using t Suc.prems(3) by (simp add: tracked_def)
  qed
qed simp

lemma agent_run_candidate:
  "agent_run P l e = (Some (Inr r), e') \<Longrightarrow> same_run c e \<Longrightarrow> rr_status r = CANDIDATE_READY \<Longrightarrow>
     \<exists>e1. gate_entry e1 \<and> same_run c e1 \<and> pt_gate P e1 = (Inr r, e')"
  unfolding agent_run_def by (rule run_loop_tracked)

end

section \<open>What the loop keeps of the world\<close>

text \<open>A property of the world alone that every port keeps is kept by the loop.\<close>

definition of_world :: "('w run_env \<Rightarrow> bool) \<Rightarrow> bool" where
  "of_world Q \<longleftrightarrow> (\<forall>e c s. Q (e\<lparr>re_ctx := c, re_state := s\<rparr>) = Q e)"

lemma of_worldD:
  assumes "of_world Q"
  shows "Q (e\<lparr>re_ctx := c\<rparr>) = Q e" "Q (e\<lparr>re_state := s\<rparr>) = Q e"
proof -
  have "Q (e\<lparr>re_ctx := c, re_state := re_state e\<rparr>) = Q e" "Q (e\<lparr>re_ctx := re_ctx e, re_state := s\<rparr>) = Q e"
    using assms unfolding of_world_def by blast+
  then show "Q (e\<lparr>re_ctx := c\<rparr>) = Q e" "Q (e\<lparr>re_state := s\<rparr>) = Q e" by simp_all
qed

definition ports_keep :: "('w run_env \<Rightarrow> bool) \<Rightarrow> ('i, 'w) runner_ports \<Rightarrow> bool" where
  "ports_keep Q P \<longleftrightarrow> of_world Q \<and>
     preserves Q (from_world (pt_elapsed_ms P)) \<and> preserves Q (from_world (pt_obs_id P)) \<and>
     preserves Q (from_world (pt_now P)) \<and>
     (\<forall>t p. pt_context_manager P = Some (t, p) \<longrightarrow> preserves Q t \<and> preserves Q p) \<and>
     (\<forall>i. preserves Q (pt_next_action P i)) \<and> (\<forall>a. preserves Q (pt_execute P a)) \<and> preserves Q (pt_gate P)"

lemma of_world_edit:
  "of_world Q \<Longrightarrow> preserves Q (on_state f)" "of_world Q \<Longrightarrow> preserves Q (on_ctx g)"
  by (simp_all add: preserves_def on_state_def on_ctx_def of_worldD)

lemma of_world_plan: "of_world Q \<Longrightarrow> preserves Q (apply_to_plan o1)"
  by (auto simp: preserves_def apply_to_plan_def of_worldD split: prod.split)

lemma of_world_stop: "of_world Q \<Longrightarrow> preserves Q (stop_run rs status reason)"
  unfolding stop_run_def finish_run_def by (intro keeps of_world_edit)

lemma of_world_record: "of_world Q \<Longrightarrow> preserves Q (record_observation a obs)"
  unfolding record_observation_def add_observation_def by (intro keeps of_world_edit of_world_plan)

lemma ports_keep_update:
  assumes P: "ports_keep Q P"
  shows "preserves Q (update_plan P l p)"
proof -
  have W: "of_world Q" using P by (simp add: ports_keep_def)
  have obs: "preserves Q (bind (plan_observation P st m) add_observation)" for st m
    using P unfolding plan_observation_def add_observation_def ports_keep_def by (intro keeps of_world_edit) auto
  have a: "preserves Q (plan_accepted P r)" and b: "preserves Q (plan_rejected P m)" for r m
    unfolding plan_accepted_def plan_rejected_def by (intro keeps obs of_world_edit W)+
  show ?thesis
    using a b W
    by (auto simp: preserves_def update_plan_def of_worldD of_world_def split: sum.split py_error.split)
qed

lemma ports_keep_execute:
  assumes P: "ports_keep Q P"
  shows "preserves Q (execute_action P a)"
  unfolding preserves_def
proof (intro allI impI)
  fix e assume e: "Q e"
  have W: "of_world Q" using P by (simp add: ports_keep_def)
  obtain x e1 where x: "pt_execute P a e = (x, e1)" by fastforce
  then have e1: "Q e1" using P e unfolding ports_keep_def preserves_def by (metis snd_conv)
  have "preserves Q (propose P a)"
  proof -
    have "preserves Q (seq (on_ctx f) (bind (pt_gate P) (\<lambda>r. ret (Some r))))" for f
      using P unfolding ports_keep_def by (intro keeps of_world_edit) auto
    moreover have "preserves Q (stop_run rs status reason)" for rs status reason by (rule of_world_stop [OF W])
    ultimately show ?thesis unfolding preserves_def propose_def by simp
  qed
  then have go: "preserves Q (seq (record_observation a obs)
      (if ac_type a = PROPOSE_SQL_CANDIDATE then propose P a else ret None))" for obs
    by (intro keeps of_world_record [OF W])
  show "Q (snd (execute_action P a e))"
    using x e1 go of_world_stop [OF W] by (cases x) (simp_all add: execute_action_def preserves_def)
qed

lemma ports_keep_take:
  assumes P: "ports_keep Q P"
  shows "preserves Q (take_action P l a)"
proof -
  have W: "of_world Q" using P by (simp add: ports_keep_def)
  have count: "preserves Q (modify (\<lambda>e. e\<lparr>re_state := f (re_state e), re_ctx := g (re_ctx e)\<rparr>))" for f g
    by (simp add: preserves_def of_worldD [OF W])
  show ?thesis
    unfolding take_action_def finish_run_def
    by (cases "ac_type a")
      (auto intro!: keeps count of_world_edit [OF W] ports_keep_update [OF P] ports_keep_execute [OF P] split: option.split)
qed

lemma ports_keep_turn:
  assumes P: "ports_keep Q P" and e: "Q e"
  shows "Q (snd (run_turn P l e))"
proof -
  have W: "of_world Q" using P by (simp add: ports_keep_def)
  have "clocked P e = (snd (from_world (pt_elapsed_ms P) e))\<lparr>re_state := re_state (clocked P e)\<rparr>"
    by (simp add: clocked_def from_world_def split: prod.split)
  moreover have "Q (snd (from_world (pt_elapsed_ms P) e))" using P e by (simp add: ports_keep_def preserves_def)
  ultimately have e1: "Q (clocked P e)" using of_worldD(2) [OF W] by metis
  have "preserves Q (ask_agent P)"
    using P unfolding ask_agent_def ports_keep_def
    by (auto intro!: keeps split: option.split)
  moreover obtain x e2 where ask: "ask_agent P (clocked P e) = (x, e2)" by fastforce
  ultimately have e2: "Q e2" using e1 unfolding preserves_def by (metis snd_conv)
  have stop: "Q e0 \<Longrightarrow> Q (snd (stop_run rs status reason e0))" for e0 rs status reason
    using of_world_stop [OF W] by (simp add: preserves_def)
  show ?thesis
    using ports_keep_take [OF P, of l] e1 e2
    by (auto simp: run_turn_eq ask stop preserves_def split: option.split sum.split)
qed

lemma run_loop_preserves: "ports_keep Q P \<Longrightarrow> Q e \<Longrightarrow> Q (snd (run_loop n P l e))"
proof (induction n arbitrary: e)
  case (Suc n)
  obtain x e1 where turn: "run_turn P l e = (x, e1)" by fastforce
  then have "Q e1" using ports_keep_turn [OF Suc.prems, of l] by simp
  then show ?case using Suc turn by (auto split: sum.split option.split)
qed simp

end
