(* ===== verification/Gate_Runner.thy ===== *)
theory Gate_Runner
  imports Gates Agent_Runner
begin

text \<open>
  \<open>GateRunner.run\<close> of \<open>agent/gates/gate_runner.py\<close>: the gates applied to the candidate
  of an agent context, and \<open>run_repair\<close>, which admits a repaired candidate once. The world of the
  run holds what the gate runner remembers. The reflection inside the semantic gate acts on the
  whole environment (its hooks count in the run state), so a request is run on the environment and
  its memory is written back. A candidate becomes the formal one exactly when its request is released.
\<close>

definition feedback_vote :: "severity \<Rightarrow> gate_vote" where
  "feedback_vote v =
     (if v = SV_INFO \<or> v = SV_WARNING then GV_PASS else if v = SV_BLOCK then GV_REJECT else GV_HUMAN_REQUIRED)"

definition feedback_of_note :: "gate_note \<Rightarrow> gate_feedback" where
  "feedback_of_note n = \<lparr>gf_gate = gn_gate n, gf_decision = feedback_vote (gn_severity n), gf_reason = gn_message n\<rparr>"

fun gate_decision_value :: "gate_decision \<Rightarrow> string" where
  "gate_decision_value GD_PASS = ''PASS''"
| "gate_decision_value GD_PASS_WITH_WARNING = ''PASS_WITH_WARNING''"
| "gate_decision_value GD_REJECT = ''REJECT''"
| "gate_decision_value GD_HUMAN_REQUIRED = ''HUMAN_REQUIRED''"

definition plain_result :: "agent_run_status \<Rightarrow> agent_context \<Rightarrow> run_state \<Rightarrow> run_result" where
  "plain_result status ctx s =
     \<lparr>rr_status = status, rr_candidate_sql = None, rr_candidate_ref = None, rr_risk = None,
      rr_gate_result_ref = None, rr_reason = None, rr_stop_reason = None,
      rr_plan_revision = ep_revision (cx_plan ctx), rr_step_count = st_step_count s, rr_trace_ref = None\<rparr>"

definition set_candidate :: "(candidate_state \<Rightarrow> candidate_state) \<Rightarrow> 'w run_env \<Rightarrow> 'w run_env" where
  "set_candidate f e = e\<lparr>re_ctx := (re_ctx e)\<lparr>cx_candidate := f (cx_candidate (re_ctx e))\<rparr>\<rparr>"

definition set_status :: "run_status \<Rightarrow> 'w run_env \<Rightarrow> 'w run_env" where
  "set_status st e = e\<lparr>re_state := (re_state e)\<lparr>st_status := st\<rparr>\<rparr>"

definition rejection_reason :: "gate_result \<Rightarrow> string" where
  "rejection_reason g =
     (case gt_feedback g of [] \<Rightarrow> gate_decision_value (gt_decision g) | n # _ \<Rightarrow> gn_message n)"

text \<open>What a rejecting gate result does to the context, the run state and the answer of the run.\<close>

definition gate_rejected :: "gate_result \<Rightarrow> 'w run_env \<Rightarrow> run_result \<times> 'w run_env" where
  "gate_rejected g e =
     (let human = (gt_decision g = GD_HUMAN_REQUIRED);
          e1 = set_status (if human then RUN_HUMAN_REQUIRED else RUN_NO_SQL)
                 (set_candidate (\<lambda>c. c\<lparr>cs_status := CS_GATE_REJECTED\<rparr>) e)
      in ((plain_result (if human then AR_HUMAN_REQUIRED else AR_NO_SQL) (re_ctx e1) (re_state e1))
            \<lparr>rr_risk := Some (gt_risk g), rr_reason := Some (rejection_reason g)\<rparr>, e1))"

definition gate_accepted :: "gate_result \<Rightarrow> 'w run_env \<Rightarrow> run_result \<times> 'w run_env" where
  "gate_accepted g e =
     (let e1 = set_status RUN_SUCCEEDED
                 (set_candidate (\<lambda>c. c\<lparr>cs_formal_sql := cs_draft_sql c, cs_status := CS_READY\<rparr>) e);
          c1 = cx_candidate (re_ctx e1)
      in ((plain_result CANDIDATE_READY (re_ctx e1) (re_state e1))
            \<lparr>rr_candidate_sql := cs_formal_sql c1, rr_candidate_ref := cs_draft_ref c1, rr_risk := Some (gt_risk g)\<rparr>, e1))"

definition gate_missing :: "'w run_env \<Rightarrow> run_result \<times> 'w run_env" where
  "gate_missing e =
     (let e1 = set_candidate (\<lambda>c. c\<lparr>cs_status := CS_GATE_REJECTED\<rparr>)
                 (e\<lparr>re_state := (re_state e)\<lparr>st_status := RUN_HUMAN_REQUIRED, st_stop_reason := Some ''GATE_REQUEST_MISSING''\<rparr>\<rparr>)
      in ((plain_result AR_HUMAN_REQUIRED (re_ctx e1) (re_state e1))
            \<lparr>rr_reason := Some ''GATE_REQUEST_MISSING'', rr_stop_reason := st_stop_reason (re_state e1)\<rparr>, e1))"

definition gate_lets_pass :: "gate_request \<Rightarrow> gate_result \<Rightarrow> bool" where
  "gate_lets_pass q g \<longleftrightarrow> gt_decision g = GD_PASS \<or> gt_decision g = GD_PASS_WITH_WARNING \<and> gq_allow_medium q"

type_synonym 'w gate_run_env = "'w gate_env run_env"

definition run_request_in ::
  "('t, 'w gate_run_env) gates \<Rightarrow> stamp \<Rightarrow> gate_request \<Rightarrow> ('w gate_run_env, gate_result) io" where
  "run_request_in G s q e =
     (let (r, g) = run_request G s q \<lparr>ge_last = ge_last (re_world e), ge_order = ge_order (re_world e), ge_world = e\<rparr>;
          e' = ge_world g
      in (r, e'\<lparr>re_world := (re_world e')\<lparr>ge_last := ge_last g, ge_order := ge_order g\<rparr>\<rparr>))"

definition gate_run ::
  "('t, 'w gate_run_env) gates \<Rightarrow> stamp \<Rightarrow> gate_request option \<Rightarrow> ('w gate_run_env, run_result) io" where
  "gate_run G s request e =
     (case request of
        None \<Rightarrow> (let (r, e1) = gate_missing e in (Inr r, e1))
      | Some q \<Rightarrow>
          (case run_request_in G s q e of
             (Inl err, e0) \<Rightarrow> (Inl err, e0)
           | (Inr g, e0) \<Rightarrow>
               let e1 = set_candidate (\<lambda>c. c\<lparr>cs_feedback := cs_feedback c @ map feedback_of_note (gt_feedback g)\<rparr>) e0;
                   (r, e2) = (if gate_lets_pass q g then gate_accepted g e1 else gate_rejected g e1)
               in (Inr r, e2)))"

text \<open>\<open>run_repair\<close>; its parameter \<open>budget_available\<close> keeps its default everywhere.\<close>

definition run_repair ::
  "('t, 'w gate_run_env) gates \<Rightarrow> stamp \<Rightarrow> gate_request \<Rightarrow> string \<Rightarrow> bool \<Rightarrow> ('w gate_run_env, gate_result) io" where
  "run_repair G s q repaired budget e =
     (if \<not> budget \<or> st_gate_rounds (re_state e) \<ge> 1
      then (Inr (gate_outcome s ''GateRunner'' repaired GD_HUMAN_REQUIRED HIGH
                   (Some ''GATE_REPAIR_BUDGET_EXHAUSTED'') (Some msg_gate_budget) [''GATE_REPAIR_BUDGET''] [] []), e)
      else run_request_in G s (q\<lparr>gq_candidate_sql := repaired\<rparr>)
             (e\<lparr>re_state := (re_state e)\<lparr>st_gate_rounds := st_gate_rounds (re_state e) + 1\<rparr>\<rparr>))"

lemma set_frame [simp, frame]:
  "re_state (set_candidate f e) = re_state e" "re_world (set_candidate f e) = re_world e"
  "re_ctx (set_status st e) = re_ctx e" "re_world (set_status st e) = re_world e"
  "cx_plan (re_ctx (set_candidate f e)) = cx_plan (re_ctx e)"
  "st_step_count (re_state (set_status st e)) = st_step_count (re_state e)"
  "cx_candidate (re_ctx (set_candidate f e)) = f (cx_candidate (re_ctx e))"
  by (simp_all add: set_candidate_def set_status_def)

lemma keeps_run_frame:
  "(\<And>e. st_step_count (re_state (snd (m e))) = st_step_count (re_state e)) \<Longrightarrow>
   (\<And>e. cx_plan (re_ctx (snd (m e))) = cx_plan (re_ctx e)) \<Longrightarrow> keeps_run m"
  by (simp add: keeps_run_def steps_done_def)

text \<open>A property of an environment that does not look at the world.\<close>

definition world_free :: "('w run_env \<Rightarrow> bool) \<Rightarrow> bool" where
  "world_free Q \<longleftrightarrow> (\<forall>e w. Q (e\<lparr>re_world := w\<rparr>) = Q e)"

text \<open>A property that does not look at what the gate runner remembers.\<close>

definition verdict_free :: "('w gate_run_env \<Rightarrow> bool) \<Rightarrow> bool" where
  "verdict_free Q \<longleftrightarrow> (\<forall>e l os. Q (e\<lparr>re_world := (re_world e)\<lparr>ge_last := l, ge_order := os\<rparr>\<rparr>) = Q e)"

lemma world_verdict_free: "world_free Q \<Longrightarrow> verdict_free Q"
  by (simp add: world_free_def verdict_free_def)

lemma run_request_in_preserves:
  assumes "\<And>x. preserves Q (ga_reflect G x)" "verdict_free Q"
  shows "preserves Q (run_request_in G s q)"
  unfolding preserves_def
proof (intro allI impI)
  fix e assume "Q e"
  let ?g = "\<lparr>ge_last = ge_last (re_world e), ge_order = ge_order (re_world e), ge_world = e\<rparr>"
  have "Q (ge_world (snd (run_request G s q ?g)))"
    by (rule run_request_preserves) (use assms(1) \<open>Q e\<close> in auto)
  then show "Q (snd (run_request_in G s q e))"
    using assms(2) by (cases "run_request G s q ?g") (simp add: run_request_in_def verdict_free_def Let_def)
qed

text \<open>The run, seen as a family of properties that an operation preserves.\<close>

definition run_is :: "int \<Rightarrow> bool \<Rightarrow> 'w run_env \<Rightarrow> bool" where
  "run_is n b e \<longleftrightarrow> steps_done e = n \<and> (b \<longrightarrow> well_formed_plan (cx_plan (re_ctx e)))"

lemma keeps_run_iff: "keeps_run m \<longleftrightarrow> (\<forall>n b. preserves (run_is n b) m)"
  unfolding keeps_run_def preserves_def run_is_def by metis

lemma run_is_set: "run_is n b (set_candidate f e) = run_is n b e" "run_is n b (set_status st e) = run_is n b e"
  by (simp_all add: run_is_def steps_done_def set_candidate_def set_status_def)

text \<open>Running the gates keeps what the reflection, the verdict, the candidate and the status leave alone.\<close>

definition gate_free :: "('w gate_run_env \<Rightarrow> bool) \<Rightarrow> bool" where
  "gate_free Q \<longleftrightarrow> verdict_free Q \<and> (\<forall>e f. Q (set_candidate f e) = Q e) \<and> (\<forall>e st. Q (set_status st e) = Q e) \<and>
     (\<forall>e k. Q (e\<lparr>re_state := (re_state e)\<lparr>st_gate_rounds := k\<rparr>\<rparr>) = Q e) \<and>
     (\<forall>e r. Q (e\<lparr>re_state := (re_state e)\<lparr>st_stop_reason := r\<rparr>\<rparr>) = Q e)"

lemma gate_free_rejected: "gate_free Q \<Longrightarrow> Q (snd (gate_rejected g e)) = Q e"
  by (simp add: gate_free_def gate_rejected_def Let_def)

lemma gate_free_accepted: "gate_free Q \<Longrightarrow> Q (snd (gate_accepted g e)) = Q e"
  by (simp add: gate_free_def gate_accepted_def Let_def)

lemma gate_free_missing: "gate_free Q \<Longrightarrow> Q (snd (gate_missing e)) = Q e"
proof -
  assume Q: "gate_free Q"
  have "snd (gate_missing e) = set_candidate (\<lambda>c. c\<lparr>cs_status := CS_GATE_REJECTED\<rparr>)
      ((set_status RUN_HUMAN_REQUIRED e)\<lparr>re_state := (re_state (set_status RUN_HUMAN_REQUIRED e))
        \<lparr>st_stop_reason := Some ''GATE_REQUEST_MISSING''\<rparr>\<rparr>)"
    by (simp add: gate_missing_def Let_def set_status_def)
  with Q show ?thesis by (simp only: gate_free_def)
qed

lemma gate_run_preserves:
  fixes G :: "('t, 'w gate_run_env) gates"
  assumes reflect: "\<And>x. preserves Q (ga_reflect G x)" and Q: "gate_free Q"
  shows "preserves Q (gate_run G s q)"
proof (cases q)
  case None
  then show ?thesis using gate_free_missing [OF Q] by (simp add: preserves_def gate_run_def split_beta)
next
  case (Some r)
  have req: "preserves Q (run_request_in G s r)"
    by (rule run_request_in_preserves [OF reflect]) (use Q in \<open>simp add: gate_free_def\<close>)
  show ?thesis
    unfolding preserves_def
  proof (intro allI impI)
    fix e assume "Q e"
    obtain x e0 where x: "run_request_in G s r e = (x, e0)" by fastforce
    with req \<open>Q e\<close> have e0: "Q e0" unfolding preserves_def by (metis snd_conv)
    show "Q (snd (gate_run G s q e))"
    proof (cases x)
      case (Inl err)
      then show ?thesis using Some x e0 by (simp add: gate_run_def)
    next
      case (Inr g)
      let ?e1 = "set_candidate (\<lambda>c. c\<lparr>cs_feedback := cs_feedback c @ map feedback_of_note (gt_feedback g)\<rparr>) e0"
      have "Q ?e1" using e0 Q by (simp add: gate_free_def)
      moreover have "snd (gate_run G s q e) = snd (if gate_lets_pass r g then gate_accepted g ?e1 else gate_rejected g ?e1)"
        using Some x Inr by (simp add: gate_run_def Let_def split: prod.split)
      ultimately show ?thesis using gate_free_accepted [OF Q] gate_free_rejected [OF Q] by simp
    qed
  qed
qed

lemma run_repair_preserves:
  assumes reflect: "\<And>x. preserves Q (ga_reflect G x)" and Q: "gate_free Q"
  shows "preserves Q (run_repair G s q repaired budget)"
proof -
  have "preserves Q (run_request_in G s r)" for r
    by (rule run_request_in_preserves [OF reflect]) (use Q in \<open>simp add: gate_free_def\<close>)
  then show ?thesis using Q by (simp add: preserves_def run_repair_def gate_free_def)
qed

lemma run_is_gate_free: "gate_free (run_is n b)"
  by (simp add: gate_free_def verdict_free_def run_is_set) (simp add: run_is_def steps_done_def)

text \<open>Running a request changes the context and the run state only through the reflection.\<close>

lemma run_request_in_frame:
  assumes "\<And>x. preserves (\<lambda>e. f e = c) (ga_reflect G x)" "world_free (\<lambda>e. f e = c)" "f e = c"
    "run_request_in G s q e = (r, e')"
  shows "f e' = c"
  using run_request_in_preserves [OF assms(1) world_verdict_free [OF assms(2)], of s q] assms(3,4) unfolding preserves_def by (metis snd_conv)

lemma run_request_in_released:
  assumes "run_request_in G s q e = (Inr g, e')" "lets_pass (gt_decision g)"
  shows "released G q g \<and> ge_last (re_world e') = Some g"
proof -
  let ?g0 = "\<lparr>ge_last = ge_last (re_world e), ge_order = ge_order (re_world e), ge_world = e\<rparr>"
  obtain y g1 where run: "run_request G s q ?g0 = (y, g1)" by fastforce
  then have "y = Inr g" and e': "e' = (ge_world g1)\<lparr>re_world := (re_world (ge_world g1))\<lparr>ge_last := ge_last g1, ge_order := ge_order g1\<rparr>\<rparr>"
    using assms(1) by (auto simp: run_request_in_def Let_def)
  with run_request_released [OF run [unfolded \<open>y = Inr g\<close>] assms(2)] show ?thesis by simp
qed

lemma gate_run_ready:
  assumes run: "gate_run G s (Some q) e = (Inr r, e')" and ready: "rr_status r = CANDIDATE_READY"
    and frame: "\<And>x. preserves (\<lambda>e1. re_ctx e1 = re_ctx e) (ga_reflect G x)"
  shows "\<exists>g. released G q g \<and> gate_lets_pass q g \<and> ge_last (re_world e') = Some g \<and>
    rr_candidate_sql r = cs_draft_sql (cx_candidate (re_ctx e)) \<and>
    rr_candidate_ref r = cs_draft_ref (cx_candidate (re_ctx e)) \<and>
    cs_formal_sql (cx_candidate (re_ctx e')) = cs_draft_sql (cx_candidate (re_ctx e)) \<and>
    cs_draft_ref (cx_candidate (re_ctx e')) = cs_draft_ref (cx_candidate (re_ctx e)) \<and>
    cs_status (cx_candidate (re_ctx e')) = CS_READY"
proof -
  obtain y e0 where req: "run_request_in G s q e = (y, e0)" by fastforce
  then obtain g where g: "y = Inr g" using run by (cases y) (auto simp: gate_run_def)
  have pass: "gate_lets_pass q g"
    using run ready req g by (auto simp: gate_run_def gate_rejected_def Let_def plain_result_def split: if_splits)
  then have "released G q g" "ge_last (re_world e0) = Some g"
    using run_request_in_released [OF req [unfolded g]] by (auto simp: gate_lets_pass_def lets_pass_def)
  moreover have "re_ctx e0 = re_ctx e"
    by (rule run_request_in_frame [OF frame _ refl req]) (simp add: world_free_def)
  ultimately show ?thesis using pass run req g
    by (auto simp: gate_run_def gate_accepted_def Let_def plain_result_def)
qed

text \<open>A repaired candidate is let through only if it is released, and only in the first round.\<close>

lemma run_repair_released:
  assumes "run_repair G s q repaired budget e = (Inr g, e')" "lets_pass (gt_decision g)"
  shows "released G (q\<lparr>gq_candidate_sql := repaired\<rparr>) g \<and> st_gate_rounds (re_state e) < 1"
  using assms
  by (auto simp: run_repair_def lets_pass_def gate_outcome_def split: if_splits dest: run_request_in_released)

lemma run_repair_last:
  assumes "run_repair G s q repaired budget e = (Inr g, e')" "lets_pass (gt_decision g)"
  shows "ge_last (re_world e') = Some g"
  using assms
  by (auto simp: run_repair_def lets_pass_def gate_outcome_def split: if_splits dest: run_request_in_released)

lemma run_repair_exhausted:
  "st_gate_rounds (re_state e) \<ge> 1 \<Longrightarrow>
     \<exists>g. run_repair G s q repaired budget e = (Inr g, e) \<and> gt_decision g = GD_HUMAN_REQUIRED"
  by (simp add: run_repair_def gate_outcome_def)

lemma gate_run_not_ready:
  assumes "gate_run G s q e = (Inr r, e')" "rr_status r \<noteq> CANDIDATE_READY"
  shows "rr_candidate_sql r = None \<and> cs_status (cx_candidate (re_ctx e')) = CS_GATE_REJECTED"
  using assms
  by (auto simp: gate_run_def gate_missing_def gate_accepted_def gate_rejected_def Let_def plain_result_def
      split: option.splits prod.splits sum.splits if_splits)

end
