(* ===== verification/Context_Manager.thy ===== *)
theory Context_Manager
  imports Artifact_Store Agent_Runner
begin

text \<open>
  \<open>agent/context/\<close>: the views of the agent context for the main agent, a sub-agent and the gates,
  and compaction. The main facts: trimming touches only the workspace and the observations, keeps every
  workspace key that is not temporary and leaves at most eight observations with distinct markers;
  compaction keeps the safety-critical parts of the context or fails; a summary that is accepted names
  no artifact the workspace does not hold and drops no gate constraint.

  How pydantic writes a context as JSON text is a parameter (\<open>cc_dump\<close> for \<open>model_dump_json\<close>,
  \<open>cc_sorted_dump\<close> for \<open>json.dumps(..., sort_keys=True)\<close>); the code uses only its length and hash.
\<close>

section \<open>Models\<close>

record main_agent_input =
  mi_goal :: string
  mi_original_sql :: string
  mi_error_message :: "string option"
  mi_plan :: exec_plan
  mi_plan_summary :: string
  mi_phase :: agent_phase
  mi_workspace :: "(string, string) dict"
  mi_observations :: "observation list"
  mi_candidate :: string
  mi_feedback :: "string list"
  mi_refs :: "artifact_ref list"
  mi_tools :: "tool_spec list"
  mi_budget :: "(string, int) dict"

record subagent_input =
  si_task_name :: string
  si_objective :: string
  si_constraints :: "string list"
  si_inline :: "(string, string) dict"
  si_refs :: "artifact_ref list"
  si_schema :: string
  si_budget :: "(string, int) dict"

record gate_evidence =
  gv_original_sql :: string
  gv_candidate_sql :: string
  gv_target_table :: "string option"
  gv_static_partition :: "string option"
  gv_metadata_ref :: "string option"
  gv_diagnosis_ref :: "string option"
  gv_feedback :: "string list"
  gv_hash :: string
  gv_attempt_id :: string
  gv_event_key :: string

record context_summary =
  cu_goal :: string
  cu_facts :: "string list"
  cu_questions :: "string list"
  cu_refs :: "string list"
  cu_plan_step :: "string option"
  cu_candidate_status :: string
  cu_constraints :: "string list"

datatype compaction_method = DETERMINISTIC_TRIM | LLM_SUMMARY

record context_snapshot =
  ct_id :: string
  ct_session :: string
  ct_attempt :: string
  ct_before :: string
  ct_after :: string
  ct_retained :: "string list"
  ct_removed :: "string list"
  ct_refs :: "string list"
  ct_method :: compaction_method
  ct_created_at :: string

fun candidate_status_value :: "candidate_status \<Rightarrow> string" where
  "candidate_status_value CS_NONE = ''NONE''"
| "candidate_status_value CS_DRAFT = ''DRAFT''"
| "candidate_status_value CS_GATE_REJECTED = ''GATE_REJECTED''"
| "candidate_status_value CS_READY = ''READY''"

lemma candidate_status_value_inject [simp]:
  "candidate_status_value a = candidate_status_value b \<longleftrightarrow> a = b"
  by (cases a; cases b) simp_all

fun gate_vote_value :: "gate_vote \<Rightarrow> string" where
  "gate_vote_value GV_PASS = ''PASS''"
| "gate_vote_value GV_REJECT = ''REJECT''"
| "gate_vote_value GV_HUMAN_REQUIRED = ''HUMAN_REQUIRED''"

section \<open>Views\<close>

definition workspace_ref :: "workspace_value \<Rightarrow> artifact_ref option" where
  "workspace_ref v =
     (if \<not> truthy (wv_artifact_ref v) then None
      else case parse_ref (or_text (wv_artifact_ref v) []) of Inl _ \<Rightarrow> None | Inr r \<Rightarrow> Some r)"

definition candidate_of :: "agent_context \<Rightarrow> string option" where
  "candidate_of ctx = or_opt (cs_formal_sql (cx_candidate ctx)) (cs_draft_sql (cx_candidate ctx))"

definition feedback_line :: "gate_feedback \<Rightarrow> string" where
  "feedback_line f = gf_gate f @ '':'' @ gate_vote_value (gf_decision f) @ '':'' @ gf_reason f"

definition summary_or_status :: "workspace_value \<Rightarrow> string" where
  "summary_or_status v = (case wv_summary v of None \<Rightarrow> workspace_status_value (wv_status v) | Some s \<Rightarrow> s)"

definition own_ref :: "agent_context \<Rightarrow> workspace_value \<Rightarrow> artifact_ref list" where
  "own_ref ctx v =
     (case workspace_ref v of
        None \<Rightarrow> []
      | Some r \<Rightarrow> if ar_sanitized r \<and> ar_session r = cx_session_id ctx then [r] else [])"

definition prepare_for_main_agent :: "tool_spec list \<Rightarrow> run_limits \<Rightarrow> agent_context \<Rightarrow> run_state \<Rightarrow> main_agent_input" where
  "prepare_for_main_agent tools l ctx s =
     \<lparr>mi_goal = goal_text, mi_original_sql = cx_original_sql ctx, mi_error_message = cx_error_message ctx,
      mi_plan = cx_plan ctx,
      mi_plan_summary = or_text (or_opt (ep_summary (cx_plan ctx)) (ep_current (cx_plan ctx))) [],
      mi_phase = cx_phase ctx,
      mi_workspace = map (\<lambda>(k, v). (k, summary_or_status v)) (cx_workspace ctx),
      mi_observations = cx_observations ctx,
      mi_candidate = ''status='' @ candidate_status_value (cs_status (cx_candidate ctx)) @ ''; candidate_present='' @
        (if candidate_of ctx = None then ''False'' else ''True''),
      mi_feedback = map feedback_line (cs_feedback (cx_candidate ctx)),
      mi_refs = concat (map (own_ref ctx \<circ> snd) (cx_workspace ctx)),
      mi_tools = tools,
      mi_budget = [(''steps'', max 0 (lm_max_steps l - st_step_count s)),
        (''tool_calls'', max 0 (lm_max_tool_calls l - st_tool_calls s)),
        (''sub_agent_calls'', max 0 (lm_max_sub_agent_calls l - st_sub_agent_calls s)),
        (''wall_time_ms'', max 0 (lm_max_wall_time_ms l - st_wall_time_ms s))]\<rparr>"

text \<open>The loop over the requested references: the inline texts and the artifact references.\<close>

fun collect_refs ::
  "agent_context \<Rightarrow> string list \<Rightarrow> (string, string) dict \<Rightarrow> artifact_ref list \<Rightarrow>
     ((string, string) dict \<times> artifact_ref list) outcome" where
  "collect_refs ctx [] inline refs = Inr (inline, refs)"
| "collect_refs ctx (k # ks) inline refs =
     (case dict_get (cx_workspace ctx) k of
        None \<Rightarrow> collect_refs ctx ks inline refs
      | Some v \<Rightarrow>
          (case workspace_ref v of
             Some r \<Rightarrow>
               if ar_session r \<noteq> cx_session_id ctx \<or> \<not> ar_sanitized r
               then Inl (ContextCompactionError ''sub-agent artifact ownership or sanitization check failed'')
               else collect_refs ctx ks inline (refs @ [r])
           | None \<Rightarrow>
               (case wv_summary v of
                  None \<Rightarrow> collect_refs ctx ks inline refs
                | Some t \<Rightarrow> collect_refs ctx ks (dict_set k t inline) refs)))"

definition prepare_for_sub_agent :: "agent_context \<Rightarrow> subagent_request \<Rightarrow> subagent_input outcome" where
  "prepare_for_sub_agent ctx q =
     and_then (collect_refs ctx (sr_context_refs q) [] []) (\<lambda>(inline, refs).
       Inr \<lparr>si_task_name = sr_task_name q, si_objective = sr_objective q,
            si_constraints = [no_recursion_text, no_state_change_text, no_direct_submit_text],
            si_inline = inline, si_refs = refs, si_schema = sr_expected_schema q,
            si_budget = [(''steps'', sl_max_steps (sr_limits q)), (''tool_calls'', sl_max_tool_calls (sr_limits q)),
              (''wall_time_ms'', sl_max_wall_time_ms (sr_limits q)),
              (''context_requests'', sl_max_context_requests (sr_limits q))]\<rparr>)"

definition summary_at :: "agent_context \<Rightarrow> string \<Rightarrow> string option" where
  "summary_at ctx k = Option.bind (dict_get (cx_workspace ctx) k) wv_summary"

definition ref_at :: "agent_context \<Rightarrow> string \<Rightarrow> string option" where
  "ref_at ctx k = Option.bind (dict_get (cx_workspace ctx) k) wv_artifact_ref"

definition prepare_for_gate :: "agent_context \<Rightarrow> gate_evidence outcome" where
  "prepare_for_gate ctx =
     (if cx_original_sql ctx = [] \<or> cx_attempt_id ctx = [] \<or> cx_event_key ctx = [] \<or> \<not> truthy (candidate_of ctx)
      then Inl (ContextCompactionError ''safety-critical gate context is missing'')
      else let c = or_text (candidate_of ctx) [] in
        Inr \<lparr>gv_original_sql = cx_original_sql ctx, gv_candidate_sql = c,
             gv_target_table = summary_at ctx ''target_table'',
             gv_static_partition = summary_at ctx ''static_partition'',
             gv_metadata_ref = ref_at ctx ''metadata_snapshot'', gv_diagnosis_ref = ref_at ctx ''diagnosis'',
             gv_feedback = map feedback_line (cs_feedback (cx_candidate ctx)),
             gv_hash = sha256 c, gv_attempt_id = cx_attempt_id ctx, gv_event_key = cx_event_key ctx\<rparr>)"

section \<open>Long content\<close>

definition inline_char_limit :: nat where "inline_char_limit = 4000"

definition available_value :: "string option \<Rightarrow> string option \<Rightarrow> string \<Rightarrow> workspace_value" where
  "available_value summary ref now =
     \<lparr>wv_status = WS_AVAILABLE, wv_summary = summary, wv_artifact_ref = ref, wv_updated_at = now\<rparr>"

definition put_workspace :: "string \<Rightarrow> workspace_value \<Rightarrow> agent_context \<Rightarrow> agent_context" where
  "put_workspace k v ctx = ctx\<lparr>cx_workspace := dict_set k v (cx_workspace ctx)\<rparr>"

definition store_long_content ::
  "agent_context \<Rightarrow> string \<Rightarrow> string \<Rightarrow> artifact_type \<Rightarrow> string \<Rightarrow> stamp \<Rightarrow>
     ('a disk_scheme, workspace_value \<times> agent_context) io" where
  "store_long_content ctx k content ty summary st =
     (if py_len content \<le> inline_char_limit
      then (let v = available_value (Some content) None (sp_now st) in ret (v, put_workspace k v ctx))
      else bind (save_text_ref (cx_session_id ctx) (Some (cx_attempt_id ctx)) (k @ ''.txt'') content ty st) (\<lambda>r.
        let v = available_value (Some (py_take inline_char_limit summary)) (Some (ref_json r)) (sp_now st)
        in ret (v, put_workspace k v ctx)))"

section \<open>Deterministic trimming\<close>

fun sort_json :: "json \<Rightarrow> json" and sort_jsons :: "json list \<Rightarrow> json list"
  and sort_pairs :: "(string \<times> json) list \<Rightarrow> (string \<times> json) list" where
  "sort_json (Js_list vs) = Js_list (sort_jsons vs)"
| "sort_json (Js_dict kvs) = Js_dict (sort_key fst (sort_pairs kvs))"
| "sort_json v = v"
| "sort_jsons [] = []"
| "sort_jsons (v # vs) = sort_json v # sort_jsons vs"
| "sort_pairs [] = []"
| "sort_pairs ((k, v) # kvs) = (k, sort_json v) # sort_pairs kvs"

definition memory_keys :: "string list" where
  "memory_keys = [''matched_count'', ''scanned_count'', ''discarded_count'', ''matched'', ''matched_by'']"

text \<open>\<open>{key: data[key] for key in memory_keys if key in data}\<close>: on a text or a list a key that is
  found there cannot be subscripted, and other values cannot be searched.\<close>

definition allowed_part :: "json \<Rightarrow> json outcome" where
  "allowed_part data =
     (case data of
        Js_dict d \<Rightarrow>
          Inr (Js_dict (concat (map (\<lambda>k. case dict_get d k of None \<Rightarrow> [] | Some v \<Rightarrow> [(k, v)]) memory_keys)))
      | Js_text s \<Rightarrow>
          if \<exists>k \<in> set memory_keys. contains k s then Inl (TypeError ''string indices must be integers'') else Inr (Js_dict [])
      | Js_list vs \<Rightarrow>
          if \<exists>k \<in> set memory_keys. Js_text k \<in> set vs then Inl (TypeError ''list indices must be integers'') else Inr (Js_dict [])
      | _ \<Rightarrow> Inl (TypeError ''argument is not iterable''))"

definition clean_memory_result :: "(rat \<Rightarrow> string) \<Rightarrow> workspace_value \<Rightarrow> workspace_value outcome" where
  "clean_memory_result fl v =
     (case wv_summary v of
        None \<Rightarrow> Inr v
      | Some s \<Rightarrow>
          if s = [] then Inr v
          else case json_loads s of
            Inl _ \<Rightarrow> Inr v
          | Inr data \<Rightarrow> and_then (allowed_part data) (\<lambda>a.
              Inr (v\<lparr>wv_summary := Some (json_write spaced_style fl 0 (sort_json a))\<rparr>)))"

definition temporary_key :: "string \<Rightarrow> bool" where
  "temporary_key k \<longleftrightarrow> is_prefix ''memory_temp_'' k \<or> is_prefix ''expired_'' k"

definition marker :: "observation \<Rightarrow> string \<times> obs_status \<times> string" where
  "marker o1 = (ob_action_type o1, ob_status o1, ob_summary o1)"

definition superseded :: "string option \<Rightarrow> observation \<Rightarrow> bool" where
  "superseded current o1 \<longleftrightarrow>
     ob_status o1 = OB_SUCCEEDED \<and> ob_artifact_refs o1 \<noteq> [] \<and> ob_plan_step_id o1 \<noteq> current"

text \<open>The loop over the observations, latest first.\<close>

fun retain :: "string option \<Rightarrow> (string \<times> obs_status \<times> string) set \<Rightarrow> observation list \<Rightarrow> observation list" where
  "retain current seen [] = []"
| "retain current seen (o1 # os) =
     (if marker o1 \<in> seen then retain current seen os
      else if superseded current o1 then retain current (insert (marker o1) seen) os
      else o1 # retain current (insert (marker o1) seen) os)"

definition max_recent_observations :: nat where "max_recent_observations = 8"

definition recent_observations :: "exec_plan \<Rightarrow> observation list \<Rightarrow> observation list" where
  "recent_observations p os = rev (take max_recent_observations (retain (ep_current p) {} (rev os)))"

definition deterministic_trim :: "(rat \<Rightarrow> string) \<Rightarrow> agent_context \<Rightarrow> (string list \<times> agent_context) outcome" where
  "deterministic_trim fl ctx =
     and_then (case dict_get (cx_workspace ctx) ''memory_retrieval'' of
                 None \<Rightarrow> Inr (cx_workspace ctx)
               | Some v \<Rightarrow> and_then (clean_memory_result fl v) (\<lambda>v'. Inr (dict_set ''memory_retrieval'' v' (cx_workspace ctx))))
       (\<lambda>ws. Inr (filter temporary_key (dict_keys ws),
          ctx\<lparr>cx_workspace := filter (\<lambda>(k, v). \<not> temporary_key k) ws,
              cx_observations := recent_observations (cx_plan ctx) (cx_observations ctx)\<rparr>))"

section \<open>Compaction\<close>

definition critical_context :: "agent_context \<Rightarrow> bool" where
  "critical_context ctx \<longleftrightarrow>
     cx_original_sql ctx \<noteq> [] \<and> cx_attempt_id ctx \<noteq> [] \<and> cx_event_key ctx \<noteq> [] \<and>
     (cs_status (cx_candidate ctx) \<noteq> CS_NONE \<longrightarrow> truthy (candidate_of ctx)) \<and>
     (truthy (ep_current (cx_plan ctx)) \<longrightarrow>
        or_text (ep_current (cx_plan ctx)) [] \<in> es_step_id ` set (ep_steps (cx_plan ctx)))"

definition validate_critical_context :: "agent_context \<Rightarrow> unit outcome" where
  "validate_critical_context ctx =
     (if cx_original_sql ctx = [] \<or> cx_attempt_id ctx = [] \<or> cx_event_key ctx = []
      then Inl (ContextCompactionError ''CONTEXT_COMPACTION_FAILED: required P0 context is missing'')
      else if cs_status (cx_candidate ctx) \<noteq> CS_NONE \<and> \<not> truthy (candidate_of ctx)
      then Inl (ContextCompactionError ''CONTEXT_COMPACTION_FAILED: current candidate cannot be recovered'')
      else if truthy (ep_current (cx_plan ctx)) \<and>
          or_text (ep_current (cx_plan ctx)) [] \<notin> set (map es_step_id (ep_steps (cx_plan ctx)))
      then Inl (ContextCompactionError ''CONTEXT_COMPACTION_FAILED: current plan step is invalid'')
      else Inr ())"

lemma validate_critical_iff: "validate_critical_context ctx = Inr () \<longleftrightarrow> critical_context ctx"
  by (auto simp: validate_critical_context_def critical_context_def)

definition workspace_refs :: "agent_context \<Rightarrow> string list" where
  "workspace_refs ctx = concat (map (\<lambda>(k, v). if truthy (wv_artifact_ref v) then [or_text (wv_artifact_ref v) []] else [])
     (cx_workspace ctx))"

definition validate_summary :: "agent_context \<Rightarrow> context_summary \<Rightarrow> unit outcome" where
  "validate_summary ctx u =
     (if cu_plan_step u \<noteq> ep_current (cx_plan ctx)
      then Inl (ContextCompactionError ''summary changed current plan step'')
      else if cu_candidate_status u \<noteq> candidate_status_value (cs_status (cx_candidate ctx))
      then Inl (ContextCompactionError ''summary changed candidate status'')
      else if \<not> set (cu_refs u) \<subseteq> set (workspace_refs ctx)
      then Inl (ContextCompactionError ''summary forged artifact reference'')
      else if \<not> set (map gf_reason (cs_feedback (cx_candidate ctx))) \<subseteq> set (cu_constraints u)
      then Inl (ContextCompactionError ''summary removed gate constraint'')
      else Inr ())"

record cm_state =
  cm_calls :: int
  cm_snapshots :: "context_snapshot list"

definition new_cm_state :: cm_state where "new_cm_state = \<lparr>cm_calls = 0, cm_snapshots = []\<rparr>"

text \<open>
  What the manager of a run is configured with, and where the world keeps its state.
  \<open>cc_summary\<close> is the summary callable (an LLM call between hooks).
\<close>

record 'w cm_config =
  cc_float :: "rat \<Rightarrow> string"
  cc_dump :: "agent_context \<Rightarrow> string"
  cc_sorted_dump :: "agent_context \<Rightarrow> string"
  cc_summary_dump :: "context_summary \<Rightarrow> string"
  cc_limits :: compaction_limits
  cc_summary :: "('w run_env, context_summary) io option"
  cc_get :: "'w \<Rightarrow> cm_state"
  cc_put :: "cm_state \<Rightarrow> 'w \<Rightarrow> 'w"
  cc_now :: "'w \<Rightarrow> string \<times> 'w"

definition max_inline_chars :: nat where "max_inline_chars = 16000"
definition soft_token_limit :: nat where "soft_token_limit = 8000"

definition over_size :: "'w cm_config \<Rightarrow> agent_context \<Rightarrow> bool" where
  "over_size C ctx = (let n = py_len (cc_dump C ctx) in n > max_inline_chars \<or> (n + 3) div 4 > soft_token_limit)"

definition context_hash :: "'w cm_config \<Rightarrow> agent_context \<Rightarrow> string" where
  "context_hash C ctx = sha256 (cc_sorted_dump C ctx)"

definition on_cm :: "'w cm_config \<Rightarrow> (cm_state \<Rightarrow> cm_state) \<Rightarrow> ('w run_env, unit) io" where
  "on_cm C f = modify (\<lambda>e. e\<lparr>re_world := cc_put C (f (cc_get C (re_world e))) (re_world e)\<rparr>)"

definition zero_pad4 :: "nat \<Rightarrow> string" where
  "zero_pad4 n = replicate (4 - length (digits n)) (CHR ''0'') @ digits n"

definition trim_io :: "'w cm_config \<Rightarrow> ('w run_env, string list) io" where
  "trim_io C e =
     (case deterministic_trim (cc_float C) (re_ctx e) of
        Inl err \<Rightarrow> (Inl err, e)
      | Inr (removed, ctx) \<Rightarrow> (Inr removed, e\<lparr>re_ctx := ctx\<rparr>))"

text \<open>The guarded attempt to summarise: the method used.\<close>

definition summarize_io :: "'w cm_config \<Rightarrow> ('w run_env, context_summary) io \<Rightarrow> ('w run_env, compaction_method) io" where
  "summarize_io C summary =
     seq (on_cm C (\<lambda>m. m\<lparr>cm_calls := cm_calls m + 1\<rparr>))
       (try_catch
         (bind summary (\<lambda>u.
          bind (gets (\<lambda>e. validate_summary (re_ctx e) u)) (\<lambda>ok.
          seq (lift ok)
          (bind (from_world (cc_now C)) (\<lambda>now.
          seq (on_ctx (put_workspace ''context_summary'' (available_value (Some (cc_summary_dump C u)) None now)))
            (ret LLM_SUMMARY))))))
         (\<lambda>_. seq (trim_io C) (ret DETERMINISTIC_TRIM)))"

definition may_summarize :: "'w cm_config \<Rightarrow> 'w run_env \<Rightarrow> bool" where
  "may_summarize C e \<longleftrightarrow> over_size C (re_ctx e) \<and> cm_calls (cc_get C (re_world e)) < cl_max_calls (cc_limits C)"

definition make_snapshot ::
  "'w cm_config \<Rightarrow> string \<Rightarrow> string list \<Rightarrow> compaction_method \<Rightarrow> string \<Rightarrow> 'w run_env \<Rightarrow> context_snapshot" where
  "make_snapshot C before removed m now e =
     (let ctx = re_ctx e in
      \<lparr>ct_id = ''snapshot_'' @ zero_pad4 (length (cm_snapshots (cc_get C (re_world e))) + 1),
       ct_session = cx_session_id ctx, ct_attempt = cx_attempt_id ctx, ct_before = before,
       ct_after = context_hash C ctx, ct_retained = sort (dict_keys (cx_workspace ctx)), ct_removed = sort removed,
       ct_refs = workspace_refs ctx, ct_method = m, ct_created_at = now\<rparr>)"

definition critical_io :: "('w run_env, unit) io" where
  "critical_io e = (validate_critical_context (re_ctx e), e)"

definition compaction_step :: "'w cm_config \<Rightarrow> bool \<Rightarrow> ('w run_env, compaction_method) io" where
  "compaction_step C may =
     (case cc_summary C of
        Some summary \<Rightarrow> if may then summarize_io C summary else ret DETERMINISTIC_TRIM
      | None \<Rightarrow> ret DETERMINISTIC_TRIM)"

definition compact_if_needed :: "'w cm_config \<Rightarrow> ('w run_env, unit) io" where
  "compact_if_needed C =
     seq critical_io
     (bind (gets (\<lambda>e. context_hash C (re_ctx e))) (\<lambda>before.
      bind (trim_io C) (\<lambda>removed.
      bind (gets (may_summarize C)) (\<lambda>may.
      bind (compaction_step C may) (\<lambda>m.
      seq critical_io
      (bind (from_world (cc_now C)) (\<lambda>now.
       bind (gets (make_snapshot C before removed m now)) (\<lambda>snap.
       on_cm C (\<lambda>s. s\<lparr>cm_snapshots := cm_snapshots s @ [snap]\<rparr>)))))))))"

section \<open>What the views hold\<close>

lemma collect_refs_own:
  "collect_refs ctx ks inline refs = Inr (inline', refs') \<Longrightarrow>
     \<forall>r \<in> set refs. ar_session r = cx_session_id ctx \<and> ar_sanitized r \<Longrightarrow>
     \<forall>r \<in> set refs'. ar_session r = cx_session_id ctx \<and> ar_sanitized r"
proof (induction ks arbitrary: inline refs)
  case (Cons k ks)
  show ?case
  proof (cases "dict_get (cx_workspace ctx) k")
    case None
    then show ?thesis using Cons by simp
  next
    case (Some v)
    show ?thesis
    proof (cases "workspace_ref v")
      case None
      then show ?thesis using Cons Some by (auto split: option.splits)
    next
      case (Some r)
      note ref = Some
      have ok: "ar_session r = cx_session_id ctx" "ar_sanitized r"
        using Cons.prems(1) ref \<open>dict_get (cx_workspace ctx) k = Some v\<close> by (auto split: if_splits)
      then have "collect_refs ctx ks inline (refs @ [r]) = Inr (inline', refs')"
        using Cons.prems(1) ref \<open>dict_get (cx_workspace ctx) k = Some v\<close> by simp
      from Cons.IH [OF this] show ?thesis using Cons.prems(2) ok by auto
    qed
  qed
qed simp

lemma prepare_for_sub_agent_own:
  "prepare_for_sub_agent ctx q = Inr i \<Longrightarrow> r \<in> set (si_refs i) \<Longrightarrow> ar_session r = cx_session_id ctx \<and> ar_sanitized r"
  by (auto simp: prepare_for_sub_agent_def and_then_Inr_iff dest!: collect_refs_own)

lemma main_agent_refs_own:
  "r \<in> set (mi_refs (prepare_for_main_agent tools l ctx s)) \<Longrightarrow> ar_session r = cx_session_id ctx \<and> ar_sanitized r"
  by (auto simp: prepare_for_main_agent_def own_ref_def split: option.splits if_splits)

lemma prepare_for_gate_Inr:
  "prepare_for_gate ctx = Inr ev \<Longrightarrow>
     gv_original_sql ev = cx_original_sql ctx \<and> gv_attempt_id ev = cx_attempt_id ctx \<and> gv_event_key ev = cx_event_key ctx \<and>
     candidate_of ctx = Some (gv_candidate_sql ev) \<and> gv_candidate_sql ev \<noteq> [] \<and> gv_hash ev = sha256 (gv_candidate_sql ev)"
  by (auto simp: prepare_for_gate_def Let_def truthy_iff split: if_splits)

section \<open>What trimming keeps\<close>

lemma retain_subseq: "subseq (retain c seen os) os"
  by (induction c seen os rule: retain.induct) auto

lemma retain_markers: "distinct (map marker (retain c seen os)) \<and> seen \<inter> marker ` set (retain c seen os) = {}"
proof (induction c seen os rule: retain.induct)
  case (2 c seen o1 os)
  show ?case
  proof (cases "marker o1 \<in> seen \<or> superseded c o1")
    case True
    with 2 show ?thesis by auto
  next
    case False
    with "2.IH"(3) have "distinct (map marker (retain c (insert (marker o1) seen) os))"
      "insert (marker o1) seen \<inter> marker ` set (retain c (insert (marker o1) seen) os) = {}" by auto
    with False show ?thesis by auto
  qed
qed simp

lemma subseq_rev_mono: "subseq xs ys \<Longrightarrow> subseq (rev xs) (rev ys)"
  by (induction rule: list_emb.induct) (auto intro: list_emb_append_mono subseq_rev_drop_many)

lemma recent_observations_bounds:
  "length (recent_observations p os) \<le> 8 \<and> distinct (map marker (recent_observations p os)) \<and>
   subseq (recent_observations p os) os"
proof -
  let ?t = "take max_recent_observations (retain (ep_current p) {} (rev os))"
  have "subseq ?t (rev os)"
    by (meson prefix_imp_subseq retain_subseq subseq_order.trans take_is_prefix)
  then have "subseq (rev ?t) os" by (metis subseq_rev_mono rev_rev_ident)
  moreover have "distinct (map marker ?t)"
    using retain_markers [of "ep_current p" "{}" "rev os"] by (simp add: take_map distinct_take flip: take_map)
  ultimately show ?thesis
    by (simp add: recent_observations_def max_recent_observations_def rev_map [symmetric])
qed

text \<open>Everything of a context that trimming does not touch.\<close>

definition core_of :: "agent_context \<Rightarrow> agent_context" where
  "core_of ctx = ctx\<lparr>cx_workspace := [], cx_observations := []\<rparr>"

lemma core_of_parts:
  "core_of ctx = core_of ctx' \<Longrightarrow>
     cx_plan ctx = cx_plan ctx' \<and> cx_candidate ctx = cx_candidate ctx' \<and> cx_original_sql ctx = cx_original_sql ctx' \<and>
     cx_attempt_id ctx = cx_attempt_id ctx' \<and> cx_event_key ctx = cx_event_key ctx' \<and> cx_session_id ctx = cx_session_id ctx' \<and>
     cx_phase ctx = cx_phase ctx'"
  by (cases ctx; cases ctx') (simp add: core_of_def)

lemma critical_core: "core_of ctx = core_of ctx' \<Longrightarrow> critical_context ctx = critical_context ctx'"
  by (drule core_of_parts) (simp add: critical_context_def candidate_of_def)

lemma clean_memory_status:
  "clean_memory_result fl v = Inr v' \<Longrightarrow> wv_status v' = wv_status v \<and> wv_artifact_ref v' = wv_artifact_ref v"
  by (auto simp: clean_memory_result_def and_then_Inr_iff split: option.splits if_splits sum.splits)

lemma dict_keys_filter: "dict_keys (filter (\<lambda>(k, v). p k) d) = filter p (dict_keys d)"
  by (induction d) (auto simp: dict_keys_def)

lemma dict_get_filter: "p k \<Longrightarrow> dict_get (filter (\<lambda>(k, v). p k) d) k = dict_get d k"
  by (induction d) (auto simp: dict_get_def)

lemma dict_get_in_keys: "dict_get d k = Some v \<Longrightarrow> k \<in> set (dict_keys d)"
  unfolding dict_get_def dict_keys_def by (metis map_of_eq_None_iff option.distinct(1) set_map)

lemma trim_keeps:
  assumes "deterministic_trim fl ctx = Inr (removed, ctx')"
  shows "core_of ctx' = core_of ctx \<and>
    dict_keys (cx_workspace ctx') = filter (\<lambda>k. \<not> temporary_key k) (dict_keys (cx_workspace ctx)) \<and>
    removed = filter temporary_key (dict_keys (cx_workspace ctx)) \<and>
    (\<forall>k. k \<noteq> ''memory_retrieval'' \<longrightarrow> \<not> temporary_key k \<longrightarrow>
       dict_get (cx_workspace ctx') k = dict_get (cx_workspace ctx) k) \<and>
    length (cx_observations ctx') \<le> 8 \<and> distinct (map marker (cx_observations ctx')) \<and>
    subseq (cx_observations ctx') (cx_observations ctx)"
proof -
  obtain ws where ws: "ctx' = ctx\<lparr>cx_workspace := filter (\<lambda>(k, v). \<not> temporary_key k) ws,
        cx_observations := recent_observations (cx_plan ctx) (cx_observations ctx)\<rparr>"
      "removed = filter temporary_key (dict_keys ws)" "dict_keys ws = dict_keys (cx_workspace ctx)"
      "\<And>k. k \<noteq> ''memory_retrieval'' \<Longrightarrow> dict_get ws k = dict_get (cx_workspace ctx) k"
    using assms
    by (auto simp: deterministic_trim_def and_then_Inr_iff dict_keys_set dict_get_set dest: dict_get_in_keys
        split: option.splits)
  then show ?thesis
    using recent_observations_bounds [of "cx_plan ctx" "cx_observations ctx"]
    by (simp add: core_of_def dict_keys_filter dict_get_filter)
qed

section \<open>What compaction keeps\<close>

definition core_is :: "agent_context \<Rightarrow> run_state \<Rightarrow> 'w run_env \<Rightarrow> bool" where
  "core_is c s e \<longleftrightarrow> core_of (re_ctx e) = core_of c \<and> st_step_count (re_state e) = st_step_count s"

lemma core_is_on_cm [keeps]: "preserves (core_is c s) (on_cm C f)"
  by (simp add: preserves_def core_is_def on_cm_def)

lemma core_is_trim [keeps]: "preserves (core_is c s) (trim_io C)"
  by (auto simp: preserves_def core_is_def trim_io_def dest: trim_keeps split: sum.split prod.split)

lemma core_is_world [keeps]: "preserves (core_is c s) (from_world f)"
  by (simp add: preserves_def core_is_def from_world_def split: prod.split)

lemma core_is_workspace [keeps]: "preserves (core_is c s) (on_ctx (put_workspace k v))"
  by (simp add: preserves_def core_is_def on_ctx_def put_workspace_def core_of_def)

lemma core_is_critical [keeps]: "preserves (core_is c s) critical_io"
  by (simp add: preserves_def critical_io_def)

lemma core_is_summarize:
  assumes "\<And>u. cc_summary C = Some u \<Longrightarrow> preserves (core_is c s) u" "cc_summary C = Some summary"
  shows "preserves (core_is c s) (summarize_io C summary)"
  unfolding summarize_io_def by (intro keeps assms)

lemma core_is_compact:
  assumes "\<And>u. cc_summary C = Some u \<Longrightarrow> preserves (core_is c s) u"
  shows "preserves (core_is c s) (compact_if_needed C)"
proof -
  have "preserves (core_is c s) (compaction_step C may)" for may
    using core_is_summarize [OF assms] by (auto simp: compaction_step_def preserves_pure split: option.split)
  then show ?thesis unfolding compact_if_needed_def by (intro keeps)
qed

lemma from_world_Inr: "from_world f e = (Inr x, e') \<longleftrightarrow> (\<exists>w. f (re_world e) = (x, w) \<and> e' = e\<lparr>re_world := w\<rparr>)"
  by (auto simp: from_world_def split: prod.splits)

text \<open>A compaction that returns leaves a context with its safety-critical parts and one snapshot more.\<close>

lemma compact_critical:
  assumes run: "compact_if_needed C e = (Inr u, e')"
    and cm: "\<And>m w. cc_get C (cc_put C m w) = m"
  shows "critical_context (re_ctx e) \<and> critical_context (re_ctx e') \<and>
    (\<exists>snap. cm_snapshots (cc_get C (re_world e')) = butlast (cm_snapshots (cc_get C (re_world e'))) @ [snap] \<and>
       ct_after snap = context_hash C (re_ctx e') \<and> ct_before snap = context_hash C (re_ctx e))"
proof -
  obtain e1 removed m e2 t w3 where steps: "critical_context (re_ctx e)" "trim_io C e = (Inr removed, e1)"
      "compaction_step C (may_summarize C e1) e1 = (Inr m, e2)" "critical_context (re_ctx e2)"
      "cc_now C (re_world e2) = (t, w3)"
      "on_cm C (\<lambda>s. s\<lparr>cm_snapshots := cm_snapshots s @
         [make_snapshot C (context_hash C (re_ctx e)) removed m t (e2\<lparr>re_world := w3\<rparr>)]\<rparr>) (e2\<lparr>re_world := w3\<rparr>) = (Inr u, e')"
    using run unfolding compact_if_needed_def
    by (auto simp: seq_Inr_iff bind_Inr_iff critical_io_def validate_critical_iff from_world_Inr)
  let ?snap = "make_snapshot C (context_hash C (re_ctx e)) removed m t (e2\<lparr>re_world := w3\<rparr>)"
  have e': "re_ctx e' = re_ctx e2" "cm_snapshots (cc_get C (re_world e')) = cm_snapshots (cc_get C w3) @ [?snap]"
    using steps(6) by (auto simp: on_cm_def cm)
  have "ct_after ?snap = context_hash C (re_ctx e')" "ct_before ?snap = context_hash C (re_ctx e)"
    by (simp_all add: make_snapshot_def Let_def e')
  with e' steps(1,4) show ?thesis by (intro conjI exI [of _ ?snap]) simp_all
qed

lemma validate_summary_iff:
  "validate_summary ctx u = Inr () \<longleftrightarrow>
     cu_plan_step u = ep_current (cx_plan ctx) \<and>
     cu_candidate_status u = candidate_status_value (cs_status (cx_candidate ctx)) \<and>
     set (cu_refs u) \<subseteq> set (workspace_refs ctx) \<and>
     gf_reason ` set (cs_feedback (cx_candidate ctx)) \<subseteq> set (cu_constraints u)"
  by (auto simp: validate_summary_def)

end
