(* ===== verification/Main_Agent.thy ===== *)
theory Main_Agent
  imports Context_Manager
begin

text \<open>
  The two main agents: \<open>DeterministicMainAgent\<close> of
  \<open>orchestrator/agentic_failed_event_processor.py\<close> and \<open>agent/runner/llm_main_agent.py\<close>. The
  deterministic one calls the tool of the first result the workspace lacks. The other asks an LLM for
  plans and decisions; how a question is rendered as a prompt and how the answer is parsed is a port.
  The main facts: whatever the LLM answers, a plan that leaves the agent is well-formed and a legal
  successor of the current one, a candidate that leaves it is the one the workspace holds, and a failing
  LLM never surfaces as its error.
\<close>

section \<open>The deterministic agent\<close>

definition tool_action :: "string \<Rightarrow> agent_action" where
  "tool_action name = (blank_action TOOL_CALL)\<lparr>ac_tool_name := Some name, ac_tool_input := Some []\<rparr>"

definition diagnose_request :: subagent_request where
  "diagnose_request =
     \<lparr>sr_task_name = ''diagnose_sql_error'', sr_objective = objective_subagent, sr_context_refs = [],
      sr_allowed_tools = [], sr_expected_schema = ''DiagnosisResult'', sr_limits = default_subagent_limits\<rparr>"

definition sub_agent_action :: "subagent_request \<Rightarrow> agent_action" where
  "sub_agent_action q = (blank_action RUN_SUB_AGENT)\<lparr>ac_request := Some q\<rparr>"

definition human_action :: "string \<Rightarrow> agent_action" where
  "human_action reason = (blank_action RETURN_HUMAN_REQUIRED)\<lparr>ac_reason := Some reason\<rparr>"

definition propose_action :: "string option \<Rightarrow> agent_action" where
  "propose_action c = (blank_action PROPOSE_SQL_CANDIDATE)\<lparr>ac_candidate_sql := c\<rparr>"

definition plan_action_of :: "exec_plan \<Rightarrow> agent_action" where
  "plan_action_of p = (blank_action UPDATE_PLAN)\<lparr>ac_plan := Some p\<rparr>"

lemmas action_makers = tool_action_def sub_agent_action_def human_action_def propose_action_def plan_action_of_def

text \<open>The workspace the agent sees: the values of a context, or the summaries of its view.\<close>

definition known :: "agent_context + main_agent_input \<Rightarrow> (string, string option) dict" where
  "known x = (case x of
     Inl ctx \<Rightarrow> map (\<lambda>(k, v). (k, wv_summary v)) (cx_workspace ctx)
   | Inr i \<Rightarrow> map (\<lambda>(k, t). (k, Some t)) (mi_workspace i))"

definition missing :: "(string, string option) dict \<Rightarrow> string \<Rightarrow> bool" where
  "missing w k \<longleftrightarrow> dict_get w k = None"

definition known_text :: "(string, string option) dict \<Rightarrow> string \<Rightarrow> string option" where
  "known_text w k = (case dict_get w k of None \<Rightarrow> None | Some t \<Rightarrow> t)"

definition wants_sub_agent :: "(string, string option) dict \<Rightarrow> run_state \<Rightarrow> bool" where
  "wants_sub_agent w s \<longleftrightarrow>
     contains ''UNKNOWN'' (or_text (known_text w ''diagnosis'') []) \<and> missing w ''subagent_diagnosis'' \<and>
     st_sub_agent_calls s = 0"

definition seen_candidate :: "agent_context + main_agent_input \<Rightarrow> string option" where
  "seen_candidate x =
     (let c = known_text (known x) ''candidate_sql'' in
      case x of Inl _ \<Rightarrow> c | Inr _ \<Rightarrow> if c = Some ''FAILED'' then None else c)"

definition final_action :: "string option \<Rightarrow> agent_action outcome" where
  "final_action c =
     (if \<not> truthy c \<or> c = Some ''None'' then Inr (human_action reason_no_candidate)
      else mk_agent_action (propose_action c))"

definition deterministic_action :: "agent_context + main_agent_input \<Rightarrow> run_state \<Rightarrow> agent_action outcome" where
  "deterministic_action x s =
     (let w = known x in
      if missing w ''log_digest'' then Inr (tool_action ''build_log_digest'')
      else if missing w ''diagnosis'' then Inr (tool_action ''diagnose'')
      else if wants_sub_agent w s then Inr (sub_agent_action diagnose_request)
      else if missing w ''metadata_snapshot'' then Inr (tool_action ''query_metadata'')
      else if missing w ''memory_retrieval'' then Inr (tool_action ''retrieve_memory'')
      else if missing w ''repair_plan'' then Inr (tool_action ''build_repair_plan'')
      else if missing w ''candidate_sql'' then Inr (tool_action ''generate_candidate'')
      else final_action (seen_candidate x))"

section \<open>The agent that asks an LLM\<close>

text \<open>\<open>PlannerInput\<close>\<close>

record plan_question =
  qn_original_sql :: string
  qn_error_message :: "string option"
  qn_phase :: agent_phase
  qn_workspace :: "(string, string) dict"
  qn_tools :: "tool_spec list"
  qn_budget :: "(string, int) dict"
  qn_previous_plan :: "string option"
  qn_observations :: "observation list"

definition last_three :: "'a list \<Rightarrow> 'a list" where
  "last_three xs = drop (length xs - 3) xs"

definition plan_question_of :: "bool \<Rightarrow> main_agent_input \<Rightarrow> plan_question" where
  "plan_question_of initialized i =
     \<lparr>qn_original_sql = mi_original_sql i, qn_error_message = mi_error_message i, qn_phase = mi_phase i,
      qn_workspace = mi_workspace i, qn_tools = mi_tools i, qn_budget = mi_budget i,
      qn_previous_plan = (if initialized then Some (mi_plan_summary i) else None),
      qn_observations = last_three (mi_observations i)\<rparr>"

datatype decision_kind = CONTINUE_PLAN | REVISE_PLAN | DECIDE_PROPOSE | DECIDE_HUMAN

record plan_decision =
  pd_kind :: decision_kind
  pd_plan :: "exec_plan option"
  pd_reason :: "string option"

record main_agent_state =
  mg_initialized :: bool
  mg_rejection :: "string option"

definition new_main_agent :: main_agent_state where
  "new_main_agent = \<lparr>mg_initialized = False, mg_rejection = None\<rparr>"

text \<open>
  The adapter's structured calls, by the purpose of the call, the text of the failed validation and the
  question, and where the state keeps the agent's own.
\<close>

record 'e planner_ports =
  lp_plan :: "string \<Rightarrow> string option \<Rightarrow> plan_question \<Rightarrow> ('e, exec_plan) io"
  lp_decide :: "main_agent_input \<Rightarrow> ('e, plan_decision) io"
  lp_get :: "'e \<Rightarrow> main_agent_state"
  lp_put :: "main_agent_state \<Rightarrow> 'e \<Rightarrow> 'e"

definition initialized :: "'e planner_ports \<Rightarrow> ('e, bool) io" where
  "initialized P = gets (\<lambda>e. mg_initialized (lp_get P e))"

definition on_agent :: "'e planner_ports \<Rightarrow> (main_agent_state \<Rightarrow> main_agent_state) \<Rightarrow> ('e, unit) io" where
  "on_agent P f = modify (\<lambda>e. lp_put P (f (lp_get P e)) e)"

definition check_plan :: "bool \<Rightarrow> exec_plan \<Rightarrow> exec_plan \<Rightarrow> exec_plan outcome" where
  "check_plan init current p =
     (let q = p\<lparr>ep_revision := ep_revision current + 1\<rparr> in
      and_then (if init then validate_transition current q else validate_initial q) (\<lambda>_. Inr q))"

definition generate_plan ::
  "'e planner_ports \<Rightarrow> main_agent_input \<Rightarrow> string \<Rightarrow> string option \<Rightarrow> ('e, exec_plan) io" where
  "generate_plan P i purpose feedback =
     bind (initialized P) (\<lambda>init.
     bind (lp_plan P purpose (if truthy feedback then feedback else None) (plan_question_of init i)) (\<lambda>p.
       lift (check_plan init (mi_plan i) p)))"

definition plan_with_one_repair :: "'e planner_ports \<Rightarrow> main_agent_input \<Rightarrow> ('e, exec_plan option) io" where
  "plan_with_one_repair P i =
     bind (initialized P) (\<lambda>init.
       try_catch (bind (generate_plan P i (if init then ''main_agent_replan'' else ''main_agent_initial_plan'') None)
                    (\<lambda>p. ret (Some p)))
         (\<lambda>first. try_catch (bind (generate_plan P i ''main_agent_plan_repair'' (Some (error_text first)))
                               (\<lambda>p. ret (Some p)))
           (\<lambda>second. seq (on_agent P (\<lambda>m. m\<lparr>mg_rejection := Some (error_class second)\<rparr>)) (ret None))))"

definition current_step :: "main_agent_input \<Rightarrow> exec_step option" where
  "current_step i = List.find (\<lambda>s. Some (es_step_id s) = ep_current (mi_plan i)) (ep_steps (mi_plan i))"

definition step_action :: "main_agent_input \<Rightarrow> agent_action option outcome" where
  "step_action i =
     (case current_step i of
        None \<Rightarrow> Inr None
      | Some s \<Rightarrow>
          (case es_action_type s of
             PA_TOOL_CALL \<Rightarrow>
               and_then (mk_agent_action ((blank_action TOOL_CALL)
                  \<lparr>ac_tool_name := es_tool_name s, ac_tool_input := Some (es_tool_input s)\<rparr>)) (\<lambda>a. Inr (Some a))
           | PA_RUN_SUB_AGENT \<Rightarrow>
               (case es_request s of
                  None \<Rightarrow> Inr None
                | Some q \<Rightarrow> and_then (mk_agent_action (sub_agent_action q)) (\<lambda>a. Inr (Some a)))
           | PA_PROPOSE_SQL_CANDIDATE \<Rightarrow> Inr None))"

definition usable_candidate :: "main_agent_input \<Rightarrow> string option" where
  "usable_candidate i =
     (case dict_get (mi_workspace i) ''candidate_sql'' of
        None \<Rightarrow> None
      | Some c \<Rightarrow> if c = [] \<or> c \<in> set [''FAILED'', ''MISSING'', ''None''] then None else Some c)"

text \<open>What the decision of the LLM leads to, if anything.\<close>

definition follow_decision :: "'e planner_ports \<Rightarrow> main_agent_input \<Rightarrow> plan_decision \<Rightarrow> ('e, agent_action option) io" where
  "follow_decision P i d =
     (case pd_kind d of
        REVISE_PLAN \<Rightarrow>
          bind (plan_with_one_repair P i) (\<lambda>p. case p of
            None \<Rightarrow> ret None
          | Some q \<Rightarrow> bind (lift (mk_agent_action (plan_action_of q))) (\<lambda>a. ret (Some a)))
      | DECIDE_PROPOSE \<Rightarrow>
          (case usable_candidate i of
             None \<Rightarrow> ret None
           | Some c \<Rightarrow> bind (lift (mk_agent_action (propose_action (Some c)))) (\<lambda>a. ret (Some a)))
      | DECIDE_HUMAN \<Rightarrow>
          bind (lift (mk_agent_action (human_action (or_text (pd_reason d) reason_llm_human)))) (\<lambda>a. ret (Some a))
      | CONTINUE_PLAN \<Rightarrow> ret None)"

definition decide :: "'e planner_ports \<Rightarrow> main_agent_input \<Rightarrow> ('e, agent_action option) io" where
  "decide P i =
     bind (try_catch (lp_decide P i) (\<lambda>_. ret \<lparr>pd_kind = CONTINUE_PLAN, pd_plan = None, pd_reason = None\<rparr>))
       (follow_decision P i)"

definition first_action :: "'e planner_ports \<Rightarrow> main_agent_input \<Rightarrow> run_state \<Rightarrow> ('e, agent_action) io" where
  "first_action P i s =
     bind (plan_with_one_repair P i) (\<lambda>p.
     seq (on_agent P (\<lambda>m. m\<lparr>mg_initialized := True\<rparr>))
       (lift (case p of Some q \<Rightarrow> mk_agent_action (plan_action_of q) | None \<Rightarrow> deterministic_action (Inr i) s)))"

definition later_action :: "'e planner_ports \<Rightarrow> main_agent_input \<Rightarrow> run_state \<Rightarrow> ('e, agent_action) io" where
  "later_action P i s =
     bind (if mi_observations i \<noteq> [] then decide P i else ret None) (\<lambda>x. case x of
       Some a \<Rightarrow> ret a
     | None \<Rightarrow> lift (and_then (step_action i) (\<lambda>y. case y of
         Some a \<Rightarrow> Inr a | None \<Rightarrow> deterministic_action (Inr i) s)))"

definition next_action :: "'e planner_ports \<Rightarrow> main_agent_input \<Rightarrow> run_state \<Rightarrow> ('e, agent_action) io" where
  "next_action P i s =
     bind (initialized P) (\<lambda>init. if init then later_action P i s else first_action P i s)"

section \<open>The deterministic order\<close>

definition workflow :: "(string \<times> string) list" where
  "workflow =
     [(''build_log_digest'', ''log_digest''), (''diagnose'', ''diagnosis''), (''query_metadata'', ''metadata_snapshot''),
      (''retrieve_memory'', ''memory_retrieval''), (''build_repair_plan'', ''repair_plan''),
      (''generate_candidate'', ''candidate_sql'')]"

lemma deterministic_first_missing:
  "\<not> wants_sub_agent (known x) s \<Longrightarrow>
     deterministic_action x s =
       (case List.find (\<lambda>(t, k). missing (known x) k) workflow of
          Some (t, _) \<Rightarrow> Inr (tool_action t) | None \<Rightarrow> final_action (seen_candidate x))"
  by (simp add: deterministic_action_def workflow_def Let_def)

lemma reason_no_candidate_nonempty: "reason_no_candidate \<noteq> []"
  using strip_reason_no_candidate by (auto simp: strip_eq_Nil_iff)

lemma final_action_valid: "final_action c = Inr a \<Longrightarrow> action_fields_ok a"
  using reason_no_candidate_nonempty
  by (auto simp: final_action_def mk_agent_action_def action_fields_ok_def human_action_def blank_action_def
      truthy_iff split: if_splits)

lemma deterministic_valid: "deterministic_action x s = Inr a \<Longrightarrow> action_fields_ok a"
  by (auto simp: deterministic_action_def Let_def final_action_valid split: if_splits)
    (simp_all add: action_makers action_fields_ok_def blank_action_def)

lemma deterministic_no_plan: "deterministic_action x s = Inr a \<Longrightarrow> ac_type a \<noteq> UPDATE_PLAN"
  by (auto simp: deterministic_action_def Let_def action_makers blank_action_def final_action_def
      mk_agent_action_def split: if_splits)

lemma known_view: "known_text (known (Inr i)) k = dict_get (mi_workspace i) k"
proof -
  have "map_of (map (\<lambda>(k, t). (k, Some t)) ws) k = map_option Some (map_of ws k)" for ws :: "(string, string) dict"
    by (induction ws) auto
  then show ?thesis by (simp add: known_def known_text_def dict_get_def split: option.split)
qed

lemma deterministic_candidate:
  "deterministic_action (Inr i) s = Inr a \<Longrightarrow> ac_type a = PROPOSE_SQL_CANDIDATE \<Longrightarrow>
     dict_get (mi_workspace i) ''candidate_sql'' = ac_candidate_sql a"
  by (auto simp: deterministic_action_def Let_def action_makers blank_action_def final_action_def
      mk_agent_action_def seen_candidate_def known_view split: if_splits)

lemma deterministic_error: "deterministic_action x s = Inl err \<Longrightarrow> \<exists>m. err = ValidationError m"
  by (auto simp: deterministic_action_def Let_def final_action_def mk_agent_action_def split: if_splits)

section \<open>What leaves the agent\<close>

text \<open>
  An answer of the agent to the view \<open>i\<close>, seen from a state whose agent is initialised or not. The
  predicate is shown of every function that contributes an action.
\<close>

definition legal_plan :: "bool \<Rightarrow> main_agent_input \<Rightarrow> exec_plan \<Rightarrow> bool" where
  "legal_plan init i p \<longleftrightarrow> check_plan init (mi_plan i) p = Inr p"

definition good_answer :: "bool \<Rightarrow> main_agent_input \<Rightarrow> agent_action outcome \<Rightarrow> bool" where
  "good_answer init i r \<longleftrightarrow>
     (case r of
        Inl err \<Rightarrow> \<exists>m. err = ValidationError m
      | Inr a \<Rightarrow>
          (ac_type a = UPDATE_PLAN \<longrightarrow> (\<exists>p. ac_plan a = Some p \<and> legal_plan init i p)) \<and>
          (ac_type a = PROPOSE_SQL_CANDIDATE \<longrightarrow> dict_get (mi_workspace i) ''candidate_sql'' = ac_candidate_sql a))"

lemma check_plan_fixed: "check_plan init current p = Inr q \<Longrightarrow> check_plan init current q = Inr q"
  by (auto simp: check_plan_def Let_def and_then_Inr_iff split: if_splits)

lemma generate_plan_legal:
  assumes "generate_plan P i purpose feedback e = (Inr p, e')"
  shows "legal_plan (mg_initialized (lp_get P e)) i p"
  using assms
  by (auto simp: generate_plan_def initialized_def bind_Inr_iff legal_plan_def dest: check_plan_fixed)

text \<open>An LLM call does not touch the agent's own state.\<close>

definition agent_private :: "'e planner_ports \<Rightarrow> bool" where
  "agent_private P \<longleftrightarrow>
     (\<forall>purpose feedback q e. lp_get P (snd (lp_plan P purpose feedback q e)) = lp_get P e) \<and>
     (\<forall>i e. lp_get P (snd (lp_decide P i e)) = lp_get P e) \<and>
     (\<forall>m e. lp_get P (lp_put P m e) = m)"

lemma generate_plan_private:
  assumes "agent_private P"
  shows "lp_get P (snd (generate_plan P i purpose feedback e)) = lp_get P e"
  using assms
  by (auto simp: generate_plan_def initialized_def bind_def agent_private_def split: prod.split sum.split)
    (metis snd_conv)+

lemma plan_repair_returns: "\<exists>p e'. plan_with_one_repair P i e = (Inr p, e')"
  by (auto simp: plan_with_one_repair_def initialized_def try_catch_def bind_def on_agent_def seq_def
      split: prod.split sum.split)

lemma plan_repair_legal:
  assumes priv: "agent_private P" and run: "plan_with_one_repair P i e = (Inr (Some p), e')"
  shows "legal_plan (mg_initialized (lp_get P e)) i p"
proof -
  let ?first = "if mg_initialized (lp_get P e) then ''main_agent_replan'' else ''main_agent_initial_plan''"
  obtain x e1 where one: "generate_plan P i ?first None e = (x, e1)" by fastforce
  then have same: "lp_get P e1 = lp_get P e" using generate_plan_private [OF priv, of i ?first None e] by simp
  show ?thesis
  proof (cases x)
    case (Inr q)
    then have "p = q" using run one by (simp add: plan_with_one_repair_def initialized_def try_catch_def bind_def)
    with generate_plan_legal [of P i ?first None e q e1] one Inr show ?thesis by simp
  next
    case (Inl err)
    obtain y e2 where two: "generate_plan P i ''main_agent_plan_repair'' (Some (error_text err)) e1 = (y, e2)" by fastforce
    have "y = Inr p"
      using run one two Inl
      by (auto simp: plan_with_one_repair_def initialized_def try_catch_def bind_def seq_def on_agent_def split: sum.splits)
    with generate_plan_legal [OF two [unfolded this]] same show ?thesis by simp
  qed
qed

lemma good_plan_answer: "legal_plan init i q \<Longrightarrow> good_answer init i (mk_agent_action (plan_action_of q))"
  by (simp add: good_answer_def mk_agent_action_def plan_action_of_def blank_action_def action_fields_ok_def)

lemma good_deterministic: "good_answer init i (deterministic_action (Inr i) s)"
  by (cases "deterministic_action (Inr i) s")
    (auto simp: good_answer_def deterministic_no_plan deterministic_candidate deterministic_error)

lemma good_step: "step_action i = Inr (Some a) \<Longrightarrow> good_answer init i (Inr a)"
  by (auto simp: step_action_def good_answer_def mk_agent_action_def sub_agent_action_def blank_action_def
      and_then_Inr_iff split: option.splits plan_action.splits if_splits)

lemma step_error: "step_action i = Inl err \<Longrightarrow> \<exists>m. err = ValidationError m"
  by (auto simp: step_action_def mk_agent_action_def and_then_Inl_iff split: option.splits plan_action.splits if_splits)

definition good_option :: "bool \<Rightarrow> main_agent_input \<Rightarrow> agent_action option outcome \<Rightarrow> bool" where
  "good_option init i r \<longleftrightarrow>
     (case r of Inl err \<Rightarrow> \<exists>m. err = ValidationError m | Inr None \<Rightarrow> True | Inr (Some a) \<Rightarrow> good_answer init i (Inr a))"

lemma good_option_made:
  "good_answer init i (mk_agent_action a) \<Longrightarrow>
     good_option init i (fst (bind (lift (mk_agent_action a)) (\<lambda>a. ret (Some a)) e))"
  by (cases "mk_agent_action a") (simp_all add: good_option_def good_answer_def bind_def)

lemma good_propose:
  "usable_candidate i = Some c \<Longrightarrow> good_answer init i (mk_agent_action (propose_action (Some c)))"
  by (auto simp: usable_candidate_def good_answer_def mk_agent_action_def propose_action_def blank_action_def
      split: option.splits if_splits)

lemma good_human: "good_answer init i (mk_agent_action (human_action m))"
  by (auto simp: good_answer_def mk_agent_action_def human_action_def blank_action_def)

lemma follow_decision_good:
  assumes priv: "agent_private P"
  shows "good_option (mg_initialized (lp_get P e)) i (fst (follow_decision P i d e))"
proof (cases "pd_kind d")
  case REVISE_PLAN
  obtain p e1 where run: "plan_with_one_repair P i e = (Inr p, e1)" using plan_repair_returns [of P i e] by blast
  show ?thesis
  proof (cases p)
    case None
    then show ?thesis using run REVISE_PLAN by (simp add: follow_decision_def bind_def good_option_def)
  next
    case (Some q)
    from good_option_made [OF good_plan_answer [OF plan_repair_legal [OF priv run [unfolded Some]]]]
    show ?thesis using run REVISE_PLAN Some by (simp add: follow_decision_def bind_cong_value)
  qed
next
  case DECIDE_PROPOSE
  then show ?thesis
    by (cases "usable_candidate i")
      (simp_all add: follow_decision_def good_option_def [where r = "Inr None"] good_option_made good_propose)
qed (simp_all add: follow_decision_def good_option_def [where r = "Inr None"] good_option_made good_human)

lemma decide_good:
  assumes priv: "agent_private P"
  shows "good_option (mg_initialized (lp_get P e)) i (fst (decide P i e))"
proof -
  obtain x e1 where ask: "lp_decide P i e = (x, e1)" by fastforce
  then have same: "lp_get P e1 = lp_get P e" using priv unfolding agent_private_def by (metis snd_conv)
  have "\<exists>d. decide P i e = follow_decision P i d e1"
    by (cases x) (auto simp: decide_def bind_def try_catch_def ask)
  with follow_decision_good [OF priv, of e1 i] show ?thesis by (auto simp: same)
qed

lemma next_action_good:
  assumes priv: "agent_private P"
  shows "good_answer (mg_initialized (lp_get P e)) i (fst (next_action P i s e))"
proof (cases "mg_initialized (lp_get P e)")
  case False
  obtain p e1 where run: "plan_with_one_repair P i e = (Inr p, e1)" using plan_repair_returns [of P i e] by blast
  have start: "next_action P i s e = first_action P i s e"
    using False by (simp add: next_action_def initialized_def bind_def)
  have "fst (first_action P i s e) =
      (case p of Some q \<Rightarrow> mk_agent_action (plan_action_of q) | None \<Rightarrow> deterministic_action (Inr i) s)"
    unfolding first_action_def on_agent_def bind_cong_value [where m = "plan_with_one_repair P i" and s = e, OF run]
    by simp
  then show ?thesis
    using good_plan_answer [OF plan_repair_legal [OF priv, of i e "the p" e1]] run
    by (auto simp: start good_deterministic split: option.splits)
next
  case True
  define m where "m = (if mi_observations i \<noteq> [] then decide P i else ret None)"
  obtain x e1 where m: "m e = (x, e1)" by fastforce
  have x: "good_option True i x"
    using decide_good [OF priv, of e i] m True by (auto simp: m_def good_option_def split: if_splits)
  have run: "next_action P i s e = later_action P i s e" using True by (simp add: next_action_def initialized_def bind_def)
  show ?thesis
  proof (cases "\<exists>a. x = Inr (Some a)")
    case True
    with x m show ?thesis
      unfolding run later_action_def m_def [symmetric] by (auto simp: bind_def good_option_def \<open>mg_initialized (lp_get P e)\<close>)
  next
    case False
    show ?thesis
    proof (cases x)
      case (Inl err)
      then show ?thesis
        using x m unfolding run later_action_def m_def [symmetric]
        by (auto simp: bind_def good_option_def good_answer_def)
    next
      case (Inr y)
      with False have "x = Inr None" by (cases y) auto
      then show ?thesis
        using m unfolding run later_action_def m_def [symmetric]
        by (cases "step_action i")
          (auto simp: bind_def good_deterministic dest: step_error good_step split: option.split
            intro: good_step simp: good_answer_def [where r = "Inl _"])
    qed
  qed
qed

section \<open>What the agent leaves alone\<close>

lemma plan_with_one_repair_preserves:
  assumes "\<And>p f q. preserves Q (lp_plan P p f q)" "\<And>m e. Q e \<Longrightarrow> Q (lp_put P m e)"
  shows "preserves Q (plan_with_one_repair P i)"
  unfolding plan_with_one_repair_def generate_plan_def initialized_def on_agent_def
  by (intro keeps preserves_modify assms)

lemma next_action_preserves:
  assumes "\<And>p f q. preserves Q (lp_plan P p f q)" "\<And>i. preserves Q (lp_decide P i)"
    and put: "\<And>m e. Q e \<Longrightarrow> Q (lp_put P m e)"
  shows "preserves Q (next_action P i s)"
proof -
  note plan = plan_with_one_repair_preserves [of Q P, OF assms(1) put]
  have follow: "preserves Q (follow_decision P i d)" for d
    by (cases "pd_kind d") (auto simp: follow_decision_def intro!: keeps plan)
  have decided: "preserves Q (decide P i)"
    unfolding decide_def by (intro keeps assms(2) follow)
  show ?thesis
    unfolding next_action_def first_action_def later_action_def initialized_def on_agent_def
    by (intro keeps preserves_modify plan decided put)
qed

end
