(* ===== verification/Tool_Registry.thy ===== *)
theory Tool_Registry
  imports Artifact_Store Agent_Models
begin

text \<open>
  \<open>agent/tools/tool_registry.py\<close> and \<open>agent/tools/read_artifact_tool.py\<close>. A registry holds
  only tools from a closed list; executing a name never raises, and runs nothing unless a tool of
  that name is registered, its phase is allowed and its input is valid. The artifact tool hands out
  text of the own session only.
\<close>

section \<open>Tools\<close>

fun phase_value :: "agent_phase \<Rightarrow> string" where
  "phase_value PH_INIT = ''INIT''"
| "phase_value PH_DIAGNOSING = ''DIAGNOSING''"
| "phase_value PH_PLANNING = ''PLANNING''"
| "phase_value PH_GENERATING = ''GENERATING''"
| "phase_value PH_GATING = ''GATING''"
| "phase_value PH_COMPLETED = ''COMPLETED''"

text \<open>
  A tool: \<open>tl_accepts\<close> is \<open>input_model.model_validate\<close> without an exception, \<open>tl_schema\<close> the
  JSON schema of the input model. The output of a run is its \<open>model_dump\<close>, a dict; it is
  \<open>None\<close> where \<open>output_model.model_validate\<close> raises.
\<close>

record 'w tool =
  tl_name :: string
  tl_description :: string
  tl_schema :: "(string, json) dict"
  tl_phases :: "agent_phase list"
  tl_produces :: bool
  tl_accepts :: "(string, json) dict \<Rightarrow> bool"
  tl_run :: "(string, json) dict \<Rightarrow> ('w, (string, json) dict) io"

type_synonym 'w registry = "(string, 'w tool) dict"

definition allowed_names :: "string list" where
  "allowed_names = [''ReadLogTool'', ''DiagnoseTool'', ''MetadataQueryTool'', ''MemoryRetrieveTool'',
     ''BuildRepairPlanTool'', ''GenerateCandidateTool'', ''ReadArtifactTool'', ''RunSubAgentTool'']"

definition forbidden_names :: "string list" where
  "forbidden_names = [''ExecuteSQLTool'', ''WriteSessionTool'', ''WriteMemoryTool'', ''BypassGateTool'',
     ''KnowledgeRetrieveTool'', ''TodoWriteTool'']"

definition register :: "'w tool \<Rightarrow> 'w registry \<Rightarrow> 'w registry outcome" where
  "register t reg =
     (if tl_name t \<notin> set allowed_names \<or> tl_name t \<in> set forbidden_names
      then Inl (ValueError (''tool registration is forbidden: '' @ tl_name t))
      else if dict_get reg (tl_name t) \<noteq> None
      then Inl (ValueError (''tool already registered: '' @ tl_name t))
      else Inr (dict_set (tl_name t) t reg))"

fun register_all :: "'w tool list \<Rightarrow> 'w registry \<Rightarrow> 'w registry outcome" where
  "register_all [] reg = Inr reg"
| "register_all (t # ts) reg = and_then (register t reg) (register_all ts)"

definition get_tool :: "'w registry \<Rightarrow> string \<Rightarrow> 'w tool outcome" where
  "get_tool reg name = (case dict_get reg name of None \<Rightarrow> Inl (KeyError name) | Some t \<Rightarrow> Inr t)"

definition tool_spec_of :: "'w tool \<Rightarrow> tool_spec" where
  "tool_spec_of t = \<lparr>ts_name = tl_name t, ts_description = tl_description t, ts_input_schema = tl_schema t,
     ts_allowed_phases = sort (map phase_value (tl_phases t)),
     ts_side_effect = (if tl_produces t then INTERNAL_ARTIFACT_WRITE else READ_ONLY)\<rparr>"

definition list_available :: "'w registry \<Rightarrow> agent_phase \<Rightarrow> tool_spec list" where
  "list_available reg ph = map tool_spec_of (filter (\<lambda>t. ph \<in> set (tl_phases t)) (map snd reg))"

section \<open>Executing a tool\<close>

definition ends_with :: "string \<Rightarrow> string \<Rightarrow> bool" where
  "ends_with t s \<longleftrightarrow> is_prefix (rev t) (rev s)"

text \<open>\<open>_artifact_refs\<close>, without the empty ones.\<close>

definition output_refs :: "(string, json) dict \<Rightarrow> string list" where
  "output_refs d = concat (map (\<lambda>(k, v). case v of
     Js_text s \<Rightarrow> if ends_with ''_ref'' k \<and> s \<noteq> [] then [s] else [] | _ \<Rightarrow> []) d)"

text \<open>\<open>getattr(output, "summary", None)\<close>\<close>

definition output_summary :: "(string, json) dict \<Rightarrow> string option" where
  "output_summary d = js_text (dict_get d ''summary'')"

definition failed_call :: "string \<Rightarrow> tool_status \<Rightarrow> string \<Rightarrow> string option \<Rightarrow> string \<Rightarrow> string \<Rightarrow> tool_result" where
  "failed_call name st code_text message started finished =
     \<lparr>tr_tool_name = name, tr_status = st, tr_summary = None, tr_artifact_refs = [], tr_workspace_updates = [],
      tr_error_code = Some code_text, tr_error_message = message, tr_started_at = started, tr_finished_at = finished\<rparr>"

definition execute_tool ::
  "'w registry \<Rightarrow> string \<Rightarrow> agent_phase \<Rightarrow> (string, json) dict \<Rightarrow> string \<Rightarrow> string \<Rightarrow> ('w, tool_result) io" where
  "execute_tool reg name ph input started finished w =
     (case dict_get reg name of
        None \<Rightarrow> (Inr (failed_call name TS_BLOCKED ''TOOL_NOT_REGISTERED'' None started finished), w)
      | Some t \<Rightarrow>
          if ph \<notin> set (tl_phases t)
          then (Inr (failed_call name TS_BLOCKED ''TOOL_PHASE_FORBIDDEN'' None started finished), w)
          else if \<not> tl_accepts t input
          then (Inr (failed_call name TS_INVALID_INPUT ''TOOL_INPUT_INVALID'' None started finished), w)
          else case tl_run t input w of
            (Inl err, w') \<Rightarrow>
              (Inr (failed_call name TS_FAILED ''TOOL_FAILED'' (Some (error_class err)) started finished), w')
          | (Inr out, w') \<Rightarrow>
              (Inr \<lparr>tr_tool_name = name, tr_status = TS_SUCCEEDED, tr_summary = output_summary out,
                    tr_artifact_refs = output_refs out, tr_workspace_updates = [], tr_error_code = None,
                    tr_error_message = None, tr_started_at = started, tr_finished_at = finished\<rparr>, w'))"

lemma execute_tool_returns: "\<exists>r w'. execute_tool reg name ph input t1 t2 w = (Inr r, w') \<and> tr_tool_name r = name"
  by (auto simp: execute_tool_def failed_call_def split: option.split sum.split prod.split)

text \<open>The status says what happened; anything but a run leaves the world alone.\<close>

lemma execute_tool_cases:
  assumes "execute_tool reg name ph input t1 t2 w = (Inr r, w')"
  shows "(\<exists>t. dict_get reg name = Some t \<and> ph \<in> set (tl_phases t) \<and> tl_accepts t input \<and>
            (tr_status r = TS_SUCCEEDED \<and> (\<exists>out. tl_run t input w = (Inr out, w')) \<or>
             tr_status r = TS_FAILED \<and> (\<exists>err. tl_run t input w = (Inl err, w')))) \<or>
         tr_status r \<in> {TS_BLOCKED, TS_INVALID_INPUT} \<and> w' = w"
  using assms
  by (auto simp: execute_tool_def failed_call_def split: option.splits sum.splits prod.splits if_splits)

lemma execute_tool_preserves:
  assumes "\<And>t. dict_get reg name = Some t \<Longrightarrow> preserves Q (tl_run t input)"
  shows "preserves Q (execute_tool reg name ph input t1 t2)"
  unfolding preserves_def
proof (intro allI impI)
  fix w assume w: "Q w"
  obtain r w' where run: "execute_tool reg name ph input t1 t2 w = (Inr r, w')"
    using execute_tool_returns [of reg name ph input t1 t2 w] by blast
  from execute_tool_cases [OF run]
  consider (ran) t x where "dict_get reg name = Some t" "tl_run t input w = (x, w')" | (not_run) "w' = w"
    by blast
  then show "Q (snd (execute_tool reg name ph input t1 t2 w))"
  proof cases
    case ran
    have "Q (snd (tl_run t input w))" using assms [OF ran(1)] w unfolding preserves_def by blast
    then show ?thesis by (simp add: ran run)
  qed (simp add: run w)
qed

section \<open>What a registry may hold\<close>

definition registry_ok :: "'w registry \<Rightarrow> bool" where
  "registry_ok reg \<longleftrightarrow> distinct (dict_keys reg) \<and>
     (\<forall>n t. dict_get reg n = Some t \<longrightarrow> tl_name t = n \<and> n \<in> set allowed_names \<and> n \<notin> set forbidden_names)"

lemma registry_ok_empty: "registry_ok []"
  by (simp add: registry_ok_def dict_keys_def dict_get_def)

lemma register_ok: "register t reg = Inr reg' \<Longrightarrow> registry_ok reg \<Longrightarrow> registry_ok reg'"
  by (auto simp: register_def registry_ok_def dict_get_set distinct_dict_set split: if_splits)

lemma register_all_ok: "register_all ts reg = Inr reg' \<Longrightarrow> registry_ok reg \<Longrightarrow> registry_ok reg'"
  by (induction ts arbitrary: reg) (auto simp: and_then_Inr_iff dest: register_ok)

lemma register_all_get:
  "register_all ts reg = Inr reg' \<Longrightarrow>
     dict_get reg' n = (case List.find (\<lambda>t. tl_name t = n) ts of Some t \<Rightarrow> Some t | None \<Rightarrow> dict_get reg n)"
proof (induction ts arbitrary: reg)
  case (Cons t ts)
  then obtain reg1 where reg1: "register t reg = Inr reg1" "register_all ts reg1 = Inr reg'"
    by (auto simp: and_then_Inr_iff)
  have mono: "dict_get reg' m = Some u" if "dict_get r m = Some u" "register_all us r = Inr reg'" for r m u us
    using that
  proof (induction us arbitrary: r)
    case (Cons v us)
    then obtain r1 where r1: "register v r = Inr r1" "register_all us r1 = Inr reg'" by (auto simp: and_then_Inr_iff)
    then have "dict_get r1 m = Some u"
      using Cons.prems by (auto simp: register_def dict_get_set split: if_splits)
    with Cons.IH r1 show ?case by blast
  qed simp
  have "dict_get reg1 m = (if m = tl_name t then Some t else dict_get reg m)" for m
    using reg1(1) by (auto simp: register_def dict_get_set split: if_splits)
  then show ?case
    using Cons.IH [OF reg1(2)] mono [of reg1 "tl_name t" t ts] reg1(2) by (auto split: option.splits)
qed simp

lemma available_allowed:
  "registry_ok reg \<Longrightarrow> s \<in> set (list_available reg ph) \<Longrightarrow>
     ts_name s \<in> set allowed_names \<and> phase_value ph \<in> set (ts_allowed_phases s)"
proof -
  assume ok: "registry_ok reg" and s: "s \<in> set (list_available reg ph)"
  then obtain n t where t: "(n, t) \<in> set reg" "ph \<in> set (tl_phases t)" "s = tool_spec_of t"
    by (auto simp: list_available_def)
  then have "dict_get reg n = Some t" using ok by (simp add: registry_ok_def dict_get_def dict_keys_def)
  with ok t show ?thesis by (auto simp: registry_ok_def tool_spec_of_def)
qed

section \<open>The artifact tool\<close>

datatype read_status = RA_SUCCEEDED | RA_NOT_FOUND | RA_FORBIDDEN | RA_FAILED

record read_output =
  ro_status :: read_status
  ro_content :: "string option"
  ro_ref :: "string option"
  ro_truncated :: bool

definition no_content :: "read_status \<Rightarrow> read_output" where
  "no_content st = \<lparr>ro_status = st, ro_content = None, ro_ref = None, ro_truncated = False\<rparr>"

definition read_artifact_tool ::
  "string \<Rightarrow> string \<Rightarrow> artifact_ref \<Rightarrow> nat \<Rightarrow> 'a disk_scheme \<Rightarrow> read_output outcome" where
  "read_artifact_tool sid aid r max_chars d =
     (if ar_session r \<noteq> sid \<or> (ar_attempt r \<noteq> None \<and> ar_attempt r \<noteq> Some aid) \<or> \<not> ar_sanitized r
      then Inr (no_content RA_FORBIDDEN)
      else if \<not> artifact_exists r d then Inr (no_content RA_NOT_FOUND)
      else case load_artifact r None (Some sid) (ar_attempt r) d of
        Inr t \<Rightarrow> Inr \<lparr>ro_status = RA_SUCCEEDED, ro_content = Some (py_take max_chars t), ro_ref = Some (ar_path r),
                     ro_truncated = (py_len t > max_chars)\<rparr>
      | Inl (ArtifactAccessError _) \<Rightarrow> Inr (no_content RA_FORBIDDEN)
      | Inl (ArtifactIntegrityError _) \<Rightarrow> Inr (no_content RA_FAILED)
      | Inl (FileNotFound _) \<Rightarrow> Inr (no_content RA_FAILED)
      | Inl err \<Rightarrow> Inl err)"

lemma read_artifact_own:
  assumes "read_artifact_tool sid aid r m d = Inr out" "ro_content out = Some t"
  shows "ar_session r = sid \<and> (ar_attempt r = None \<or> ar_attempt r = Some aid) \<and> ar_sanitized r \<and> py_len t \<le> m \<and>
    (\<exists>p raw. resolve r = Inr p \<and> path_session p = sid \<and> d_files d p = Some raw \<and>
       sha256 (normalize_newlines raw) = ar_hash r \<and> prefix t (normalize_newlines raw))"
proof -
  have own: "ar_session r = sid" "ar_attempt r = None \<or> ar_attempt r = Some aid" "ar_sanitized r"
    using assms by (auto simp: read_artifact_tool_def no_content_def split: if_splits)
  obtain u where u: "load_artifact r None (Some sid) (ar_attempt r) d = Inr u" "t = py_take m u"
    using assms own
    by (auto simp: read_artifact_tool_def no_content_def split: if_splits sum.splits py_error.splits)
  then have "prefix t u" "py_len t \<le> m" by (simp_all add: py_take_prefix py_len_take)
  with load_owned [OF u(1)] own show ?thesis by (auto intro: prefix_order.trans)
qed

end
