(* ===== verification/Sub_Agent.thy ===== *)
theory Sub_Agent
  imports Context_Manager Tool_Registry
begin

text \<open>
  \<open>agent/runner/subagent_runner.py\<close> and \<open>subagent_task_spec.py\<close>: the bounded loop of a
  sub-agent. The worker (an LLM call in production), the clock and the tools are parameters. The main
  facts: the loop ends, whatever the worker answers, after at most \<open>max_steps\<close> calls of it; only
  tools that the request allows are run, and no more than \<open>max_tool_calls + 1\<close> of them, a bound that
  is reached: the budget is compared with \<open>>\<close> before the count goes up.
\<close>

section \<open>Task specifications\<close>

record task_spec =
  tk_name :: string
  tk_description :: string
  tk_template :: string
  tk_allowed_tools :: "string list"
  tk_required_refs :: "string list"
  tk_schema :: string
  tk_max_steps :: int
  tk_max_tool_calls :: int
  tk_allow_recursive :: bool

definition make_task :: "string \<Rightarrow> string \<Rightarrow> string list \<Rightarrow> string list \<Rightarrow> string \<Rightarrow> task_spec" where
  "make_task name description tools refs schema =
     \<lparr>tk_name = name, tk_description = description, tk_template = ''{objective}'', tk_allowed_tools = tools,
      tk_required_refs = refs, tk_schema = schema, tk_max_steps = 10,
      tk_max_tool_calls = min 3 (int (length tools)), tk_allow_recursive = False\<rparr>"

definition task_specs :: "task_spec list" where
  "task_specs =
    [make_task ''diagnose_sql_error'' desc_diagnose [''ReadLogTool'', ''ReadArtifactTool'', ''MetadataQueryTool'']
       [''log_digest''] ''DiagnosisResult'',
     make_task ''reflect_previous_failure'' desc_reflect [''ReadArtifactTool''] [''diagnosis'', ''post_reflection'']
       ''PostReflectionResult'',
     make_task ''plan_sql_repair'' desc_plan [''ReadArtifactTool'', ''MetadataQueryTool'', ''MemoryRetrieveTool'']
       [''diagnosis'', ''metadata_snapshot''] ''RepairPlan'',
     make_task ''generate_sql_candidate'' desc_generate [''ReadArtifactTool''] [''repair_plan''] ''SQLGenerationResult'',
     make_task ''evaluate_sql_candidate'' desc_evaluate [''ReadArtifactTool'', ''MetadataQueryTool'']
       [''repair_plan'', ''metadata_snapshot''] ''PreReflectionResult'',
     make_task ''summarize_human_required'' desc_summarize [''ReadArtifactTool''] [''diagnosis''] ''HumanRequiredSummary'']"

definition find_task :: "string \<Rightarrow> task_spec option" where
  "find_task name = List.find (\<lambda>t. tk_name t = name) task_specs"

section \<open>Actions and views\<close>

datatype sub_action_type = SB_READ_ARTIFACT | SB_CALL_ALLOWED_TOOL | SB_RETURN_RESULT | SB_NEED_MORE_CONTEXT | SB_RETURN_FAILED

record sub_action =
  sx_type :: sub_action_type
  sx_tool_name :: "string option"
  sx_tool_input :: "(string, json) dict"
  sx_refs :: "string list"
  sx_result :: "subagent_result option"

text \<open>What a worker answers: a result, an action, or something that is no \<open>SubAgentAction\<close>.\<close>

datatype sub_answer = Answer_Result subagent_result | Answer_Action sub_action | Answer_Invalid

definition sub_result :: "subagent_status \<Rightarrow> string \<Rightarrow> string option \<Rightarrow> subagent_result" where
  "sub_result st summary reason =
     \<lparr>sa_status = st, sa_summary = summary, sa_artifact_ref = None, sa_requested_refs = [], sa_output = None,
      sa_stop_reason = reason\<rparr>"

definition texts_json :: "(string, string) dict \<Rightarrow> json" where
  "texts_json d = Js_dict (map (\<lambda>(k, v). (k, Js_text v)) d)"

definition ints_json :: "(string, int) dict \<Rightarrow> json" where
  "ints_json d = Js_dict (map (\<lambda>(k, v). (k, Js_int v)) d)"

definition ref_list_json :: "artifact_ref list \<Rightarrow> json list" where
  "ref_list_json rs = map (Js_dict \<circ> ref_fields) rs"

text \<open>\<open>SubAgentInput.model_dump(mode="json")\<close>\<close>

definition input_view :: "subagent_input \<Rightarrow> (string, json) dict" where
  "input_view i =
     [(''task_name'', Js_text (si_task_name i)), (''objective'', Js_text (si_objective i)),
      (''constraints'', Js_list (map Js_text (si_constraints i))), (''inline_context'', texts_json (si_inline i)),
      (''artifact_refs'', Js_list (ref_list_json (si_refs i))), (''expected_output_schema'', Js_text (si_schema i)),
      (''remaining_budget'', ints_json (si_budget i))]"

definition bare_view :: "agent_context \<Rightarrow> subagent_request \<Rightarrow> (string, json) dict" where
  "bare_view ctx q =
     [(''session_id'', Js_text (cx_session_id ctx)), (''attempt_id'', Js_text (cx_attempt_id ctx)),
      (''objective'', Js_text (sr_objective q)), (''context_refs'', Js_list (map Js_text (sr_context_refs q)))]"

fun json_items_of :: "json option \<Rightarrow> json list" where
  "json_items_of (Some (Js_list vs)) = vs" | "json_items_of _ = []"

fun json_fields_of :: "json option \<Rightarrow> (string, json) dict" where
  "json_fields_of (Some (Js_dict d)) = d" | "json_fields_of _ = []"

text \<open>What more context adds to the view.\<close>

definition extend_view :: "subagent_input \<Rightarrow> (string, json) dict \<Rightarrow> (string, json) dict" where
  "extend_view i view =
     dict_set ''artifact_refs'' (Js_list (json_items_of (dict_get view ''artifact_refs'') @ ref_list_json (si_refs i)))
       (dict_set ''inline_context''
          (Js_dict (dict_update (json_fields_of (dict_get view ''inline_context'')) (map (\<lambda>(k, v). (k, Js_text v)) (si_inline i))))
          view)"

definition extend_bare :: "string list \<Rightarrow> (string, json) dict \<Rightarrow> (string, json) dict" where
  "extend_bare refs view =
     dict_set ''context_refs'' (Js_list (dedup (json_items_of (dict_get view ''context_refs'') @ map Js_text refs))) view"

definition budget_json :: "subagent_budget \<Rightarrow> json" where
  "budget_json b = ints_json
     [(''max_steps'', sb_max_steps b), (''max_tool_calls'', sb_max_tool_calls b),
      (''max_wall_time_ms'', sb_max_wall_time_ms b), (''max_context_requests'', sb_max_context_requests b),
      (''step_count'', sb_step_count b), (''tool_call_count'', sb_tool_call_count b),
      (''context_request_count'', sb_context_request_count b)]"

definition worker_view :: "(string, json) dict \<Rightarrow> subagent_budget \<Rightarrow> json list \<Rightarrow> (string, json) dict" where
  "worker_view view b os = dict_set ''observations'' (Js_list os) (dict_set ''budget'' (budget_json b) view)"

fun tool_status_value :: "tool_status \<Rightarrow> string" where
  "tool_status_value TS_SUCCEEDED = ''SUCCEEDED''"
| "tool_status_value TS_FAILED = ''FAILED''"
| "tool_status_value TS_BLOCKED = ''BLOCKED''"
| "tool_status_value TS_TIMEOUT = ''TIMEOUT''"
| "tool_status_value TS_INVALID_INPUT = ''INVALID_INPUT''"

definition workspace_json :: "workspace_value \<Rightarrow> json" where
  "workspace_json v = Js_dict
     [(''status'', Js_text (workspace_status_value (wv_status v))), (''summary'', json_of_opt (wv_summary v)),
      (''artifact_ref'', json_of_opt (wv_artifact_ref v)), (''updated_at'', Js_text (wv_updated_at v))]"

definition tool_result_json :: "tool_result \<Rightarrow> json" where
  "tool_result_json r = Js_dict
     [(''tool_name'', Js_text (tr_tool_name r)), (''status'', Js_text (tool_status_value (tr_status r))),
      (''summary'', json_of_opt (tr_summary r)), (''artifact_refs'', Js_list (map Js_text (tr_artifact_refs r))),
      (''workspace_updates'', Js_dict (map (\<lambda>(k, v). (k, workspace_json v)) (tr_workspace_updates r))),
      (''error_code'', json_of_opt (tr_error_code r)), (''error_message'', json_of_opt (tr_error_message r)),
      (''started_at'', Js_text (tr_started_at r)), (''finished_at'', Js_text (tr_finished_at r))]"

section \<open>The runner\<close>

record 'w subagent_ports =
  sw_worker :: "subagent_request \<Rightarrow> (string, json) dict \<Rightarrow> ('w, sub_answer) io"
  sw_elapsed_ms :: "'w \<Rightarrow> int \<times> 'w"
  sw_call_tool :: "(string \<Rightarrow> (string, json) dict \<Rightarrow> ('w, tool_result) io) option"
  sw_prepare :: "(subagent_request \<Rightarrow> ('w, subagent_input) io) option"

definition count_step :: "subagent_budget \<Rightarrow> subagent_budget" where
  "count_step b = b\<lparr>sb_step_count := sb_step_count b + 1\<rparr>"

definition count_tool :: "subagent_budget \<Rightarrow> subagent_budget" where
  "count_tool b = b\<lparr>sb_tool_call_count := sb_tool_call_count b + 1\<rparr>"

definition count_request :: "subagent_budget \<Rightarrow> subagent_budget" where
  "count_request b = b\<lparr>sb_context_request_count := sb_context_request_count b + 1\<rparr>"

text \<open>A turn ends the loop with a result, or goes on with a budget, a view and observations.\<close>

type_synonym sub_loop = "subagent_budget \<times> (string, json) dict \<times> json list"

definition more_context ::
  "'w subagent_ports \<Rightarrow> subagent_request \<Rightarrow> sub_action \<Rightarrow> sub_loop \<Rightarrow> ('w, subagent_result + sub_loop) io" where
  "more_context P q a L =
     (let (b, view, os) = L; b' = count_request b in
      if budget_exceeded b'
      then ret (Inl (sub_result SA_BUDGET_EXCEEDED msg_sub_context (Some ''MAX_CONTEXT_REQUESTS'')))
      else case sw_prepare P of
        Some prepare \<Rightarrow>
          bind (prepare (q\<lparr>sr_context_refs := sx_refs a\<rparr>)) (\<lambda>i. ret (Inr (b', extend_view i view, os)))
      | None \<Rightarrow> ret (Inr (b', extend_bare (sx_refs a) view, os)))"

definition allowed_tool :: "subagent_request \<Rightarrow> sub_action \<Rightarrow> bool" where
  "allowed_tool q a \<longleftrightarrow> (case sx_tool_name a of None \<Rightarrow> False | Some n \<Rightarrow> n \<in> set (sr_allowed_tools q))"

definition use_tool ::
  "'w subagent_ports \<Rightarrow> subagent_request \<Rightarrow> sub_action \<Rightarrow> sub_loop \<Rightarrow> ('w, subagent_result + sub_loop) io" where
  "use_tool P q a L =
     (let (b, view, os) = L in
      if \<not> allowed_tool q a
      then ret (Inl (sub_result SA_HUMAN_REQUIRED msg_tool_not_allowed (Some ''TOOL_NOT_ALLOWED'')))
      else case sw_call_tool P of
        None \<Rightarrow> ret (Inl (sub_result SA_FAILED msg_sub_registry (Some ''TOOL_REGISTRY_UNAVAILABLE'')))
      | Some call \<Rightarrow>
          bind (call (or_text (sx_tool_name a) []) (sx_tool_input a)) (\<lambda>r.
            if tr_status r \<noteq> TS_SUCCEEDED
            then ret (Inl (sub_result SA_FAILED msg_sub_tool_failed (tr_error_code r)))
            else ret (Inr (count_tool b, view, os @ [tool_result_json r]))))"

definition take_sub_action ::
  "'w subagent_ports \<Rightarrow> subagent_request \<Rightarrow> sub_action \<Rightarrow> sub_loop \<Rightarrow> ('w, subagent_result + sub_loop) io" where
  "take_sub_action P q a L =
     (case sx_type a of
        SB_RETURN_RESULT \<Rightarrow> (case sx_result a of Some r \<Rightarrow> ret (Inl r) | None \<Rightarrow> ret (Inr L))
      | SB_RETURN_FAILED \<Rightarrow>
          ret (Inl (case sx_result a of Some r \<Rightarrow> r | None \<Rightarrow> sub_result SA_FAILED msg_sub_failed None))
      | SB_NEED_MORE_CONTEXT \<Rightarrow> more_context P q a L
      | _ \<Rightarrow> use_tool P q a L)"

text \<open>\<open>f"SubAgent worker failed: {type(error).__name__}"\<close>\<close>

definition sub_turn ::
  "'w subagent_ports \<Rightarrow> subagent_request \<Rightarrow> sub_loop \<Rightarrow> ('w, subagent_result + sub_loop) io" where
  "sub_turn P q L w =
     (let (b, view, os) = L; (ms, w1) = sw_elapsed_ms P w; b1 = count_step b in
      if ms \<ge> sb_max_wall_time_ms b
      then (Inr (Inl (sub_result SA_BUDGET_EXCEEDED msg_sub_time (Some ''MAX_WALL_TIME''))), w1)
      else case sw_worker P q (worker_view view b1 os) w1 of
        (Inl err, w2) \<Rightarrow>
          (Inr (Inl (sub_result SA_FAILED (''SubAgent worker failed: '' @ error_class err) (Some ''SUB_AGENT_LLM_ERROR''))), w2)
      | (Inr (Answer_Result r), w2) \<Rightarrow> (Inr (Inl r), w2)
      | (Inr Answer_Invalid, w2) \<Rightarrow> (Inr (Inl (sub_result SA_FAILED msg_sub_invalid (Some ''INVALID_SUB_AGENT_ACTION''))), w2)
      | (Inr (Answer_Action a), w2) \<Rightarrow> take_sub_action P q a (b1, view, os) w2)"

text \<open>
  \<open>while not budget.exceeded()\<close>. The fuel bounds the turns; \<open>sub_fuel\<close> of the budget is enough
  (\<open>sub_run_returns\<close>), so that running out of it does not happen.
\<close>

fun sub_loop_run ::
  "nat \<Rightarrow> 'w subagent_ports \<Rightarrow> subagent_request \<Rightarrow> sub_loop \<Rightarrow> 'w \<Rightarrow> subagent_result outcome option \<times> 'w" where
  "sub_loop_run 0 P q L w = (None, w)"
| "sub_loop_run (Suc n) P q L w =
     (if budget_exceeded (fst L)
      then (Some (Inr (sub_result SA_BUDGET_EXCEEDED msg_sub_budget (Some ''SUB_AGENT_BUDGET_EXCEEDED''))), w)
      else case sub_turn P q L w of
        (Inl err, w') \<Rightarrow> (Some (Inl err), w')
      | (Inr (Inl r), w') \<Rightarrow> (Some (Inr r), w')
      | (Inr (Inr L'), w') \<Rightarrow> sub_loop_run n P q L' w')"

definition sub_fuel :: "subagent_budget \<Rightarrow> nat" where
  "sub_fuel b = Suc (nat (sb_max_steps b - sb_step_count b))"

definition initial_budget :: "subagent_limits \<Rightarrow> subagent_budget" where
  "initial_budget l =
     \<lparr>sb_max_steps = sl_max_steps l, sb_max_tool_calls = sl_max_tool_calls l,
      sb_max_wall_time_ms = sl_max_wall_time_ms l, sb_max_context_requests = sl_max_context_requests l,
      sb_step_count = 0, sb_tool_call_count = 0, sb_context_request_count = 0\<rparr>"

text \<open>The first reference the parent context does not allow.\<close>

fun bad_ref :: "agent_context \<Rightarrow> string list \<Rightarrow> string option" where
  "bad_ref ctx [] = None"
| "bad_ref ctx (r # rs) =
     (if is_prefix ''artifact://'' r
      then (if is_prefix (''artifact://'' @ cx_session_id ctx @ ''/'') r then bad_ref ctx rs else Some msg_ref_foreign)
      else if dict_get (cx_workspace ctx) r = None then Some msg_ref_missing
      else bad_ref ctx rs)"

definition refuse_request :: "agent_context \<Rightarrow> subagent_request \<Rightarrow> subagent_result option" where
  "refuse_request ctx q =
     (case find_task (sr_task_name q) of
        None \<Rightarrow> Some (sub_result SA_FAILED msg_task_unregistered (Some ''TASK_NOT_REGISTERED''))
      | Some spec \<Rightarrow>
          if ''RunSubAgentTool'' \<in> set (sr_allowed_tools q) \<or> sl_allow_recursive (sr_limits q)
          then Some (sub_result SA_HUMAN_REQUIRED msg_recursive_subagent (Some ''RECURSIVE_SUB_AGENT_FORBIDDEN''))
          else if \<not> set (sr_allowed_tools q) \<subseteq> set (tk_allowed_tools spec)
          then Some (sub_result SA_HUMAN_REQUIRED msg_tool_not_allowed (Some ''TOOL_NOT_ALLOWED''))
          else map_option (\<lambda>m. sub_result SA_HUMAN_REQUIRED m (Some ''CONTEXT_FORBIDDEN'')) (bad_ref ctx (sr_context_refs q)))"

definition sub_run ::
  "'w subagent_ports \<Rightarrow> subagent_request \<Rightarrow> agent_context \<Rightarrow> 'w \<Rightarrow> subagent_result outcome option \<times> 'w" where
  "sub_run P q ctx w =
     (case refuse_request ctx q of
        Some r \<Rightarrow> (Some (Inr r), w)
      | None \<Rightarrow>
          let b = initial_budget (sr_limits q) in
          case (case sw_prepare P of None \<Rightarrow> (Inr (bare_view ctx q), w)
                | Some prepare \<Rightarrow> bind (prepare q) (\<lambda>i. ret (input_view i)) w) of
            (Inl err, w') \<Rightarrow> (Some (Inl err), w')
          | (Inr view, w') \<Rightarrow> sub_loop_run (sub_fuel b) P q (b, view, []) w')"

section \<open>The loop ends\<close>

lemma exceeded_steps: "\<not> budget_exceeded b \<Longrightarrow> sb_step_count b < sb_max_steps b"
  by (simp add: budget_exceeded_def)

definition same_limits :: "subagent_budget \<Rightarrow> subagent_budget \<Rightarrow> bool" where
  "same_limits b c \<longleftrightarrow> sb_max_steps b = sb_max_steps c \<and> sb_max_tool_calls b = sb_max_tool_calls c \<and>
     sb_max_context_requests b = sb_max_context_requests c"

lemma take_sub_action_budget:
  assumes "take_sub_action P q a L w = (Inr (Inr L'), w')"
  shows "sb_step_count (fst L') = sb_step_count (fst L) \<and> same_limits (fst L') (fst L)"
  using assms
  by (auto simp: take_sub_action_def more_context_def use_tool_def Let_def count_tool_def count_request_def same_limits_def
      bind_Inr_iff split: sub_action_type.splits option.splits prod.splits if_splits)

lemma sub_turn_budget:
  assumes "sub_turn P q L w = (Inr (Inr L'), w')"
  shows "sb_step_count (fst L') = sb_step_count (fst L) + 1 \<and> same_limits (fst L') (fst L)"
  using assms
  by (auto simp: sub_turn_def Let_def count_step_def same_limits_def dest!: take_sub_action_budget
      split: prod.splits sum.splits sub_answer.splits if_splits)

lemma sub_loop_returns:
  "nat (sb_max_steps (fst L) - sb_step_count (fst L)) < n \<Longrightarrow> fst (sub_loop_run n P q L w) \<noteq> None"
proof (induction n arbitrary: L w)
  case (Suc n)
  obtain x w1 where turn: "sub_turn P q L w = (x, w1)" by fastforce
  show ?case
  proof (cases "\<not> budget_exceeded (fst L) \<and> (\<exists>L'. x = Inr (Inr L'))")
    case True
    then obtain L' where L': "x = Inr (Inr L')" by blast
    with sub_turn_budget [of P q L w L' w1] turn True exceeded_steps [of "fst L"] Suc.prems
    have "nat (sb_max_steps (fst L') - sb_step_count (fst L')) < n" by (auto simp: same_limits_def)
    with Suc.IH turn L' True show ?thesis by simp
  next
    case False
    then show ?thesis using turn by (auto split: sum.split)
  qed
qed simp

lemma sub_run_returns: "fst (sub_run P q ctx w) \<noteq> None"
proof -
  have "fst (sub_loop_run (sub_fuel b) P q (b, view, os) w') \<noteq> None" for b view os w'
    by (rule sub_loop_returns) (simp add: sub_fuel_def)
  then show ?thesis
    by (auto simp: sub_run_def Let_def split: option.split sum.split prod.split)
qed

section \<open>What the loop may do\<close>

text \<open>The ports with a log: how often the worker was called, and the tools that were run.\<close>

type_synonym 'w sub_log = "nat \<times> string list \<times> 'w"

definition logged :: "('w, 'a) io \<Rightarrow> (nat \<Rightarrow> nat) \<Rightarrow> string list \<Rightarrow> ('w sub_log, 'a) io" where
  "logged m f names s = (let (i, ns, w) = s; (r, w') = m w in (r, (f i, ns @ names, w')))"

definition logged_ports :: "'w subagent_ports \<Rightarrow> 'w sub_log subagent_ports" where
  "logged_ports P =
     \<lparr>sw_worker = (\<lambda>q v. logged (sw_worker P q v) Suc []),
      sw_elapsed_ms = (\<lambda>(i, ns, w). let (ms, w') = sw_elapsed_ms P w in (ms, (i, ns, w'))),
      sw_call_tool = map_option (\<lambda>call n d. logged (call n d) id [n]) (sw_call_tool P),
      sw_prepare = map_option (\<lambda>prepare q. logged (prepare q) id []) (sw_prepare P)\<rparr>"

lemma logged_result:
  "logged m f names (i, ns, w) = (r, s') \<longleftrightarrow> (\<exists>w'. m w = (r, w') \<and> s' = (f i, ns @ names, w'))"
  by (auto simp: logged_def split: prod.splits)

definition tools_of :: "sub_loop \<Rightarrow> int" where "tools_of L = sb_tool_call_count (fst L)"

lemma more_context_log:
  "more_context (logged_ports P) q a L (i, ns, w) = (x, (i', ns', w')) \<Longrightarrow>
     i' = i \<and> ns' = ns \<and> (\<forall>L'. x = Inr (Inr L') \<longrightarrow> tools_of L' = tools_of L)"
  by (auto simp: more_context_def Let_def logged_ports_def bind_def logged_result tools_of_def count_request_def
      split: prod.splits option.splits sum.splits if_splits)

lemma use_tool_log:
  "use_tool (logged_ports P) q a L (i, ns, w) = (x, (i', ns', w')) \<Longrightarrow>
     i' = i \<and> (ns' = ns \<and> (\<forall>L'. x \<noteq> Inr (Inr L')) \<or>
       (\<exists>n. ns' = ns @ [n] \<and> n \<in> set (sr_allowed_tools q) \<and> (\<forall>L'. x = Inr (Inr L') \<longrightarrow> tools_of L' = tools_of L + 1)))"
  by (cases "sx_tool_name a")
    (auto simp: use_tool_def Let_def logged_ports_def bind_def logged_result tools_of_def count_tool_def allowed_tool_def
      split: prod.splits option.splits sum.splits if_splits)

definition log_step :: "subagent_request \<Rightarrow> sub_loop \<Rightarrow> string list \<Rightarrow> string list \<Rightarrow> (subagent_result + sub_loop) outcome \<Rightarrow> bool" where
  "log_step q L ns ns' x \<longleftrightarrow>
     ns' = ns \<and> (\<forall>L'. x = Inr (Inr L') \<longrightarrow> tools_of L' = tools_of L) \<or>
     (\<exists>n. ns' = ns @ [n] \<and> n \<in> set (sr_allowed_tools q) \<and> (\<forall>L'. x = Inr (Inr L') \<longrightarrow> tools_of L' = tools_of L + 1))"

lemma take_sub_action_log:
  "take_sub_action (logged_ports P) q a L (i, ns, w) = (x, (i', ns', w')) \<Longrightarrow> i' = i \<and> log_step q L ns ns' x"
  by (cases "sx_type a")
    (auto simp: take_sub_action_def log_step_def dest!: more_context_log use_tool_log split: option.splits)

lemma sub_turn_log:
  assumes "sub_turn (logged_ports P) q L (i, ns, w) = (x, (i', ns', w'))"
  shows "i' \<le> Suc i \<and> log_step q L ns ns' x"
proof -
  obtain b view os where L: "L = (b, view, os)" by (cases L)
  obtain ms w1 where ms: "sw_elapsed_ms P w = (ms, w1)" by fastforce
  obtain y w2 where y: "sw_worker P q (worker_view view (count_step b) os) w1 = (y, w2)" by fastforce
  have log: "sw_worker (logged_ports P) q v (i, ns, w1) = logged (sw_worker P q v) Suc [] (i, ns, w1)"
    "sw_elapsed_ms (logged_ports P) (i, ns, w) = (ms, (i, ns, w1))" for v
    by (simp_all add: logged_ports_def ms)
  have same: "tools_of (count_step b, view, os) = tools_of L" by (simp add: tools_of_def count_step_def L)
  show ?thesis
  proof (cases "ms \<ge> sb_max_wall_time_ms b")
    case True
    then show ?thesis using assms by (auto simp: sub_turn_def L log log_step_def)
  next
    case False
    show ?thesis
    proof (cases "\<exists>a. y = Inr (Answer_Action a)")
      case True
      then obtain a where "y = Inr (Answer_Action a)" by blast
      then have "take_sub_action (logged_ports P) q a (count_step b, view, os) (Suc i, ns, w2) = (x, (i', ns', w'))"
        using assms False y by (simp add: sub_turn_def L log logged_def)
      from take_sub_action_log [OF this] same show ?thesis by (simp add: log_step_def)
    next
      case False2: False
      then show ?thesis using assms False y
        by (auto simp: sub_turn_def L log logged_def log_step_def split: sum.splits sub_answer.splits)
    qed
  qed
qed

lemma sub_loop_log:
  assumes "sub_loop_run n (logged_ports P) q L (i, ns, w) = (x, (i', ns', w'))"
    and "sb_step_count (fst L) \<le> sb_max_steps (fst L)" "tools_of L \<le> sb_max_tool_calls (fst L) + 1"
    and "set ns \<subseteq> set (sr_allowed_tools q)"
  shows "int i' \<le> int i + (sb_max_steps (fst L) - sb_step_count (fst L)) \<and>
    int (length ns') \<le> int (length ns) + (sb_max_tool_calls (fst L) + 1 - tools_of L) \<and>
    set ns' \<subseteq> set (sr_allowed_tools q)"
  using assms
proof (induction n arbitrary: L i ns w)
  case (Suc n)
  show ?case
  proof (cases "budget_exceeded (fst L)")
    case True
    then show ?thesis using Suc.prems by simp
  next
    case False
    then have room: "sb_step_count (fst L) < sb_max_steps (fst L)" "tools_of L \<le> sb_max_tool_calls (fst L)"
      by (simp_all add: budget_exceeded_def tools_of_def)
    obtain y i1 ns1 w1 where turn: "sub_turn (logged_ports P) q L (i, ns, w) = (y, (i1, ns1, w1))"
      by (metis prod_cases4)
    note step = sub_turn_log [OF turn]
    then have len: "length ns1 \<le> Suc (length ns)" "set ns1 \<subseteq> set (sr_allowed_tools q)" "i1 \<le> Suc i"
      using Suc.prems(4) by (auto simp: log_step_def)
    show ?thesis
    proof (cases "\<exists>L'. y = Inr (Inr L')")
      case True
      then obtain L' where L': "y = Inr (Inr L')" by blast
      from sub_turn_budget [OF turn [unfolded L']]
      have b: "sb_step_count (fst L') = sb_step_count (fst L) + 1" "sb_max_steps (fst L') = sb_max_steps (fst L)"
        "sb_max_tool_calls (fst L') = sb_max_tool_calls (fst L)" by (auto simp: same_limits_def)
      have t: "tools_of L' \<le> tools_of L + 1" "int (length ns1) - int (length ns) = tools_of L' - tools_of L"
        using step L' by (auto simp: log_step_def)
      have "sub_loop_run n (logged_ports P) q L' (i1, ns1, w1) = (x, (i', ns', w'))"
        using Suc.prems(1) turn L' False by simp
      from Suc.IH [OF this] b t room len show ?thesis by auto
    next
      case end_loop: False
      then have "(i', ns') = (i1, ns1)" using Suc.prems(1) turn False by (auto split: sum.splits)
      with room len show ?thesis by auto
    qed
  qed
qed simp

text \<open>
  From the start: at most \<open>max_steps\<close> worker calls, at most one tool more than
  \<open>max_tool_calls\<close>, and only tools of the request, which are tools of the task.
\<close>

lemma refuse_None:
  "refuse_request ctx q = None \<Longrightarrow>
     \<exists>spec. find_task (sr_task_name q) = Some spec \<and> ''RunSubAgentTool'' \<notin> set (sr_allowed_tools q) \<and>
       \<not> sl_allow_recursive (sr_limits q) \<and> set (sr_allowed_tools q) \<subseteq> set (tk_allowed_tools spec)"
  by (auto simp: refuse_request_def split: option.splits if_splits)

lemma sub_run_log:
  assumes run: "sub_run (logged_ports P) q ctx (0, [], w) = (x, (i', ns', w'))"
    and l: "0 \<le> sl_max_steps (sr_limits q)" "0 \<le> sl_max_tool_calls (sr_limits q)"
  shows "int i' \<le> sl_max_steps (sr_limits q) \<and> int (length ns') \<le> sl_max_tool_calls (sr_limits q) + 1 \<and>
    set ns' \<subseteq> set (sr_allowed_tools q) \<and>
    (ns' \<noteq> [] \<longrightarrow> (\<exists>spec. find_task (sr_task_name q) = Some spec \<and> set ns' \<subseteq> set (tk_allowed_tools spec)))"
proof (cases "refuse_request ctx q")
  case (Some r)
  then show ?thesis using run l by (auto simp: sub_run_def)
next
  case None
  let ?b = "initial_budget (sr_limits q)"
  obtain y i0 ns0 w0 where prep: "(case sw_prepare (logged_ports P) of None \<Rightarrow> (Inr (bare_view ctx q), (0, [], w))
      | Some prepare \<Rightarrow> bind (prepare q) (\<lambda>i. ret (input_view i)) (0, [], w)) = (y, (i0, ns0, w0))"
    by (metis prod_cases4)
  then have zero: "i0 = 0" "ns0 = []"
    by (auto simp: logged_ports_def bind_def logged_result split: option.splits prod.splits sum.splits)
  have "int i' \<le> sl_max_steps (sr_limits q) \<and> int (length ns') \<le> sl_max_tool_calls (sr_limits q) + 1 \<and>
      set ns' \<subseteq> set (sr_allowed_tools q)"
  proof (cases y)
    case (Inl err)
    then show ?thesis using run None prep zero l by (auto simp: sub_run_def Let_def)
  next
    case (Inr view)
    then have "sub_loop_run (sub_fuel ?b) (logged_ports P) q (?b, view, []) (0, [], w0) = (x, (i', ns', w'))"
      using run None prep zero by (simp add: sub_run_def Let_def)
    from sub_loop_log [OF this] show ?thesis using l by (simp add: initial_budget_def tools_of_def)
  qed
  with refuse_None [OF None] show ?thesis by blast
qed

section \<open>What a run leaves alone\<close>

text \<open>A property that the worker, the clock, the tools and the view keep is kept by the run.\<close>

definition ports_preserve :: "('w \<Rightarrow> bool) \<Rightarrow> 'w subagent_ports \<Rightarrow> bool" where
  "ports_preserve Q P \<longleftrightarrow>
     (\<forall>q v. preserves Q (sw_worker P q v)) \<and> (\<forall>w. Q w \<longrightarrow> Q (snd (sw_elapsed_ms P w))) \<and>
     (\<forall>f n i. sw_call_tool P = Some f \<longrightarrow> preserves Q (f n i)) \<and>
     (\<forall>f q. sw_prepare P = Some f \<longrightarrow> preserves Q (f q))"

lemma more_context_preserves: "ports_preserve Q P \<Longrightarrow> preserves Q (more_context P q a L)"
  by (cases L; cases "sw_prepare P")
    (auto simp: more_context_def Let_def ports_preserve_def intro!: keeps)

lemma use_tool_preserves: "ports_preserve Q P \<Longrightarrow> preserves Q (use_tool P q a L)"
  by (cases L; cases "sw_call_tool P")
    (auto simp: use_tool_def Let_def ports_preserve_def intro!: keeps)

lemma take_sub_action_preserves: "ports_preserve Q P \<Longrightarrow> preserves Q (take_sub_action P q a L)"
  unfolding take_sub_action_def
  by (cases "sx_type a") (auto intro!: keeps more_context_preserves use_tool_preserves split: option.split)

lemma sub_turn_preserves:
  assumes P: "ports_preserve Q P" and w: "Q w"
  shows "Q (snd (sub_turn P q L w))"
proof -
  obtain b view os where L: "L = (b, view, os)" by (metis prod.exhaust)
  obtain ms w1 where el: "sw_elapsed_ms P w = (ms, w1)" by fastforce
  then have w1: "Q w1" using P w unfolding ports_preserve_def by (metis snd_conv)
  let ?view = "worker_view view (count_step b) os"
  obtain x w2 where wk: "sw_worker P q ?view w1 = (x, w2)" by fastforce
  then have w2: "Q w2" using P w1 unfolding ports_preserve_def preserves_def by (metis snd_conv)
  have "Q (snd (take_sub_action P q a (count_step b, view, os) w2))" for a
    using take_sub_action_preserves [OF P] w2 unfolding preserves_def by blast
  then show ?thesis
    using w1 w2 by (auto simp: sub_turn_def Let_def L el wk split: sum.split sub_answer.split)
qed

lemma sub_loop_preserves: "ports_preserve Q P \<Longrightarrow> Q w \<Longrightarrow> Q (snd (sub_loop_run n P q L w))"
proof (induction n arbitrary: L w)
  case (Suc n)
  obtain x w1 where turn: "sub_turn P q L w = (x, w1)" by fastforce
  have "Q w1" using sub_turn_preserves [OF Suc.prems, of q L] turn by simp
  then show ?case using Suc turn by (auto split: sum.split)
qed simp

lemma sub_run_preserves:
  assumes P: "ports_preserve Q P" and w: "Q w"
  shows "Q (snd (sub_run P q ctx w))"
proof (cases "refuse_request ctx q")
  case (Some r)
  then show ?thesis using w by (simp add: sub_run_def)
next
  case None
  define start where "start = (case sw_prepare P of None \<Rightarrow> (\<lambda>w. (Inr (bare_view ctx q), w))
     | Some prepare \<Rightarrow> bind (prepare q) (\<lambda>i. ret (input_view i)))"
  have "preserves Q start"
  proof (cases "sw_prepare P")
    case None
    then show ?thesis by (simp add: start_def preserves_def)
  next
    case (Some f)
    then have "preserves Q (f q)" using P by (simp add: ports_preserve_def)
    then show ?thesis unfolding start_def Some option.case by (intro keeps)
  qed
  moreover obtain x w1 where x: "start w = (x, w1)" by fastforce
  ultimately have w1: "Q w1" using w unfolding preserves_def by (metis snd_conv)
  have "sub_run P q ctx w = (case start w of (Inl err, w') \<Rightarrow> (Some (Inl err), w')
      | (Inr view, w') \<Rightarrow> sub_loop_run (sub_fuel (initial_budget (sr_limits q))) P q (initial_budget (sr_limits q), view, []) w')"
    by (simp add: sub_run_def None Let_def start_def split: option.split)
  then show ?thesis using x w1 sub_loop_preserves [OF P w1] by (cases x) auto
qed

end
