(* ===== verification/Dumps.thy ===== *)
theory Dumps
  imports Repair_Models Json
begin

text \<open>
  \<open>model_dump(mode="json")\<close> of the models a run stores and shows to the agent: the JSON value
  with the fields in the order of the class, and \<open>model_dump_json()\<close>, its compact text. A float is
  a number whose text is a parameter of the writer; the digest of a log is dumped by a parameter, since
  its class is not under src/.
\<close>

definition texts :: "string list \<Rightarrow> json" where
  "texts xs = Js_list (map Js_text xs)"

definition json_opt :: "('a \<Rightarrow> json) \<Rightarrow> 'a option \<Rightarrow> json" where
  "json_opt f x = (case x of None \<Rightarrow> Js_null | Some y \<Rightarrow> f y)"

definition dump_json :: "(rat \<Rightarrow> string) \<Rightarrow> json \<Rightarrow> string" where
  "dump_json fl v = json_write compact_style fl 0 v"

section \<open>Diagnoses\<close>

definition dump_rule :: "rule_diagnosis \<Rightarrow> json" where
  "dump_rule r = Js_dict
     [(''diagnosed_error_type'', Js_text (error_type_value (rd_error_type r))),
      (''diagnosed_keywords'', texts (rd_keywords r)), (''primary_evidence'', json_of_opt (rd_primary_evidence r)),
      (''confidence'', Js_float (rd_confidence r)), (''matched_rules'', texts (rd_matched_rules r))]"

definition dump_llm_diagnosis :: "llm_diagnosis \<Rightarrow> json" where
  "dump_llm_diagnosis r = Js_dict
     [(''diagnosed_error_type'', Js_text (error_type_value (lm_error_type r))),
      (''diagnosed_keywords'', texts (lm_keywords r)), (''primary_evidence'', json_of_opt (lm_primary_evidence r)),
      (''root_cause_summary'', Js_text (lm_root_cause_summary r)), (''confidence'', Js_float (lm_confidence r)),
      (''is_repairable'', Js_bool (lm_is_repairable r)), (''manual_repair_reason'', json_of_opt (lm_manual_reason r))]"

definition dump_diagnosis :: "diagnosis_result \<Rightarrow> json" where
  "dump_diagnosis d = Js_dict
     [(''diagnosed_error_type'', Js_text (error_type_value (dr_error_type d))),
      (''diagnosed_keywords'', texts (dr_keywords d)), (''error_fingerprint'', Js_text (dr_fingerprint d)),
      (''primary_evidence'', json_of_opt (dr_primary_evidence d)),
      (''root_cause_summary'', json_of_opt (dr_root_cause_summary d)), (''confidence'', Js_float (dr_confidence d)),
      (''rule_result'', json_opt dump_rule (dr_rule_result d)),
      (''llm_result'', json_opt dump_llm_diagnosis (dr_llm_result d)),
      (''fusion_reason'', json_of_opt (dr_fusion_reason d)), (''is_repairable'', Js_bool (dr_is_repairable d)),
      (''manual_repair_reason'', json_of_opt (dr_manual_reason d)),
      (''primary_entity'', json_of_opt (dr_primary_entity d)), (''engine_hint'', json_of_opt (dr_engine_hint d))]"

section \<open>Metadata\<close>

fun source_clause_value :: "source_clause \<Rightarrow> string" where
  "source_clause_value SC_FROM = ''FROM''"
| "source_clause_value SC_JOIN = ''JOIN''"
| "source_clause_value SC_INSERT_TARGET = ''INSERT_TARGET''"
| "source_clause_value SC_CTE = ''CTE''"
| "source_clause_value SC_UNKNOWN = ''UNKNOWN''"

fun metadata_source_value :: "metadata_source \<Rightarrow> string" where
  "metadata_source_value MS_MOCK = ''MOCK''"
| "metadata_source_value MS_REAL = ''REAL''"
| "metadata_source_value MS_UNKNOWN = ''UNKNOWN''"

definition dump_table_ref :: "table_ref \<Rightarrow> json" where
  "dump_table_ref r = Js_dict
     [(''raw_name'', Js_text (tb_raw_name r)), (''normalized_name'', Js_text (tb_normalized_name r)),
      (''alias'', json_of_opt (tb_alias r)), (''source_clause'', Js_text (source_clause_value (tb_source r)))]"

definition dump_extraction :: "extraction_result \<Rightarrow> json" where
  "dump_extraction x = Js_dict
     [(''tables'', Js_list (map dump_table_ref (ex_tables x))), (''ctes'', texts (ex_ctes x)),
      (''parse_success'', Js_bool (ex_parse_success x)), (''parse_error'', json_of_opt (ex_parse_error x))]"

definition dump_column :: "column_metadata \<Rightarrow> json" where
  "dump_column c = Js_dict
     [(''name'', Js_text (cm_name c)), (''normalized_name'', Js_text (cm_normalized_name c)),
      (''data_type'', json_of_opt (cm_data_type c)), (''comment'', json_of_opt (cm_comment c)),
      (''is_partition'', Js_bool (cm_is_partition c))]"

definition dump_table :: "table_metadata \<Rightarrow> json" where
  "dump_table t = Js_dict
     [(''table_name'', Js_text (tm_table_name t)), (''normalized_table_name'', Js_text (tm_normalized_name t)),
      (''exists'', Js_bool (tm_exists t)), (''columns'', Js_list (map dump_column (tm_columns t))),
      (''partition_columns'', Js_list (map dump_column (tm_partition_columns t))),
      (''owner'', json_of_opt (tm_owner t)), (''source'', Js_text (metadata_source_value (tm_source t))),
      (''error'', json_of_opt (tm_error t))]"

definition dump_metadata :: "metadata_snapshot \<Rightarrow> json" where
  "dump_metadata m = Js_dict
     [(''extraction_result'', dump_extraction (ms_extraction m)), (''tables'', Js_list (map dump_table (ms_tables m))),
      (''missing_tables'', texts (ms_missing_tables m)), (''provider_errors'', texts (ms_provider_errors m)),
      (''created_at'', Js_text (ms_created_at m))]"

section \<open>Memory and plans\<close>

definition dump_experience :: "experience_summary \<Rightarrow> json" where
  "dump_experience x = Js_dict
     [(''experience_id'', Js_text (es_experience_id x)), (''keyword'', texts (es_keyword x)),
      (''description'', Js_text (es_description x)), (''matched_by'', texts (es_matched_by x)),
      (''artifact_ref'', json_of_opt (es_artifact_ref x))]"

definition dump_memory :: "memory_result \<Rightarrow> json" where
  "dump_memory m = Js_dict
     [(''matched'', Js_bool (mr_matched m)), (''matched_experiences'', Js_list (map dump_experience (mr_experiences m))),
      (''scanned_count'', Js_int (mr_scanned m)), (''discarded_count'', Js_int (mr_discarded m)),
      (''artifact_ref'', json_of_opt (mr_artifact_ref m)), (''warnings'', texts (mr_warnings m))]"

fun repair_action_value :: "repair_action_type \<Rightarrow> string" where
  "repair_action_value REPLACE_COLUMN = ''REPLACE_COLUMN''"
| "repair_action_value ADD_CAST = ''ADD_CAST''"
| "repair_action_value REPLACE_TABLE = ''REPLACE_TABLE''"
| "repair_action_value ADD_PARTITION_FILTER = ''ADD_PARTITION_FILTER''"
| "repair_action_value REWRITE_FUNCTION = ''REWRITE_FUNCTION''"
| "repair_action_value QUALIFY_COLUMN = ''QUALIFY_COLUMN''"
| "repair_action_value FIX_SYNTAX = ''FIX_SYNTAX''"
| "repair_action_value NO_SAFE_REPAIR = ''NO_SAFE_REPAIR''"

fun action_risk_value :: "action_risk \<Rightarrow> string" where
  "action_risk_value AR_LOW = ''LOW''"
| "action_risk_value AR_MEDIUM = ''MEDIUM''"
| "action_risk_value AR_HIGH = ''HIGH''"

definition dump_action :: "repair_action \<Rightarrow> json" where
  "dump_action a = Js_dict
     [(''action_type'', Js_text (repair_action_value (rp_type a))), (''target_fragment'', json_of_opt (rp_target a)),
      (''replacement_fragment'', json_of_opt (rp_replacement a)), (''reason'', Js_text (rp_reason a)),
      (''evidence'', json_of_opt (rp_evidence a)), (''risk_level'', Js_text (action_risk_value (rp_risk a)))]"

definition dump_plan :: "repair_plan \<Rightarrow> json" where
  "dump_plan p = Js_dict
     [(''plan_id'', Js_text (pl_id p)), (''repairable'', Js_bool (pl_repairable p)),
      (''actions'', Js_list (map dump_action (pl_actions p))), (''constraints'', texts (pl_constraints p)),
      (''referenced_experience_ids'', texts (pl_experience_ids p)),
      (''manual_repair_recommendation'', json_of_opt (pl_manual p)), (''confidence'', Js_float (pl_confidence p))]"

end
