(* ===== verification/Metadata.thy ===== *)
theory Metadata
  imports Repair_Models Artifact_Store "HOL-Library.Multiset"
begin

text \<open>
  \<open>metadata/mock_metadata_provider.py\<close>: column metadata read from a decoded JSON file. The row by
  row computation of \<open>edit_distance\<close> is proved equal to the recursive definition of the
  Levenshtein distance, and the candidates of a column come back as a sorted permutation with
  scores in the unit interval.
\<close>

section \<open>Names\<close>

text \<open>The code points of a text, each as its bytes.\<close>

fun py_chars :: "string \<Rightarrow> string list" where
  "py_chars [] = []"
| "py_chars (c # cs) =
     (case py_chars cs of
        [] \<Rightarrow> [[c]]
      | p # ps \<Rightarrow> if is_cont (hd p) then (c # p) # ps else [c] # p # ps)"

lemma concat_py_chars: "concat (py_chars s) = s"
  by (induction s) (auto split: list.splits)

text \<open>\<open>normalize_name\<close>; a letter beyond ASCII is alphanumeric.\<close>

definition normalize_name :: "string \<Rightarrow> string" where
  "normalize_name v = casefold (filter (\<lambda>c. is_alnum c \<or> 128 \<le> code c) v)"

section \<open>Edit distance\<close>

text \<open>The inner loop: the rest of a row, from the last value and the rest of the row above.\<close>

fun row_from :: "'a \<Rightarrow> nat \<Rightarrow> nat list \<Rightarrow> 'a list \<Rightarrow> nat list" where
  "row_from l c (p # q # ps) (r # rs) =
     (let v = min (min (c + 1) (q + 1)) (p + (if l \<noteq> r then 1 else 0)) in v # row_from l v (q # ps) rs)"
| "row_from l c ps rs = []"

fun edit_rows :: "'a list \<Rightarrow> nat \<Rightarrow> nat list \<Rightarrow> 'a list \<Rightarrow> nat list" where
  "edit_rows [] i prev rs = prev"
| "edit_rows (l # ls) i prev rs = edit_rows ls (Suc i) (i # row_from l i prev rs) rs"

definition edit_distance :: "'a list \<Rightarrow> 'a list \<Rightarrow> nat" where
  "edit_distance left right = last (edit_rows left 1 [0..<length right + 1] right)"

text \<open>The Levenshtein distance of two lists, last elements first.\<close>

fun lev :: "'a list \<Rightarrow> 'a list \<Rightarrow> nat" where
  "lev [] ys = length ys"
| "lev xs [] = length xs"
| "lev (x # xs) (y # ys) =
     min (min (lev (x # xs) ys + 1) (lev xs (y # ys) + 1)) (lev xs ys + (if x \<noteq> y then 1 else 0))"

text \<open>The row of the table that belongs to a prefix of the left list (kept reversed).\<close>

definition lev_row :: "'a list \<Rightarrow> 'a list \<Rightarrow> 'a list \<Rightarrow> nat list" where
  "lev_row us vs ws = map (\<lambda>k. lev us (rev (take k ws) @ vs)) [0..<Suc (length ws)]"

lemma lev_row_Nil [simp]: "lev_row us vs [] = [lev us vs]"
  by (simp add: lev_row_def)

lemma lev_row_Cons: "lev_row us vs (w # ws) = lev us vs # lev_row us (w # vs) ws"
  unfolding lev_row_def length_Cons
  by (subst upt_conv_Cons, simp) (simp add: map_Suc_upt [symmetric] del: upt_Suc)

lemma lev_row_nonempty [simp]: "lev_row us vs ws \<noteq> []"
  by (simp add: lev_row_def)

lemma last_lev_row: "last (lev_row us vs ws) = lev us (rev ws @ vs)"
  by (simp add: lev_row_def)

lemma lev_Nil_right [simp]: "lev xs [] = length xs"
  by (cases xs) simp_all

lemma row_from_lev:
  "lev (l # us) vs # row_from l (lev (l # us) vs) (lev_row us vs ws) ws = lev_row (l # us) vs ws"
proof (induction ws arbitrary: vs)
  case Nil
  then show ?case by simp
next
  case (Cons w ws)
  obtain ps where row: "lev_row us (w # vs) ws = lev us (w # vs) # ps"
    by (cases ws) (simp_all add: lev_row_Cons)
  have step: "lev (l # us) (w # vs) =
      min (min (lev (l # us) vs + 1) (lev us (w # vs) + 1)) (lev us vs + (if l \<noteq> w then 1 else 0))"
    by simp
  have "row_from l (lev (l # us) vs) (lev_row us vs (w # ws)) (w # ws) =
      lev (l # us) (w # vs) # row_from l (lev (l # us) (w # vs)) (lev_row us (w # vs) ws) ws"
    unfolding lev_row_Cons row step by (simp add: Let_def del: lev.simps)
  with Cons.IH [of "w # vs"] show ?case by (simp add: lev_row_Cons del: lev.simps)
qed

lemma edit_rows_lev:
  "edit_rows ls (Suc (length us)) (lev_row us [] ws) ws = lev_row (rev ls @ us) [] ws"
proof (induction ls arbitrary: us)
  case Nil
  then show ?case by simp
next
  case (Cons l ls)
  have "Suc (length us) # row_from l (Suc (length us)) (lev_row us [] ws) ws = lev_row (l # us) [] ws"
    using row_from_lev [of l us "[]" ws] by simp
  then show ?case using Cons.IH [of "l # us"] by simp
qed

lemma lev_row_start: "lev_row [] [] ws = [0..<length ws + 1]"
  by (rule nth_equalityI) (simp_all add: lev_row_def del: upt_Suc)

text \<open>The optimised table computes the recursive distance.\<close>

lemma edit_distance_lev: "edit_distance xs ys = lev (rev xs) (rev ys)"
proof -
  have "edit_rows xs 1 [0..<length ys + 1] ys = lev_row (rev xs) [] ys"
    using edit_rows_lev [of xs "[]" ys] by (simp only: lev_row_start list.size append_Nil2 One_nat_def)
  then show ?thesis by (simp add: edit_distance_def last_lev_row)
qed

lemma lev_le_max: "lev xs ys \<le> max (length xs) (length ys)"
  by (induction xs ys rule: lev.induct) auto

lemma lev_zero_iff: "lev xs ys = 0 \<longleftrightarrow> xs = ys"
  by (induction xs ys rule: lev.induct) auto

lemma lev_sym: "lev xs ys = lev ys xs"
  by (induction xs ys rule: lev.induct) (auto simp: min.commute min.assoc min.left_commute)

lemma edit_distance_le: "edit_distance xs ys \<le> max (length xs) (length ys)"
  using lev_le_max [of "rev xs" "rev ys"] by (simp add: edit_distance_lev)

lemma edit_distance_zero_iff: "edit_distance xs ys = 0 \<longleftrightarrow> xs = ys"
  by (simp add: edit_distance_lev lev_zero_iff)

section \<open>The provider\<close>

text \<open>\<open>bool(value)\<close> of a decoded JSON value.\<close>

fun json_truthy :: "json \<Rightarrow> bool" where
  "json_truthy Js_null = False"
| "json_truthy (Js_bool b) = b"
| "json_truthy (Js_int i) = (i \<noteq> 0)"
| "json_truthy (Js_float q) = (q \<noteq> 0)"
| "json_truthy (Js_text s) = (s \<noteq> [])"
| "json_truthy (Js_list vs) = (vs \<noteq> [])"
| "json_truthy (Js_dict kvs) = (kvs \<noteq> [])"

text \<open>\<open>payload.get(name) or payload.get(name.casefold())\<close>\<close>

definition raw_table :: "(string, json) dict \<Rightarrow> string \<Rightarrow> json option" where
  "raw_table payload name =
     (case dict_get payload name of
        Some v \<Rightarrow> if json_truthy v then Some v else dict_get payload (casefold name)
      | None \<Rightarrow> dict_get payload (casefold name))"

text \<open>\<open>normalize_name(item["name"])\<close> and the validation of \<open>name\<close>, in this order.\<close>

fun column_name :: "json option \<Rightarrow> string outcome" where
  "column_name None = Inl (KeyError ''name'')"
| "column_name (Some (Js_text s)) = Inr s"
| "column_name (Some (Js_dict _)) = Inl (ValidationError ''ColumnMetadata'')"
| "column_name (Some (Js_list vs)) =
     (if \<forall>v \<in> set vs. case v of Js_text _ \<Rightarrow> True | _ \<Rightarrow> False then Inl (ValidationError ''ColumnMetadata'')
      else Inl (OtherError ''AttributeError''))"
| "column_name (Some _) = Inl (TypeError ''object is not iterable'')"

definition partition_flag :: "json option \<Rightarrow> bool option" where
  "partition_flag v = (case v of None \<Rightarrow> Some False | Some j \<Rightarrow> js_bool (Some j))"

fun column_of :: "json \<Rightarrow> column_metadata outcome" where
  "column_of (Js_dict d) =
     and_then (column_name (dict_get d ''name'')) (\<lambda>n.
       case (js_opt_text (dict_get d ''data_type''), js_opt_text (dict_get d ''comment''),
             partition_flag (dict_get d ''is_partition'')) of
         (Some t, Some c, Some p) \<Rightarrow>
           Inr \<lparr>cm_name = n, cm_normalized_name = normalize_name n, cm_data_type = t, cm_comment = c,
                cm_is_partition = p\<rparr>
       | _ \<Rightarrow> Inl (ValidationError ''ColumnMetadata''))"
| "column_of _ = Inl (TypeError ''indices must be integers'')"

text \<open>The elements a \<open>for\<close> over a decoded JSON value visits.\<close>

fun json_elements :: "json option \<Rightarrow> json list outcome" where
  "json_elements None = Inr []"
| "json_elements (Some (Js_list vs)) = Inr vs"
| "json_elements (Some (Js_dict kvs)) = Inr (map (Js_text \<circ> fst) kvs)"
| "json_elements (Some (Js_text s)) = Inr (map Js_text (py_chars s))"
| "json_elements (Some _) = Inl (TypeError ''object is not iterable'')"

definition table_of :: "string \<Rightarrow> (string, json) dict \<Rightarrow> table_metadata outcome" where
  "table_of name raw =
     and_then (json_elements (dict_get raw ''columns'')) (\<lambda>items.
     and_then (traverse column_of items) (\<lambda>cols.
       case js_opt_text (dict_get raw ''owner'') of
         None \<Rightarrow> Inl (ValidationError ''TableMetadata'')
       | Some own \<Rightarrow> Inr \<lparr>tm_table_name = name, tm_normalized_name = casefold name, tm_exists = True,
           tm_columns = cols, tm_partition_columns = filter cm_is_partition cols, tm_owner = own,
           tm_source = MS_MOCK, tm_error = None\<rparr>))"

definition get_table_metadata :: "(string, json) dict \<Rightarrow> string \<Rightarrow> table_metadata option outcome" where
  "get_table_metadata payload name =
     (case raw_table payload name of
        None \<Rightarrow> Inr None
      | Some Js_null \<Rightarrow> Inr None
      | Some (Js_dict raw) \<Rightarrow>
          (case dict_get raw ''exists'' of
             None \<Rightarrow> and_then (table_of name raw) (Inr \<circ> Some)
           | Some e \<Rightarrow> if json_truthy e then and_then (table_of name raw) (Inr \<circ> Some) else Inr None)
      | Some _ \<Rightarrow> Inl (OtherError ''AttributeError''))"

lemma case_options_Inr:
  "(case a of None \<Rightarrow> Inl e | Some x \<Rightarrow> case b of None \<Rightarrow> Inl e | Some y \<Rightarrow>
      case c of None \<Rightarrow> Inl e | Some z \<Rightarrow> f x y z) = Inr r \<Longrightarrow>
     \<exists>x y z. a = Some x \<and> b = Some y \<and> c = Some z \<and> f x y z = Inr r"
  by (cases a; cases b; cases c) simp_all

lemma column_of_normalized: "column_of j = Inr c \<Longrightarrow> cm_normalized_name c = normalize_name (cm_name c)"
  by (cases j) (auto simp: and_then_Inr_iff dest!: case_options_Inr)

lemma table_of_fields:
  assumes "table_of name raw = Inr t"
  shows "tm_table_name t = name" "tm_exists t" "tm_partition_columns t = filter cm_is_partition (tm_columns t)"
    "\<forall>c \<in> set (tm_columns t). cm_normalized_name c = normalize_name (cm_name c)"
proof -
  obtain items cols where cols: "traverse column_of items = Inr cols"
    and t: "tm_table_name t = name" "tm_exists t" "tm_columns t = cols" "tm_partition_columns t = filter cm_is_partition cols"
    using assms by (auto simp: table_of_def and_then_Inr_iff split: option.splits)
  have "\<forall>c \<in> set cols. \<exists>j. column_of j = Inr c"
    using cols by (fastforce simp: traverse_Inr_iff list_all2_conv_all_nth in_set_conv_nth)
  with t show "tm_table_name t = name" "tm_exists t" "tm_partition_columns t = filter cm_is_partition (tm_columns t)"
    "\<forall>c \<in> set (tm_columns t). cm_normalized_name c = normalize_name (cm_name c)"
    by (auto dest: column_of_normalized)
qed

lemma get_table_metadata_fields:
  "get_table_metadata payload name = Inr (Some t) \<Longrightarrow>
     tm_table_name t = name \<and> tm_exists t \<and> tm_partition_columns t = filter cm_is_partition (tm_columns t)"
  by (auto simp: get_table_metadata_def and_then_Inr_iff dest: table_of_fields split: option.splits json.splits if_splits)

section \<open>Candidates for a column\<close>

definition column_candidate_of :: "string \<Rightarrow> table_metadata \<Rightarrow> column_metadata \<Rightarrow> column_candidate" where
  "column_candidate_of name t c =
     (let original = py_chars (normalize_name name); normalized = py_chars (normalize_name (cm_name c));
          distance = edit_distance original normalized; same = (original = normalized)
      in \<lparr>cc_original_name = name, cc_candidate_name = cm_name c, cc_table_name = tm_table_name t,
          cc_data_type = cm_data_type c,
          cc_score = (if same then 1
            else 1 - of_nat distance / of_nat (max (max (length original) (length normalized)) 1)),
          cc_reason = (if same then ''normalized name match'' else ''edit distance '' @ digits distance),
          cc_source = (if same then CO_NORMALIZED else CO_EDIT_DISTANCE)\<rparr>)"

definition all_candidates :: "string \<Rightarrow> table_metadata list \<Rightarrow> column_candidate list" where
  "all_candidates name ts = concat (map (\<lambda>t. map (column_candidate_of name t) (tm_columns t)) ts)"

text \<open>\<open>sorted(..., reverse=True)\<close> keeps the order of equal scores.\<close>

definition find_column_candidates :: "string \<Rightarrow> table_metadata list \<Rightarrow> column_candidate list" where
  "find_column_candidates name ts = sort_key (\<lambda>c. - cc_score c) (all_candidates name ts)"

lemma score_unit: "0 \<le> cc_score (column_candidate_of name t c) \<and> cc_score (column_candidate_of name t c) \<le> 1"
proof -
  let ?x = "py_chars (normalize_name name)" and ?y = "py_chars (normalize_name (cm_name c))"
  let ?m = "max (max (length ?x) (length ?y)) 1"
  have "of_nat (edit_distance ?x ?y) \<le> (of_nat ?m :: rat)"
    using edit_distance_le [of ?x ?y] by (intro of_nat_mono) linarith
  moreover have "0 < (of_nat ?m :: rat)" by simp
  ultimately have "of_nat (edit_distance ?x ?y) / of_nat ?m \<le> (1 :: rat)" by (simp only: divide_le_eq_1_pos)
  then show ?thesis by (simp only: column_candidate_of_def Let_def column_candidate.simps) simp
qed

lemma py_chars_inject: "py_chars s = py_chars t \<longleftrightarrow> s = t"
  by (metis concat_py_chars)

lemma score_one_iff:
  "cc_score (column_candidate_of name t c) = 1 \<longleftrightarrow> normalize_name name = normalize_name (cm_name c)"
  by (auto simp: column_candidate_of_def Let_def py_chars_inject edit_distance_zero_iff max_def)

lemma candidates_perm: "mset (find_column_candidates name ts) = mset (all_candidates name ts)"
  by (simp add: find_column_candidates_def)

lemma candidates_set: "set (find_column_candidates name ts) =
    (\<Union>t \<in> set ts. column_candidate_of name t ` set (tm_columns t))"
  by (auto simp: find_column_candidates_def all_candidates_def)

lemma candidates_sorted: "sorted_wrt (\<lambda>a b. cc_score b \<le> cc_score a) (find_column_candidates name ts)"
proof -
  have "sorted (map (\<lambda>c. - cc_score c) (find_column_candidates name ts))"
    by (simp add: find_column_candidates_def)
  then show ?thesis by (simp add: sorted_map)
qed

lemma candidates_best:
  assumes "find_column_candidates name ts = b # rest" "c \<in> set rest"
  shows "cc_score c \<le> cc_score b"
  using candidates_sorted [of name ts] assms by simp

lemma find_column_candidates_Nil_iff:
  "find_column_candidates name ts = [] \<longleftrightarrow> (\<forall>t \<in> set ts. tm_columns t = [])"
  using candidates_set [of name ts] by (metis (no_types, lifting) SUP_bot_conv(1) image_is_empty set_empty)

end
