(* ===== verification/Sql_Tables.thy ===== *)
theory Sql_Tables
  imports Metadata
begin

text \<open>
  \<open>metadata/sql_table_extractor.py\<close>, \<open>agent/tools/metadata_query_tool.py\<close> and
  \<open>core/sql_matcher.py\<close>. The SQL parser is not part of the repository: what the code reads of a
  parsed statement is the record \<open>sql_tree\<close>, and a parser is a parameter that gives one or the
  text of its error.
\<close>

section \<open>The tables of a statement\<close>

text \<open>
  A node of \<open>tree.find_all(exp.Table)\<close>: its text in the dialect, its name, its alias (empty
  where there is none), whether it is the target of the insert, whether its parent is a join.
\<close>

record table_node =
  tn_text :: string
  tn_name :: string
  tn_alias :: string
  tn_is_target :: bool
  tn_in_join :: bool

record sql_tree =
  st_ctes :: "string list"
  st_tables :: "table_node list"

type_synonym table_parser = "string \<Rightarrow> string + sql_tree"

definition table_ref_of :: "table_node \<Rightarrow> table_ref" where
  "table_ref_of n =
     \<lparr>tb_raw_name = tn_text n, tb_normalized_name = casefold (tn_name n),
      tb_alias = (if tn_alias n = [] then None else Some (tn_alias n)),
      tb_source = (if tn_in_join n then SC_JOIN else if tn_is_target n then SC_INSERT_TARGET else SC_FROM)\<rparr>"

definition tables_of_tree :: "sql_tree \<Rightarrow> table_ref list" where
  "tables_of_tree t =
     filter (\<lambda>r. tb_normalized_name r \<notin> set (map casefold (st_ctes t))) (map table_ref_of (st_tables t))"

definition pat_table_clause :: regex where
  "pat_table_clause = rx_cat
     [Bound,
      Group 1 (rx_alt [rx_ilit ''FROM'', rx_ilit ''JOIN'',
        rx_cat [rx_ilit ''INSERT'', rx_plus rx_space, rx_alt [rx_ilit ''INTO'', rx_ilit ''OVERWRITE''],
                rx_opt (Cat (rx_plus rx_space) (rx_ilit ''TABLE''))]]),
      rx_plus rx_space,
      Group 2 (rx_plus (Chars (\<lambda>c. c = CHR 0x60 \<or> is_word_char c \<or> c = CHR ''.'')))]"

definition strip_ticks :: "string \<Rightarrow> string" where
  "strip_ticks s = (let f = dropWhile (\<lambda>c. c = CHR 0x60) in rev (f (rev (f s))))"

text \<open>The source of a clause: only \<open>FROM\<close>, \<open>JOIN\<close> and the inserts match the pattern.\<close>

definition clause_source :: "string \<Rightarrow> source_clause" where
  "clause_source clause =
     (let c = casefold clause in
      if is_prefix ''insert'' c then SC_INSERT_TARGET else if c = ''join'' then SC_JOIN else SC_FROM)"

definition fallback_tables :: "string \<Rightarrow> table_ref list" where
  "fallback_tables sql =
     map (\<lambda>g. let raw = strip_ticks (rx_group 2 g) in
       \<lparr>tb_raw_name = raw, tb_normalized_name = casefold raw, tb_alias = None,
        tb_source = clause_source (rx_group 1 g)\<rparr>) (rx_all pat_table_clause sql)"

definition extract_tables :: "table_parser \<Rightarrow> string \<Rightarrow> extraction_result" where
  "extract_tables parse sql =
     (case parse sql of
        Inr t \<Rightarrow> \<lparr>ex_tables = tables_of_tree t, ex_ctes = st_ctes t, ex_parse_success = True, ex_parse_error = None\<rparr>
      | Inl err \<Rightarrow> \<lparr>ex_tables = fallback_tables sql, ex_ctes = [], ex_parse_success = False, ex_parse_error = Some err\<rparr>)"

lemma extract_no_cte:
  "ex_parse_success (extract_tables parse sql) \<Longrightarrow> r \<in> set (ex_tables (extract_tables parse sql)) \<Longrightarrow>
     tb_normalized_name r \<notin> casefold ` set (ex_ctes (extract_tables parse sql))"
  by (auto simp: extract_tables_def tables_of_tree_def split: sum.splits)

lemma extract_normalized:
  "r \<in> set (ex_tables (extract_tables parse sql)) \<Longrightarrow> casefold (tb_normalized_name r) = tb_normalized_name r"
  by (auto simp: extract_tables_def tables_of_tree_def fallback_tables_def table_ref_of_def Let_def split: sum.splits)

section \<open>The metadata tool\<close>

datatype query_status = QS_AVAILABLE | QS_PARTIAL | QS_FAILED

record metadata_query =
  mq_sql :: string
  mq_table_names :: "string list"
  mq_columns :: "string list"
  mq_include_partitions :: bool

record metadata_answer =
  ma_status :: query_status
  ma_summary :: string
  ma_missing_tables :: "string list"
  ma_missing_columns :: "string list"
  ma_partition_info :: bool

definition query_names :: "table_parser \<Rightarrow> metadata_query \<Rightarrow> string list" where
  "query_names parse q =
     (if mq_table_names q \<noteq> [] then mq_table_names q
      else map tb_normalized_name (ex_tables (extract_tables parse (mq_sql q))))"

fun look_up_tables ::
  "(string \<Rightarrow> table_metadata option outcome) \<Rightarrow> string list \<Rightarrow> (table_metadata list \<times> string list) outcome" where
  "look_up_tables f [] = Inr ([], [])"
| "look_up_tables f (n # ns) =
     and_then (f n) (\<lambda>m. and_then (look_up_tables f ns) (\<lambda>(ts, missing).
       Inr (case m of None \<Rightarrow> (ts, n # missing) | Some t \<Rightarrow> (t # ts, missing))))"

definition answer_query :: "metadata_query \<Rightarrow> table_metadata list \<Rightarrow> string list \<Rightarrow> metadata_answer" where
  "answer_query q ts missing =
     (let available = map cm_name (concat (map tm_columns ts));
          missing_columns = filter (\<lambda>c. c \<notin> set available) (mq_columns q)
      in \<lparr>ma_status = (if ts \<noteq> [] \<and> missing = [] \<and> missing_columns = [] then QS_AVAILABLE
                       else if ts \<noteq> [] then QS_PARTIAL else QS_FAILED),
          ma_summary = ''tables='' @ digits (length ts) @ '', columns='' @ digits (length (remdups available)),
          ma_missing_tables = missing, ma_missing_columns = missing_columns,
          ma_partition_info = (\<exists>t \<in> set ts. tm_partition_columns t \<noteq> [])\<rparr>)"

definition metadata_query_tool ::
  "table_parser \<Rightarrow> (string, json) dict \<Rightarrow> metadata_query \<Rightarrow> metadata_answer outcome" where
  "metadata_query_tool parse payload q =
     and_then (look_up_tables (get_table_metadata payload) (query_names parse q)) (\<lambda>(ts, missing).
       Inr (answer_query q ts missing))"

lemma look_up_tables_Inr:
  "look_up_tables f ns = Inr (ts, missing) \<Longrightarrow>
     missing = filter (\<lambda>n. f n = Inr None) ns \<and> map Some ts = filter (\<lambda>m. m \<noteq> None) (map (\<lambda>n. projr (f n)) ns)"
proof (induction ns arbitrary: ts missing)
  case Nil
  then show ?case by simp
next
  case (Cons n ns)
  then obtain m ts1 missing1 where parts: "f n = Inr m" "look_up_tables f ns = Inr (ts1, missing1)"
    "(ts, missing) = (case m of None \<Rightarrow> (ts1, n # missing1) | Some t \<Rightarrow> (t # ts1, missing1))"
    by (auto simp: and_then_Inr_iff)
  with Cons.IH [OF parts(2)] show ?case by (cases m) auto
qed

text \<open>The tool reports everything available exactly when it found all it was asked for.\<close>

lemma metadata_query_available:
  assumes "metadata_query_tool parse payload q = Inr a" "ma_status a = QS_AVAILABLE"
  shows "query_names parse q \<noteq> []"
    and "\<forall>n \<in> set (query_names parse q). \<exists>t. get_table_metadata payload n = Inr (Some t)"
    and "\<forall>c \<in> set (mq_columns q). \<exists>n t. n \<in> set (query_names parse q) \<and>
           get_table_metadata payload n = Inr (Some t) \<and> c \<in> cm_name ` set (tm_columns t)"
proof -
  let ?f = "get_table_metadata payload" and ?ns = "query_names parse q"
  obtain ts missing where look: "look_up_tables ?f ?ns = Inr (ts, missing)" and a: "a = answer_query q ts missing"
    using assms(1) by (auto simp: metadata_query_tool_def and_then_Inr_iff)
  have all: "ts \<noteq> []" "missing = []" "\<forall>c \<in> set (mq_columns q). \<exists>t \<in> set ts. c \<in> cm_name ` set (tm_columns t)"
    using assms(2) by (force simp: a answer_query_def Let_def filter_empty_conv split: if_splits)+
  have total: "n \<in> set ns \<Longrightarrow> look_up_tables ?f ns = Inr r \<Longrightarrow> \<exists>m. ?f n = Inr m" for n ns r
    by (induction ns arbitrary: r) (auto simp: and_then_Inr_iff)
  note lists = look_up_tables_Inr [OF look]
  show some: "\<forall>n \<in> set ?ns. \<exists>t. ?f n = Inr (Some t)"
  proof
    fix n assume n: "n \<in> set ?ns"
    with total look obtain m where "?f n = Inr m" by blast
    moreover have "filter (\<lambda>n. ?f n = Inr None) ?ns = []" using lists all(2) by simp
    with n have "?f n \<noteq> Inr None" by (auto simp: filter_empty_conv)
    ultimately show "\<exists>t. ?f n = Inr (Some t)" by (cases m) auto
  qed
  show "?ns \<noteq> []" using lists all(1) by auto
  show "\<forall>c \<in> set (mq_columns q). \<exists>n t. n \<in> set ?ns \<and> ?f n = Inr (Some t) \<and> c \<in> cm_name ` set (tm_columns t)"
  proof
    fix c assume "c \<in> set (mq_columns q)"
    with all(3) obtain t where t: "t \<in> set ts" "c \<in> cm_name ` set (tm_columns t)" by blast
    then have "Some t \<in> set (map (\<lambda>n. projr (?f n)) ?ns)"
      using lists by (metis (no_types, lifting) filter_is_subset image_eqI list.set_map subsetD)
    then obtain n where "n \<in> set ?ns" "projr (?f n) = Some t" by auto
    with some t show "\<exists>n t. n \<in> set ?ns \<and> ?f n = Inr (Some t) \<and> c \<in> cm_name ` set (tm_columns t)" by force
  qed
qed

section \<open>Matching SQL texts\<close>

definition pat_block_comment :: regex where
  "pat_block_comment = rx_cat [rx_lit ''/*'', Lazy_Star (Chars (\<lambda>_. True)), rx_lit ''*/'']"

definition pat_line_comment :: regex where
  "pat_line_comment = rx_cat [rx_lit ''--'', Star (Chars (\<lambda>c. c \<noteq> CHR 0x0A))]"

definition fallback_normalize :: "string \<Rightarrow> string" where
  "fallback_normalize sql =
     (let a = rx_sub pat_block_comment (\<lambda>_. '' '') sql; b = rx_sub pat_line_comment (\<lambda>_. '' '') a;
          c = strip (rev (dropWhile (\<lambda>x. x = CHR '';'') (rev (strip b))))
      in casefold (collapse_ws c))"

text \<open>The parameter is \<open>sqlglot.parse_one(text).sql(normalize=True)\<close>, \<open>None\<close> where it raises.\<close>

definition matcher_normalize :: "(string \<Rightarrow> string option) \<Rightarrow> string \<Rightarrow> string" where
  "matcher_normalize render sql =
     (case render (fallback_normalize sql) of None \<Rightarrow> fallback_normalize sql | Some t \<Rightarrow> t)"

definition sql_match :: "(string \<Rightarrow> string option) \<Rightarrow> string \<Rightarrow> string \<Rightarrow> bool" where
  "sql_match render l r \<longleftrightarrow> matcher_normalize render l = matcher_normalize render r"

lemma sql_match_equivp: "equivp (sql_match render)"
  by (rule equivpI) (auto simp: sql_match_def reflp_def symp_def transp_def)

lemma sql_match_layout: "fallback_normalize l = fallback_normalize r \<Longrightarrow> sql_match render l r"
  unfolding sql_match_def matcher_normalize_def by (simp only:)

end
