(* ===== verification/Diagnosis.thy ===== *)
theory Diagnosis
  imports Diagnosis_Models Regex
begin

text \<open>
  \<open>diagnostics/rule_classifier.py\<close>, \<open>diagnostics/diagnosis_fusion.py\<close> and the part of
  \<open>diagnostics/llm_diagnoser.py\<close> after the LLM call. The results shown: the classifier trusts a
  known category of the log before the phrases of the error text, its confidence tells the three
  sources apart, and the keywords of a fused diagnosis come from the vocabulary of the type it
  chooses, whatever the LLM answers.
\<close>

section \<open>The rule classifier\<close>

definition rule_phrases :: "(error_type \<times> string list) list" where
  "rule_phrases =
     [(COLUMN_NOT_FOUND, [''invalid column'', ''unknown column'', ''column not found'', ''invalid column reference'']),
      (TABLE_NOT_FOUND, [''table not found'', ''table does not exist'']),
      (TYPE_MISMATCH, [''type mismatch'', ''cannot cast'', ''cannot compare'']),
      (PERMISSION_ERROR, [''permission denied'', ''access denied'', ''not authorized'']),
      (SQL_SYNTAX_ERROR, [''syntax error'', ''parseexception''])]"

definition evidence_of :: "diagnosis_input \<Rightarrow> string" where
  "evidence_of i = or_text (or_opt (ld_suspected_engine_error (di_log_digest i)) (di_error_message i)) []"

text \<open>\<open>DiagnosedErrorType(category)\<close> with \<open>UNKNOWN\<close> where it raises.\<close>

definition category_type :: "string list \<Rightarrow> error_type" where
  "category_type cs =
     (case error_type_of (case cs of [] \<Rightarrow> ''UNKNOWN'' | c # _ \<Rightarrow> c) of None \<Rightarrow> UNKNOWN | Some t \<Rightarrow> t)"

definition phrase_type :: "string \<Rightarrow> error_type option" where
  "phrase_type evidence =
     map_option fst (List.find (\<lambda>(t, phrases). \<exists>p \<in> set phrases. contains p (casefold evidence)) rule_phrases)"

definition classify :: "diagnosis_input \<Rightarrow> rule_diagnosis" where
  "classify i =
     (let evidence = evidence_of i; categories = ld_matched_categories (di_log_digest i);
          t0 = category_type categories;
          c0 = (if categories \<noteq> [] then 9/10 else if evidence \<noteq> [] then 45/100 else 0);
          (t, c) = (if t0 = UNKNOWN
                    then (case phrase_type evidence of None \<Rightarrow> (t0, c0) | Some t1 \<Rightarrow> (t1, 7/10))
                    else (t0, c0))
      in \<lparr>rd_error_type = t, rd_keywords = vocab_get (di_keyword_vocab i) (error_type_value t) [],
          rd_primary_evidence = (if evidence = [] then None else Some evidence), rd_confidence = c,
          rd_matched_rules = (if t = UNKNOWN then [] else [error_type_value t])\<rparr>)"

section \<open>The entity of an error\<close>

definition rx_quote :: regex where
  "rx_quote = rx_opt (Chars (\<lambda>c. c = CHR 0x60 \<or> c = CHR 0x27 \<or> c = CHR 0x22))"

definition rx_name :: regex where
  "rx_name = Group 1 (Cat (Chars (\<lambda>c. is_upper c \<or> is_lower c \<or> c = CHR ''_''))
                          (Star (Chars (\<lambda>c. is_word_char c \<or> c = CHR ''$''))))"

definition rx_colons :: regex where
  "rx_colons = Cat (Star rx_space) (rx_plus (Chars (\<lambda>c. c = CHR '':'' \<or> c = CHR '' '')))"

definition entity_patterns :: "regex list" where
  "entity_patterns =
     [rx_cat [rx_ilit ''invalid column reference'', rx_plus rx_space, rx_quote, rx_name],
      rx_cat [rx_alt [rx_ilit ''column not found'', rx_ilit ''unknown column'', rx_ilit ''cannot resolve column''],
              rx_colons, rx_quote, rx_name],
      rx_cat [rx_ilit ''table'', rx_alt [rx_ilit '' not found'', rx_ilit '' does not exist''], rx_colons, rx_quote,
              Group 1 (rx_plus (Chars (\<lambda>c. is_word_char c \<or> c = CHR ''.'')))],
      rx_cat [rx_ilit ''cannot'', rx_plus rx_space, rx_ilit ''compare'', rx_plus rx_space, rx_quote, rx_name],
      rx_cat [rx_ilit ''cannot'', rx_plus rx_space, rx_ilit ''cast'', rx_plus rx_space, rx_quote, rx_name],
      rx_cat [rx_ilit ''type'', rx_plus rx_space, rx_ilit ''mismatch'',
              Lazy_Star (Chars (\<lambda>c. c \<noteq> CHR 0x0A)), rx_alt [rx_ilit ''column'', rx_ilit ''field''],
              rx_plus rx_space, rx_quote, rx_name]]"

fun first_group :: "regex list \<Rightarrow> string \<Rightarrow> string option" where
  "first_group [] s = None"
| "first_group (r # rs) s =
     (case rx_search r s of Some g \<Rightarrow> Some (rx_group 1 g) | None \<Rightarrow> first_group rs s)"

definition entity :: "string option \<Rightarrow> string option" where
  "entity evidence =
     (case evidence of None \<Rightarrow> None | Some s \<Rightarrow> if s = [] then None else first_group entity_patterns s)"

section \<open>The LLM diagnosis and its fusion with the rules\<close>

text \<open>\<open>LLMDiagnoser.diagnose\<close> after \<open>generate_structured\<close>: unknown keywords are dropped.\<close>

definition filter_keywords :: "keyword_vocab \<Rightarrow> llm_diagnosis \<Rightarrow> llm_diagnosis" where
  "filter_keywords v r = r\<lparr>lm_keywords := filter (\<lambda>k. \<exists>ks \<in> set (map snd v). k \<in> set ks) (lm_keywords r)\<rparr>"

definition non_repairable :: "error_type list" where
  "non_repairable = [PERMISSION_ERROR, RESOURCE_EXHAUSTED, INFRASTRUCTURE_ERROR]"

text \<open>The choice between the two results: when does the answer of the LLM replace the rule's?\<close>

definition llm_wins :: "rule_diagnosis \<Rightarrow> llm_diagnosis \<Rightarrow> bool" where
  "llm_wins r l \<longleftrightarrow> lm_error_type l = rd_error_type r \<or> rd_confidence r \<le> lm_confidence l"

definition chosen_keywords ::
  "keyword_vocab \<Rightarrow> error_type \<Rightarrow> string list \<Rightarrow> llm_diagnosis option \<Rightarrow> string list" where
  "chosen_keywords v t rule_keywords llm =
     (let allowed = vocab_get v (error_type_value t) [];
          ks = (case llm of None \<Rightarrow> rule_keywords
                | Some l \<Rightarrow> dedup (filter (\<lambda>k. k \<in> set allowed) (lm_keywords l) @
                                    filter (\<lambda>k. k \<in> set allowed) rule_keywords))
      in if ks = [] then vocab_get v (error_type_value t) (vocab_get v ''UNKNOWN'' []) else ks)"

definition mentions_hive :: "string option \<Rightarrow> string option \<Rightarrow> bool" where
  "mentions_hive a b \<longleftrightarrow> contains ''hive'' (casefold (or_text a [])) \<or> contains ''hive'' (casefold (or_text b []))"

definition fingerprint :: "error_type \<Rightarrow> string option \<Rightarrow> string \<Rightarrow> string" where
  "fingerprint t e hint = error_type_value t @ '':'' @ casefold (or_text e ''unknown'') @ '':'' @ hint"

definition fuse :: "diagnosis_input \<Rightarrow> rule_diagnosis \<Rightarrow> llm_diagnosis option \<Rightarrow> diagnosis_result outcome" where
  "fuse i r llm =
     (let t0 = rd_error_type r; rep0 = (t0 \<notin> set non_repairable \<and> t0 \<noteq> UNKNOWN);
          won = (case llm of None \<Rightarrow> None | Some l \<Rightarrow> if llm_wins r l then Some l else None);
          t = (case won of None \<Rightarrow> t0 | Some l \<Rightarrow> lm_error_type l);
          conf = (case won of None \<Rightarrow> rd_confidence r | Some l \<Rightarrow> max (rd_confidence r) (lm_confidence l));
          reason = (case won of None \<Rightarrow> ''rule fallback'' | Some _ \<Rightarrow> ''rule and LLM fusion'');
          ev = (case won of None \<Rightarrow> rd_primary_evidence r
                | Some l \<Rightarrow> or_opt (lm_primary_evidence l) (rd_primary_evidence r));
          root = (case won of None \<Rightarrow> ld_root_cause_summary (di_log_digest i)
                  | Some l \<Rightarrow> Some (lm_root_cause_summary l));
          rep = (case won of None \<Rightarrow> rep0 | Some l \<Rightarrow> lm_is_repairable l);
          manual = (case won of None \<Rightarrow> if rep0 then None else Some reason_no_safe_basis
                    | Some l \<Rightarrow> lm_manual_reason l);
          ks = chosen_keywords (di_keyword_vocab i) t (rd_keywords r) llm;
          ent = entity (or_opt ev root);
          hint = (if mentions_hive ev root then ''hive'' else ''unknown'')
      in if \<not> unit_interval conf then Inl (ValidationError ''confidence'')
         else Inr \<lparr>dr_error_type = t, dr_keywords = ks, dr_fingerprint = fingerprint t ent hint,
                dr_primary_evidence = ev, dr_root_cause_summary = root, dr_confidence = conf,
                dr_rule_result = Some r, dr_llm_result = llm, dr_fusion_reason = Some reason,
                dr_is_repairable = rep, dr_manual_reason = manual, dr_primary_entity = ent,
                dr_engine_hint = Some hint\<rparr>)"

section \<open>Facts\<close>

text \<open>The three sources of a rule diagnosis, told apart by the confidence.\<close>

lemma classify_category:
  "ld_matched_categories (di_log_digest i) = c # cs \<Longrightarrow> error_type_of c = Some t \<Longrightarrow> t \<noteq> UNKNOWN \<Longrightarrow>
     rd_error_type (classify i) = t \<and> rd_confidence (classify i) = 9/10"
  by (simp add: classify_def category_type_def Let_def)

lemma category_type_Nil [simp]: "category_type [] = UNKNOWN"
  using error_type_of_value [of UNKNOWN] by (simp add: category_type_def)

lemma phrase_type_known: "phrase_type e = Some t \<Longrightarrow> t \<in> fst ` set rule_phrases"
  by (auto simp: phrase_type_def dest!: find_Some_in intro: rev_image_eqI)

lemma phrase_type_not_unknown: "phrase_type e \<noteq> Some UNKNOWN"
  by (auto dest!: phrase_type_known simp: rule_phrases_def)

lemma classify_keywords:
  "rd_keywords (classify i) = vocab_get (di_keyword_vocab i) (error_type_value (rd_error_type (classify i))) []"
  by (simp add: classify_def Let_def split: prod.splits)

lemma classify_matched:
  "rd_matched_rules (classify i) =
     (if rd_error_type (classify i) = UNKNOWN then [] else [error_type_value (rd_error_type (classify i))])"
  by (simp add: classify_def Let_def split: prod.splits)

lemma classify_confidence:
  "rd_confidence (classify i) \<in> {0, 45/100, 7/10, 9/10}"
  by (simp add: classify_def Let_def split: prod.splits option.splits)

lemma classify_unit: "unit_interval (rd_confidence (classify i))"
  using classify_confidence [of i] by (auto simp: unit_interval_def)

lemma classify_unknown_iff:
  "rd_error_type (classify i) = UNKNOWN \<longleftrightarrow>
     category_type (ld_matched_categories (di_log_digest i)) = UNKNOWN \<and> phrase_type (evidence_of i) = None"
  using phrase_type_not_unknown [of "evidence_of i"]
  by (auto simp: classify_def Let_def split: prod.splits option.splits)

text \<open>The fusion fails only where the LLM's confidence leaves the unit interval.\<close>

lemma fuse_total:
  assumes "unit_interval (rd_confidence r)" "\<And>l. llm = Some l \<Longrightarrow> unit_interval (lm_confidence l)"
  shows "\<exists>d. fuse i r llm = Inr d"
  using assms by (auto simp: fuse_def Let_def unit_interval_def max_def split: option.splits if_splits)

lemma chosen_keywords_allowed:
  assumes "set ks \<subseteq> set (vocab_get v (error_type_value t) [])"
  shows "set (chosen_keywords v t ks llm) \<subseteq> set (vocab_get v (error_type_value t) (vocab_get v ''UNKNOWN'' []))"
  using assms
  by (auto simp: chosen_keywords_def Let_def vocab_get_def split: option.splits if_splits)

lemma chosen_keywords_llm:
  "set (chosen_keywords v t ks (Some l)) \<subseteq> set (vocab_get v (error_type_value t) (vocab_get v ''UNKNOWN'' []))"
  by (auto simp: chosen_keywords_def Let_def vocab_get_def split: option.splits if_splits)

lemma fuse_fields:
  assumes "fuse i r llm = Inr d"
  shows "dr_keywords d = chosen_keywords (di_keyword_vocab i) (dr_error_type d) (rd_keywords r) llm"
    and "dr_fingerprint d = fingerprint (dr_error_type d) (dr_primary_entity d) (or_text (dr_engine_hint d) [])"
    and "dr_rule_result d = Some r" "dr_llm_result d = llm" "unit_interval (dr_confidence d)"
    and "dr_error_type d =
      (case llm of None \<Rightarrow> rd_error_type r | Some l \<Rightarrow> if llm_wins r l then lm_error_type l else rd_error_type r)"
    and "rd_confidence r \<le> dr_confidence d"
    and "llm = None \<Longrightarrow> dr_is_repairable d \<longleftrightarrow> rd_error_type r \<notin> set non_repairable \<and> rd_error_type r \<noteq> UNKNOWN"
    and "llm = None \<Longrightarrow> \<not> dr_is_repairable d \<Longrightarrow> dr_manual_reason d = Some reason_no_safe_basis"
  using assms by (auto simp: fuse_def Let_def split: if_splits option.splits)

text \<open>A diagnosis of the pipeline has only keywords of its own type, or the fallback's.\<close>

lemma fuse_classified_keywords:
  assumes "fuse i (classify i) llm = Inr d"
  shows "set (dr_keywords d) \<subseteq>
    set (vocab_get (di_keyword_vocab i) (error_type_value (dr_error_type d)) (vocab_get (di_keyword_vocab i) ''UNKNOWN'' []))"
proof (cases llm)
  case None
  have "dr_error_type d = rd_error_type (classify i)"
    using fuse_fields(6) [OF assms] None by simp
  then have "set (rd_keywords (classify i)) \<subseteq> set (vocab_get (di_keyword_vocab i) (error_type_value (dr_error_type d)) [])"
    using classify_keywords [of i] by simp
  then show ?thesis using fuse_fields(1) [OF assms] by (simp add: chosen_keywords_allowed)
next
  case (Some l)
  then show ?thesis using fuse_fields(1) [OF assms] chosen_keywords_llm by simp
qed

end
