(* ===== verification/Repair_Planner.thy ===== *)
theory Repair_Planner
  imports Metadata
begin

text \<open>
  \<open>repair/repair_planner.py\<close>. The planner repairs two kinds of errors only, with one action over a
  fragment the diagnosis named and a column the metadata of the statement holds; everything else is
  a manual recommendation. An experience of the memory is referenced only when it speaks of the planned
  replacement, and never decides what is replaced. The number \<open>uuid4().hex\<close> is an argument.
\<close>

definition constraints :: "string list" where
  "constraints = [con_from, con_where, con_join, con_group, con_window, con_target, con_partition, con_fragment]"

definition manual_plan :: "string \<Rightarrow> string \<Rightarrow> repair_plan" where
  "manual_plan uid m =
     \<lparr>pl_id = ''plan_'' @ uid, pl_repairable = False, pl_actions = [], pl_constraints = constraints,
      pl_experience_ids = [], pl_manual = Some m, pl_confidence = 0\<rparr>"

definition snapshot_columns :: "metadata_snapshot \<Rightarrow> column_metadata list" where
  "snapshot_columns ms = concat (map tm_columns (ms_tables ms))"

definition experience_matches :: "diagnosis_result \<Rightarrow> string \<Rightarrow> experience_summary \<Rightarrow> bool" where
  "experience_matches d replacement x \<longleftrightarrow>
     (let description = casefold (es_description x); e = casefold (or_text (dr_primary_entity d) [])
      in contains replacement description \<and> (e = [] \<or> contains e description) \<and>
         set (es_matched_by x) \<inter> set (dr_keywords d) \<noteq> {})"

definition matching_memory_ids :: "planner_input \<Rightarrow> string \<Rightarrow> string list" where
  "matching_memory_ids i planned =
     (case (pi_memory i, pi_metadata i) of
        (Some memory, Some ms) \<Rightarrow>
          let d = pi_diagnosis i; replacement = casefold planned in
          if dr_error_type d = COLUMN_NOT_FOUND \<and> replacement \<notin> set (map (casefold \<circ> cm_name) (snapshot_columns ms))
          then []
          else dedup (map es_experience_id (filter (experience_matches d replacement) (mr_experiences memory)))
      | _ \<Rightarrow> [])"

definition one_action_plan ::
  "string \<Rightarrow> repair_action_type \<Rightarrow> string \<Rightarrow> string \<Rightarrow> string \<Rightarrow> string option \<Rightarrow> action_risk \<Rightarrow>
     string list \<Rightarrow> rat \<Rightarrow> repair_plan" where
  "one_action_plan uid ty target replacement reason evidence risk ids conf =
     \<lparr>pl_id = ''plan_'' @ uid, pl_repairable = True,
      pl_actions = [\<lparr>rp_type = ty, rp_target = Some target, rp_replacement = Some replacement,
        rp_reason = reason, rp_evidence = evidence, rp_risk = risk\<rparr>],
      pl_constraints = constraints, pl_experience_ids = ids, pl_manual = None, pl_confidence = conf\<rparr>"

definition cast_of :: "string \<Rightarrow> string" where
  "cast_of e = ''CAST('' @ e @ '' AS BIGINT)''"

definition plan_cast :: "string \<Rightarrow> planner_input \<Rightarrow> string \<Rightarrow> metadata_snapshot \<Rightarrow> repair_plan" where
  "plan_cast uid i e ms =
     (case List.find (\<lambda>c. casefold (cm_name c) = casefold e) (snapshot_columns ms) of
        None \<Rightarrow> manual_plan uid msg_type_metadata
      | Some c \<Rightarrow>
          if \<not> truthy (cm_data_type c) then manual_plan uid msg_type_metadata
          else one_action_plan uid ADD_CAST e (cast_of e) reason_cast (dr_primary_evidence (pi_diagnosis i)) AR_MEDIUM
                 (matching_memory_ids i (cast_of e)) (8/10))"

definition plan_column :: "string \<Rightarrow> planner_input \<Rightarrow> string \<Rightarrow> metadata_snapshot \<Rightarrow> repair_plan" where
  "plan_column uid i e ms =
     (case find_column_candidates e (ms_tables ms) of
        [] \<Rightarrow> manual_plan uid msg_no_column
      | best # rest \<Rightarrow>
          let second = (case rest of [] \<Rightarrow> - 1 | c # _ \<Rightarrow> cc_score c) in
          if cc_score best < 4/10 \<or> cc_score best - second < 5/100 then manual_plan uid msg_ambiguous_column
          else let ids = matching_memory_ids i (cc_candidate_name best) in
            one_action_plan uid REPLACE_COLUMN e (cc_candidate_name best)
              (if ids \<noteq> [] then reason_memory_supported else reason_metadata_only)
              (dr_primary_evidence (pi_diagnosis i)) AR_LOW ids (min (95/100) (cc_score best)))"

text \<open>The entity and the snapshot, when both are there.\<close>

definition with_evidence ::
  "planner_input \<Rightarrow> repair_plan \<Rightarrow> (string \<Rightarrow> metadata_snapshot \<Rightarrow> repair_plan) \<Rightarrow> repair_plan" where
  "with_evidence i missing f =
     (case (dr_primary_entity (pi_diagnosis i), pi_metadata i) of
        (Some e, Some ms) \<Rightarrow> if e = [] then missing else f e ms
      | _ \<Rightarrow> missing)"

definition make_plan :: "string \<Rightarrow> planner_input \<Rightarrow> repair_plan" where
  "make_plan uid i =
     (let d = pi_diagnosis i in
      if pi_post_status i = Some ''OSCILLATING'' then manual_plan uid msg_oscillating
      else if \<not> dr_is_repairable d then manual_plan uid (or_text (dr_manual_reason d) msg_not_repairable)
      else if dr_error_type d = TYPE_MISMATCH
        then with_evidence i (manual_plan uid msg_type_field) (plan_cast uid i)
      else if dr_error_type d \<noteq> COLUMN_NOT_FOUND then manual_plan uid msg_no_action
      else with_evidence i (manual_plan uid msg_column_unknown) (plan_column uid i))"

section \<open>Facts\<close>

text \<open>What supports the one action of a repairable plan.\<close>

fun action_supported :: "planner_input \<Rightarrow> repair_action \<Rightarrow> bool" where
  "action_supported i a =
     (case (dr_primary_entity (pi_diagnosis i), pi_metadata i) of
        (Some e, Some ms) \<Rightarrow> e \<noteq> [] \<and> rp_target a = Some e \<and>
          (rp_type a = ADD_CAST \<and> dr_error_type (pi_diagnosis i) = TYPE_MISMATCH \<and> rp_replacement a = Some (cast_of e) \<and>
             (\<exists>c \<in> set (snapshot_columns ms). casefold (cm_name c) = casefold e \<and> truthy (cm_data_type c)) \<or>
           rp_type a = REPLACE_COLUMN \<and> dr_error_type (pi_diagnosis i) = COLUMN_NOT_FOUND \<and>
             (\<exists>b rest. find_column_candidates e (ms_tables ms) = b # rest \<and>
                rp_replacement a = Some (cc_candidate_name b) \<and> 4/10 \<le> cc_score b \<and>
                (\<forall>c \<in> set rest. cc_score c + 5/100 \<le> cc_score b)))
      | _ \<Rightarrow> False)"

lemmas plan_defs = make_plan_def with_evidence_def plan_cast_def plan_column_def manual_plan_def one_action_plan_def Let_def

lemma plan_consistent:
  "(pl_repairable (make_plan uid i) \<longleftrightarrow> pl_manual (make_plan uid i) = None) \<and>
   (pl_repairable (make_plan uid i) \<longleftrightarrow> length (pl_actions (make_plan uid i)) = 1) \<and>
   (\<not> pl_repairable (make_plan uid i) \<longleftrightarrow> pl_actions (make_plan uid i) = []) \<and>
   pl_constraints (make_plan uid i) = constraints"
  by (simp add: plan_defs split: option.split list.split)

lemma best_beats_rest:
  assumes "find_column_candidates e ts = b # rest"
    and "5/100 \<le> cc_score b - (case rest of [] \<Rightarrow> - 1 | c # _ \<Rightarrow> cc_score c)" "c \<in> set rest"
  shows "cc_score c + 5/100 \<le> cc_score b"
proof -
  obtain r rs where rest: "rest = r # rs" using assms(3) by (cases rest) auto
  have "sorted_wrt (\<lambda>a b. cc_score b \<le> cc_score a) (b # rest)"
    using candidates_sorted [of e ts] by (simp add: assms(1))
  with rest assms(3) have "cc_score c \<le> cc_score r" by auto
  with assms(2) rest show ?thesis by simp
qed

lemma plan_cast_supported:
  assumes "dr_primary_entity (pi_diagnosis i) = Some e" "e \<noteq> []" "pi_metadata i = Some ms"
    "dr_error_type (pi_diagnosis i) = TYPE_MISMATCH" "pl_repairable (plan_cast uid i e ms)"
  shows "\<exists>a. pl_actions (plan_cast uid i e ms) = [a] \<and> action_supported i a"
  using assms
  by (auto simp: plan_cast_def manual_plan_def one_action_plan_def split: option.splits if_splits dest!: find_Some_in)

lemma plan_column_supported:
  assumes i: "dr_primary_entity (pi_diagnosis i) = Some e" "e \<noteq> []" "pi_metadata i = Some ms"
    "dr_error_type (pi_diagnosis i) = COLUMN_NOT_FOUND" and rep: "pl_repairable (plan_column uid i e ms)"
  shows "\<exists>a. pl_actions (plan_column uid i e ms) = [a] \<and> action_supported i a"
proof (cases "find_column_candidates e (ms_tables ms)")
  case Nil
  then show ?thesis using rep by (simp add: plan_column_def manual_plan_def)
next
  case (Cons b rest)
  let ?second = "case rest of [] \<Rightarrow> - 1 | c # _ \<Rightarrow> cc_score c"
  have good: "4/10 \<le> cc_score b" "5/100 \<le> cc_score b - ?second"
    using rep Cons by (auto simp: plan_column_def manual_plan_def Let_def split: if_splits)
  then have "\<forall>c \<in> set rest. cc_score c + 5/100 \<le> cc_score b"
    using best_beats_rest [OF Cons] by blast
  with good i Cons show ?thesis
    by (simp add: plan_column_def one_action_plan_def Let_def)
qed

text \<open>Every plan that lets the generator change the statement is backed by evidence.\<close>

lemma repairable_supported:
  assumes "pl_repairable (make_plan uid i)"
  shows "pi_post_status i \<noteq> Some ''OSCILLATING''" "dr_is_repairable (pi_diagnosis i)"
    "\<exists>a. pl_actions (make_plan uid i) = [a] \<and> action_supported i a"
proof -
  let ?d = "pi_diagnosis i"
  show run: "pi_post_status i \<noteq> Some ''OSCILLATING''" "dr_is_repairable ?d"
    using assms by (auto simp: make_plan_def manual_plan_def Let_def split: if_splits)
  have kind: "dr_error_type ?d = TYPE_MISMATCH \<or> dr_error_type ?d = COLUMN_NOT_FOUND"
    using assms run by (auto simp: make_plan_def manual_plan_def Let_def split: if_splits)
  obtain e ms where e: "dr_primary_entity ?d = Some e" "e \<noteq> []" "pi_metadata i = Some ms"
    using assms run kind
    by (auto simp: make_plan_def manual_plan_def with_evidence_def Let_def split: if_splits option.splits)
  show "\<exists>a. pl_actions (make_plan uid i) = [a] \<and> action_supported i a"
  proof (cases "dr_error_type ?d = TYPE_MISMATCH")
    case True
    with run e have "make_plan uid i = plan_cast uid i e ms" by (simp add: make_plan_def with_evidence_def Let_def)
    with plan_cast_supported [OF e True] assms show ?thesis by simp
  next
    case False
    with kind run e have "make_plan uid i = plan_column uid i e ms" "dr_error_type ?d = COLUMN_NOT_FOUND"
      by (auto simp: make_plan_def with_evidence_def Let_def)
    with plan_column_supported [OF e] assms show ?thesis by simp
  qed
qed

text \<open>The replacement of a column is a column of the statement's own tables.\<close>

lemma replacement_known:
  assumes "find_column_candidates e (ms_tables ms) = b # rest"
  shows "cc_candidate_name b \<in> cm_name ` set (snapshot_columns ms)"
proof -
  have "b \<in> set (find_column_candidates e (ms_tables ms))" by (simp add: assms)
  then show ?thesis by (auto simp: candidates_set snapshot_columns_def column_candidate_of_def Let_def)
qed

definition confidence_ok :: "repair_plan \<Rightarrow> bool" where
  "confidence_ok p \<longleftrightarrow> 0 \<le> pl_confidence p \<and> pl_confidence p \<le> 95/100"

lemma confidence_manual: "confidence_ok (manual_plan uid m)"
  by (simp add: confidence_ok_def manual_plan_def)

lemma confidence_cast: "confidence_ok (plan_cast uid i e ms)"
  by (simp add: plan_cast_def confidence_manual split: option.split)
    (simp add: confidence_ok_def one_action_plan_def)

lemma confidence_column: "confidence_ok (plan_column uid i e ms)"
proof (cases "find_column_candidates e (ms_tables ms)")
  case Nil
  then show ?thesis by (simp add: plan_column_def confidence_manual)
next
  case (Cons b rest)
  then have "b \<in> set (find_column_candidates e (ms_tables ms))" by simp
  then have "0 \<le> cc_score b" using score_unit by (auto simp: candidates_set)
  then have "confidence_ok (one_action_plan uid ty t r rs ev k ids (min (95/100) (cc_score b)))" for ty t r rs ev k ids
    by (auto simp: confidence_ok_def one_action_plan_def min_def)
  with Cons show ?thesis by (simp add: plan_column_def confidence_manual Let_def)
qed

lemma plan_confidence: "0 \<le> pl_confidence (make_plan uid i) \<and> pl_confidence (make_plan uid i) \<le> 95/100"
  unfolding confidence_ok_def [symmetric]
  by (simp add: make_plan_def with_evidence_def Let_def confidence_manual confidence_cast confidence_column
      split: option.split)

text \<open>What the memory holds changes the justification of a plan, never the change itself.\<close>

definition plan_change :: "repair_plan \<Rightarrow> (repair_action_type \<times> string option \<times> string option) list" where
  "plan_change p = map (\<lambda>a. (rp_type a, rp_target a, rp_replacement a)) (pl_actions p)"

lemma plan_ignores_memory:
  "plan_change (make_plan uid (i\<lparr>pi_memory := m\<rparr>)) = plan_change (make_plan uid' i)"
  by (simp add: plan_defs plan_change_def split: option.split list.split)

lemma matching_memory_ids_known:
  assumes "x \<in> set (matching_memory_ids i planned)"
  obtains m where "pi_memory i = Some m" "x \<in> es_experience_id ` set (mr_experiences m)"
proof (cases "pi_memory i")
  case None
  then show ?thesis using assms by (simp add: matching_memory_ids_def)
next
  case (Some m)
  then show ?thesis using assms that
    by (auto simp: matching_memory_ids_def Let_def split: option.splits if_splits)
qed

lemma memory_ids_known:
  "x \<in> set (pl_experience_ids (make_plan uid i)) \<Longrightarrow>
     \<exists>m. pi_memory i = Some m \<and> x \<in> es_experience_id ` set (mr_experiences m)"
  by (auto simp: plan_defs elim!: matching_memory_ids_known split: option.splits list.splits if_splits)

end
