(* ===== verification/Memory.thy ===== *)
theory Memory
  imports Repair_Models "HOL-Library.Product_Lexorder"
begin

text \<open>
  \<open>memory/keyword_list.py\<close>, \<open>memory_store.py\<close>, \<open>memory_retriever.py\<close> and
  \<open>memory_writer.py\<close>: experiences are markdown files with a front matter, found again through an
  index of their keywords. The main facts: what the writer puts into the front matter is what the
  store reads back; every write leaves an exact index; a retrieval through the index
  finds what a scan of all files finds; confirming the same attempt twice stores one experience.

  A file is its text and its modification time; the index file is the value it decodes to. Lines
  end as in ASCII texts.
\<close>

record memory_disk =
  md_files :: "(string, string \<times> int) dict"
  md_index :: "(string, string list) dict option"

section \<open>Keywords\<close>

text \<open>\<open>KeywordList.values\<close>, with the two assertions of the constructor, and \<open>normalize\<close>.\<close>

definition keyword_values :: "keyword_vocab \<Rightarrow> string list" where
  "keyword_values v = concat (map snd v) @ [''unknown'']"

definition mk_keyword_list :: "keyword_vocab \<Rightarrow> string list outcome" where
  "mk_keyword_list v =
     (if ''column_not_found'' \<notin> set (keyword_values v) \<or> ''COLUMN_NOT_FOUND'' \<in> set (keyword_values v)
      then Inl (OtherError ''AssertionError'') else Inr (keyword_values v))"

definition normalize_keywords :: "string list \<Rightarrow> string list \<Rightarrow> string list" where
  "normalize_keywords vals ks =
     (let valid = dedup (filter (\<lambda>k. k \<in> set vals) ks) in if valid = [] then [''unknown''] else valid)"

lemma normalize_keywords_nonempty [simp]: "normalize_keywords vals ks \<noteq> []"
  by (simp add: normalize_keywords_def Let_def)

lemma normalize_keywords_sub: "set (normalize_keywords vals ks) \<subseteq> insert ''unknown'' (set vals)"
  by (auto simp: normalize_keywords_def Let_def)

lemma normalize_keywords_distinct: "distinct (normalize_keywords vals ks)"
  by (simp add: normalize_keywords_def Let_def)

lemma normalize_keywords_idem:
  "''unknown'' \<in> set vals \<Longrightarrow> normalize_keywords vals (normalize_keywords vals ks) = normalize_keywords vals ks"
proof -
  assume u: "''unknown'' \<in> set vals"
  have "set (normalize_keywords vals ks) \<subseteq> set vals" using normalize_keywords_sub [of vals ks] u by auto
  then have "filter (\<lambda>k. k \<in> set vals) (normalize_keywords vals ks) = normalize_keywords vals ks"
    by (simp add: filter_id_conv subset_code(1))
  then show ?thesis
    using normalize_keywords_distinct [of vals ks]
    by (simp add: normalize_keywords_def [of vals "normalize_keywords vals ks"] dedup_distinct)
qed

section \<open>The front matter\<close>

definition line_break :: "char \<Rightarrow> bool" where
  "line_break c \<longleftrightarrow> (let n = code c in 10 \<le> n \<and> n \<le> 12 \<or> 28 \<le> n \<and> n \<le> 30)"

text \<open>\<open>splitlines()\<close> of a text read in text mode, which holds no carriage return.\<close>

fun splitlines_from :: "string \<Rightarrow> string \<Rightarrow> string list" where
  "splitlines_from acc [] = (if acc = [] then [] else [rev acc])"
| "splitlines_from acc (c # cs) =
     (if line_break c then rev acc # splitlines_from [] cs else splitlines_from (c # acc) cs)"

definition splitlines :: "string \<Rightarrow> string list" where
  "splitlines s = splitlines_from [] s"

record frontmatter =
  fm_keyword :: "string list"
  fm_description :: string

text \<open>The text after the first colon.\<close>

definition after_colon :: "string \<Rightarrow> string" where
  "after_colon l = drop 1 (dropWhile (\<lambda>c. c \<noteq> CHR '':'') l)"

fun scan_fields :: "string list \<Rightarrow> string list \<Rightarrow> string option \<Rightarrow> bool \<Rightarrow> frontmatter outcome" where
  "scan_fields [] ks d b = Inr \<lparr>fm_keyword = ks, fm_description = or_text d []\<rparr>"
| "scan_fields (l # ls) ks d b =
     (if l = ''keyword:'' then scan_fields ls ks d True
      else if is_prefix ''description:'' l then scan_fields ls ks (Some (strip (after_colon l))) False
      else if b \<and> is_prefix ''- '' (strip l) then scan_fields ls (ks @ [strip (drop 2 (strip l))]) d b
      else if strip l \<noteq> [] then Inl (ValueError ''unsupported frontmatter field'')
      else scan_fields ls ks d b)"

definition dashes :: string where "dashes = ''---''"

definition parse_frontmatter :: "string \<Rightarrow> frontmatter outcome" where
  "parse_frontmatter text =
     (case splitlines text of
        [] \<Rightarrow> Inl (ValueError ''missing frontmatter'')
      | l # ls \<Rightarrow>
          if l \<noteq> dashes then Inl (ValueError ''missing frontmatter'')
          else if dashes \<notin> set ls then Inl (ValueError ''is not in list'')
          else scan_fields (takeWhile (\<lambda>x. x \<noteq> dashes) ls) [] None False)"

text \<open>The text before and after the first occurrence of a pattern.\<close>

fun split_first :: "string \<Rightarrow> string \<Rightarrow> (string \<times> string) option" where
  "split_first pat [] = None"
| "split_first pat (c # cs) =
     (if is_prefix pat (c # cs) then Some ([], drop (length pat) (c # cs))
      else map_option (\<lambda>(a, b). (c # a, b)) (split_first pat cs))"

definition body_of :: "string \<Rightarrow> string" where
  "body_of text =
     (case split_first dashes text of
        None \<Rightarrow> []
      | Some (_, r) \<Rightarrow> (case split_first dashes r of None \<Rightarrow> [] | Some (_, t) \<Rightarrow> lstrip t))"

section \<open>The store\<close>

text \<open>\<open>sorted(glob("*.md"))\<close> compares file names, the suffix included.\<close>

definition file_name :: "string \<Rightarrow> string" where "file_name i = i @ ''.md''"

definition list_ids :: "memory_disk \<Rightarrow> string list" where
  "list_ids m = sort_key file_name (dict_keys (md_files m))"

text \<open>\<open>path.read_text(encoding="utf-8")\<close> in text mode.\<close>

definition read_text :: "memory_disk \<Rightarrow> string \<Rightarrow> string outcome" where
  "read_text m i =
     (case dict_get (md_files m) i of None \<Rightarrow> Inl (FileNotFound i) | Some (t, _) \<Rightarrow> Inr (normalize_newlines t))"

definition read_frontmatter :: "memory_disk \<Rightarrow> string \<Rightarrow> frontmatter outcome" where
  "read_frontmatter m i = and_then (read_text m i) parse_frontmatter"

definition read_body :: "memory_disk \<Rightarrow> string \<Rightarrow> string outcome" where
  "read_body m i = and_then (read_text m i) (\<lambda>t. Inr (body_of t))"

definition load_index :: "memory_disk \<Rightarrow> (string, string list) dict" where
  "load_index m = (case md_index m of None \<Rightarrow> [] | Some d \<Rightarrow> map (\<lambda>(k, v). (k, dedup v)) d)"

definition add_to_index :: "string \<Rightarrow> string \<Rightarrow> (string, string list) dict \<Rightarrow> (string, string list) dict" where
  "add_to_index i k d = dict_set k ((case dict_get d k of None \<Rightarrow> [] | Some v \<Rightarrow> v) @ [i]) d"

definition index_of :: "(string \<times> frontmatter) list \<Rightarrow> (string, string list) dict" where
  "index_of fs =
     (let d = fold (\<lambda>(i, f). fold (add_to_index i) (fm_keyword f)) fs []
      in map (\<lambda>(k, v). (k, sort (remdups v))) (sort_key fst d))"

definition rebuild_index :: "(memory_disk, (string, string list) dict) io" where
  "rebuild_index m =
     (case traverse (\<lambda>i. and_then (read_frontmatter m i) (\<lambda>f. Inr (i, f))) (list_ids m) of
        Inl e \<Rightarrow> (Inl e, m)
      | Inr fs \<Rightarrow> (Inr (index_of fs), m\<lparr>md_index := Some (index_of fs)\<rparr>))"

definition put_experience :: "string \<Rightarrow> string \<Rightarrow> int \<Rightarrow> memory_disk \<Rightarrow> memory_disk" where
  "put_experience i t mtime m = m\<lparr>md_files := dict_set i (t, mtime) (md_files m)\<rparr>"

definition save_markdown :: "string \<Rightarrow> string \<Rightarrow> int \<Rightarrow> (memory_disk, unit) io" where
  "save_markdown i content mtime =
     seq (modify (put_experience i content mtime)) (seq rebuild_index (ret ()))"

definition logical_marker :: "string \<Rightarrow> string \<Rightarrow> string" where
  "logical_marker s a = ''logical-key: '' @ s @ '':'' @ a"

definition has_marker :: "memory_disk \<Rightarrow> string \<Rightarrow> string \<Rightarrow> bool" where
  "has_marker m marker i = (case read_body m i of Inl _ \<Rightarrow> False | Inr b \<Rightarrow> contains marker b)"

text \<open>The files listed exist, so \<open>read_body\<close> does not raise here.\<close>

definition find_by_logical_key :: "memory_disk \<Rightarrow> string \<Rightarrow> string \<Rightarrow> string option" where
  "find_by_logical_key m s a = List.find (has_marker m (logical_marker s a)) (list_ids m)"

section \<open>The writer\<close>

record confirmed_input =
  ci_session_id :: string
  ci_attempt_id :: string
  ci_original_sql :: string
  ci_confirmed_sql :: string
  ci_keywords :: "string list"
  ci_description :: string
  ci_modification :: string
  ci_error_summary :: string

definition single_line :: "string \<Rightarrow> string" where
  "single_line v = py_take 500 (join_with '' '' (words (fst (replace_all dashes [] v))))"

definition body_text :: "string \<Rightarrow> string" where
  "body_text v = py_take 20000 (fst (replace_all dashes em_dash v))"

definition nl :: string where "nl = [CHR 0x0A]"

definition unlines :: "string list \<Rightarrow> string" where
  "unlines ls = concat (map (\<lambda>l. l @ nl) ls)"

definition item_line :: "string \<Rightarrow> string" where "item_line k = ''  - '' @ k"
definition description_line :: "string \<Rightarrow> string" where "description_line d = ''description: '' @ d"

definition front_lines :: "string list \<Rightarrow> string \<Rightarrow> string list" where
  "front_lines ks d = [dashes, ''keyword:''] @ map item_line ks @ [description_line d, dashes]"

definition marker_line :: "confirmed_input \<Rightarrow> string" where
  "marker_line x = ''<!-- '' @ logical_marker (ci_session_id x) (ci_attempt_id x) @ '' -->''"

definition body_lines :: "confirmed_input \<Rightarrow> string list" where
  "body_lines x =
     [[], ''## Problem'', [], body_text (ci_description x), [], ''## Original SQL'', [], ci_original_sql x, [],
      ''## Error'', [], body_text (ci_error_summary x), [], ''## Confirmed SQL'', [], ci_confirmed_sql x, [],
      ''## Modification'', [], body_text (ci_modification x), [], ''## Applicable Conditions'', [],
      memory_conditions_text, []]"

definition experience_text :: "string list \<Rightarrow> confirmed_input \<Rightarrow> string" where
  "experience_text ks x =
     unlines (front_lines ks (single_line (ci_description x))) @ unlines (body_lines x) @ unlines [marker_line x]"

text \<open>\<open>date\<close> is today's date, \<open>uid\<close> the first eight digits of a fresh \<open>uuid4\<close>.\<close>

definition experience_id :: "string \<Rightarrow> string \<Rightarrow> string" where
  "experience_id date uid = ''exp_'' @ date @ ''_'' @ uid"

definition write_confirmed ::
  "string list \<Rightarrow> string \<Rightarrow> string \<Rightarrow> int \<Rightarrow> confirmed_input \<Rightarrow> (memory_disk, string) io" where
  "write_confirmed vals date uid mtime x =
     bind (gets (\<lambda>m. find_by_logical_key m (ci_session_id x) (ci_attempt_id x))) (\<lambda>existing.
       if truthy existing then seq rebuild_index (ret (or_text existing []))
       else let i = experience_id date uid in
         seq (save_markdown i (experience_text (normalize_keywords vals (ci_keywords x)) x) mtime) (ret i))"

definition modification_of :: "repair_plan option \<Rightarrow> string" where
  "modification_of p = (case p of None \<Rightarrow> modification_default | Some q \<Rightarrow> join_with ''; '' (map rp_reason (pl_actions q)))"

definition success_input :: "repair_session \<Rightarrow> repair_attempt \<Rightarrow> string \<Rightarrow> repair_plan option \<Rightarrow> confirmed_input" where
  "success_input s a sql p =
     \<lparr>ci_session_id = rs_session_id s, ci_attempt_id = ra_attempt_id a, ci_original_sql = rs_original_sql s,
      ci_confirmed_sql = sql, ci_keywords = ra_keywords a, ci_description = or_text (ra_error_type a) description_default,
      ci_modification = modification_of p, ci_error_summary = or_text (ra_input_error_message a) []\<rparr>"

definition write_success ::
  "string list \<Rightarrow> string \<Rightarrow> string \<Rightarrow> int \<Rightarrow> repair_session \<Rightarrow> repair_attempt \<Rightarrow> string \<Rightarrow>
     repair_plan option \<Rightarrow> (memory_disk, string) io" where
  "write_success vals date uid mtime s a sql p =
     (if rs_status s \<noteq> SS_UPSTREAM_CONFIRMED_SUCCESS \<or> ra_status a \<noteq> AS_UPSTREAM_CONFIRMED_SUCCESS
      then raise (ValueError ''success is not confirmed'')
      else if rs_latest_sql_candidate s \<noteq> Some sql \<or> rs_latest_attempt_id s \<noteq> Some (ra_attempt_id a)
      then raise (ValueError ''SUCCESS does not match current candidate'')
      else write_confirmed vals date uid mtime (success_input s a sql p))"

section \<open>The retriever\<close>

definition query_terms :: "string \<Rightarrow> string list" where
  "query_terms q = filter (\<lambda>w. 2 < py_len w) (words q)"

text \<open>The summary of one file, when it is relevant.\<close>

definition consider_one ::
  "string list \<Rightarrow> bool \<Rightarrow> string \<Rightarrow> string \<Rightarrow> frontmatter \<Rightarrow> string \<Rightarrow> experience_summary option" where
  "consider_one ks unknown query i f body =
     (let by = filter (\<lambda>k. k \<in> set (fm_keyword f)) ks;
          text = casefold (fm_description f @ '' '' @ body);
          relevant = (if unknown then query = [] \<or> (\<exists>w \<in> set (query_terms query). contains w text) else by \<noteq> [])
      in if relevant
         then Some \<lparr>es_experience_id = i, es_keyword = fm_keyword f, es_description = fm_description f,
                es_matched_by = (if by = [] then [''unknown''] else by),
                es_artifact_ref = Some (''artifact://memory/'' @ i)\<rparr>
         else None)"

definition consider_id ::
  "memory_disk \<Rightarrow> string list \<Rightarrow> bool \<Rightarrow> string \<Rightarrow> string \<Rightarrow> experience_summary option outcome" where
  "consider_id m ks unknown query i =
     and_then (read_frontmatter m i) (\<lambda>f. and_then (read_body m i) (\<lambda>b. Inr (consider_one ks unknown query i f b)))"

text \<open>The sort key: more keywords, more query terms, newer, smaller id.\<close>

definition rank_key :: "memory_disk \<Rightarrow> string \<Rightarrow> experience_summary \<Rightarrow> int \<times> int \<times> int \<times> string" where
  "rank_key m query x =
     (- int (length (es_matched_by x)),
      - int (length (filter (\<lambda>w. contains w (casefold (es_description x))) (query_terms query))),
      - (case dict_get (md_files m) (es_experience_id x) of None \<Rightarrow> 0 | Some (_, t) \<Rightarrow> t),
      es_experience_id x)"

definition candidate_ids :: "memory_disk \<Rightarrow> string list \<Rightarrow> string list" where
  "candidate_ids m ks =
     (if ''unknown'' \<in> set ks then list_ids m
      else sort (remdups (concat (map (\<lambda>k. case dict_get (load_index m) k of None \<Rightarrow> [] | Some v \<Rightarrow> v) ks))))"

definition cut_off :: "nat option \<Rightarrow> nat \<Rightarrow> nat" where
  "cut_off limit max_hits = (case limit of None \<Rightarrow> max_hits | Some n \<Rightarrow> min (if n = 0 then max_hits else n) max_hits)"

definition retrieve_keywords ::
  "string list \<Rightarrow> nat \<Rightarrow> nat \<Rightarrow> memory_disk \<Rightarrow> string list \<Rightarrow> string option \<Rightarrow> nat option \<Rightarrow> memory_result outcome" where
  "retrieve_keywords vals max_hits scan_budget m diagnosed query_summary limit =
     (let ks = normalize_keywords vals diagnosed; unknown = (''unknown'' \<in> set ks);
          ids = candidate_ids m ks; query = casefold (or_text query_summary []);
          warnings = (if unknown \<and> scan_budget < length ids then [''UNKNOWN_SCAN_BUDGET_THRESHOLD_EXCEEDED''] else [])
      in and_then (traverse (consider_id m ks unknown query) ids) (\<lambda>found.
        let matched = sort_key (rank_key m query) (map the (filter (\<lambda>x. x \<noteq> None) found));
            final = take (cut_off limit max_hits) matched
        in Inr \<lparr>mr_matched = (final \<noteq> []), mr_experiences = final, mr_scanned = int (length ids),
                mr_discarded = int (length ids) - int (length final), mr_artifact_ref = None,
                mr_warnings = warnings\<rparr>))"

end
