(* ===== verification/Run_World.thy ===== *)
theory Run_World
  imports Hooks Gate_Runner Main_Agent Sub_Agent Dumps Sql_Tables Diagnosis Repair_Planner Memory
begin

text \<open>
  The state of one run of \<open>AgenticFailedEventProcessor\<close> and what the run is given. The world holds
  the disk, the typed results of the tools (\<open>executor.objects\<close>), the memory of the context manager,
  of the main agent and of the gate runner, and whatever is behind the LLM client. Parameters are the
  code that is not under src/: the log compressor, the SQL parser, pydantic's text of a context, the
  provider behind an LLM client. Clocks and fresh identifiers are streams, read one after the other.

  Every call of a model, a tool, a sub-agent, a gate or a summary goes through the hooks of the service.
\<close>

section \<open>The world\<close>

record agent_objects =
  oj_log :: "log_digest option"
  oj_diagnosis :: "diagnosis_result option"
  oj_metadata :: "metadata_snapshot option"
  oj_memory :: "memory_result option"
  oj_plan :: "repair_plan option"
  oj_generation :: "generation_result option"

definition no_objects :: agent_objects where
  "no_objects = \<lparr>oj_log = None, oj_diagnosis = None, oj_metadata = None, oj_memory = None, oj_plan = None,
     oj_generation = None\<rparr>"

text \<open>\<open>self.objects\<close> as a dictionary: its keys.\<close>

definition object_keys :: "agent_objects \<Rightarrow> string set" where
  "object_keys o1 = set (concat
     [if oj_log o1 = None then [] else [''log_digest''], if oj_diagnosis o1 = None then [] else [''diagnosis''],
      if oj_metadata o1 = None then [] else [''metadata_snapshot''],
      if oj_memory o1 = None then [] else [''memory_retrieval''], if oj_plan o1 = None then [] else [''repair_plan''],
      if oj_generation o1 = None then [] else [''generation'']])"

record 'x proc =
  pw_disk :: disk
  pw_objects :: agent_objects
  pw_cm :: cm_state
  pw_agent :: main_agent_state
  pw_compactions :: int
  pw_tick :: nat
  pw_outside :: 'x

type_synonym 'x run_world = "'x proc gate_run_env"

definition proc_of :: "'x run_world \<Rightarrow> 'x proc" where
  "proc_of e = ge_world (re_world e)"

definition with_proc :: "('x proc \<Rightarrow> 'x proc) \<Rightarrow> 'x run_world \<Rightarrow> 'x run_world" where
  "with_proc f e = e\<lparr>re_world := (re_world e)\<lparr>ge_world := f (ge_world (re_world e))\<rparr>\<rparr>"

text \<open>An operation on a part of the state, as an operation on the whole.\<close>

definition via :: "('s \<Rightarrow> 't) \<Rightarrow> ('t \<Rightarrow> 's \<Rightarrow> 's) \<Rightarrow> ('t, 'a) io \<Rightarrow> ('s, 'a) io" where
  "via g p m s = (let (r, t) = m (g s) in (r, p t s))"

definition on_disk :: "(disk, 'a) io \<Rightarrow> ('x run_world, 'a) io" where
  "on_disk = via (\<lambda>e. pw_disk (proc_of e)) (\<lambda>d. with_proc (\<lambda>w. w\<lparr>pw_disk := d\<rparr>))"

definition outside :: "('x, 'a) io \<Rightarrow> ('x run_world, 'a) io" where
  "outside = via (\<lambda>e. pw_outside (proc_of e)) (\<lambda>x. with_proc (\<lambda>w. w\<lparr>pw_outside := x\<rparr>))"

definition on_objects :: "(agent_objects \<Rightarrow> agent_objects) \<Rightarrow> ('x run_world, unit) io" where
  "on_objects f = modify (with_proc (\<lambda>w. w\<lparr>pw_objects := f (pw_objects w)\<rparr>))"

text \<open>\<open>self.objects[key]\<close>\<close>

definition object_at :: "string \<Rightarrow> (agent_objects \<Rightarrow> 'a option) \<Rightarrow> ('x run_world, 'a) io" where
  "object_at k f =
     bind (gets (\<lambda>e. f (pw_objects (proc_of e)))) (\<lambda>x. case x of None \<Rightarrow> raise (KeyError k) | Some v \<Rightarrow> ret v)"

section \<open>What a run is given\<close>

text \<open>
  An LLM client by the model it answers with: \<open>generate_structured(prompt, response_model)\<close> on the
  prompt that shows the arguments; the last one is the feedback of a failed validation.
\<close>

record 'x llm_client =
  lc_diagnose :: "diagnosis_input \<Rightarrow> string option \<Rightarrow> ('x, llm_diagnosis) io"
  lc_generate :: "string \<Rightarrow> repair_plan \<Rightarrow> string option \<Rightarrow> string option \<Rightarrow> ('x, llm_generation) io"
  lc_reflect :: "pre_input \<Rightarrow> string option \<Rightarrow> ('x, pre_result) io"
  lc_post :: "post_input \<Rightarrow> string option \<Rightarrow> ('x, post_result) io"
  lc_plan :: "string option \<Rightarrow> plan_question \<Rightarrow> string option \<Rightarrow> ('x, exec_plan) io"
  lc_decide :: "main_agent_input \<Rightarrow> string option \<Rightarrow> ('x, plan_decision) io"
  lc_sub_agent :: "subagent_request \<Rightarrow> (string, json) dict \<Rightarrow> string option \<Rightarrow> ('x, sub_action) io"
  lc_summarize :: "agent_context \<Rightarrow> string option \<Rightarrow> ('x, context_summary) io"

record ('t, 'x) services =
  sv_config :: agent_config
  sv_client :: "'x llm_client option"
  sv_now :: "nat \<Rightarrow> string"
  sv_uuid :: "nat \<Rightarrow> string"
  sv_ms :: "nat \<Rightarrow> int"
  sv_float :: "rat \<Rightarrow> string"
  sv_repr :: "string \<Rightarrow> string"
  sv_vocab :: keyword_vocab
  sv_digest :: "string option \<Rightarrow> string option \<Rightarrow> keyword_vocab \<Rightarrow> log_digest outcome"
  sv_dump_digest :: "log_digest \<Rightarrow> json"
  sv_tables :: table_parser
  sv_metadata :: "(string, json) dict"
  sv_keywords :: "string list"
  sv_memory :: memory_disk
  sv_engine :: "'t sql_engine"
  sv_allow_medium :: bool
  sv_dump_context :: "agent_context \<Rightarrow> string"
  sv_sorted_dump :: "agent_context \<Rightarrow> string"
  sv_dump_summary :: "context_summary \<Rightarrow> string"

definition limits :: "('t, 'x) services \<Rightarrow> run_limits" where
  "limits S = cf_run_limits (sv_config S)"

text \<open>The adapter the processor gets: none if the LLM main agent is switched off.\<close>

definition main_client :: "('t, 'x) services \<Rightarrow> 'x llm_client option" where
  "main_client S = (if cf_llm_main_agent_enabled (sv_config S) then sv_client S else None)"

section \<open>Clocks and identifiers\<close>

definition next_tick :: "'x run_world \<Rightarrow> 'x run_world" where
  "next_tick = with_proc (\<lambda>w. w\<lparr>pw_tick := Suc (pw_tick w)\<rparr>)"

definition tick :: "('x run_world, nat) io" where
  "tick e = (Inr (pw_tick (proc_of e)), next_tick e)"

definition clock :: "('t, 'x) services \<Rightarrow> ('x run_world, string) io" where
  "clock S = bind tick (\<lambda>n. ret (sv_now S n))"

definition fresh_uuid :: "('t, 'x) services \<Rightarrow> ('x run_world, string) io" where
  "fresh_uuid S = bind tick (\<lambda>n. ret (sv_uuid S n))"

definition fresh_stamp :: "('t, 'x) services \<Rightarrow> ('x run_world, stamp) io" where
  "fresh_stamp S = bind tick (\<lambda>n. ret \<lparr>sp_uuid = sv_uuid S n, sp_now = sv_now S n\<rparr>)"

text \<open>The same for the operations that see the world without the context of the run.\<close>

definition world_read :: "(nat \<Rightarrow> 'a) \<Rightarrow> 'x proc gate_env \<Rightarrow> 'a \<times> 'x proc gate_env" where
  "world_read f g = (f (pw_tick (ge_world g)), g\<lparr>ge_world := (ge_world g)\<lparr>pw_tick := Suc (pw_tick (ge_world g))\<rparr>\<rparr>)"

section \<open>The hooks of a run\<close>

definition run_emit :: "'x run_world emitter" where
  "run_emit sid ty stage payload aid = on_disk (emit_trace sid ty stage payload aid)"

definition run_budget :: "'x run_world budget_view" where
  "run_budget =
     \<lparr>bv_state = (\<lambda>e. Some (re_state e)),
      bv_count_llm = (\<lambda>e. e\<lparr>re_state := (re_state e)\<lparr>st_llm_calls := st_llm_calls (re_state e) + 1\<rparr>\<rparr>),
      bv_compactions = (\<lambda>e. pw_compactions (proc_of e)),
      bv_compacted = with_proc (\<lambda>w. w\<lparr>pw_compactions := pw_compactions w + 1\<rparr>)\<rparr>"

definition run_hooks :: "('t, 'x) services \<Rightarrow> 'x run_world hook list" where
  "run_hooks S = service_hooks run_emit run_budget (limits S)"

text \<open>
  \<open>HookManager.execute_*\<close> by operation type: the operation belongs to the session and the attempt
  of the run; \<open>summary\<close> is \<open>HookManager._summary\<close> of the result.
\<close>

definition hooked ::
  "('t, 'x) services \<Rightarrow> operation_type \<Rightarrow> op_caller \<Rightarrow> ('a \<Rightarrow> string) \<Rightarrow> string \<Rightarrow> string \<Rightarrow>
     ('x run_world, 'a) io \<Rightarrow> ('x run_world, 'a) io" where
  "hooked S ty caller summary purpose input run =
     bind (fresh_stamp S) (\<lambda>st.
     bind (gets re_ctx) (\<lambda>ctx.
       execute (run_hooks S) summary
         (create_operation ty (cx_session_id ctx) (Some (cx_attempt_id ctx)) caller purpose (Some input) st)
         (\<lambda>e. sv_now S (pw_tick (proc_of e))) run))"

definition retries :: "('t, 'x) services \<Rightarrow> retry_limits" where
  "retries S = \<lparr>rl_schema = nat (cf_schema_retries (sv_config S)), rl_transient = nat (cf_transient_retries (sv_config S))\<rparr>"

text \<open>\<open>LLMAdapter.generate_structured\<close>\<close>

definition llm_call ::
  "('t, 'x) services \<Rightarrow> ('a \<Rightarrow> string) \<Rightarrow> string \<Rightarrow> string \<Rightarrow> (string option \<Rightarrow> ('x, 'a) io) \<Rightarrow>
     ('x run_world, 'a) io" where
  "llm_call S summary purpose input call =
     hooked S OP_LLM_CALL CALLER_MAIN_AGENT summary purpose input (retry_run (retries S) (\<lambda>feedback. outside (call feedback)))"

section \<open>The LLM calls of the components\<close>

definition ask_diagnosis :: "('t, 'x) services \<Rightarrow> diagnosis_input \<Rightarrow> ('x run_world, llm_diagnosis option) io" where
  "ask_diagnosis S i =
     (case sv_client S of
        None \<Rightarrow> ret None
      | Some c \<Rightarrow>
          try_catch
            (bind (llm_call S (\<lambda>_. ''LLMDiagnosisResult'') ''diagnosis'' ''diagnosis input and log digest'' (lc_diagnose c i))
               (\<lambda>r. ret (Some (filter_keywords (di_keyword_vocab i) r))))
            (\<lambda>_. ret None))"

definition ask_generation ::
  "('t, 'x) services \<Rightarrow> (string \<Rightarrow> repair_plan \<Rightarrow> string option \<Rightarrow> ('x run_world, llm_generation) io) option" where
  "ask_generation S = map_option (\<lambda>c sql p instruction.
     llm_call S (\<lambda>_. ''SQLGeneratorLLMOutput'') ''sql_generation'' ''repair plan and failed SQL''
       (lc_generate c sql p instruction)) (sv_client S)"

fun pre_decision_name :: "pre_decision \<Rightarrow> string" where
  "pre_decision_name PR_RETURN_SQL = ''PreReflectionDecision.RETURN_SQL''"
| "pre_decision_name PR_REGENERATE = ''PreReflectionDecision.REGENERATE''"
| "pre_decision_name PR_BLOCK = ''PreReflectionDecision.BLOCK''"
| "pre_decision_name PR_MANUAL_REQUIRED = ''PreReflectionDecision.MANUAL_REQUIRED''"

definition ask_reflection :: "('t, 'x) services \<Rightarrow> (pre_input \<Rightarrow> ('x run_world, pre_result) io) option" where
  "ask_reflection S = map_option (\<lambda>c i.
     llm_call S (\<lambda>r. ''PreReflectionResult:'' @ pre_decision_name (pr_decision r)) ''pre_reflection''
       ''candidate semantic reflection'' (lc_reflect c i)) (sv_client S)"

fun post_status_value :: "post_status \<Rightarrow> string" where
  "post_status_value PO_PROGRESSING = ''FAILED_BUT_PROGRESSING''"
| "post_status_value PO_UNCHANGED = ''FAILED_UNCHANGED''"
| "post_status_value PO_REGRESSED = ''FAILED_REGRESSED''"
| "post_status_value PO_UNRELATED = ''FAILED_UNRELATED''"
| "post_status_value PO_MANUAL_REQUIRED = ''MANUAL_REQUIRED''"
| "post_status_value PO_OSCILLATING = ''OSCILLATING''"

definition ask_post :: "('t, 'x) services \<Rightarrow> (post_input \<Rightarrow> ('x run_world, post_result) io) option" where
  "ask_post S = map_option (\<lambda>c i.
     llm_call S (\<lambda>r. ''PostReflectionResult:PostReflectionStatus.'' @ post_status_value (po_status r)) ''post_reflection''
       ''previous and current attempt reflection'' (lc_post c i)) (sv_client S)"

fun decision_value :: "decision_kind \<Rightarrow> string" where
  "decision_value CONTINUE_PLAN = ''CONTINUE_PLAN''"
| "decision_value REVISE_PLAN = ''REVISE_PLAN''"
| "decision_value DECIDE_PROPOSE = ''PROPOSE_SQL_CANDIDATE''"
| "decision_value DECIDE_HUMAN = ''RETURN_HUMAN_REQUIRED''"

definition agent_planner :: "('t, 'x) services \<Rightarrow> 'x llm_client \<Rightarrow> 'x run_world planner_ports" where
  "agent_planner S c =
     \<lparr>lp_plan = (\<lambda>purpose feedback q.
        llm_call S (\<lambda>_. ''ExecutionPlan'') purpose ''controlled planning context'' (lc_plan c feedback q)),
      lp_decide = (\<lambda>i. llm_call S (\<lambda>d. ''PlanDecision:'' @ decision_value (pd_kind d)) ''main_agent_replan_decision''
        ''plan and latest structured observation'' (lc_decide c i)),
      lp_get = (\<lambda>e. pw_agent (proc_of e)),
      lp_put = (\<lambda>m. with_proc (\<lambda>w. w\<lparr>pw_agent := m\<rparr>))\<rparr>"

section \<open>The context manager of the run\<close>

text \<open>\<open>_redact_original_sql\<close>\<close>

definition redact_original_sql :: "('t, 'x) services \<Rightarrow> agent_context \<Rightarrow> agent_context" where
  "redact_original_sql S ctx =
     (let original = cx_original_sql ctx in
      if py_len original \<le> 200 then ctx
      else ctx\<lparr>cx_original_sql := ''<original_sql len='' @ digits (py_len original) @ '' sha256='' @
             take 12 (sha256 original) @ '' head='' @ sv_repr S (py_take 200 original) @ ''>''\<rparr>)"

definition summarize :: "('t, 'x) services \<Rightarrow> 'x llm_client \<Rightarrow> ('x run_world, context_summary) io" where
  "summarize S c =
     bind (gets re_ctx) (\<lambda>ctx.
       hooked S OP_CONTEXT_COMPACTION CALLER_CONTEXT_MANAGER (\<lambda>_. ''ContextSummary'') ''context_summary''
         ''controlled context snapshot''
         (retry_run (retries S) (\<lambda>_. llm_call S (\<lambda>_. ''ContextSummary'') ''context_summary''
            ''controlled context snapshot'' (lc_summarize c (redact_original_sql S ctx)))))"

definition run_cm :: "('t, 'x) services \<Rightarrow> 'x proc gate_env cm_config" where
  "run_cm S =
     \<lparr>cc_float = sv_float S, cc_dump = sv_dump_context S, cc_sorted_dump = sv_sorted_dump S,
      cc_summary_dump = sv_dump_summary S, cc_limits = cf_compaction (sv_config S),
      cc_summary = map_option (summarize S) (main_client S),
      cc_get = (\<lambda>g. pw_cm (ge_world g)), cc_put = (\<lambda>m g. g\<lparr>ge_world := (ge_world g)\<lparr>pw_cm := m\<rparr>\<rparr>),
      cc_now = world_read (sv_now S)\<rparr>"

end
