(* ===== verification/Processor.thy ===== *)
theory Processor
  imports Run_World Tool_Registry
begin

text \<open>
  \<open>orchestrator/agentic_failed_event_processor.py\<close>: the tools that wrap the business functions, the
  action executor, the gate adapter with its one regeneration, and a whole run for a failed event.
  \<open>Processor_Facts\<close> shows what a run guarantees.
\<close>

section \<open>The business functions as handlers\<close>

definition ids_of :: "'x run_world \<Rightarrow> string \<times> string" where
  "ids_of e = (cx_session_id (re_ctx e), cx_attempt_id (re_ctx e))"

text \<open>\<open>_save\<close>; \<open>f\<close> records the typed object.\<close>

definition save_object ::
  "('t, 'x) services \<Rightarrow> string \<Rightarrow> json \<Rightarrow> artifact_type \<Rightarrow> (agent_objects \<Rightarrow> agent_objects) \<Rightarrow> ('x run_world, unit) io" where
  "save_object S key v ty f =
     bind (fresh_stamp S) (\<lambda>st.
     bind (gets ids_of) (\<lambda>(sid, aid).
     bind (on_disk (save_json_ref (sv_float S) sid (Some aid) (key @ ''.json'') v ty st)) (\<lambda>r.
     seq (on_objects f)
     (bind (clock S) (\<lambda>now.
       on_ctx (put_workspace key (available_value (Some (dump_json (sv_float S) v)) (Some (ref_json r)) now)))))))"

definition handle_log :: "('t, 'x) services \<Rightarrow> upstream_event \<Rightarrow> ('x run_world, string list) io" where
  "handle_log S ev =
     bind (lift (sv_digest S (ev_log_path ev) (ev_error_message ev) (sv_vocab S))) (\<lambda>v.
     seq (save_object S ''log_digest'' (sv_dump_digest S v) LOG_DIGEST (\<lambda>o1. o1\<lparr>oj_log := Some v\<rparr>))
       (ret [''log_digest'']))"

definition fallback_diagnosis :: "keyword_vocab \<Rightarrow> upstream_event \<Rightarrow> log_digest \<Rightarrow> rule_diagnosis \<Rightarrow> llm_diagnosis" where
  "fallback_diagnosis v ev digest rule =
     (let allowed = vocab_get v (error_type_value (rd_error_type rule)) [] in
      \<lparr>lm_error_type = rd_error_type rule, lm_keywords = filter (\<lambda>k. k \<in> set allowed) (rd_keywords rule),
       lm_primary_evidence = rd_primary_evidence rule,
       lm_root_cause_summary =
         or_text (or_opt (ld_root_cause_summary digest) (ev_error_message ev)) ''No reliable root cause'',
       lm_confidence = rd_confidence rule,
       lm_is_repairable = (rd_error_type rule \<notin> {UNKNOWN, PERMISSION_ERROR, RESOURCE_EXHAUSTED, INFRASTRUCTURE_ERROR}),
       lm_manual_reason = None\<rparr>)"

definition diagnosis_input_of :: "('t, 'x) services \<Rightarrow> upstream_event \<Rightarrow> log_digest \<Rightarrow> diagnosis_input" where
  "diagnosis_input_of S ev digest =
     \<lparr>di_failed_sql = ev_sql ev, di_error_message = ev_error_message ev, di_log_digest = digest,
      di_keyword_vocab = sv_vocab S, di_allowed_error_types = map error_type_value all_error_types\<rparr>"

definition handle_diagnose :: "('t, 'x) services \<Rightarrow> upstream_event \<Rightarrow> ('x run_world, string list) io" where
  "handle_diagnose S ev =
     bind (object_at ''log_digest'' oj_log) (\<lambda>digest.
     let i = diagnosis_input_of S ev digest; rule = classify i in
     bind (ask_diagnosis S i) (\<lambda>llm.
     let answer = (case llm of None \<Rightarrow> fallback_diagnosis (sv_vocab S) ev digest rule | Some l \<Rightarrow> l) in
     bind (lift (fuse i rule (Some answer))) (\<lambda>v.
     seq (save_object S ''diagnosis'' (dump_diagnosis v) DIAGNOSIS (\<lambda>o1. o1\<lparr>oj_diagnosis := Some v\<rparr>))
       (ret [''diagnosis'']))))"

text \<open>The loop over the tables, each name once, whose errors become part of the result.\<close>

definition look_up_snapshot ::
  "(string \<Rightarrow> table_metadata option outcome) \<Rightarrow> extraction_result \<Rightarrow> string \<Rightarrow> metadata_snapshot" where
  "look_up_snapshot get x now =
     (let answers = map (\<lambda>n. (n, get n)) (dedup (map tb_normalized_name (ex_tables x))) in
      \<lparr>ms_extraction = x,
       ms_tables = concat (map (\<lambda>(n, r). case r of Inr (Some t) \<Rightarrow> [t] | _ \<Rightarrow> []) answers),
       ms_missing_tables = concat (map (\<lambda>(n, r). case r of Inr None \<Rightarrow> [n] | _ \<Rightarrow> []) answers),
       ms_provider_errors = concat (map (\<lambda>(n, r). case r of Inl err \<Rightarrow> [n @ '':'' @ error_class err] | _ \<Rightarrow> []) answers),
       ms_created_at = now\<rparr>)"

definition handle_metadata :: "('t, 'x) services \<Rightarrow> upstream_event \<Rightarrow> ('x run_world, string list) io" where
  "handle_metadata S ev =
     bind (clock S) (\<lambda>now.
     let v = look_up_snapshot (get_table_metadata (sv_metadata S)) (extract_tables (sv_tables S) (ev_sql ev)) now in
     seq (save_object S ''metadata_snapshot'' (dump_metadata v) METADATA_SNAPSHOT (\<lambda>o1. o1\<lparr>oj_metadata := Some v\<rparr>))
       (ret [''metadata_snapshot'']))"

definition handle_memory :: "('t, 'x) services \<Rightarrow> ('x run_world, string list) io" where
  "handle_memory S =
     bind (object_at ''diagnosis'' oj_diagnosis) (\<lambda>d.
     bind (lift (retrieve_keywords (sv_keywords S) (nat (cf_memory_max_hits (sv_config S)))
                   (nat (cf_memory_scan_budget (sv_config S))) (sv_memory S) (dr_keywords d)
                   (dr_root_cause_summary d) None)) (\<lambda>v.
     seq (save_object S ''memory_retrieval'' (dump_memory v) MEMORY_RETRIEVAL (\<lambda>o1. o1\<lparr>oj_memory := Some v\<rparr>))
       (ret [''memory_retrieval''])))"

definition handle_plan :: "('t, 'x) services \<Rightarrow> upstream_event \<Rightarrow> ('x run_world, string list) io" where
  "handle_plan S ev =
     bind (object_at ''diagnosis'' oj_diagnosis) (\<lambda>d.
     bind (object_at ''log_digest'' oj_log) (\<lambda>digest.
     bind (object_at ''metadata_snapshot'' oj_metadata) (\<lambda>ms.
     bind (object_at ''memory_retrieval'' oj_memory) (\<lambda>memory.
     bind (fresh_uuid S) (\<lambda>uid.
     let v = make_plan uid \<lparr>pi_failed_sql = ev_sql ev, pi_diagnosis = d, pi_log_digest = digest, pi_metadata = Some ms,
                pi_memory = Some memory, pi_post_status = None\<rparr> in
     seq (save_object S ''repair_plan'' (dump_plan v) TRACE_PAYLOAD (\<lambda>o1. o1\<lparr>oj_plan := Some v\<rparr>))
       (ret [''repair_plan'']))))))"

definition candidate_value :: "string option \<Rightarrow> string option \<Rightarrow> string \<Rightarrow> workspace_value" where
  "candidate_value c ref now =
     \<lparr>wv_status = (if truthy c then WS_AVAILABLE else WS_FAILED), wv_summary = c, wv_artifact_ref = ref, wv_updated_at = now\<rparr>"

definition save_candidate :: "('t, 'x) services \<Rightarrow> string \<Rightarrow> string \<Rightarrow> ('x run_world, string) io" where
  "save_candidate S name c =
     bind (fresh_stamp S) (\<lambda>st.
     bind (gets ids_of) (\<lambda>(sid, aid).
     bind (on_disk (save_text_ref sid (Some aid) name c CANDIDATE_SQL st)) (\<lambda>r. ret (ref_json r))))"

definition handle_generate :: "('t, 'x) services \<Rightarrow> upstream_event \<Rightarrow> ('x run_world, string list) io" where
  "handle_generate S ev =
     bind (object_at ''repair_plan'' oj_plan) (\<lambda>p.
     bind (generate_sql (ask_generation S) (ev_sql ev) p None) (\<lambda>g.
     seq (on_objects (\<lambda>o1. o1\<lparr>oj_generation := Some g\<rparr>))
     (let c = (if gr_generated g then gr_candidate g else None) in
      bind (if truthy c
            then bind (save_candidate S ''candidate_v1.sql'' (or_text c [])) (\<lambda>r.
                   seq (on_ctx (\<lambda>ctx. ctx\<lparr>cx_candidate := (cx_candidate ctx)\<lparr>cs_draft_ref := Some r\<rparr>\<rparr>)) (ret (Some r)))
            else ret None) (\<lambda>ref.
      bind (clock S) (\<lambda>now.
      seq (on_ctx (put_workspace ''candidate_sql'' (candidate_value c ref now))) (ret [''candidate_sql'']))))))"

section \<open>Tools and the executor\<close>

text \<open>\<open>InternalBusinessTool\<close>: no input, and as output the keys the handler wrote with their references.\<close>

definition internal_output :: "string list \<Rightarrow> agent_context \<Rightarrow> (string, json) dict" where
  "internal_output keys ctx =
     [(''summary'', Js_text (join_with '','' keys)),
      (''artifact_refs'', texts (concat (map (\<lambda>k. case dict_get (cx_workspace ctx) k of
          Some v \<Rightarrow> if truthy (wv_artifact_ref v) then [or_text (wv_artifact_ref v) []] else []
        | None \<Rightarrow> []) keys)))]"

definition internal_tool :: "string \<Rightarrow> ('x run_world, string list) io \<Rightarrow> 'x run_world tool" where
  "internal_tool name handler =
     \<lparr>tl_name = name, tl_description = desc_internal_tool, tl_schema = [],
      tl_phases = [PH_INIT, PH_DIAGNOSING, PH_PLANNING, PH_GENERATING], tl_produces = True,
      tl_accepts = (\<lambda>input. input = []),
      tl_run = (\<lambda>_. bind handler (\<lambda>keys. gets (\<lambda>e. internal_output keys (re_ctx e))))\<rparr>"

definition tool_names :: "(string, string) dict" where
  "tool_names =
     [(''build_log_digest'', ''ReadLogTool''), (''diagnose'', ''DiagnoseTool''), (''query_metadata'', ''MetadataQueryTool''),
      (''retrieve_memory'', ''MemoryRetrieveTool''), (''build_repair_plan'', ''BuildRepairPlanTool''),
      (''generate_candidate'', ''GenerateCandidateTool'')]"

definition run_tools :: "('t, 'x) services \<Rightarrow> upstream_event \<Rightarrow> 'x run_world tool list" where
  "run_tools S ev =
     [internal_tool ''ReadLogTool'' (handle_log S ev), internal_tool ''DiagnoseTool'' (handle_diagnose S ev),
      internal_tool ''MetadataQueryTool'' (handle_metadata S ev), internal_tool ''MemoryRetrieveTool'' (handle_memory S),
      internal_tool ''BuildRepairPlanTool'' (handle_plan S ev), internal_tool ''GenerateCandidateTool'' (handle_generate S ev)]"

text \<open>The registry after the constructor has registered them all (\<open>run_registry_ok\<close>).\<close>

definition run_registry :: "('t, 'x) services \<Rightarrow> upstream_event \<Rightarrow> 'x run_world registry" where
  "run_registry S ev = (case register_all (run_tools S ev) [] of Inl _ \<Rightarrow> [] | Inr reg \<Rightarrow> reg)"

definition registry_execute ::
  "('t, 'x) services \<Rightarrow> upstream_event \<Rightarrow> string \<Rightarrow> (string, json) dict \<Rightarrow> ('x run_world, tool_result) io" where
  "registry_execute S ev name input =
     bind (clock S) (\<lambda>started.
     bind (gets (\<lambda>e. cx_phase (re_ctx e))) (\<lambda>ph.
     bind (execute_tool (run_registry S ev) name ph input started started) (\<lambda>r.
     bind (clock S) (\<lambda>finished. ret (r\<lparr>tr_finished_at := finished\<rparr>)))))"

text \<open>\<open>Observation(...)\<close>: \<open>None\<close> for a status outside its literals.\<close>

definition make_observation ::
  "('t, 'x) services \<Rightarrow> agent_action \<Rightarrow> obs_status option \<Rightarrow> string \<Rightarrow> string list \<Rightarrow> ('x run_world, observation) io" where
  "make_observation S a st summary keys =
     bind (fresh_uuid S) (\<lambda>uid.
     bind (clock S) (\<lambda>now. case st of
       None \<Rightarrow> raise (ValidationError ''Observation'')
     | Some s \<Rightarrow> ret
       \<lparr>ob_id = ''obs_'' @ uid, ob_action_type = action_type_value (ac_type a), ob_status = s, ob_summary = summary,
        ob_artifact_refs = [], ob_workspace_keys = keys, ob_plan_step_id = None, ob_created_at = now\<rparr>))"

fun obs_of_tool :: "tool_status \<Rightarrow> obs_status option" where
  "obs_of_tool TS_SUCCEEDED = Some OB_SUCCEEDED"
| "obs_of_tool TS_FAILED = Some OB_FAILED"
| "obs_of_tool TS_BLOCKED = Some OB_BLOCKED"
| "obs_of_tool _ = None"

fun obs_of_sub_agent :: "subagent_status \<Rightarrow> obs_status option" where
  "obs_of_sub_agent SA_SUCCEEDED = Some OB_SUCCEEDED"
| "obs_of_sub_agent SA_FAILED = Some OB_FAILED"
| "obs_of_sub_agent _ = None"

fun subagent_status_value :: "subagent_status \<Rightarrow> string" where
  "subagent_status_value SA_SUCCEEDED = ''SUCCEEDED''"
| "subagent_status_value SA_NEED_MORE_CONTEXT = ''NEED_MORE_CONTEXT''"
| "subagent_status_value SA_FAILED = ''FAILED''"
| "subagent_status_value SA_BUDGET_EXCEEDED = ''BUDGET_EXCEEDED''"
| "subagent_status_value SA_HUMAN_REQUIRED = ''HUMAN_REQUIRED''"

definition sub_agent_worker ::
  "('t, 'x) services \<Rightarrow> subagent_request \<Rightarrow> (string, json) dict \<Rightarrow> ('x run_world, sub_answer) io" where
  "sub_agent_worker S q view =
     (case main_client S of
        None \<Rightarrow> ret (Answer_Result \<lparr>sa_status = SA_SUCCEEDED, sa_summary = summary_subagent_default, sa_artifact_ref = None,
                  sa_requested_refs = [], sa_output = Some [(''task_name'', Js_text (sr_task_name q))], sa_stop_reason = None\<rparr>)
      | Some c \<Rightarrow>
          bind (llm_call S (\<lambda>_. ''SubAgentAction'') (''subagent_'' @ sr_task_name q) ''controlled SubAgentInput''
                  (lc_sub_agent c q view))
            (\<lambda>a. ret (Answer_Action a)))"

definition sub_agent_ports :: "('t, 'x) services \<Rightarrow> upstream_event \<Rightarrow> 'x run_world subagent_ports" where
  "sub_agent_ports S ev =
     \<lparr>sw_worker = sub_agent_worker S,
      sw_elapsed_ms = (\<lambda>e. (sv_ms S (pw_tick (proc_of e)), next_tick e)),
      sw_call_tool = Some (registry_execute S ev),
      sw_prepare = Some (\<lambda>q e. (prepare_for_sub_agent (re_ctx e) q, e))\<rparr>"

text \<open>The loop of a sub-agent returns (\<open>sub_run_returns\<close>), so the last case does not occur.\<close>

definition run_sub_agent ::
  "('t, 'x) services \<Rightarrow> upstream_event \<Rightarrow> subagent_request \<Rightarrow> ('x run_world, subagent_result) io" where
  "run_sub_agent S ev q e =
     (case sub_run (sub_agent_ports S ev) q (re_ctx e) e of
        (Some r, e') \<Rightarrow> (r, e')
      | (None, e') \<Rightarrow> (Inl (RuntimeError ''fuel''), e'))"

definition execute_sub_agent ::
  "('t, 'x) services \<Rightarrow> upstream_event \<Rightarrow> agent_action \<Rightarrow> subagent_request \<Rightarrow> ('x run_world, observation) io" where
  "execute_sub_agent S ev a q =
     bind (hooked S OP_SUB_AGENT_RUN CALLER_MAIN_AGENT
             (\<lambda>r. ''SubAgentResult:'' @ subagent_status_value (sa_status r)) (sr_task_name q)
             ''restricted context refs only'' (run_sub_agent S ev q)) (\<lambda>r.
     bind (clock S) (\<lambda>now.
     seq (on_ctx (put_workspace ''subagent_diagnosis''
            \<lparr>wv_status = (if sa_status r = SA_SUCCEEDED then WS_AVAILABLE else WS_FAILED), wv_summary = Some (sa_summary r),
             wv_artifact_ref = sa_artifact_ref r, wv_updated_at = now\<rparr>))
       (make_observation S a (obs_of_sub_agent (sa_status r)) (sa_summary r) [''subagent_diagnosis''])))"

definition produced_keys :: "'x run_world \<Rightarrow> string list" where
  "produced_keys e = filter (\<lambda>k. k \<in> object_keys (pw_objects (proc_of e)) \<or> k = ''candidate_sql'')
     (dict_keys (cx_workspace (re_ctx e)))"

definition execute_named_tool ::
  "('t, 'x) services \<Rightarrow> upstream_event \<Rightarrow> agent_action \<Rightarrow> string \<Rightarrow> ('x run_world, observation) io" where
  "execute_named_tool S ev a name =
     bind (hooked S OP_TOOL_CALL CALLER_MAIN_AGENT (\<lambda>r. ''ToolCallResult:'' @ tool_status_value (tr_status r)) name name
             (registry_execute S ev name (case ac_tool_input a of None \<Rightarrow> [] | Some d \<Rightarrow> d))) (\<lambda>r.
     bind (gets produced_keys) (\<lambda>keys.
       make_observation S a (obs_of_tool (tr_status r)) (or_text (tr_summary r) name) keys))"

definition execute_run_action :: "('t, 'x) services \<Rightarrow> upstream_event \<Rightarrow> agent_action \<Rightarrow> ('x run_world, observation) io" where
  "execute_run_action S ev a =
     (case ac_type a of
        PROPOSE_SQL_CANDIDATE \<Rightarrow> make_observation S a (Some OB_SUCCEEDED) (or_text (ac_candidate_sql a) []) []
      | RUN_SUB_AGENT \<Rightarrow>
          (case ac_request a of
             Some q \<Rightarrow> execute_sub_agent S ev a q
           | None \<Rightarrow> make_observation S a (Some OB_BLOCKED) ''unsupported action'' [])
      | TOOL_CALL \<Rightarrow>
          if \<not> truthy (ac_tool_name a) then make_observation S a (Some OB_BLOCKED) ''unsupported action'' []
          else (case dict_get tool_names (or_text (ac_tool_name a) []) of
             None \<Rightarrow> make_observation S a (Some OB_BLOCKED) ''unregistered internal action'' []
           | Some name \<Rightarrow> execute_named_tool S ev a name)
      | _ \<Rightarrow> make_observation S a (Some OB_BLOCKED) ''unsupported action'' [])"

section \<open>The gate adapter\<close>

text \<open>The gates of a run: no planner of their own, medium risk only by request, the evaluator's reflection.\<close>

definition run_gates :: "('t, 'x) services \<Rightarrow> ('t, 'x run_world) gates" where
  "run_gates S =
     \<lparr>ga_engine = sv_engine S, ga_planner = None, ga_default_allow = False, ga_reflect = pre_reflect (ask_reflection S)\<rparr>"

definition gate_request_of ::
  "('t, 'x) services \<Rightarrow> gate_evidence \<Rightarrow> diagnosis_result \<Rightarrow> agent_objects \<Rightarrow> agent_context \<Rightarrow> gate_request" where
  "gate_request_of S ev d o1 ctx =
     \<lparr>gq_original_sql = gv_original_sql ev, gq_candidate_sql = gv_candidate_sql ev, gq_diagnosis = d,
      gq_metadata = oj_metadata o1, gq_memory = oj_memory o1, gq_existing_plan = oj_plan o1,
      gq_artifact_ref = cs_draft_ref (cx_candidate ctx), gq_attempt_id = gv_attempt_id ev,
      gq_event_key = gv_event_key ev, gq_allow_medium = sv_allow_medium S\<rparr>"

definition make_gate_request :: "('t, 'x) services \<Rightarrow> ('x run_world, gate_request) io" where
  "make_gate_request S =
     bind (\<lambda>e. (prepare_for_gate (re_ctx e), e)) (\<lambda>ev.
     bind (object_at ''diagnosis'' oj_diagnosis) (\<lambda>d.
       gets (\<lambda>e. gate_request_of S ev d (pw_objects (proc_of e)) (re_ctx e))))"

fun run_status_value :: "agent_run_status \<Rightarrow> string" where
  "run_status_value CANDIDATE_READY = ''CANDIDATE_READY''"
| "run_status_value AR_NO_SQL = ''NO_SQL''"
| "run_status_value AR_HUMAN_REQUIRED = ''HUMAN_REQUIRED''"
| "run_status_value AR_FAILED = ''FAILED''"

definition hooked_gate_run :: "('t, 'x) services \<Rightarrow> gate_request \<Rightarrow> ('x run_world, run_result) io" where
  "hooked_gate_run S q =
     bind (fresh_stamp S) (\<lambda>st.
       hooked S OP_GATE_RUN CALLER_GATE_RUNNER (\<lambda>r. ''AgentRunResult:'' @ run_status_value (rr_status r))
         ''candidate_gate_v1'' ''candidate hash validated by GateRunner'' (gate_run (run_gates S) st (Some q)))"

definition hooked_gate_repair :: "('t, 'x) services \<Rightarrow> gate_request \<Rightarrow> string \<Rightarrow> ('x run_world, gate_result) io" where
  "hooked_gate_repair S q c =
     bind (fresh_stamp S) (\<lambda>st.
       hooked S OP_GATE_RUN CALLER_GATE_RUNNER (\<lambda>r. ''GateResult:'' @ gate_decision_value (gt_decision r))
         ''candidate_gate_v2'' ''regenerated candidate hash validated by GateRunner''
         (run_repair (run_gates S) st q c True))"

definition regenerate_note :: "gate_result option \<Rightarrow> gate_note option" where
  "regenerate_note g =
     (case g of None \<Rightarrow> None | Some r \<Rightarrow> List.find (\<lambda>n. gn_code n = ''SEMANTIC_REGENERATE'') (gt_feedback r))"

definition wants_regeneration :: "'x run_world \<Rightarrow> gate_note option" where
  "wants_regeneration e =
     (if st_gate_rounds (re_state e) \<ge> 1 then None else regenerate_note (ge_last (re_world e)))"

definition repaired_accepted :: "string \<Rightarrow> string \<Rightarrow> gate_result \<Rightarrow> ('x run_world, run_result) io" where
  "repaired_accepted c ref g e =
     (let e1 = set_status RUN_SUCCEEDED
                 (set_candidate (\<lambda>s. s\<lparr>cs_formal_sql := Some c, cs_status := CS_READY\<rparr>) e)
      in (Inr ((plain_result CANDIDATE_READY (re_ctx e1) (re_state e1))
            \<lparr>rr_candidate_sql := Some c, rr_candidate_ref := Some ref, rr_risk := Some (gt_risk g)\<rparr>), e1))"

text \<open>The second gate run for the regenerated candidate, which only a plain \<open>PASS\<close> lets through.\<close>

definition gate_repaired :: "('t, 'x) services \<Rightarrow> gate_request \<Rightarrow> string \<Rightarrow> ('x run_world, run_result) io" where
  "gate_repaired S q c =
     bind (save_candidate S ''candidate_v2.sql'' c) (\<lambda>ref.
     seq (modify (set_candidate (\<lambda>s. s\<lparr>cs_draft_sql := Some c, cs_draft_ref := Some ref, cs_feedback := []\<rparr>)))
     (bind (hooked_gate_repair S (q\<lparr>gq_candidate_sql := c, gq_artifact_ref := Some ref\<rparr>) c) (\<lambda>g.
       if gt_decision g = GD_PASS then repaired_accepted c ref g
       else (\<lambda>e. let (r, e1) = gate_rejected g e in (Inr r, e1)))))"

definition regenerate ::
  "('t, 'x) services \<Rightarrow> upstream_event \<Rightarrow> gate_request \<Rightarrow> run_result \<Rightarrow> gate_note \<Rightarrow> ('x run_world, run_result) io" where
  "regenerate S ev q first note =
     bind (object_at ''repair_plan'' oj_plan) (\<lambda>p.
     bind (generate_sql (ask_generation S) (ev_sql ev) p (Some (gn_message note))) (\<lambda>g.
       if \<not> gr_generated g \<or> \<not> truthy (gr_candidate g) then ret first
       else gate_repaired S q (or_text (gr_candidate g) [])))"

text \<open>\<open>OnlineGateAdapter.run\<close>\<close>

definition online_gate :: "('t, 'x) services \<Rightarrow> upstream_event \<Rightarrow> ('x run_world, run_result) io" where
  "online_gate S ev =
     bind (make_gate_request S) (\<lambda>q.
     bind (hooked_gate_run S q) (\<lambda>first.
     bind (gets wants_regeneration) (\<lambda>note. case note of
         None \<Rightarrow> ret first
       | Some n \<Rightarrow> regenerate S ev q first n)))"

section \<open>A run\<close>

definition run_next_action ::
  "('t, 'x) services \<Rightarrow> agent_context + main_agent_input \<Rightarrow> ('x run_world, agent_action) io" where
  "run_next_action S x =
     bind (gets re_state) (\<lambda>s. case (main_client S, x) of
         (Some c, Inr i) \<Rightarrow> next_action (agent_planner S c) i s
       | _ \<Rightarrow> lift (deterministic_action x s))"

text \<open>
  The ports of the loop. The loop prepares its view without tools: \<open>prepare_for_main_agent\<close> is
  called there without \<open>available_tools\<close>.
\<close>

definition run_ports :: "('t, 'x) services \<Rightarrow> upstream_event \<Rightarrow> (main_agent_input, 'x proc gate_env) runner_ports" where
  "run_ports S ev =
     \<lparr>pt_elapsed_ms = world_read (sv_ms S), pt_obs_id = world_read (sv_uuid S), pt_now = world_read (sv_now S),
      pt_context_manager = Some (compact_if_needed (run_cm S),
        gets (\<lambda>e. prepare_for_main_agent [] (limits S) (re_ctx e) (re_state e))),
      pt_next_action = run_next_action S, pt_execute = execute_run_action S ev, pt_gate = online_gate S ev\<rparr>"

definition new_context :: "upstream_event \<Rightarrow> repair_session \<Rightarrow> repair_attempt \<Rightarrow> agent_context" where
  "new_context ev s a =
     \<lparr>cx_session_id = rs_session_id s, cx_attempt_id = ra_attempt_id a, cx_event_key = ra_source_event_key a,
      cx_original_sql = ev_sql ev, cx_error_message = ev_error_message ev, cx_log_path = ev_log_path ev,
      cx_workspace = [], cx_plan = build_initial_execution_plan, cx_candidate = empty_candidate,
      cx_observations = [], cx_phase = PH_INIT, cx_last_action = None, cx_last_error = None\<rparr>"

definition start_run ::
  "('t, 'x) services \<Rightarrow> upstream_event \<Rightarrow> repair_session \<Rightarrow> repair_attempt \<Rightarrow> disk \<Rightarrow> nat \<Rightarrow> 'x \<Rightarrow> 'x run_world" where
  "start_run S ev s a d n x =
     \<lparr>re_ctx = new_context ev s a, re_state = new_run_state (sv_now S n),
      re_world = \<lparr>ge_last = None, ge_order = [], ge_world =
        \<lparr>pw_disk = d, pw_objects = no_objects, pw_cm = new_cm_state, pw_agent = new_main_agent, pw_compactions = 0,
         pw_tick = Suc n, pw_outside = x\<rparr>\<rparr>\<rparr>"

text \<open>The loop of the agent as an operation; the fuel suffices (\<open>run_agent_returns\<close>).\<close>

definition run_agent :: "('t, 'x) services \<Rightarrow> upstream_event \<Rightarrow> ('x run_world, run_result) io" where
  "run_agent S ev e =
     (case agent_run (run_ports S ev) (limits S) e of
        (Some r, e') \<Rightarrow> (r, e')
      | (None, e') \<Rightarrow> (Inl (RuntimeError ''fuel''), e'))"

fun compaction_value :: "compaction_method \<Rightarrow> string" where
  "compaction_value DETERMINISTIC_TRIM = ''DETERMINISTIC_TRIM''"
| "compaction_value LLM_SUMMARY = ''LLM_SUMMARY''"

definition dump_snapshot :: "context_snapshot \<Rightarrow> json" where
  "dump_snapshot t = Js_dict
     [(''snapshot_id'', Js_text (ct_id t)), (''session_id'', Js_text (ct_session t)),
      (''attempt_id'', Js_text (ct_attempt t)), (''before_hash'', Js_text (ct_before t)),
      (''after_hash'', Js_text (ct_after t)), (''retained_keys'', texts (ct_retained t)),
      (''removed_keys'', texts (ct_removed t)), (''artifact_refs'', texts (ct_refs t)),
      (''compaction_method'', Js_text (compaction_value (ct_method t))), (''created_at'', Js_text (ct_created_at t))]"

definition save_snapshot :: "('t, 'x) services \<Rightarrow> context_snapshot \<Rightarrow> ('x run_world, unit) io" where
  "save_snapshot S t =
     bind (fresh_stamp S) (\<lambda>st.
     bind (gets ids_of) (\<lambda>(sid, aid).
     bind (on_disk (save_json_ref (sv_float S) sid (Some aid) (ct_id t @ ''.json'') (dump_snapshot t) CONTEXT_SNAPSHOT st))
       (\<lambda>_. ret ())))"

fun io_each :: "('a \<Rightarrow> ('s, unit) io) \<Rightarrow> 'a list \<Rightarrow> ('s, unit) io" where
  "io_each f [] = ret ()"
| "io_each f (x # xs) = seq (f x) (io_each f xs)"

text \<open>
  \<open>AgenticFailedEventProcessor.run\<close> on the world of \<open>start_run\<close>. Preparing a first view has
  no effect and its result is not used.
\<close>

definition process_failed_event :: "('t, 'x) services \<Rightarrow> upstream_event \<Rightarrow> ('x run_world, run_result) io" where
  "process_failed_event S ev =
     seq (compact_if_needed (run_cm S))
     (bind (run_agent S ev) (\<lambda>r.
      seq (compact_if_needed (run_cm S))
      (bind (gets (\<lambda>e. cm_snapshots (pw_cm (proc_of e)))) (\<lambda>ts.
       seq (io_each (save_snapshot S) ts) (ret r)))))"

end
