(* ===== verification/Processor_Facts.thy ===== *)
theory Processor_Facts
  imports Processor
begin

text \<open>
  What a run guarantees. A property of the environment that looks neither at the world nor at the
  counter of LLM calls is kept by everything that goes through the hooks (\<open>stable_property\<close>, used
  for the run and for the context); from this the ports of the run meet the contract of the agent loop,
  so a run returns within its step budget, and a candidate it reports has been released by the gates.
\<close>

section \<open>Properties the hooks cannot touch\<close>

locale stable_property =
  fixes Q :: "'x run_world \<Rightarrow> bool"
  assumes any_memory: "(\<And>w. pw_disk (f w) = pw_disk w) \<Longrightarrow> Q (with_proc f e) = Q e"
    and any_llm_count: "Q (e\<lparr>re_state := (re_state e)\<lparr>st_llm_calls := k\<rparr>\<rparr>) = Q e"
    and emitted: "preserves Q (on_disk (emit_trace sid ty stage payload a))"
    and saved: "preserves Q (on_disk (save_text_ref sid a name c kind st))"
begin

lemma outside_keeps: "preserves Q (outside m)"
  by (auto simp: outside_def via_def preserves_def any_memory split: prod.split)

lemma on_objects_keeps: "preserves Q (on_objects f)"
  by (simp add: on_objects_def preserves_def any_memory)

lemma save_json_keeps: "preserves Q (on_disk (save_json_ref fl sid a name v kind st))"
  unfolding save_json_ref_def by (rule saved)

lemma object_at_keeps: "preserves Q (object_at k f)"
  unfolding object_at_def by (intro keeps)

lemma tick_keeps: "preserves Q tick"
  by (simp add: tick_def next_tick_def preserves_def any_memory)

lemma clock_keeps: "preserves Q (clock S)" "preserves Q (fresh_uuid S)" "preserves Q (fresh_stamp S)"
  unfolding clock_def fresh_uuid_def fresh_stamp_def by (intro keeps tick_keeps)+

lemma emit_keeps: "preserves Q (run_emit sid ty stage payload aid)"
  unfolding run_emit_def by (rule emitted)

lemma trace_hook_keeps: "hook_preserves Q (trace_hook run_emit)"
  by (auto simp: hook_preserves_def trace_hook_def trace_before_def trace_after_def intro!: keeps emit_keeps)

lemma budget_hook_keeps: "hook_preserves Q (budget_hook run_budget l)"
  by (auto simp: hook_preserves_def budget_hook_def budget_before_def budget_after_def run_budget_def any_llm_count any_memory
      intro!: keeps preserves_modify)

lemma run_hooks_keep: "\<forall>h \<in> set (run_hooks S). hook_preserves Q h"
  using trace_hook_keeps budget_hook_keeps
  by (auto simp: run_hooks_def service_hooks_def hook_preserves_def safety_hook_def compression_hook_def
      retry_adapter_hook_def intro!: keeps)

lemma hooked_keeps: "preserves Q run \<Longrightarrow> preserves Q (hooked S ty caller summary purpose input run)"
  unfolding hooked_def by (intro keeps clock_keeps execute_preserves run_hooks_keep)

lemma llm_call_keeps: "preserves Q (llm_call S summary purpose input call)"
  unfolding llm_call_def by (intro hooked_keeps keeps outside_keeps)

lemma ask_diagnosis_keeps: "preserves Q (ask_diagnosis S i)"
  unfolding ask_diagnosis_def by (intro keeps llm_call_keeps)

lemma generate_keeps: "preserves Q (generate_sql (ask_generation S) sql p instruction)"
proof (cases "sv_client S")
  case None
  then show ?thesis by (auto simp: generate_sql_def ask_generation_def preserves_def split: option.split)
next
  case (Some c)
  have "preserves Q (catch_if is_llm_error
      (bind (llm_call S (\<lambda>_. ''SQLGeneratorLLMOutput'') ''sql_generation'' ''repair plan and failed SQL''
        (lc_generate c sql p instruction)) (\<lambda>g. ret (accept_llm_generation sql g)))
      (\<lambda>_. ret (not_generated reason_llm_generation)))"
    by (intro keeps llm_call_keeps)
  then show ?thesis using Some by (simp add: generate_sql_def ask_generation_def preserves_def)
qed

lemma reflect_keeps: "preserves Q (pre_reflect (ask_reflection S) x)"
proof (cases "sv_client S")
  case None
  then show ?thesis by (simp add: pre_reflect_def ask_reflection_def preserves_def Let_def)
next
  case (Some c)
  have "preserves Q (catch_if is_llm_error
      (bind (llm_call S (\<lambda>r. ''PreReflectionResult:'' @ pre_decision_name (pr_decision r)) ''pre_reflection''
         ''candidate semantic reflection'' (lc_reflect c x)) (\<lambda>r. ret (enforce_consistency r))) (\<lambda>_. ret r))" for r
    by (intro keeps llm_call_keeps)
  then show ?thesis using Some by (simp add: pre_reflect_def ask_reflection_def preserves_def Let_def)
qed

lemma gates_keep: "preserves Q (ga_reflect (run_gates S) x)"
  by (simp add: run_gates_def reflect_keeps)

lemma save_candidate_keeps: "preserves Q (save_candidate S name c)"
  unfolding save_candidate_def ids_of_def by (auto intro!: keeps clock_keeps saved save_json_keeps)

lemma save_snapshot_keeps: "preserves Q (save_snapshot S t)"
  unfolding save_snapshot_def ids_of_def by (auto intro!: keeps clock_keeps saved save_json_keeps)

lemma summarize_keeps: "preserves Q (summarize S c)"
  unfolding summarize_def by (intro keeps hooked_keeps llm_call_keeps)

lemma world_read_keeps: "preserves Q (from_world (world_read f))"
proof -
  have "from_world (world_read f) e = (Inr (f (pw_tick (proc_of e))), next_tick e)" for e :: "'x run_world"
    by (simp add: from_world_def world_read_def next_tick_def with_proc_def proc_of_def)
  then show ?thesis by (simp add: preserves_def next_tick_def any_memory)
qed

text \<open>An operation that ran between the hooks ran once, and then the hooks were told.\<close>

lemma hooked_ran:
  assumes run: "hooked S ty caller summary purpose input m e = (Inr r, e')" and e: "Q e"
  shows "\<exists>e1 e2 op asked. Q e1 \<and> m e1 = (Inr r, e2) \<and> e' = tell_after op asked e2 \<and> set asked \<subseteq> set (run_hooks S)"
proof -
  obtain st e0 where st: "fresh_stamp S e = (Inr st, e0)" by (simp add: fresh_stamp_def tick_def bind_def)
  then have e0: "Q e0" using clock_keeps(3) [of S] e unfolding preserves_def by (metis snd_conv)
  let ?op = "create_operation ty (cx_session_id (re_ctx e0)) (Some (cx_attempt_id (re_ctx e0))) caller purpose (Some input) st"
  let ?now = "\<lambda>e. sv_now S (pw_tick (proc_of e))"
  have ex: "execute (run_hooks S) summary ?op ?now m e0 = (Inr r, e')"
    using run st by (simp add: hooked_def bind_def)
  have hooks: "\<forall>h \<in> set (sorted_hooks (run_hooks S)). hook_preserves Q h"
    using run_hooks_keep by (simp add: sorted_hooks_def)
  obtain stop asked e1 where ask: "ask_before (?op\<lparr>op_status := OPS_RUNNING\<rparr>) (sorted_hooks (run_hooks S)) e0 = ((stop, asked), e1)"
    by (metis prod.exhaust)
  have stop: "stop = None"
  proof (cases stop)
    case (Some err)
    show ?thesis using ex by (simp add: blocked_not_run [OF ask [unfolded Some]])
  qed
  have e1: "Q e1" using ask_before_preserves [OF hooks e0] ask by (metis snd_conv)
  obtain x e2 where m: "m e1 = (x, e2)" by fastforce
  have told: "(Inr r, e') = (x, tell_after ((finished_operation summary (?op\<lparr>op_status := OPS_RUNNING\<rparr>) x)\<lparr>op_finished_at := Some (?now e2)\<rparr>) asked e2)"
    using ex by (auto simp: unblocked_runs [OF ask [unfolded stop], of m, OF m])
  have "set asked \<subseteq> set (run_hooks S)" using ask_before_asked [OF ask] by (simp add: sorted_hooks_def)
  with e1 m told show ?thesis by blast
qed

end

lemma on_disk_frame: "\<exists>r d. on_disk m e = (r, with_proc (\<lambda>w. w\<lparr>pw_disk := d\<rparr>) e)"
  by (cases "m (pw_disk (proc_of e))") (auto simp: on_disk_def via_def)

lemma on_disk_same: "(\<And>e d. Q (with_proc (\<lambda>w. w\<lparr>pw_disk := d\<rparr>) e) = Q e) \<Longrightarrow> preserves Q (on_disk m)"
  unfolding preserves_def using on_disk_frame [of m] by (metis snd_conv)

lemma with_proc_run [simp, frame]:
  "re_ctx (with_proc f e) = re_ctx e" "re_state (with_proc f e) = re_state e"
  "ge_last (re_world (with_proc f e)) = ge_last (re_world e)" "proc_of (with_proc f e) = f (proc_of e)"
  by (simp_all add: with_proc_def proc_of_def)

text \<open>What the hooks leave alone: the context, the round of the gate and its last verdict.\<close>

definition untouched :: "'x run_world \<Rightarrow> 'x run_world \<Rightarrow> bool" where
  "untouched a e \<longleftrightarrow> re_ctx e = re_ctx a \<and> st_gate_rounds (re_state e) = st_gate_rounds (re_state a) \<and>
     ge_last (re_world e) = ge_last (re_world a)"

interpretation ctx_frame: stable_property "\<lambda>e. re_ctx e = c" for c
  by unfold_locales (simp_all add: on_disk_same)

interpretation hook_frame: stable_property "untouched a" for a
  by unfold_locales (simp_all add: untouched_def on_disk_same)

section \<open>Properties the tools cannot touch\<close>

text \<open>Beyond the hooks, the tools, the agent and the compaction only write the workspace, the
  observations and the artifact of the draft; the compaction leaves the draft alone.\<close>

locale workspace_property = stable_property Q for Q :: "'x run_world \<Rightarrow> bool" +
  assumes any_workspace: "Q (e\<lparr>re_ctx := (re_ctx e)\<lparr>cx_workspace := ws, cx_observations := os\<rparr>\<rparr>) = Q e"
begin

lemma workspace_keeps: "preserves Q (on_ctx (put_workspace k v))"
proof -
  have "Q (e\<lparr>re_ctx := put_workspace k v (re_ctx e)\<rparr>) = Q e" for e
    using any_workspace [where e = e and ws = "dict_set k v (cx_workspace (re_ctx e))" and os = "cx_observations (re_ctx e)"]
    by (simp add: put_workspace_def)
  then show ?thesis by (simp add: preserves_def on_ctx_def)
qed

lemma trim_io_keeps: "preserves Q (trim_io C)"
  unfolding preserves_def
proof (intro allI impI)
  fix e assume e: "Q e"
  show "Q (snd (trim_io C e))"
  proof (cases "deterministic_trim (cc_float C) (re_ctx e)")
    case (Inl err)
    then show ?thesis using e by (simp add: trim_io_def)
  next
    case (Inr rc)
    then obtain ws os where "snd rc = (re_ctx e)\<lparr>cx_workspace := ws, cx_observations := os\<rparr>"
      by (auto simp: deterministic_trim_def and_then_Inr_iff)
    then show ?thesis using Inr e any_workspace by (cases rc) (simp add: trim_io_def)
  qed
qed

lemma compaction_keeps: "preserves Q (compact_if_needed (run_cm S))"
proof -
  have cm: "preserves Q (on_cm (run_cm S) f)" for f
  proof -
    have "on_cm (run_cm S) f e = (Inr (), with_proc (\<lambda>w. w\<lparr>pw_cm := f (pw_cm w)\<rparr>) e)" for e
      by (simp add: on_cm_def run_cm_def with_proc_def)
    then show ?thesis by (simp add: preserves_def any_memory)
  qed
  have critical: "preserves Q critical_io" by (simp add: preserves_def critical_io_def)
  have now_keeps: "preserves Q (from_world (cc_now (run_cm S)))" by (simp add: run_cm_def world_read_keeps)
  have "preserves Q (summarize_io (run_cm S) m)" if "cc_summary (run_cm S) = Some m" for m
    using that
    by (auto simp: run_cm_def summarize_io_def intro!: keeps summarize_keeps world_read_keeps workspace_keeps
        trim_io_keeps cm [unfolded run_cm_def])
  then have "preserves Q (compaction_step (run_cm S) may)" for may
    by (auto simp: compaction_step_def preserves_pure split: option.split)
  then show ?thesis
    unfolding compact_if_needed_def by (intro keeps cm critical now_keeps trim_io_keeps)
qed

end

locale run_property = workspace_property Q for Q :: "'x run_world \<Rightarrow> bool" +
  assumes any_draft: "Q (set_candidate (\<lambda>s. s\<lparr>cs_draft_ref := r\<rparr>) e) = Q e"
begin

lemma draft_keeps: "preserves Q (on_ctx (\<lambda>ctx. ctx\<lparr>cx_candidate := (cx_candidate ctx)\<lparr>cs_draft_ref := r\<rparr>\<rparr>))"
  using any_draft by (simp add: preserves_def on_ctx_def set_candidate_def)

lemma save_object_keeps: "preserves Q (save_object S key v ty f)"
  unfolding save_object_def by (auto intro!: keeps clock_keeps save_json_keeps on_objects_keeps workspace_keeps)

lemma handlers_keep:
  "preserves Q (handle_log S ev)" "preserves Q (handle_diagnose S ev)" "preserves Q (handle_metadata S ev)"
  "preserves Q (handle_memory S)" "preserves Q (handle_plan S ev)" "preserves Q (handle_generate S ev)"
  unfolding handle_log_def handle_diagnose_def handle_metadata_def handle_memory_def handle_plan_def
    handle_generate_def Let_def
  by (intro keeps object_at_keeps save_object_keeps ask_diagnosis_keeps clock_keeps generate_keeps on_objects_keeps
      save_candidate_keeps draft_keeps workspace_keeps)+

lemma tools_keep: "t \<in> set (run_tools S ev) \<Longrightarrow> preserves Q (tl_run t input)"
  unfolding run_tools_def by (auto simp: internal_tool_def intro!: keeps handlers_keep)

lemma registry_tools: "dict_get (run_registry S ev) name = Some t \<Longrightarrow> t \<in> set (run_tools S ev)"
proof -
  assume t: "dict_get (run_registry S ev) name = Some t"
  show ?thesis
  proof (cases "register_all (run_tools S ev) []")
    case (Inl err)
    then show ?thesis using t by (simp add: run_registry_def dict_get_def)
  next
    case (Inr reg)
    have "List.find (\<lambda>u. tl_name u = name) (run_tools S ev) = Some t"
      using register_all_get [OF Inr, of name] t Inr by (auto simp: run_registry_def dict_get_def split: option.splits)
    then show ?thesis by (auto simp: find_Some_iff)
  qed
qed

lemma registry_execute_keeps: "preserves Q (registry_execute S ev name input)"
  unfolding registry_execute_def
  by (intro keeps clock_keeps execute_tool_preserves) (blast intro: tools_keep dest: registry_tools)

lemma observation_keeps: "preserves Q (make_observation S a st summary keys)"
  unfolding make_observation_def by (intro keeps clock_keeps)

lemma sub_agent_ports_keep: "ports_preserve Q (sub_agent_ports S ev)"
proof -
  have "preserves Q (sub_agent_worker S q v)" for q v
    unfolding sub_agent_worker_def by (intro keeps llm_call_keeps)
  then show ?thesis
    using registry_execute_keeps
    by (auto simp: ports_preserve_def sub_agent_ports_def next_tick_def any_memory intro: preserves_def [THEN iffD2])
qed

lemma sub_agent_keeps: "preserves Q (run_sub_agent S ev q)"
  unfolding preserves_def
proof (intro allI impI)
  fix e assume e: "Q e"
  obtain x e1 where run: "sub_run (sub_agent_ports S ev) q (re_ctx e) e = (x, e1)" by fastforce
  then have "Q e1" using sub_run_preserves [OF sub_agent_ports_keep e, of S ev q "re_ctx e"] by simp
  then show "Q (snd (run_sub_agent S ev q e))" by (simp add: run_sub_agent_def run split: option.split)
qed

lemma execute_keeps: "preserves Q (execute_run_action S ev a)"
  unfolding execute_run_action_def execute_named_tool_def execute_sub_agent_def
  by (cases "ac_type a")
    (auto intro!: keeps observation_keeps hooked_keeps registry_execute_keeps sub_agent_keeps clock_keeps workspace_keeps
      split: option.split)

lemma agent_keeps: "preserves Q (run_next_action S x)"
proof -
  have "preserves Q (next_action (agent_planner S c) i s)" for c i s
    by (rule next_action_preserves) (simp_all add: agent_planner_def llm_call_keeps any_memory)
  then show ?thesis
    unfolding run_next_action_def by (intro keeps) (auto split: option.split sum.split intro!: keeps)
qed

end

text \<open>Which sessions and attempts are stored.\<close>

definition stored :: "disk \<Rightarrow> 'x run_world \<Rightarrow> bool" where
  "stored d e \<longleftrightarrow> d_sessions (pw_disk (proc_of e)) = d_sessions d \<and> d_attempts (pw_disk (proc_of e)) = d_attempts d \<and>
     d_base (pw_disk (proc_of e)) = d_base d"

lemma stored_on_disk:
  assumes "\<And>x. d_sessions (snd (m x)) = d_sessions x \<and> d_attempts (snd (m x)) = d_attempts x \<and> d_base (snd (m x)) = d_base x"
  shows "preserves (stored d) (on_disk m)"
  using assms by (auto simp: preserves_def on_disk_def via_def stored_def split: prod.split) (metis snd_conv)+

lemma stored_text: "preserves (stored d) (on_disk (save_text_ref sid a name c kind st))"
  by (rule stored_on_disk)
    (auto simp: save_text_ref_def bind_def seq_def write_file_def put_file_def split: sum.split prod.split)

lemma stored_trace: "preserves (stored d) (on_disk (emit_trace sid ty stage payload a))"
  by (rule stored_on_disk) (simp add: emit_trace_def)

interpretation run_shape: run_property "run_is n b" for n b
  by unfold_locales (simp_all add: run_is_def steps_done_def set_candidate_def on_disk_same)

interpretation run_owner: run_property "same_run c" for c
  by unfold_locales (simp_all add: same_run_def set_candidate_def on_disk_same)

interpretation run_store: run_property "stored d" for d
  by unfold_locales
    (auto simp: stored_text stored_trace intro!: ext simp: stored_def set_candidate_def proc_of_def with_proc_def)

section \<open>The gate of a run\<close>

text \<open>What the gates of a run keep: the properties of a run that do not look at the verdict, the
  candidate, or the status.\<close>

locale gate_property = run_property Q for Q :: "'x run_world \<Rightarrow> bool" +
  assumes any_gate: "gate_free Q"
begin

lemma hooked_gate_run_keeps: "preserves Q (hooked_gate_run S q)"
  unfolding hooked_gate_run_def
  by (intro keeps clock_keeps hooked_keeps gate_run_preserves gates_keep any_gate)

lemma hooked_gate_repair_keeps: "preserves Q (hooked_gate_repair S q c)"
  unfolding hooked_gate_repair_def
  by (intro keeps clock_keeps hooked_keeps run_repair_preserves gates_keep any_gate)

lemma gate_repaired_keeps: "preserves Q (gate_repaired S q c)"
proof -
  have set: "Q (set_candidate f e) = Q e" "Q (set_status st e) = Q e" for f e st
    using any_gate by (simp_all add: gate_free_def)
  have accept: "preserves Q (repaired_accepted c ref g)" for ref g
    by (simp add: preserves_def repaired_accepted_def Let_def set)
  have reject: "preserves Q (\<lambda>e. let (r, e1) = gate_rejected g e in (Inr r, e1))" for g
    by (simp add: preserves_def split_beta gate_free_rejected [OF any_gate])
  have clear: "preserves Q (modify (set_candidate f))" for f
    by (simp add: preserves_def set)
  show ?thesis
    unfolding gate_repaired_def
    by (intro keeps save_candidate_keeps clear hooked_gate_repair_keeps accept reject)
qed

lemma online_gate_keeps: "preserves Q (online_gate S ev)"
proof -
  have request: "preserves Q (make_gate_request S)"
    unfolding make_gate_request_def by (intro keeps object_at_keeps) (simp add: preserves_def)
  have "preserves Q (regenerate S ev q first nt)" for q first nt
    unfolding regenerate_def by (intro keeps object_at_keeps generate_keeps gate_repaired_keeps)
  then show ?thesis
    unfolding online_gate_def by (intro keeps request hooked_gate_run_keeps)
qed

end

interpretation gate_shape: gate_property "run_is n b" for n b
  by unfold_locales (rule run_is_gate_free)

lemma stored_gate_free: "gate_free (stored d)"
  by (simp add: gate_free_def verdict_free_def stored_def proc_of_def)

interpretation gate_store: gate_property "stored d" for d
  by unfold_locales (rule stored_gate_free)

section \<open>The run meets the contract of the loop\<close>

interpretation run_of_agent: agent_run_identity "run_ports S ev" for S ev
proof unfold_locales
  fix t p x i a
  show "keeps_run t" if "pt_context_manager (run_ports S ev) = Some (t, p)"
    using that by (auto simp: run_ports_def keeps_run_iff run_shape.compaction_keeps)
  show "keeps_run p" if "pt_context_manager (run_ports S ev) = Some (t, p)"
    using that by (auto simp: run_ports_def keeps_run_def)
  show "keeps_run (pt_next_action (run_ports S ev) i)"
    by (simp add: run_ports_def keeps_run_iff run_shape.agent_keeps)
  show "keeps_run (pt_execute (run_ports S ev) a)"
    by (simp add: run_ports_def keeps_run_iff run_shape.execute_keeps)
  show "keeps_run (pt_gate (run_ports S ev))"
    by (simp add: run_ports_def keeps_run_iff gate_shape.online_gate_keeps)
  fix c
  show "preserves (same_run c) t" if "pt_context_manager (run_ports S ev) = Some (t, p)"
    using that by (auto simp: run_ports_def run_owner.compaction_keeps)
  show "preserves (same_run c) p" if "pt_context_manager (run_ports S ev) = Some (t, p)"
    using that by (auto simp: run_ports_def preserves_def)
  show "preserves (same_run c) (pt_next_action (run_ports S ev) i)"
    by (simp add: run_ports_def run_owner.agent_keeps)
  show "preserves (same_run c) (pt_execute (run_ports S ev) a)"
    by (simp add: run_ports_def run_owner.execute_keeps)
qed

text \<open>The loop of a run returns, within its step budget, and keeps the plan well-formed.\<close>

lemma run_agent_returns:
  "\<exists>r e'. agent_run (run_ports S ev) (limits S) e = (Some r, e') \<and> run_agent S ev e = (r, e') \<and>
     steps_done e' \<le> max (steps_done e) (lm_max_steps (limits S)) \<and>
     (well_formed_plan (cx_plan (re_ctx e)) \<longrightarrow> well_formed_plan (cx_plan (re_ctx e')))"
  using run_of_agent.agent_run_total [of S ev "limits S" e] by (auto simp: run_agent_def)

section \<open>A run leaves the sessions alone\<close>

lemma stored_of_world: "of_world (stored d)"
  by (simp add: of_world_def stored_def proc_of_def)

lemma stored_read: "preserves (stored d) (from_world (world_read f))"
  by (simp add: preserves_def from_world_def world_read_def stored_def proc_of_def split: prod.split)

lemma run_ports_store: "ports_keep (stored d) (run_ports S ev)"
  by (auto simp add: ports_keep_def run_ports_def stored_of_world stored_read run_store.compaction_keeps
      run_store.agent_keeps run_store.execute_keeps gate_store.online_gate_keeps intro: keeps)

lemma run_agent_store:
  fixes S :: "('t, 'x) services"
  shows "preserves (stored d) (run_agent S ev)"
  unfolding preserves_def
proof (intro allI impI)
  fix e :: "'x run_world" assume e: "stored d e"
  obtain x e1 where run: "agent_run (run_ports S ev) (limits S) e = (x, e1)" by fastforce
  then have "stored d e1"
    using run_loop_preserves [OF run_ports_store [of d S ev] e, of "run_fuel (limits S) e" "limits S"] by (simp add: agent_run_def)
  then show "stored d (snd (run_agent S ev e))" by (simp add: run_agent_def run split: option.split)
qed

lemma io_each_preserves: "(\<And>x. preserves Q (f x)) \<Longrightarrow> preserves Q (io_each f xs)"
  by (induction xs) (auto intro: keeps)

lemma process_store: "preserves (stored d) (process_failed_event S ev)"
  unfolding process_failed_event_def
  by (intro keeps run_store.compaction_keeps run_agent_store io_each_preserves run_store.save_snapshot_keeps)

section \<open>A candidate a run reports\<close>

lemma hooked_untouched:
  assumes "hooked S ty caller summary purpose input m e = (Inr r, e')"
  shows "\<exists>e1 e2. untouched e e1 \<and> m e1 = (Inr r, e2) \<and> untouched e2 e'"
proof -
  have "untouched e e" by (simp add: untouched_def)
  from hook_frame.hooked_ran [OF assms this]
  obtain e1 e2 op asked where run: "untouched e e1" "m e1 = (Inr r, e2)" "e' = tell_after op asked e2"
    "set asked \<subseteq> set (run_hooks S)" by blast
  have "\<forall>h \<in> set asked. hook_preserves (untouched e2) h" using hook_frame.run_hooks_keep run(4) by blast
  then have "untouched e2 e'" unfolding run(3) by (rule tell_after_preserves) (simp add: untouched_def)
  with run show ?thesis by blast
qed

text \<open>What a reported candidate is: released by the gates for the text of the run, and the formal one.\<close>

definition delivered :: "('t, 'x) services \<Rightarrow> string \<Rightarrow> run_result \<Rightarrow> 'x run_world \<Rightarrow> bool" where
  "delivered S sql r e \<longleftrightarrow>
     (\<exists>q g. released (run_gates S) q g \<and> lets_pass (gt_decision g) \<and> gq_original_sql q = sql \<and>
        gq_allow_medium q = sv_allow_medium S \<and> ge_last (re_world e) = Some g \<and>
        rr_candidate_sql r = Some (gq_candidate_sql q) \<and>
        cs_formal_sql (cx_candidate (re_ctx e)) = Some (gq_candidate_sql q) \<and>
        cs_status (cx_candidate (re_ctx e)) = CS_READY \<and>
        rr_candidate_ref r = cs_draft_ref (cx_candidate (re_ctx e)))"

lemma delivered_untouched:
  "re_ctx e' = re_ctx e \<Longrightarrow> ge_last (re_world e') = ge_last (re_world e) \<Longrightarrow> delivered S sql r e' = delivered S sql r e"
  by (simp add: delivered_def)

lemma first_gate_delivers:
  assumes run: "hooked_gate_run S q e = (Inr r, e')" and ready: "rr_status r = CANDIDATE_READY"
    and draft: "cs_draft_sql (cx_candidate (re_ctx e)) = Some (gq_candidate_sql q)"
    and allow: "gq_allow_medium q = sv_allow_medium S"
  shows "delivered S (gq_original_sql q) r e'"
proof -
  obtain st e0 where st: "fresh_stamp S e = (Inr st, e0)" "re_ctx e0 = re_ctx e"
    by (simp add: fresh_stamp_def tick_def bind_def next_tick_def)
  then obtain e1 e2 where gate: "untouched e0 e1" "gate_run (run_gates S) st (Some q) e1 = (Inr r, e2)" "untouched e2 e'"
    using run hooked_untouched by (fastforce simp: hooked_gate_run_def bind_def)
  then have ctx: "re_ctx e1 = re_ctx e" using st by (simp add: untouched_def)
  from gate_run_ready [OF gate(2) ready ctx_frame.gates_keep]
  obtain g where g: "released (run_gates S) q g" "gate_lets_pass q g" "ge_last (re_world e2) = Some g"
    "rr_candidate_sql r = cs_draft_sql (cx_candidate (re_ctx e1))"
    "rr_candidate_ref r = cs_draft_ref (cx_candidate (re_ctx e1))"
    "cs_formal_sql (cx_candidate (re_ctx e2)) = cs_draft_sql (cx_candidate (re_ctx e1))"
    "cs_draft_ref (cx_candidate (re_ctx e2)) = cs_draft_ref (cx_candidate (re_ctx e1))"
    "cs_status (cx_candidate (re_ctx e2)) = CS_READY" by blast
  then have "delivered S (gq_original_sql q) r e2"
    using draft allow ctx by (auto simp: delivered_def gate_lets_pass_def lets_pass_def)
  then show ?thesis using gate(3) delivered_untouched by (metis untouched_def)
qed

text \<open>The gate of the regenerated candidate.\<close>

lemma repair_gate_released:
  assumes run: "hooked_gate_repair S q c e = (Inr g, e')" and pass: "lets_pass (gt_decision g)"
  shows "released (run_gates S) (q\<lparr>gq_candidate_sql := c\<rparr>) g \<and> ge_last (re_world e') = Some g"
proof -
  obtain st e0 where st: "fresh_stamp S e = (Inr st, e0)"
    by (simp add: fresh_stamp_def tick_def bind_def)
  then obtain e1 e2 where gate: "run_repair (run_gates S) st q c True e1 = (Inr g, e2)" "untouched e2 e'"
    using run hooked_untouched by (fastforce simp: hooked_gate_repair_def bind_def)
  from run_repair_last [OF gate(1) pass] run_repair_released [OF gate(1) pass] gate(2)
  show ?thesis by (simp add: untouched_def)
qed

lemma repair_gate_context: "preserves (\<lambda>e. re_ctx e = ctx) (hooked_gate_repair S q c)"
proof -
  have "preserves (\<lambda>e. re_ctx e = ctx) (run_request_in (run_gates S) st q1)" for st q1
    by (rule run_request_in_preserves) (simp_all add: ctx_frame.gates_keep verdict_free_def)
  then have "preserves (\<lambda>e. re_ctx e = ctx) (run_repair (run_gates S) st q c True)" for st
    by (simp add: preserves_def run_repair_def)
  then show ?thesis
    unfolding hooked_gate_repair_def by (intro keeps ctx_frame.clock_keeps ctx_frame.hooked_keeps)
qed

lemma gate_repaired_delivers:
  assumes run: "gate_repaired S q c e = (Inr r, e')" and ready: "rr_status r = CANDIDATE_READY"
    and allow: "gq_allow_medium q = sv_allow_medium S"
  shows "delivered S (gq_original_sql q) r e'"
proof -
  let ?q = "\<lambda>ref. q\<lparr>gq_candidate_sql := c, gq_artifact_ref := Some ref\<rparr>"
  obtain ref e1 where save: "save_candidate S ''candidate_v2.sql'' c e = (Inr ref, e1)"
    using run by (auto simp: gate_repaired_def bind_def split: prod.splits sum.splits)
  define e2 where "e2 = set_candidate (\<lambda>s. s\<lparr>cs_draft_sql := Some c, cs_draft_ref := Some ref, cs_feedback := []\<rparr>) e1"
  obtain g e3 where gate: "hooked_gate_repair S (?q ref) c e2 = (Inr g, e3)"
    and rest: "(if gt_decision g = GD_PASS then repaired_accepted c ref g e3 else (let (r, e1) = gate_rejected g e3 in (Inr r, e1))) = (Inr r, e')"
    using run save by (auto simp: gate_repaired_def bind_def seq_def modify_def e2_def split: prod.splits sum.splits if_splits)
  have pass: "gt_decision g = GD_PASS" and fin: "repaired_accepted c ref g e3 = (Inr r, e')"
    using rest ready by (auto simp: gate_rejected_def Let_def plain_result_def split: if_splits)
  have ctx: "re_ctx e3 = re_ctx e2"
    using repair_gate_context [of "re_ctx e2" S "?q ref" c] gate unfolding preserves_def by (metis snd_conv)
  show ?thesis
    using repair_gate_released [OF gate] pass fin ctx allow
    by (auto simp: delivered_def repaired_accepted_def Let_def lets_pass_def e2_def plain_result_def intro!: exI [of _ "q\<lparr>gq_artifact_ref := Some ref, gq_candidate_sql := c\<rparr>"])
qed

lemma make_request_Inr:
  assumes "make_gate_request S e = (Inr q, e')" "same_run c e"
  shows "e' = e \<and> gq_original_sql q = cx_original_sql c \<and> gq_allow_medium q = sv_allow_medium S \<and>
    cs_draft_sql (cx_candidate (re_ctx e)) = Some (gq_candidate_sql q)"
  using assms
  by (auto simp: make_gate_request_def object_at_def bind_def gets_def ret_def raise_def gate_request_of_def same_run_def
      candidate_of_def or_opt_def split: sum.splits option.splits prod.splits dest!: prepare_for_gate_Inr)

lemma online_gate_delivers:
  assumes run: "online_gate S ev e = (Inr r, e')" and owner: "same_run c e" and ready: "rr_status r = CANDIDATE_READY"
  shows "delivered S (cx_original_sql c) r e'"
proof -
  obtain q e1 first e2 where q: "make_gate_request S e = (Inr q, e1)" and gate: "hooked_gate_run S q e1 = (Inr first, e2)"
    and rest: "(case wants_regeneration e2 of None \<Rightarrow> ret first | Some n \<Rightarrow> regenerate S ev q first n) e2 = (Inr r, e')"
    using run by (auto simp: online_gate_def bind_def gets_def split: prod.splits sum.splits)
  note request = make_request_Inr [OF q owner]
  have first: "rr_status first = CANDIDATE_READY \<Longrightarrow> delivered S (cx_original_sql c) first e2"
    using first_gate_delivers [OF gate] request by simp
  show ?thesis
  proof (cases "wants_regeneration e2")
    case None
    then show ?thesis using rest first ready by (simp add: ret_def)
  next
    case (Some n)
    then obtain p e3 g e4 where p: "object_at ''repair_plan'' oj_plan e2 = (Inr p, e3)"
      and g: "generate_sql (ask_generation S) (ev_sql ev) p (Some (gn_message n)) e3 = (Inr g, e4)"
      and fin: "(if \<not> gr_generated g \<or> \<not> truthy (gr_candidate g) then ret first
        else gate_repaired S q (or_text (gr_candidate g) [])) e4 = (Inr r, e')"
      using rest by (auto simp: regenerate_def bind_def split: prod.splits sum.splits)
    have "untouched e2 e3" by (rule preserves_run [OF hook_frame.object_at_keeps _ p]) (simp add: untouched_def)
    then have "untouched e2 e4" using g by (rule preserves_run [OF hook_frame.generate_keeps])
    then have same: "delivered S (cx_original_sql c) first e4 = delivered S (cx_original_sql c) first e2"
      unfolding untouched_def by (intro delivered_untouched) simp_all
    show ?thesis
    proof (cases "\<not> gr_generated g \<or> \<not> truthy (gr_candidate g)")
      case True
      then show ?thesis using fin same first ready by (auto simp: ret_def)
    next
      case False
      then have "gate_repaired S q (or_text (gr_candidate g) []) e4 = (Inr r, e')" using fin by simp
      from gate_repaired_delivers [OF this ready] request show ?thesis by simp
    qed
  qed
qed

text \<open>
  What compacting the context and saving its snapshots keep of a delivered candidate: the candidate
  and the last verdict.
\<close>

definition settled :: "candidate_state \<Rightarrow> gate_result option \<Rightarrow> 'x run_world \<Rightarrow> bool" where
  "settled c g e \<longleftrightarrow> cx_candidate (re_ctx e) = c \<and> ge_last (re_world e) = g"

interpretation settled_frame: workspace_property "settled c g" for c g
  by unfold_locales (simp_all add: settled_def on_disk_same)

lemma delivered_settled:
  assumes "delivered S sql r e" "settled (cx_candidate (re_ctx e)) (ge_last (re_world e)) e'"
  shows "delivered S sql r e'"
  using assms by (simp add: delivered_def settled_def)

theorem process_delivers:
  assumes run: "process_failed_event S ev e = (Inr r, e')" and owner: "same_run c e"
    and ready: "rr_status r = CANDIDATE_READY"
  shows "delivered S (cx_original_sql c) r e'"
proof -
  obtain u1 e1 r1 e2 u2 e3 where start: "compact_if_needed (run_cm S) e = (Inr u1, e1)"
    and agent: "run_agent S ev e1 = (Inr r1, e2)" and trim: "compact_if_needed (run_cm S) e2 = (Inr u2, e3)"
    and rest: "seq (io_each (save_snapshot S) (cm_snapshots (pw_cm (proc_of e3)))) (ret r1) e3 = (Inr r, e')"
    using run by (fastforce simp: process_failed_event_def bind_Inr_iff seq_Inr_iff)
  have e1: "same_run c e1" by (rule preserves_run [OF run_owner.compaction_keeps owner start])
  have r1: "r1 = r" using rest by (auto simp: seq_Inr_iff)
  have "agent_run (run_ports S ev) (limits S) e1 = (Some (Inr r), e2)"
    using agent r1 by (auto simp: run_agent_def split: prod.splits option.splits)
  from run_of_agent.agent_run_candidate [OF this e1 ready] have "delivered S (cx_original_sql c) r e2"
    using ready by (auto simp: run_ports_def dest: online_gate_delivers)
  moreover
  let ?Q = "settled (cx_candidate (re_ctx e2)) (ge_last (re_world e2))"
  have "?Q e3" by (rule preserves_run [OF settled_frame.compaction_keeps _ trim]) (simp add: settled_def)
  then have "?Q e'"
    using rest by (rule preserves_run [rotated 2, rotated 2])
      (intro keeps io_each_preserves settled_frame.save_snapshot_keeps)
  ultimately show ?thesis by (rule delivered_settled)
qed

end
