(* ===== verification/Agent_Properties.thy ===== *)
theory Agent_Properties
  imports Processor_Facts
begin

text \<open>
  The properties of plans, hooks, tools, sub-agents, the main agent and its context, each with a witness
  at a concrete input.
\<close>

section \<open>Execution plans\<close>

text \<open>C14. The validator of plans accepts exactly the well-formed ones: its traversal with two coloured
  sets is the acyclicity of the dependency relation.\<close>

theorem plan_validation_exact: "validate_structure p = Inr () \<longleftrightarrow> well_formed_plan p"
  by (rule validate_structure_iff)

text \<open>C15. A proposed plan replaces a well-formed one exactly if the revisions are not used up and the
  proposal is well-formed and, after the first revision, a legal successor; it gets the next revision
  number, and one revision is counted.\<close>

theorem plan_revision_exact:
  assumes "well_formed_plan current"
  shows "replace_plan current proposed st l = Inr (p, st') \<longleftrightarrow>
    st_plan_revisions st < lm_max_plan_revisions l \<and> p = proposed\<lparr>ep_revision := ep_revision current + 1\<rparr> \<and>
    st' = st\<lparr>st_plan_revisions := st_plan_revisions st + 1\<rparr> \<and> well_formed_plan proposed \<and>
    (if st_plan_revisions st = 0 then 0 \<le> ep_revision current + 1 else legal_successor current proposed)"
  using assms by (rule replace_plan_iff)

theorem plan_revision_exact_witness:
  "replace_plan build_initial_execution_plan build_initial_execution_plan (new_run_state ''T0'') default_run_limits =
     Inr (build_initial_execution_plan\<lparr>ep_revision := 1\<rparr>, (new_run_state ''T0'')\<lparr>st_plan_revisions := 1\<rparr>)"
  using initial_plan_ok
  by (subst plan_revision_exact [OF initial_plan_ok])
    (simp add: new_run_state_def default_run_limits_def build_initial_execution_plan_def)

text \<open>C17. Recording an observation never fails on a well-formed plan, and keeps it well-formed, with its
  revision and its steps.\<close>

theorem observation_keeps_plan:
  assumes "well_formed_plan p"
  shows "\<exists>p'. apply_observation obs p = (Inr (), p') \<and> well_formed_plan p' \<and>
    ep_revision p' = ep_revision p \<and> map es_step_id (ep_steps p') = map es_step_id (ep_steps p)"
  using assms by (rule apply_observation_well_formed)

definition sample_observation :: observation where
  "sample_observation =
     \<lparr>ob_id = ''o1'', ob_action_type = ''TOOL_CALL'', ob_status = OB_SUCCEEDED, ob_summary = ''ok'', ob_artifact_refs = [],
      ob_workspace_keys = [''log_digest''], ob_plan_step_id = Some ''read_log'', ob_created_at = ''T0''\<rparr>"

theorem observation_keeps_plan_witness:
  "well_formed_plan (snd (apply_observation sample_observation build_initial_execution_plan)) \<and>
     ep_current (snd (apply_observation sample_observation build_initial_execution_plan)) = Some ''diagnose''"
proof
  show "well_formed_plan (snd (apply_observation sample_observation build_initial_execution_plan))"
    using observation_keeps_plan [OF initial_plan_ok, of sample_observation] by auto
  show "ep_current (snd (apply_observation sample_observation build_initial_execution_plan)) = Some ''diagnose''"
    by (simp add: apply_observation_def sample_observation_def build_initial_execution_plan_def plan_step_def steps_by_id_def
        dict_of_def dict_update_def dict_get_def observe_step_def is_done_def Let_def)
qed

section \<open>Hooks and retries\<close>

text \<open>An operation a hook blocks is not run: the error of the hook is the result, and the hooks that
  were asked, and only these, are told that it failed.\<close>

theorem blocked_operation_not_run:
  assumes "ask_before (op\<lparr>op_status := OPS_RUNNING\<rparr>) (sorted_hooks hooks) w = ((Some err, asked), w1)"
  shows "execute hooks summary op now run w = (Inl err, tell_after
       ((failed_operation (op\<lparr>op_status := OPS_RUNNING\<rparr>) err)\<lparr>op_finished_at := Some (now w1)\<rparr>) asked w1)"
  using assms by (rule blocked_not_run)

definition orphan_operation :: operation where
  "orphan_operation = create_operation OP_TOOL_CALL [] (Some ''a'') CALLER_MAIN_AGENT ''p'' None \<lparr>sp_uuid = ''u'', sp_now = ''T0''\<rparr>"

theorem blocked_operation_not_run_witness:
  "execute [safety_hook] (\<lambda>_. []) orphan_operation (\<lambda>_. ''T1'') (modify Suc) (0 :: nat) =
     (Inl (blocked_by (Some ''OPERATION_OWNERSHIP_MISSING'') (Some msg_ownership_missing)), 0)"
proof -
  have "ask_before (orphan_operation\<lparr>op_status := OPS_RUNNING\<rparr>) (sorted_hooks [safety_hook]) (0 :: nat) =
      ((Some (blocked_by (Some ''OPERATION_OWNERSHIP_MISSING'') (Some msg_ownership_missing)), [safety_hook]), 0)"
    by (simp add: sorted_hooks_def safety_hook_def safety_decision_def orphan_operation_def create_operation_def
        caller_allowed_def)
  from blocked_operation_not_run [OF this, of "\<lambda>_. []" "\<lambda>_. ''T1''" "modify Suc"] show ?thesis
    by (simp add: tell_after_def safety_hook_def)
qed

text \<open>C37. An LLM call is retried a bounded number of times: at most once more per allowed schema retry
  and per allowed transient retry.\<close>

theorem llm_retries_bounded: "fst (snd (retry_run L (counted call) (0, w))) \<le> 1 + rl_schema L + rl_transient L"
  by (rule retry_run_count)

section \<open>Tools and sub-agents\<close>

text \<open>C36. A tool runs only if it is registered, allowed in the phase, and accepts its input; otherwise
  the call is refused and nothing happens.\<close>

theorem tool_execution_guarded:
  "\<exists>r w'. execute_tool reg name ph input t1 t2 w = (Inr r, w') \<and>
     ((\<exists>t. dict_get reg name = Some t \<and> ph \<in> set (tl_phases t) \<and> tl_accepts t input \<and>
            (tr_status r = TS_SUCCEEDED \<and> (\<exists>out. tl_run t input w = (Inr out, w')) \<or>
             tr_status r = TS_FAILED \<and> (\<exists>err. tl_run t input w = (Inl err, w')))) \<or>
         tr_status r \<in> {TS_BLOCKED, TS_INVALID_INPUT} \<and> w' = w)"
proof -
  obtain r w' where run: "execute_tool reg name ph input t1 t2 w = (Inr r, w')" using execute_tool_returns by metis
  from execute_tool_cases [OF run] show ?thesis using run by blast
qed

text \<open>C34. A sub-agent takes at most its steps and runs at most one tool more than its bound on tool calls,
  and only tools that both its request and the registered task allow, whatever its worker answers.\<close>

theorem sub_agent_bounded:
  assumes "0 \<le> sl_max_steps (sr_limits q)" "0 \<le> sl_max_tool_calls (sr_limits q)"
  shows "case snd (sub_run (logged_ports P) q ctx (0, [], w)) of (steps, tools, _) \<Rightarrow>
    int steps \<le> sl_max_steps (sr_limits q) \<and> int (length tools) \<le> sl_max_tool_calls (sr_limits q) + 1 \<and>
    set tools \<subseteq> set (sr_allowed_tools q) \<and>
    (if tools = [] then True else \<exists>spec. find_task (sr_task_name q) = Some spec \<and> set tools \<subseteq> set (tk_allowed_tools spec))"
proof -
  obtain x i ns w' where run: "sub_run (logged_ports P) q ctx (0, [], w) = (x, (i, ns, w'))" by (metis prod.exhaust)
  from sub_run_log [OF run assms] show ?thesis by (auto simp: run)
qed

definition sample_context :: agent_context where
  "sample_context =
     \<lparr>cx_session_id = ''s'', cx_attempt_id = ''attempt_001'', cx_event_key = ''k'', cx_original_sql = ''SELECT a FROM t'',
      cx_error_message = None, cx_log_path = None, cx_workspace = [], cx_plan = build_initial_execution_plan,
      cx_candidate = empty_candidate, cx_observations = [], cx_phase = PH_INIT, cx_last_action = None, cx_last_error = None\<rparr>"

definition greedy_ports :: "unit subagent_ports" where
  "greedy_ports =
     \<lparr>sw_worker = (\<lambda>q v. ret (Answer_Action
        \<lparr>sx_type = SB_CALL_ALLOWED_TOOL, sx_tool_name = Some ''ReadArtifactTool'', sx_tool_input = [], sx_refs = [], sx_result = None\<rparr>)),
      sw_elapsed_ms = (\<lambda>w. (0, w)), sw_call_tool = Some (\<lambda>n i w. execute_tool [] n PH_INIT i ''T0'' ''T1'' w), sw_prepare = None\<rparr>"

theorem sub_agent_bounded_witness:
  "int (length (fst (snd (snd (sub_run (logged_ports greedy_ports)
     (diagnose_request\<lparr>sr_allowed_tools := [''ReadArtifactTool'']\<rparr>) sample_context (0, [], ())))))) \<le>
     sl_max_tool_calls default_subagent_limits + 1"
  using sub_agent_bounded [of "diagnose_request\<lparr>sr_allowed_tools := [''ReadArtifactTool'']\<rparr>" greedy_ports sample_context "()"]
  by (simp add: diagnose_request_def default_subagent_limits_def split: prod.splits)

text \<open>C35. A sub-agent always returns.\<close>

theorem sub_agent_returns: "fst (sub_run P q ctx w) \<noteq> None"
  by (rule sub_run_returns)

text \<open>A configuration the program starts with has at least one step, exactly one gate repair round,
  and sub-agents with no more steps than the agent.\<close>

theorem accepted_configuration:
  assumes "mk_agent_config c = Inr c'"
  shows "c' = c \<and> sl_max_steps (cf_subagent_limits c) \<le> lm_max_steps (cf_run_limits c) \<and>
    lm_max_gate_rounds (cf_run_limits c) = 1 \<and> 1 \<le> lm_max_steps (cf_run_limits c)"
  using assms by (rule mk_agent_config_ok)

theorem accepted_configuration_witness:
  "lm_max_gate_rounds (cf_run_limits default_agent_config) = 1 \<and> 1 \<le> lm_max_steps (cf_run_limits default_agent_config)"
  using accepted_configuration [OF default_agent_config_ok] by simp

section \<open>The context\<close>

text \<open>A summary of the context is accepted exactly if it names the current step and the status of
  the candidate as they are, refers to nothing that is not in the workspace, and keeps every reason of
  the gates.\<close>

theorem summary_faithful:
  "validate_summary ctx u = Inr () \<longleftrightarrow>
     cu_plan_step u = ep_current (cx_plan ctx) \<and>
     cu_candidate_status u = candidate_status_value (cs_status (cx_candidate ctx)) \<and>
     set (cu_refs u) \<subseteq> set (workspace_refs ctx) \<and>
     gf_reason ` set (cs_feedback (cx_candidate ctx)) \<subseteq> set (cu_constraints u)"
  by (rule validate_summary_iff)

text \<open>A sub-agent only sees references of the session of its run, all of them sanitized.\<close>

theorem sub_agent_sees_own_refs:
  "case prepare_for_sub_agent ctx q of
     Inl _ \<Rightarrow> True | Inr i \<Rightarrow> set (si_refs i) \<subseteq> {r. ar_session r = cx_session_id ctx \<and> ar_sanitized r}"
  by (auto split: sum.split dest: prepare_for_sub_agent_own)


section \<open>The main agent\<close>

text \<open>The deterministic agent asks for the first missing piece of evidence in the order of the
  workflow, and ends with the candidate, or without one with a human.\<close>

theorem deterministic_workflow:
  assumes "\<not> wants_sub_agent (known x) s"
  shows "deterministic_action x s =
    (case List.find (\<lambda>(t, k). missing (known x) k)
        [(''build_log_digest'', ''log_digest''), (''diagnose'', ''diagnosis''), (''query_metadata'', ''metadata_snapshot''),
         (''retrieve_memory'', ''memory_retrieval''), (''build_repair_plan'', ''repair_plan''),
         (''generate_candidate'', ''candidate_sql'')] of
       Some (t, _) \<Rightarrow> Inr (tool_action t) | None \<Rightarrow> final_action (seen_candidate x))"
  using deterministic_first_missing [OF assms] by (simp add: workflow_def)

text \<open>C16. Whatever the LLM answers, the main agent's next action is sound: a plan it proposes passes the
  checks of plans, a candidate it proposes is the one of the workspace, and its only errors are
  validation errors, which the loop handles.\<close>

theorem main_agent_sound:
  assumes "agent_private P"
  shows "case fst (next_action P i s e) of
      Inl err \<Rightarrow> \<exists>m. err = ValidationError m
    | Inr a \<Rightarrow>
        (if ac_type a = UPDATE_PLAN
         then \<exists>p. ac_plan a = Some p \<and> check_plan (mg_initialized (lp_get P e)) (mi_plan i) p = Inr p
         else if ac_type a = PROPOSE_SQL_CANDIDATE then dict_get (mi_workspace i) ''candidate_sql'' = ac_candidate_sql a
         else True)"
  using next_action_good [OF assms, of e i s]
  by (auto simp: good_answer_def legal_plan_def split: sum.splits)

definition silent_planner :: "main_agent_state planner_ports" where
  "silent_planner =
     \<lparr>lp_plan = (\<lambda>_ _ _. raise (RuntimeError ''no answer'')), lp_decide = (\<lambda>_. raise (RuntimeError ''no answer'')),
      lp_get = (\<lambda>m. m), lp_put = (\<lambda>m _. m)\<rparr>"

definition sample_input :: main_agent_input where
  "sample_input = prepare_for_main_agent [] default_run_limits sample_context (new_run_state ''T0'')"

theorem deterministic_workflow_witness:
  "deterministic_action (Inr sample_input) (new_run_state ''T0'') = Inr (tool_action ''build_log_digest'')"
proof -
  have known: "known (Inr sample_input) = []" by (simp add: known_def sample_input_def sample_context_def prepare_for_main_agent_def)
  then have "\<not> wants_sub_agent (known (Inr sample_input)) (new_run_state ''T0'')"
    by (simp add: wants_sub_agent_def known_text_def dict_get_def)
  from deterministic_workflow [OF this] show ?thesis by (simp add: known missing_def dict_get_def)
qed

theorem main_agent_sound_witness:
  "case fst (next_action silent_planner sample_input (new_run_state ''T0'') new_main_agent) of
     Inl err \<Rightarrow> \<exists>m. err = ValidationError m | Inr a \<Rightarrow> (if ac_type a = PROPOSE_SQL_CANDIDATE then ac_candidate_sql a = None else True)"
proof -
  have "agent_private silent_planner" by (simp add: agent_private_def silent_planner_def)
  from main_agent_sound [OF this, of new_main_agent sample_input "new_run_state ''T0''"] show ?thesis
    by (auto simp: sample_input_def sample_context_def prepare_for_main_agent_def dict_get_def split: sum.splits if_splits)
qed

end
