(* ===== verification/Run_Properties.thy ===== *)
theory Run_Properties
  imports Processor_Facts
begin

text \<open>
  The properties of the gates and of a whole run for one FAILED event: the loop returns within its
  budget, a candidate a run reports has been released by the gates, and the run leaves the stored
  sessions and attempts alone.
\<close>

section \<open>Gates\<close>

text \<open>The verdict lets a candidate pass exactly if no gate rejects it or asks for a human, and the
  risk is low, or medium and medium risk is allowed.\<close>

theorem gate_aggregation:
  "lets_pass (aggregate_decision ds risk allow) \<longleftrightarrow>
     GD_REJECT \<notin> ds \<and> GD_HUMAN_REQUIRED \<notin> ds \<and> (risk = LOW \<or> risk = MEDIUM \<and> allow)"
  by (rule aggregate_lets_pass)

text \<open>C8. A candidate the gates let pass is released: the plan covers exactly its changes, it crosses no red
  line, its risk is low, or medium where the request allows it, and the reflection returned it; all
  three gates ran in order and the verdict carries the hash of the candidate.\<close>

theorem gates_release:
  assumes "run_request G s q e = (Inr g, e')" "lets_pass (gt_decision g)"
  shows "(\<exists>p d v w r w'.
        build_plan (ga_planner G) q = Inr p \<and>
        diff_of_candidate (ga_engine G) (gq_original_sql q) (gq_candidate_sql q) p = Inr d \<and>
        candidate_matches_plan (ga_engine G) (gq_original_sql q) (gq_candidate_sql q) p = Inr True \<and>
        \<not> crosses_red_line (gq_original_sql q) (gq_candidate_sql q) p d \<and>
        (plan_risk p = LOW \<or> plan_risk p = MEDIUM \<and> gq_allow_medium q) \<and> vr_allow v \<and>
        ga_reflect G \<lparr>pn_failed_sql = gq_original_sql q, pn_candidate = gq_candidate_sql q,
          pn_diagnosis = gq_diagnosis q, pn_plan = p, pn_validation = v, pn_diff = d,
          pn_metadata = gq_metadata q, pn_memory = gq_memory q\<rparr> w = (Inr r, w') \<and>
        pr_decision r = PR_RETURN_SQL \<and> (pr_risk r = LOW \<or> pr_risk r = MEDIUM \<and> gq_allow_medium q)) \<and>
     strip (gq_candidate_sql q) \<noteq> [] \<and> gt_hash g = candidate_hash (gq_candidate_sql q) \<and> ge_last e' = Some g \<and>
     ge_order e' = [''StaticValidationGate'', ''SemanticPreReflectionGate'', ''OutputContractGate'']"
  using run_request_released [OF assms] unfolding released_def by blast

text \<open>A request in which the plan renames one column, over an engine whose trees are texts without clauses.\<close>

definition text_engine :: "string sql_engine" where
  "text_engine = \<lparr>en_parse = Some, en_render = Inr, en_insert_query = Map.empty, en_where = Map.empty, en_and_terms = Map.empty,
     en_joins = (\<lambda>_. []), en_group = Map.empty, en_insert = Map.empty, en_target = Map.empty\<rparr>"

definition rename_plan :: repair_plan where
  "rename_plan = \<lparr>pl_id = ''plan_1'', pl_repairable = True,
     pl_actions = [\<lparr>rp_type = REPLACE_COLUMN, rp_target = Some ''usr'', rp_replacement = Some ''user_id'', rp_reason = ''r'',
       rp_evidence = None, rp_risk = AR_LOW\<rparr>],
     pl_constraints = [], pl_experience_ids = [], pl_manual = None, pl_confidence = 9/10\<rparr>"

definition rename_diff :: diff_summary where
  "rename_diff = \<lparr>df_count = 1, df_fragments = snd (apply_repair_plan ''SELECT usr FROM t'' rename_plan), df_removed_where = False, df_removed_join = False,
     df_changed_group_by = False, df_changed_target = False, df_changed_partition = False, df_parse_success = True\<rparr>"
definition rename_validation :: validation_result where
  "rename_validation = \<lparr>vr_risk = LOW, vr_passed = True, vr_issues = [], vr_allow = True, vr_reason = None\<rparr>"

definition rename_diagnosis :: diagnosis_result where
  "rename_diagnosis = \<lparr>dr_error_type = COLUMN_NOT_FOUND, dr_keywords = [], dr_fingerprint = ''f'', dr_primary_evidence = None,
    dr_root_cause_summary = None, dr_confidence = 9/10, dr_rule_result = None, dr_llm_result = None, dr_fusion_reason = None,
    dr_is_repairable = True, dr_manual_reason = None, dr_primary_entity = None, dr_engine_hint = None\<rparr>"
definition rename_request :: gate_request where
  "rename_request = \<lparr>gq_original_sql = ''SELECT usr FROM t'', gq_candidate_sql = ''SELECT user_id FROM t'', gq_diagnosis = rename_diagnosis,
    gq_metadata = None, gq_memory = None, gq_existing_plan = Some rename_plan, gq_artifact_ref = None, gq_attempt_id = ''attempt_001'',
    gq_event_key = ''k'', gq_allow_medium = False\<rparr>"
definition text_gates :: "(string, 'w) gates" where
  "text_gates = \<lparr>ga_engine = text_engine, ga_planner = None, ga_default_allow = False, ga_reflect = pre_reflect None\<rparr>"

lemma rename_diff_built:
  "diff_of_candidate text_engine ''SELECT usr FROM t'' ''SELECT user_id FROM t'' rename_plan = Inr rename_diff"
  by code_simp

lemma rename_patterns:
  "\<not> rx_found pat_dangerous ''SELECT user_id FROM t''" "\<not> rx_found pat_write ''SELECT user_id FROM t''"
  "\<not> rx_found pat_insert ''SELECT user_id FROM t''"
  by code_simp+

lemma rename_matches: "candidate_matches_plan text_engine ''SELECT usr FROM t'' ''SELECT user_id FROM t'' rename_plan = Inr True"
  by code_simp

lemma rename_plan_facts: "length (pl_actions rename_plan) = 1" "plan_risk rename_plan = LOW"
  by (simp_all add: rename_plan_def plan_risk_def)

lemma rename_validated:
  "validate_candidate text_engine False ''SELECT usr FROM t'' ''SELECT user_id FROM t'' rename_plan rename_diff = Inr rename_validation"
  by (simp add: validate_candidate_def validation_issues_def rename_patterns rename_matches rename_plan_facts blocking_def
      rename_validation_def rename_diff_def)

lemma rename_request_fields:
  "gq_original_sql rename_request = ''SELECT usr FROM t''" "gq_candidate_sql rename_request = ''SELECT user_id FROM t''"
  "gq_existing_plan rename_request = Some rename_plan" "gq_allow_medium rename_request = False" "gq_artifact_ref rename_request = None"
  by (simp_all add: rename_request_def)

lemma rename_static:
  "\<exists>so. static_gate text_engine None False s rename_request = Inr so \<and> gt_decision (so_result so) = GD_PASS \<and>
     gt_risk (so_result so) = LOW \<and> gt_hash (so_result so) = candidate_hash ''SELECT user_id FROM t'' \<and>
     so_plan so = Some rename_plan \<and> so_diff so = Some rename_diff \<and> so_validation so = Some rename_validation"
  by (simp add: static_gate_def rename_request_fields build_plan_def rename_diff_built rename_validated Let_def
      static_decision_def rename_validation_def)

lemma rename_passes:
  fixes e :: "'w gate_env"
  shows "\<exists>g e'. run_request text_gates s rename_request e = (Inr g, e') \<and> gt_decision g = GD_PASS"
proof -
  obtain so where so: "static_gate text_engine None False s rename_request = Inr so" "gt_decision (so_result so) = GD_PASS"
     "gt_risk (so_result so) = LOW" "gt_hash (so_result so) = candidate_hash ''SELECT user_id FROM t''"
     "so_plan so = Some rename_plan" "so_diff so = Some rename_diff" "so_validation so = Some rename_validation"
    using rename_static by blast
  obtain sem where sem: "semantic_gate (pre_reflect None) s rename_request so w = (Inr sem, w)" "gt_decision sem = GD_PASS"
     "gt_risk sem = LOW" "gt_hash sem = candidate_hash ''SELECT user_id FROM t''" for w :: 'w
    by (simp add: semantic_gate_def so pre_reflect_def rename_validation_def rename_diff_def rename_plan_facts
        rename_request_fields semantic_decision_def)
  have strip: "strip ''SELECT user_id FROM t'' \<noteq> []" by code_simp
  let ?out = "output_gate s rename_request [so_result so, sem]"
  have out: "gt_decision ?out = GD_PASS" "gt_risk ?out = LOW"
    using so sem strip by (simp_all add: output_gate_def gate_blocks_def rename_request_fields Let_def)
  obtain g where agg: "aggregate_results s [so_result so, sem, ?out] False = Inr g" "gt_decision g = GD_PASS"
    using so sem out by (simp add: aggregate_results_def aggregate_decision_def max_risk_def Let_def)
  show ?thesis
    using so sem agg by (simp add: run_request_def text_gates_def stops_def rename_request_fields Let_def)
qed

theorem gates_release_witness:
  "\<exists>g :: gate_result. gt_hash g = candidate_hash ''SELECT user_id FROM t'' \<and> gt_decision g = GD_PASS \<and>
     (\<exists>d :: diff_summary. \<not> crosses_red_line ''SELECT usr FROM t'' ''SELECT user_id FROM t'' rename_plan d)"
proof -
  obtain g e' where run: "run_request text_gates \<lparr>sp_uuid = ''u'', sp_now = ''T0''\<rparr> rename_request
      \<lparr>ge_last = None, ge_order = [], ge_world = ()\<rparr> = (Inr g, e')" and pass: "gt_decision g = GD_PASS"
    using rename_passes by blast
  have "lets_pass (gt_decision g)" by (simp add: pass lets_pass_def)
  from gates_release [OF run this] obtain p d where "build_plan (ga_planner (text_gates :: (string, unit) gates)) rename_request = Inr p"
    "\<not> crosses_red_line (gq_original_sql rename_request) (gq_candidate_sql rename_request) p d"
    "gt_hash g = candidate_hash (gq_candidate_sql rename_request)"
    by blast
  then show ?thesis using pass by (auto simp: rename_request_fields build_plan_def)
qed

text \<open>There is at most one repair round: after it, a repair is refused for a human without running a
  gate, and nothing changes.\<close>

theorem gate_repair_bounded:
  assumes "1 \<le> st_gate_rounds (re_state e)"
  shows "\<exists>g. run_repair G s q repaired budget e = (Inr g, e) \<and> gt_decision g = GD_HUMAN_REQUIRED"
  using assms by (rule run_repair_exhausted)

definition repaired_once :: "unit gate_run_env" where
  "repaired_once =
     \<lparr>re_ctx = \<lparr>cx_session_id = ''s'', cx_attempt_id = ''attempt_001'', cx_event_key = ''k'', cx_original_sql = ''SELECT usr FROM t'',
        cx_error_message = None, cx_log_path = None, cx_workspace = [], cx_plan = build_initial_execution_plan,
        cx_candidate = empty_candidate, cx_observations = [], cx_phase = PH_GATING, cx_last_action = None, cx_last_error = None\<rparr>,
      re_state = (new_run_state ''T0'')\<lparr>st_gate_rounds := 1\<rparr>,
      re_world = \<lparr>ge_last = None, ge_order = [], ge_world = ()\<rparr>\<rparr>"

theorem gate_repair_bounded_witness:
  "\<exists>g. run_repair text_gates \<lparr>sp_uuid = ''u'', sp_now = ''T0''\<rparr> rename_request ''SELECT user_id FROM t'' True repaired_once =
     (Inr g, repaired_once) \<and> gt_decision g = GD_HUMAN_REQUIRED"
  by (rule gate_repair_bounded) (simp add: repaired_once_def)

section \<open>A run\<close>

text \<open>C11. A run returns: the loop of the agent ends, whatever the LLM, the tools and the gates answer,
  after at most as many steps as the configuration allows, and leaves a well-formed plan.\<close>

theorem run_returns:
  "\<exists>r e'. agent_run (run_ports S ev) (limits S) (start_run S ev s a d n x) = (Some r, e') \<and>
     run_agent S ev (start_run S ev s a d n x) = (r, e') \<and>
     st_step_count (re_state e') \<le> max 0 (lm_max_steps (limits S)) \<and> well_formed_plan (cx_plan (re_ctx e'))"
proof -
  let ?e = "start_run S ev s a d n x"
  have "steps_done ?e = 0" "well_formed_plan (cx_plan (re_ctx ?e))"
    by (simp_all add: steps_done_def start_run_def new_context_def new_run_state_def initial_plan_ok)
  with run_agent_returns [of S ev ?e] show ?thesis unfolding steps_done_def by auto
qed

text \<open>C7. A run reports a candidate only if the gates released it for the SQL of the event: the plan, the
  diff, the red lines, the risk and the reflection of this very candidate passed, and the verdict is
  kept for the commit.\<close>

theorem run_reports_released_candidate:
  "case process_failed_event S ev (start_run S ev s a d n x) of
     (Inl _, _) \<Rightarrow> True
   | (Inr r, e') \<Rightarrow>
       (if rr_status r = CANDIDATE_READY
        then \<exists>q g. released (run_gates S) q g \<and> lets_pass (gt_decision g) \<and> gq_original_sql q = ev_sql ev \<and>
          gq_allow_medium q = sv_allow_medium S \<and> ge_last (re_world e') = Some g \<and>
          rr_candidate_sql r = Some (gq_candidate_sql q) \<and>
          cs_formal_sql (cx_candidate (re_ctx e')) = Some (gq_candidate_sql q) \<and>
          cs_status (cx_candidate (re_ctx e')) = CS_READY
        else True)"
proof -
  let ?c = "new_context ev s a"
  have start: "same_run ?c (start_run S ev s a d n x)"
    by (simp add: same_run_def start_run_def new_context_def empty_candidate_def)
  have "delivered S (ev_sql ev) r e'"
    if "process_failed_event S ev (start_run S ev s a d n x) = (Inr r, e')" "rr_status r = CANDIDATE_READY" for r e'
    using process_delivers [OF that(1) start that(2)] by (simp add: new_context_def)
  then show ?thesis unfolding delivered_def by (fastforce split: prod.split sum.split)
qed

text \<open>C12. A run writes artifacts and traces only: the stored sessions and attempts are the ones before it.\<close>

theorem run_leaves_sessions:
  "d_sessions (pw_disk (proc_of (snd (process_failed_event S ev (start_run S ev s a d n x))))) = d_sessions d \<and>
   d_attempts (pw_disk (proc_of (snd (process_failed_event S ev (start_run S ev s a d n x))))) = d_attempts d"
proof -
  have "stored d (start_run S ev s a d n x)" by (simp add: stored_def start_run_def proc_of_def)
  then have "stored d (snd (process_failed_event S ev (start_run S ev s a d n x)))"
    using process_store [of d S ev] unfolding preserves_def by blast
  then show ?thesis by (simp add: stored_def)
qed

end
