(* ===== verification/Repair_Properties.thy ===== *)
theory Repair_Properties
  imports Diagnosis Repair_Planner Sql_Tables Validation
begin

text \<open>
  The properties of diagnosis, metadata, planning and reflection, each for every input; witnesses
  where a property has a hypothesis.
\<close>

section \<open>Diagnosis\<close>

text \<open>Without an LLM answer a diagnosis is always made: from the rules alone, with a confidence
  between 0 and 1.\<close>

theorem diagnosis_without_llm:
  "\<exists>d. fuse i (classify i) None = Inr d \<and> 0 \<le> rd_confidence (classify i) \<and> rd_confidence (classify i) \<le> 1"
  using fuse_total [OF classify_unit, of None i i] classify_unit [of i] by (auto simp: unit_interval_def)

text \<open>C39. Whatever the LLM answers, the keywords of a diagnosis are in the vocabulary, under the type
  that was diagnosed, or under UNKNOWN where that type has none.\<close>

theorem diagnosis_keywords_known:
  "case fuse i (classify i) llm of
     Inl _ \<Rightarrow> True
   | Inr d \<Rightarrow> set (dr_keywords d) \<subseteq>
       set (vocab_get (di_keyword_vocab i) (error_type_value (dr_error_type d)) (vocab_get (di_keyword_vocab i) ''UNKNOWN'' []))"
  using fuse_classified_keywords [of i llm] by (auto split: sum.split)

section \<open>Metadata\<close>

text \<open>C38. The distance the program computes row by row is the Levenshtein distance of its recursive
  definition.\<close>

theorem edit_distance_is_levenshtein: "edit_distance xs ys = lev (rev xs) (rev ys)"
  by (rule edit_distance_lev)

text \<open>The candidates for a column are all columns that score, each with its own score, best first.\<close>

theorem column_candidates_ranked:
  "mset (find_column_candidates name ts) = mset (all_candidates name ts) \<and>
     sorted_wrt (\<lambda>a b. cc_score b \<le> cc_score a) (find_column_candidates name ts)"
  by (simp add: candidates_perm candidates_sorted)

text \<open>The metadata tool answers AVAILABLE only if it knows every table it was asked for, and every
  column in one of them.\<close>

theorem metadata_answer_complete:
  "case metadata_query_tool parse payload q of
     Inl _ \<Rightarrow> True
   | Inr a \<Rightarrow>
       (if ma_status a = QS_AVAILABLE
        then query_names parse q \<noteq> [] \<and>
          set (query_names parse q) \<subseteq> {n. \<exists>t. get_table_metadata payload n = Inr (Some t)} \<and>
          set (mq_columns q) \<subseteq> {c. \<exists>n t. n \<in> set (query_names parse q) \<and>
             get_table_metadata payload n = Inr (Some t) \<and> c \<in> cm_name ` set (tm_columns t)}
        else True)"
proof (cases "metadata_query_tool parse payload q")
  case (Inr a)
  then show ?thesis using metadata_query_available [OF Inr] by auto
qed simp

section \<open>Plans\<close>

text \<open>C25. A repair plan either asks for a human and changes nothing, or consists of one action that the
  evidence supports, for a diagnosis that can be repaired and an error that does not oscillate.\<close>

theorem repair_plan_supported:
  "if pl_repairable (make_plan uid i)
   then pl_manual (make_plan uid i) = None \<and> pi_post_status i \<noteq> Some ''OSCILLATING'' \<and> dr_is_repairable (pi_diagnosis i) \<and>
     (\<exists>a. pl_actions (make_plan uid i) = [a] \<and> action_supported i a)
   else pl_manual (make_plan uid i) \<noteq> None \<and> pl_actions (make_plan uid i) = []"
  using repairable_supported [of uid i] plan_consistent [of uid i] by auto

text \<open>Past experience never changes what a plan does: with any memory the planner makes the same
  change.\<close>

theorem experience_cannot_change_plan:
  "map (\<lambda>a. (rp_type a, rp_target a, rp_replacement a)) (pl_actions (make_plan uid (i\<lparr>pi_memory := m\<rparr>))) =
     map (\<lambda>a. (rp_type a, rp_target a, rp_replacement a)) (pl_actions (make_plan uid' i))"
  by (rule plan_ignores_memory [unfolded plan_change_def])

section \<open>Reflection\<close>

text \<open>Oscillation is found exactly if the last three fingerprints are A, B, A with different A and B.\<close>

theorem oscillation_exact:
  "detect_oscillation history \<longleftrightarrow> (\<exists>older a b. map hi_fingerprint history = older @ [a, b, a] \<and> a \<noteq> b)"
  by (rule detect_oscillation_iff)

end
