(* ===== verification/Memory_Facts.thy ===== *)
theory Memory_Facts
  imports Memory "HOL-Library.Multiset"
begin

text \<open>What the memory store keeps: the front matter is read back, the index is exact, a retrieval
  through the index agrees with a scan, and an attempt is confirmed once.\<close>

section \<open>The front matter is read back\<close>

lemma splitlines_append:
  "\<forall>c \<in> set l. \<not> line_break c \<Longrightarrow> splitlines_from acc (l @ nl @ r) = (rev acc @ l) # splitlines_from [] r"
  by (induction l arbitrary: acc) (simp_all add: nl_def line_break_def code_def)

lemma splitlines_unlines:
  "\<forall>l \<in> set ls. \<forall>c \<in> set l. \<not> line_break c \<Longrightarrow> splitlines (unlines ls @ r) = ls @ splitlines r"
  unfolding splitlines_def
  by (induction ls) (simp_all add: unlines_def splitlines_append [of _ "[]", simplified])

definition plain_keyword :: "string \<Rightarrow> bool" where
  "plain_keyword k \<longleftrightarrow> k \<noteq> [] \<and> (\<forall>c \<in> set k. \<not> line_break c \<and> c \<noteq> CHR 0x0D) \<and> \<not> is_space (hd k) \<and> \<not> is_space (last k)"

lemma rstrip_last: "s \<noteq> [] \<Longrightarrow> \<not> is_space (last s) \<Longrightarrow> rstrip s = s"
  by (cases s rule: rev_cases) (simp_all add: rstrip_def)

lemma strip_plain: "plain_keyword k \<Longrightarrow> strip k = k"
  by (cases k) (auto simp: plain_keyword_def strip_def lstrip_def rstrip_last)

lemma item_line_facts:
  assumes "plain_keyword k"
  shows "strip (item_line k) = ''- '' @ k" "item_line k \<noteq> ''keyword:''" "\<not> is_prefix ''description:'' (item_line k)"
proof -
  have "lstrip (item_line k) = ''- '' @ k" by (simp add: item_line_def lstrip_def is_space_def code_def)
  moreover have "rstrip (''- '' @ k) = ''- '' @ k"
    by (rule rstrip_last) (use assms in \<open>auto simp: plain_keyword_def\<close>)
  ultimately show "strip (item_line k) = ''- '' @ k" by (simp add: strip_def)
qed (simp_all add: item_line_def is_prefix_def)

lemma scan_items:
  "\<forall>k \<in> set ks. plain_keyword k \<Longrightarrow>
     scan_fields (map item_line ks @ ls) acc d True = scan_fields ls (acc @ ks) d True"
proof (induction ks arbitrary: acc)
  case Nil
  then show ?case by simp
next
  case (Cons k ks)
  then have k: "plain_keyword k" by simp
  have "scan_fields (item_line k # map item_line ks @ ls) acc d True =
      scan_fields (map item_line ks @ ls) (acc @ [k]) d True"
    using item_line_facts [OF k] strip_plain [OF k] by (simp add: is_prefix_def)
  with Cons show ?case by simp
qed

lemma scan_description: "scan_fields [description_line d] ks x b = Inr \<lparr>fm_keyword = ks, fm_description = strip d\<rparr>"
proof -
  have "strip (after_colon (description_line d)) = strip d"
    by (simp add: description_line_def after_colon_def strip_def lstrip_def)
  moreover have "description_line d \<noteq> ''keyword:''" "is_prefix ''description:'' (description_line d)"
    by (simp_all add: description_line_def is_prefix_def)
  ultimately show ?thesis by simp
qed

lemma scan_keyword_line: "scan_fields (''keyword:'' # ls) ks d b = scan_fields ls ks d True"
  by simp

lemma scan_front:
  "\<forall>k \<in> set ks. plain_keyword k \<Longrightarrow>
     scan_fields (''keyword:'' # map item_line ks @ [description_line d]) [] None False =
       Inr \<lparr>fm_keyword = ks, fm_description = strip d\<rparr>"
  using scan_keyword_line by (simp only: scan_items scan_description append_Nil)

lemma single_line_chars: "c \<in> set (single_line v) \<Longrightarrow> \<not> is_space c \<or> c = CHR '' ''"
proof -
  have words: "c \<in> set (join_with '' '' ws) \<Longrightarrow> \<forall>w \<in> set ws. is_word w \<Longrightarrow> \<not> is_space c \<or> c = CHR '' ''" for ws
    by (induction ws) (auto simp: join_with_Cons is_word_def split: if_splits)
  assume "c \<in> set (single_line v)"
  then have "c \<in> set (join_with '' '' (words (fst (replace_all dashes [] v))))"
    unfolding single_line_def by (meson in_mono py_take_prefix set_mono_prefix)
  with words words_are_words show ?thesis by blast
qed

lemma break_space: "line_break c \<Longrightarrow> is_space c" and no_break_blank: "\<not> line_break (CHR '' '')"
  by (auto simp: line_break_def is_space_def Let_def code_def)

lemma single_line_plain: "c \<in> set (single_line v) \<Longrightarrow> \<not> line_break c \<and> c \<noteq> CHR 0x0D"
  using single_line_chars [of c v] break_space [of c] no_break_blank
  by (auto simp: is_space_def code_def)

lemma front_lines_plain:
  "\<forall>k \<in> set ks. plain_keyword k \<Longrightarrow>
     \<forall>l \<in> set (front_lines ks (single_line v)). \<forall>c \<in> set l. \<not> line_break c \<and> c \<noteq> CHR 0x0D"
  using single_line_plain [of _ v]
  by (auto simp: front_lines_def item_line_def description_line_def dashes_def plain_keyword_def line_break_def code_def)

lemma replace_all_append:
  "hd pat \<notin> set a \<Longrightarrow> pat \<noteq> [] \<Longrightarrow> fst (replace_all pat new (a @ b)) = a @ fst (replace_all pat new b)"
proof (induction a)
  case Nil
  then show ?case by simp
next
  case (Cons c a)
  then have "\<not> is_prefix pat (c # a @ b)" by (cases pat) (auto simp: is_prefix_def)
  with Cons show ?case by (cases "replace_all pat new (a @ b)") simp
qed

lemma normalize_newlines_append: "CHR 0x0D \<notin> set a \<Longrightarrow> normalize_newlines (a @ b) = a @ normalize_newlines b"
  by (simp add: normalize_newlines_def replace_all_append)

lemma unlines_no_return: "\<forall>l \<in> set ls. \<forall>c \<in> set l. c \<noteq> CHR 0x0D \<Longrightarrow> CHR 0x0D \<notin> set (unlines ls)"
  by (auto simp: unlines_def nl_def)

lemma parse_lines:
  "splitlines t = dashes # mid @ dashes # r \<Longrightarrow> dashes \<notin> set mid \<Longrightarrow>
     parse_frontmatter t = scan_fields mid [] None False"
  proof -
  assume t: "splitlines t = dashes # mid @ dashes # r" and mid: "dashes \<notin> set mid"
  have "takeWhile (\<lambda>x. x \<noteq> dashes) (mid @ dashes # r) = mid"
    using mid by (subst takeWhile_append2) auto
  then show ?thesis unfolding parse_frontmatter_def t by simp
qed

lemma parse_written:
  assumes "\<forall>k \<in> set ks. plain_keyword k"
  shows "parse_frontmatter (normalize_newlines (experience_text ks x)) =
    Inr \<lparr>fm_keyword = ks, fm_description = strip (single_line (ci_description x))\<rparr>"
proof -
  let ?front = "front_lines ks (single_line (ci_description x))"
  let ?mid = "''keyword:'' # map item_line ks @ [description_line (single_line (ci_description x))]"
  obtain r where "normalize_newlines (experience_text ks x) = unlines ?front @ r"
    using front_lines_plain [OF assms, of "ci_description x"]
    by (simp add: experience_text_def normalize_newlines_append unlines_no_return)
  then have "splitlines (normalize_newlines (experience_text ks x)) = ?front @ splitlines r"
    using front_lines_plain [OF assms, of "ci_description x"] by (simp add: splitlines_unlines)
  also have "?front @ splitlines r = dashes # ?mid @ dashes # splitlines r" by (simp add: front_lines_def)
  finally have "splitlines (normalize_newlines (experience_text ks x)) = dashes # ?mid @ dashes # splitlines r" .
  moreover have "dashes \<notin> set ?mid" by (auto simp: dashes_def item_line_def description_line_def)
  ultimately have "parse_frontmatter (normalize_newlines (experience_text ks x)) = scan_fields ?mid [] None False"
    by (rule parse_lines)
  then show ?thesis by (simp only: scan_front [OF assms])
qed

section \<open>The index is exact\<close>

definition ids_for :: "(string, string list) dict \<Rightarrow> string \<Rightarrow> string list" where
  "ids_for d k = (case dict_get d k of None \<Rightarrow> [] | Some v \<Rightarrow> v)"

lemma ids_for_add: "ids_for (add_to_index i k d) k' = ids_for d k' @ (if k = k' then [i] else [])"
  by (simp add: ids_for_def add_to_index_def dict_get_set)

lemma ids_for_keywords:
  "set (ids_for (fold (add_to_index i) ks d) k) = set (ids_for d k) \<union> (if k \<in> set ks then {i} else {})"
  by (induction ks arbitrary: d) (auto simp: ids_for_add)

lemma ids_for_files:
  "set (ids_for (fold (\<lambda>(i, f). fold (add_to_index i) (fm_keyword f)) fs d) k) =
     set (ids_for d k) \<union> {i. \<exists>f. (i, f) \<in> set fs \<and> k \<in> set (fm_keyword f)}"
  by (induction fs arbitrary: d) (auto simp: ids_for_keywords split: if_splits)

lemma distinct_add: "distinct (dict_keys d) \<Longrightarrow> distinct (dict_keys (add_to_index i k d))"
  by (simp add: add_to_index_def distinct_dict_set)

lemma distinct_keywords: "distinct (dict_keys d) \<Longrightarrow> distinct (dict_keys (fold (add_to_index i) ks d))"
  by (induction ks arbitrary: d) (simp_all add: distinct_add)

lemma distinct_files:
  "distinct (dict_keys d) \<Longrightarrow> distinct (dict_keys (fold (\<lambda>(i, f). fold (add_to_index i) (fm_keyword f)) fs d))"
  by (induction fs arbitrary: d) (auto simp: distinct_keywords)

lemma dict_get_sorted:
  assumes "distinct (dict_keys d)"
  shows "dict_get (map (\<lambda>(k, v). (k, g v)) (sort_key fst d)) k = map_option g (dict_get d k)"
proof -
  have "mset (map fst (sort_key fst d)) = mset (map fst d)" by simp
  then have "distinct (map fst (sort_key fst d))"
    using assms by (metis dict_keys_def mset_eq_imp_distinct_iff)
  then have "map_of (sort_key fst d) = map_of d"
    using assms by (subst map_of_inject_set) (simp_all add: dict_keys_def)
  then show ?thesis by (simp add: dict_get_def map_of_map)
qed

lemma ids_for_index:
  "set (ids_for (index_of fs) k) = {i. \<exists>f. (i, f) \<in> set fs \<and> k \<in> set (fm_keyword f)}"
proof -
  let ?d = "fold (\<lambda>(i, f). fold (add_to_index i) (fm_keyword f)) fs []"
  have "distinct (dict_keys ?d)" by (rule distinct_files) (simp add: dict_keys_def)
  then have "set (ids_for (index_of fs) k) = set (ids_for ?d k)"
    by (simp add: ids_for_def index_of_def Let_def dict_get_sorted split: option.split)
  then show ?thesis using ids_for_files [of fs "[]" k] by (simp add: ids_for_def dict_get_def)
qed

text \<open>The files of a store as their front matters, and the invariant.\<close>

definition all_frontmatters :: "memory_disk \<Rightarrow> (string \<times> frontmatter) list outcome" where
  "all_frontmatters m = traverse (\<lambda>i. and_then (read_frontmatter m i) (\<lambda>f. Inr (i, f))) (list_ids m)"

definition memory_ok :: "memory_disk \<Rightarrow> bool" where
  "memory_ok m \<longleftrightarrow> distinct (dict_keys (md_files m)) \<and>
     (\<exists>fs. all_frontmatters m = Inr fs \<and> md_index m = Some (index_of fs))"

lemma set_list_ids [simp]: "set (list_ids m) = set (dict_keys (md_files m))"
  by (simp add: list_ids_def)

lemma distinct_list_ids: "distinct (dict_keys (md_files m)) \<Longrightarrow> distinct (list_ids m)"
  by (simp add: list_ids_def)

lemma all_frontmatters_set:
  assumes "all_frontmatters m = Inr fs"
  shows "(i, f) \<in> set fs \<longleftrightarrow> i \<in> set (list_ids m) \<and> read_frontmatter m i = Inr f"
proof -
  have rel: "list_all2 (\<lambda>i p. and_then (read_frontmatter m i) (\<lambda>f. Inr (i, f)) = Inr p) (list_ids m) fs"
    using assms by (simp add: all_frontmatters_def traverse_Inr_iff)
  have one: "and_then (read_frontmatter m j) (\<lambda>f. Inr (j, f)) = Inr p \<longleftrightarrow>
      fst p = j \<and> read_frontmatter m j = Inr (snd p)" for j p
    by (cases p) (auto simp: and_then_Inr_iff)
  show ?thesis
  proof
    assume "(i, f) \<in> set fs"
    then obtain n where n: "n < length fs" "fs ! n = (i, f)" by (auto simp only: in_set_conv_nth)
    with rel have "n < length (list_ids m)" "list_ids m ! n = i" "read_frontmatter m i = Inr f"
      unfolding one by (auto simp: list_all2_conv_all_nth)
    then show "i \<in> set (list_ids m) \<and> read_frontmatter m i = Inr f" using nth_mem by blast
  next
    assume i: "i \<in> set (list_ids m) \<and> read_frontmatter m i = Inr f"
    then obtain n where n: "n < length (list_ids m)" "list_ids m ! n = i" by (auto simp only: in_set_conv_nth)
    with rel have "n < length fs" "fst (fs ! n) = i" "read_frontmatter m i = Inr (snd (fs ! n))"
      unfolding one by (auto simp: list_all2_conv_all_nth)
    with i have "fs ! n = (i, f)" by (cases "fs ! n") simp
    with \<open>n < length fs\<close> show "(i, f) \<in> set fs" by (metis nth_mem)
  qed
qed

lemma rebuild_index_ok:
  assumes "rebuild_index m = (Inr d, m')" "distinct (dict_keys (md_files m))"
  shows "memory_ok m'" "md_files m' = md_files m"
proof -
  obtain fs where fs: "all_frontmatters m = Inr fs" and m': "m' = m\<lparr>md_index := Some (index_of fs)\<rparr>"
    using assms(1) by (auto simp: rebuild_index_def all_frontmatters_def split: sum.splits)
  have "list_ids m' = list_ids m" "read_frontmatter m' = read_frontmatter m"
    by (auto simp: m' list_ids_def read_frontmatter_def read_text_def fun_eq_iff)
  then have "all_frontmatters m' = all_frontmatters m" by (simp add: all_frontmatters_def)
  with fs assms(2) show "memory_ok m'" "md_files m' = md_files m" by (simp_all add: memory_ok_def m')
qed

lemma read_put_experience:
  "read_text (put_experience i t n m) j = (if i = j then Inr (normalize_newlines t) else read_text m j)"
  by (simp add: read_text_def put_experience_def dict_get_set)

section \<open>A retrieval through the index is a scan\<close>

definition keywords_of :: "memory_disk \<Rightarrow> string \<Rightarrow> string list" where
  "keywords_of m i = fm_keyword (projr (read_frontmatter m i))"

definition summary_of :: "memory_disk \<Rightarrow> string list \<Rightarrow> string \<Rightarrow> experience_summary" where
  "summary_of m ks i =
     \<lparr>es_experience_id = i, es_keyword = keywords_of m i,
      es_description = fm_description (projr (read_frontmatter m i)),
      es_matched_by = filter (\<lambda>k. k \<in> set (keywords_of m i)) ks, es_artifact_ref = Some (''artifact://memory/'' @ i)\<rparr>"

definition shares_keyword :: "memory_disk \<Rightarrow> string list \<Rightarrow> string \<Rightarrow> bool" where
  "shares_keyword m ks i \<longleftrightarrow> (\<exists>k \<in> set ks. k \<in> set (keywords_of m i))"

definition scan_matches :: "memory_disk \<Rightarrow> string list \<Rightarrow> experience_summary list" where
  "scan_matches m ks = map (summary_of m ks) (filter (shares_keyword m ks) (list_ids m))"

lemma memory_ok_read:
  assumes "memory_ok m" "i \<in> set (list_ids m)"
  obtains f b where "read_frontmatter m i = Inr f" "read_body m i = Inr b"
proof -
  obtain fs where fs: "all_frontmatters m = Inr fs" using assms(1) by (auto simp: memory_ok_def)
  have "\<exists>f. and_then (read_frontmatter m i) (\<lambda>f. Inr (i, f)) = Inr f"
    using fs assms(2) unfolding all_frontmatters_def traverse_Inr_iff
    by (auto simp: list_all2_conv_all_nth in_set_conv_nth simp del: set_list_ids)
  then obtain f where f: "read_frontmatter m i = Inr f" by (auto simp: and_then_Inr_iff)
  then obtain t where "read_text m i = Inr t" by (auto simp: read_frontmatter_def and_then_Inr_iff)
  with f that show thesis by (simp add: read_body_def)
qed

lemma consider_id_match:
  assumes "memory_ok m" "i \<in> set (list_ids m)" "shares_keyword m ks i"
  shows "consider_id m ks False query i = Inr (Some (summary_of m ks i))"
proof -
  obtain f b where fb: "read_frontmatter m i = Inr f" "read_body m i = Inr b"
    using memory_ok_read [OF assms(1,2)] .
  with assms(3) have "filter (\<lambda>k. k \<in> set (fm_keyword f)) ks \<noteq> []"
    by (auto simp: shares_keyword_def keywords_of_def filter_empty_conv)
  with fb show ?thesis
    by (simp add: consider_id_def consider_one_def summary_of_def keywords_of_def Let_def)
qed

lemma candidate_ids_set:
  assumes "memory_ok m" "''unknown'' \<notin> set ks"
  shows "set (candidate_ids m ks) = set (filter (shares_keyword m ks) (list_ids m))"
proof -
  obtain fs where fs: "all_frontmatters m = Inr fs" "md_index m = Some (index_of fs)"
    using assms(1) by (auto simp: memory_ok_def)
  have load: "set (ids_for (load_index m) k) = set (ids_for (index_of fs) k)" for k
    by (simp add: fs(2) load_index_def ids_for_def dict_get_def map_of_map split: option.split)
  have "i \<in> set (candidate_ids m ks) \<longleftrightarrow> (\<exists>k \<in> set ks. i \<in> set (ids_for (load_index m) k))" for i
    using assms(2) by (simp add: candidate_ids_def ids_for_def)
  also have "\<dots> i \<longleftrightarrow> (\<exists>k \<in> set ks. \<exists>f. i \<in> set (list_ids m) \<and> read_frontmatter m i = Inr f \<and> k \<in> set (fm_keyword f))" for i
    unfolding load ids_for_index using all_frontmatters_set [OF fs(1)] by auto
  also have "\<dots> i \<longleftrightarrow> i \<in> set (list_ids m) \<and> shares_keyword m ks i" for i
  proof (cases "i \<in> set (list_ids m)")
    case True
    then obtain f b where "read_frontmatter m i = Inr f" using memory_ok_read [OF assms(1)] by blast
    with True show ?thesis by (simp add: shares_keyword_def keywords_of_def)
  qed simp
  finally show ?thesis by auto
qed

lemma traverse_map: "(\<And>x. x \<in> set xs \<Longrightarrow> f x = Inr (g x)) \<Longrightarrow> traverse f xs = Inr (map g xs)"
  by (induction xs) simp_all

lemma rank_key_inj: "inj_on (rank_key m query) (set (map (summary_of m ks) ids))"
  by (rule inj_onI) (auto simp: rank_key_def summary_of_def)

text \<open>The experiences a retrieval returns, written as a scan of every file.\<close>

definition scan_result :: "memory_disk \<Rightarrow> nat \<Rightarrow> nat option \<Rightarrow> string list \<Rightarrow> string option \<Rightarrow> experience_summary list" where
  "scan_result m max_hits limit ks query_summary =
     take (cut_off limit max_hits) (sort_key (rank_key m (casefold (or_text query_summary []))) (scan_matches m ks))"

lemma retrieve_is_scan:
  assumes ok: "memory_ok m" and known: "''unknown'' \<notin> set (normalize_keywords vals diagnosed)"
  shows "\<exists>r. retrieve_keywords vals max_hits budget m diagnosed query_summary limit = Inr r \<and>
    mr_experiences r = scan_result m max_hits limit (normalize_keywords vals diagnosed) query_summary \<and>
    mr_warnings r = []"
proof -
  let ?ks = "normalize_keywords vals diagnosed" and ?q = "casefold (or_text query_summary [])"
  let ?ids = "candidate_ids m ?ks" and ?scan = "filter (shares_keyword m ?ks) (list_ids m)"
  have same: "set ?ids = set ?scan" using candidate_ids_set [OF ok known] .
  have "traverse (consider_id m ?ks False ?q) ?ids = Inr (map (\<lambda>i. Some (summary_of m ?ks i)) ?ids)"
    by (rule traverse_map, rule consider_id_match [OF ok]) (use same in auto)
  moreover have "map the (filter (\<lambda>x. x \<noteq> None) (map (\<lambda>i. Some (summary_of m ?ks i)) ?ids)) = map (summary_of m ?ks) ?ids"
    by (simp add: filter_map o_def)
  moreover have "sort_key (rank_key m ?q) (map (summary_of m ?ks) ?ids) = sort_key (rank_key m ?q) (scan_matches m ?ks)"
  proof (rule sort_key_inj_key_eq)
    have "distinct ?ids" using known by (simp add: candidate_ids_def)
    moreover have "distinct ?scan" using ok by (simp add: memory_ok_def distinct_list_ids)
    ultimately have "mset ?ids = mset ?scan" using same set_eq_iff_mset_eq_distinct by blast
    then show "mset (map (summary_of m ?ks) ?ids) = mset (sort_key (rank_key m ?q) (scan_matches m ?ks))"
      by (simp add: scan_matches_def del: mset_filter)
  qed (simp_all only: rank_key_inj sorted_sort_key)
  ultimately show ?thesis
    using known by (simp add: retrieve_keywords_def scan_result_def Let_def comp_def)
qed

lemma retrieve_bounds:
  assumes "retrieve_keywords vals max_hits budget m diagnosed query_summary limit = Inr r"
  shows "length (mr_experiences r) \<le> max_hits" "mr_discarded r = mr_scanned r - int (length (mr_experiences r))"
    "mr_matched r \<longleftrightarrow> mr_experiences r \<noteq> []"
  using assms
  by (auto simp: retrieve_keywords_def Let_def and_then_Inr_iff cut_off_def split: option.splits if_splits)

section \<open>An attempt is confirmed once\<close>

lemma split_first_after:
  "pat \<noteq> [] \<Longrightarrow> \<exists>u w. split_first pat (x @ pat @ y) = Some (u, w @ y)"
proof (induction x)
  case Nil
  then obtain c cs where "pat = c # cs" by (cases pat) auto
  then show ?case by (simp add: is_prefix_def)
next
  case (Cons c x)
  then obtain u w where IH: "split_first pat (x @ pat @ y) = Some (u, w @ y)" by blast
  show ?case
  proof (cases "is_prefix pat (c # x @ pat @ y)")
    case True
    have "length pat \<le> length (c # x @ pat)" by simp
    then have "drop (length pat) ((c # x @ pat) @ y) = drop (length pat) (c # x @ pat) @ y"
      using drop_append [of "length pat" "c # x @ pat" y] by simp
    with True show ?thesis by auto
  next
    case False
    with IH show ?thesis by auto
  qed
qed

lemma contains_lstrip:
  assumes "contains p t" "p \<noteq> []" "\<not> is_space (hd p)"
  shows "contains p (lstrip t)"
proof -
  obtain u v where t: "t = u @ p @ v" using assms(1) by (auto simp: contains_iff)
  obtain c cs where p: "p = c # cs" using assms(2) by (cases p) auto
  have "lstrip t = dropWhile is_space u @ p @ v \<or> lstrip t = p @ v"
    using assms(3) by (simp add: lstrip_def t p dropWhile_append_if)
  then show ?thesis by (auto simp: contains_iff intro: exI [of _ "[]"])
qed

lemma body_of_written:
  assumes "contains p rest" "p \<noteq> []" "\<not> is_space (hd p)"
  shows "contains p (body_of (dashes @ mid @ dashes @ rest))"
proof -
  have d: "dashes \<noteq> []" by (simp add: dashes_def)
  obtain u w where first: "split_first dashes ([] @ dashes @ (mid @ dashes @ rest)) = Some (u, w @ (mid @ dashes @ rest))"
    using split_first_after [OF d] by blast
  obtain u' w' where second: "split_first dashes ((w @ mid) @ dashes @ rest) = Some (u', w' @ rest)"
    using split_first_after [OF d] by blast
  have "body_of (dashes @ mid @ dashes @ rest) = lstrip (w' @ rest)"
    using first second by (simp add: body_of_def)
  moreover have "contains p (w' @ rest)" using assms(1) by (auto simp: contains_iff) (metis append.assoc)
  ultimately show ?thesis using contains_lstrip assms(2,3) by simp
qed

lemma logical_marker_head: "logical_marker s a \<noteq> []" "\<not> is_space (hd (logical_marker s a))"
  by (simp_all add: logical_marker_def is_space_def code_def)

lemma replace_crlf_append:
  assumes "CHR 0x0D \<notin> set b" "b = [] \<or> hd b \<noteq> CHR 0x0A"
  shows "fst (replace_all [CHR 0x0D, CHR 0x0A] [CHR 0x0A] (a @ b)) =
    fst (replace_all [CHR 0x0D, CHR 0x0A] [CHR 0x0A] a) @ b"
proof (induction "length a" arbitrary: a rule: less_induct)
  case less
  show ?case
  proof (cases a)
    case Nil
    have "replace_all [CHR 0x0D, CHR 0x0A] [CHR 0x0A] b = (b, 0)" by (rule replace_all_none) (use assms in auto)
    with Nil show ?thesis by simp
  next
    case (Cons c a')
    show ?thesis
    proof (cases "is_prefix [CHR 0x0D, CHR 0x0A] a")
      case True
      with Cons obtain a2 where a: "a = CHR 0x0D # CHR 0x0A # a2" by (cases a') (auto simp: is_prefix_def)
      then have IH: "fst (replace_all [CHR 0x0D, CHR 0x0A] [CHR 0x0A] (a2 @ b)) =
          fst (replace_all [CHR 0x0D, CHR 0x0A] [CHR 0x0A] a2) @ b" using less by simp
      then show ?thesis
        by (cases "replace_all [CHR 0x0D, CHR 0x0A] [CHR 0x0A] (a2 @ b)"; cases "replace_all [CHR 0x0D, CHR 0x0A] [CHR 0x0A] a2")
          (simp add: a is_prefix_def)
    next
      case False
      then have "\<not> is_prefix [CHR 0x0D, CHR 0x0A] (a @ b)"
        using assms Cons by (cases a'; cases b) (auto simp: is_prefix_def)
      moreover have "fst (replace_all [CHR 0x0D, CHR 0x0A] [CHR 0x0A] (a' @ b)) =
          fst (replace_all [CHR 0x0D, CHR 0x0A] [CHR 0x0A] a') @ b" using less Cons by simp
      ultimately show ?thesis using False
        by (cases "replace_all [CHR 0x0D, CHR 0x0A] [CHR 0x0A] (a' @ b)"; cases "replace_all [CHR 0x0D, CHR 0x0A] [CHR 0x0A] a'")
          (simp add: Cons)
    qed
  qed
qed

lemma normalize_newlines_suffix:
  assumes "CHR 0x0D \<notin> set b" "hd b \<noteq> CHR 0x0A"
  shows "normalize_newlines (a @ b) = normalize_newlines a @ b"
proof -
  have "map (\<lambda>c. if c = CHR 0x0D then CHR 0x0A else c) b = b"
    by (rule map_idI) (use assms(1) in auto)
  then show ?thesis using assms by (simp add: normalize_newlines_def replace_all_char replace_crlf_append)
qed

definition plain_id :: "string \<Rightarrow> bool" where
  "plain_id s \<longleftrightarrow> CHR 0x0D \<notin> set s"

lemma written_body:
  assumes "\<forall>k \<in> set ks. plain_keyword k" "plain_id (ci_session_id x)" "plain_id (ci_attempt_id x)"
  shows "contains (logical_marker (ci_session_id x) (ci_attempt_id x))
    (body_of (normalize_newlines (experience_text ks x)))"
proof -
  let ?front = "unlines (front_lines ks (single_line (ci_description x)))" and ?tail = "unlines [marker_line x]"
  let ?mid = "nl @ unlines (''keyword:'' # map item_line ks @ [description_line (single_line (ci_description x))])"
  let ?rest = "nl @ normalize_newlines (unlines (body_lines x)) @ ?tail"
  have "CHR 0x0D \<notin> set ?tail" "hd ?tail \<noteq> CHR 0x0A"
    using assms(2,3) by (auto simp: unlines_def marker_line_def logical_marker_def plain_id_def nl_def)
  then have "normalize_newlines (experience_text ks x) = ?front @ normalize_newlines (unlines (body_lines x)) @ ?tail"
    using front_lines_plain [OF assms(1), of "ci_description x"]
    by (simp add: experience_text_def normalize_newlines_append unlines_no_return normalize_newlines_suffix)
  also have "\<dots> = dashes @ ?mid @ dashes @ ?rest" by (simp add: front_lines_def unlines_def)
  finally have "normalize_newlines (experience_text ks x) = dashes @ ?mid @ dashes @ ?rest" .
  moreover have "contains (logical_marker (ci_session_id x) (ci_attempt_id x)) ?rest"
    unfolding contains_iff marker_line_def unlines_def
    by (rule exI [of _ "nl @ normalize_newlines (unlines (body_lines x)) @ ''<!-- ''"], rule exI [of _ "'' -->'' @ nl"])
      (simp add: unlines_def)
  ultimately show ?thesis using body_of_written logical_marker_head by metis
qed

lemma write_confirmed_new:
  assumes ok: "memory_ok m" and fresh: "find_by_logical_key m (ci_session_id x) (ci_attempt_id x) = None"
    and run: "write_confirmed vals date uid n x m = (Inr i, m')"
  shows "i = experience_id date uid" "memory_ok m'"
    "md_files m' = dict_set i (experience_text (normalize_keywords vals (ci_keywords x)) x, n) (md_files m)"
proof -
  let ?m1 = "put_experience (experience_id date uid) (experience_text (normalize_keywords vals (ci_keywords x)) x) n m"
  obtain d where i: "i = experience_id date uid" and rebuilt: "rebuild_index ?m1 = (Inr d, m')"
    using run fresh
    by (auto simp: write_confirmed_def save_markdown_def seq_def bind_def Let_def split: prod.splits sum.splits)
  have "distinct (dict_keys (md_files ?m1))"
    using ok by (simp add: put_experience_def memory_ok_def distinct_dict_set)
  from rebuild_index_ok [OF rebuilt this]
  show "memory_ok m'" "md_files m' = dict_set i (experience_text (normalize_keywords vals (ci_keywords x)) x, n) (md_files m)"
    by (simp_all add: i put_experience_def)
  show "i = experience_id date uid" by (rule i)
qed

lemma write_confirmed_found:
  assumes ok: "memory_ok m" and found: "find_by_logical_key m (ci_session_id x) (ci_attempt_id x) = Some j" "j \<noteq> []"
  shows "\<exists>m'. write_confirmed vals date uid n x m = (Inr j, m') \<and> md_files m' = md_files m \<and> memory_ok m'"
proof -
  obtain fs where "all_frontmatters m = Inr fs" using ok by (auto simp: memory_ok_def)
  then obtain d m' where r: "rebuild_index m = (Inr d, m')"
    by (simp add: rebuild_index_def all_frontmatters_def)
  with rebuild_index_ok [OF r] ok have "md_files m' = md_files m" "memory_ok m'" by (auto simp: memory_ok_def)
  with r found show ?thesis by (simp add: write_confirmed_def seq_def bind_def)
qed

text \<open>Confirming an attempt a second time finds the experience and writes nothing new.\<close>

lemma confirm_twice:
  assumes ok: "memory_ok m" and fresh: "find_by_logical_key m (ci_session_id x) (ci_attempt_id x) = None"
    and run: "write_confirmed vals date uid n x m = (Inr i, m')"
    and ids: "plain_id (ci_session_id x)" "plain_id (ci_attempt_id x)" "\<forall>k \<in> insert ''unknown'' (set vals). plain_keyword k"
    and named: "\<forall>j \<in> set (list_ids m). j \<noteq> []"
  shows "\<exists>j m''. write_confirmed vals date' uid' n' x m' = (Inr j, m'') \<and> md_files m'' = md_files m' \<and> j \<in> set (list_ids m')"
proof -
  let ?ks = "normalize_keywords vals (ci_keywords x)"
  let ?marker = "logical_marker (ci_session_id x) (ci_attempt_id x)"
  note new = write_confirmed_new [OF ok fresh run]
  have files: "read_text m' i = Inr (normalize_newlines (experience_text ?ks x))"
    by (simp add: read_text_def new(3) dict_get_set)
  have "\<forall>k \<in> set ?ks. plain_keyword k" using ids(3) normalize_keywords_sub [of vals "ci_keywords x"] by auto
  from written_body [OF this ids(1,2)] have "has_marker m' ?marker i"
    by (simp add: has_marker_def read_body_def files)
  moreover have i: "i \<in> set (list_ids m')" by (simp add: new(3) dict_keys_set)
  ultimately obtain j where j: "find_by_logical_key m' (ci_session_id x) (ci_attempt_id x) = Some j"
    unfolding find_by_logical_key_def using find_None_iff_all [of "has_marker m' ?marker" "list_ids m'"]
    by (metis not_None_eq)
  then have mem: "j \<in> set (list_ids m')" unfolding find_by_logical_key_def by (auto dest!: find_Some_in)
  then have "j \<noteq> []" using named new(1) by (auto simp: new(3) dict_keys_set experience_id_def split: if_splits)
  from write_confirmed_found [OF new(2) j this] mem show ?thesis by blast
qed

end
