(* ===== verification/Consolidation.thy ===== *)
theory Consolidation
  imports Memory_Facts Json Regex
begin

text \<open>
  \<open>memory/memory_consolidator.py\<close>: experiences with the same keywords and the same shape of the
  modification are merged into the first of them, which then carries the logical keys of all. A dry
  run changes nothing; a merge removes exactly the other members and loses no logical key.
\<close>

section \<open>Signatures\<close>

definition body_section :: "string \<Rightarrow> string \<Rightarrow> string" where
  "body_section body title =
     (case split_first (''## '' @ title) body of
        None \<Rightarrow> []
      | Some (_, v) \<Rightarrow> (case split_first (nl @ ''## '') v of None \<Rightarrow> strip v | Some (u, _) \<Rightarrow> strip u))"

definition pat_quoted :: regex where
  "pat_quoted = Alt
     (rx_cat [Chars (\<lambda>c. c = CHR 0x27), Star (Chars (\<lambda>c. c \<noteq> CHR 0x27)), Chars (\<lambda>c. c = CHR 0x27)])
     (rx_cat [Chars (\<lambda>c. c = CHR 0x22), Star (Chars (\<lambda>c. c \<noteq> CHR 0x22)), Chars (\<lambda>c. c = CHR 0x22)])"

definition pat_number :: regex where
  "pat_number = rx_cat [Bound, rx_plus (Chars is_digit), Bound]"

definition shape :: "string \<Rightarrow> string" where
  "shape v = strip (collapse_ws (rx_sub pat_number (\<lambda>_. ''?'') (rx_sub pat_quoted (\<lambda>_. ''?'') (casefold v))))"

definition signature :: "memory_disk \<Rightarrow> string \<Rightarrow> string outcome" where
  "signature m i =
     and_then (read_frontmatter m i) (\<lambda>f. and_then (read_body m i) (\<lambda>b.
       Inr (sha256 (join_with ''|'' [join_with '','' (sort (fm_keyword f)), shape (body_section b ''Modification'')]))))"

definition add_to_bucket :: "string \<times> string \<Rightarrow> (string, string list) dict \<Rightarrow> (string, string list) dict" where
  "add_to_bucket p d = dict_set (snd p) (ids_for d (snd p) @ [fst p]) d"

definition buckets :: "(string \<times> string) list \<Rightarrow> (string, string list) dict" where
  "buckets ps = fold add_to_bucket ps []"

text \<open>\<open>sorted(groups)\<close> of the sorted buckets with more than one member.\<close>

definition groups_of :: "(string \<times> string) list \<Rightarrow> string list list" where
  "groups_of ps = sort (map sort (filter (\<lambda>g. 1 < length g) (map snd (buckets ps))))"

section \<open>Merging a group\<close>

definition pat_logical :: regex where
  "pat_logical = rx_cat
     [rx_lit ''logical-key:'', Star rx_space, Group 1 (rx_plus (Chars (\<lambda>c. \<not> is_space c)))]"

definition logical_keys :: "string \<Rightarrow> string list" where
  "logical_keys body = map (rx_group 1) (rx_all pat_logical body)"

definition key_line :: "string \<Rightarrow> string" where
  "key_line k = ''<!-- logical-key: '' @ k @ '' -->''"

definition merge_note :: "string \<Rightarrow> nat \<Rightarrow> string list \<Rightarrow> string" where
  "merge_note now n keys =
     nl @ nl @ ''## Consolidation'' @ nl @ nl @ ''- merged-at: '' @ now @ nl @ ''- source-count: '' @ digits n @ nl @
     join_with nl (map key_line (sort (remdups keys))) @ nl"

definition remove_files :: "string list \<Rightarrow> memory_disk \<Rightarrow> memory_disk" where
  "remove_files is m = m\<lparr>md_files := filter (\<lambda>e. fst e \<notin> set is) (md_files m)\<rparr>"

text \<open>\<open>now\<close> and \<open>mtime\<close> are what the clock shows while the group of a canonical id is merged.\<close>

definition merge_group :: "(string \<Rightarrow> string) \<Rightarrow> (string \<Rightarrow> int) \<Rightarrow> string list \<Rightarrow> (memory_disk, unit) io" where
  "merge_group now mtime members m =
     (case members of
        [] \<Rightarrow> (Inl IndexError, m)
      | canonical # others \<Rightarrow>
          (case and_then (read_text m canonical) (\<lambda>t. and_then (traverse (read_body m) members) (\<lambda>bs. Inr (t, bs))) of
             Inl e \<Rightarrow> (Inl e, m)
           | Inr (t, bs) \<Rightarrow>
               (Inr (), put_experience canonical
                  (rstrip t @ merge_note (now canonical) (length members) (concat (map logical_keys bs)))
                  (mtime canonical) (remove_files others m))))"

fun merge_groups :: "(string \<Rightarrow> string) \<Rightarrow> (string \<Rightarrow> int) \<Rightarrow> string list list \<Rightarrow> (memory_disk, unit) io" where
  "merge_groups now mtime [] m = (Inr (), m)"
| "merge_groups now mtime (g # gs) m =
     (case merge_group now mtime g m of (Inl e, m') \<Rightarrow> (Inl e, m') | (Inr _, m') \<Rightarrow> merge_groups now mtime gs m')"

record consolidation_group =
  cg_canonical :: string
  cg_members :: "string list"

record consolidation_report =
  cr_scanned :: nat
  cr_duplicates :: nat
  cr_merged :: nat
  cr_groups :: "consolidation_group list"
  cr_dry_run :: bool

definition report_of :: "bool \<Rightarrow> nat \<Rightarrow> string list list \<Rightarrow> consolidation_report" where
  "report_of dry n gs =
     \<lparr>cr_scanned = n, cr_duplicates = length gs,
      cr_merged = (if dry then 0 else sum_list (map (\<lambda>g. length g - 1) gs)),
      cr_groups = map (\<lambda>g. \<lparr>cg_canonical = hd g, cg_members = g\<rparr>) gs, cr_dry_run = dry\<rparr>"

definition signed_ids :: "memory_disk \<Rightarrow> (string \<times> string) list outcome" where
  "signed_ids m = traverse (\<lambda>i. and_then (signature m i) (\<lambda>s. Inr (i, s))) (list_ids m)"

definition consolidate ::
  "(string \<Rightarrow> string) \<Rightarrow> (string \<Rightarrow> int) \<Rightarrow> bool \<Rightarrow> (memory_disk, consolidation_report) io" where
  "consolidate now mtime dry m =
     (case signed_ids m of
        Inl e \<Rightarrow> (Inl e, m)
      | Inr ps \<Rightarrow>
          let gs = groups_of ps; report = report_of dry (length (list_ids m)) gs in
          if dry then (Inr report, m)
          else seq (merge_groups now mtime gs) (seq rebuild_index (ret report)) m)"

section \<open>Facts\<close>

lemma dry_run_unchanged: "snd (consolidate now mtime True m) = m"
  by (simp add: consolidate_def Let_def split: sum.split)

text \<open>A bucket holds the ids of one signature, in their order.\<close>

lemma ids_for_buckets_fold:
  "ids_for (fold add_to_bucket ps d) s = ids_for d s @ map fst (filter (\<lambda>p. snd p = s) ps)"
  by (induction ps arbitrary: d) (auto simp: add_to_bucket_def ids_for_def dict_get_set)

lemma ids_for_buckets: "ids_for (buckets ps) s = map fst (filter (\<lambda>p. snd p = s) ps)"
  using ids_for_buckets_fold [of ps "[]" s] by (simp add: buckets_def ids_for_def dict_get_def)

lemma distinct_buckets: "distinct (dict_keys (buckets ps))"
proof -
  have "distinct (dict_keys d) \<Longrightarrow> distinct (dict_keys (fold add_to_bucket ps d))" for d
    by (induction ps arbitrary: d) (simp_all add: add_to_bucket_def distinct_dict_set)
  then show ?thesis by (simp add: buckets_def dict_keys_def)
qed

lemma bucket_entry: "(s, g) \<in> set (buckets ps) \<Longrightarrow> g = map fst (filter (\<lambda>p. snd p = s) ps)"
proof -
  assume "(s, g) \<in> set (buckets ps)"
  then have "ids_for (buckets ps) s = g"
    using distinct_buckets [of ps] by (simp add: ids_for_def dict_get_def dict_keys_def)
  then show ?thesis by (simp add: ids_for_buckets)
qed

lemma groups_members:
  assumes "g \<in> set (groups_of ps)"
  obtains s where "g = sort (map fst (filter (\<lambda>p. snd p = s) ps))" "1 < length g"
proof -
  obtain s b where b: "(s, b) \<in> set (buckets ps)" "1 < length b" "g = sort b"
    using assms by (auto simp: groups_of_def)
  with bucket_entry [OF b(1)] that show thesis by (metis length_sort)
qed

lemma group_same_signature:
  assumes "signed_ids m = Inr ps" "g \<in> set (groups_of ps)"
  shows "\<exists>s. \<forall>i \<in> set g. i \<in> set (list_ids m) \<and> signature m i = Inr s"
proof -
  obtain s where g: "g = sort (map fst (filter (\<lambda>p. snd p = s) ps))" using groups_members [OF assms(2)] by blast
  have rel: "list_all2 (\<lambda>i p. and_then (signature m i) (\<lambda>s. Inr (i, s)) = Inr p) (list_ids m) ps"
    using assms(1) by (simp add: signed_ids_def traverse_Inr_iff)
  have "i \<in> set (list_ids m) \<and> signature m i = Inr t" if in_ps: "(i, t) \<in> set ps" for i t
  proof -
    obtain n where n: "n < length ps" "ps ! n = (i, t)" using in_ps unfolding in_set_conv_nth by blast
    with rel have "n < length (list_ids m)" "list_ids m ! n = i \<and> signature m i = Inr t"
      by (auto simp: list_all2_conv_all_nth and_then_Inr_iff)
    then show ?thesis using nth_mem by blast
  qed
  then show ?thesis by (auto simp: g)
qed

text \<open>A merge leaves the canonical file and removes the other members.\<close>

lemma merge_group_ids:
  assumes "merge_group now mtime (c # others) m = (Inr (), m')" "c \<in> set (list_ids m)" "c \<notin> set others"
  shows "set (list_ids m') = set (list_ids m) - set others"
proof -
  have removed: "set (dict_keys (md_files (remove_files others m))) = set (list_ids m) - set others"
    by (auto simp: remove_files_def dict_keys_def)
  obtain t where "m' = put_experience c t (mtime c) (remove_files others m)"
    using assms(1) by (auto simp: merge_group_def split: sum.splits)
  then have "set (list_ids m') = insert c (set (dict_keys (md_files (remove_files others m))))"
    by (auto simp: put_experience_def dict_keys_set)
  with removed assms(2,3) show ?thesis by auto
qed

lemma read_remove_files: "j \<notin> set js \<Longrightarrow> read_text (remove_files js m) j = read_text m j"
proof -
  assume "j \<notin> set js"
  then have "map_of (filter (\<lambda>e. fst e \<notin> set js) xs) j = map_of xs j" for xs :: "(string \<times> string \<times> int) list"
    by (induction xs) auto
  then show ?thesis by (simp add: read_text_def remove_files_def dict_get_def)
qed

lemma merge_group_others:
  assumes "merge_group now mtime (c # others) m = (Inr (), m')" "j \<noteq> c" "j \<notin> set others"
  shows "read_text m' j = read_text m j"
proof -
  obtain t where "m' = put_experience c t (mtime c) (remove_files others m)"
    using assms(1) by (auto simp: merge_group_def split: sum.splits)
  then show ?thesis using assms(2,3) by (simp add: read_put_experience read_remove_files)
qed

lemma traverse_projr: "traverse f xs = Inr ys \<Longrightarrow> ys = map (\<lambda>x. projr (f x)) xs"
  by (induction xs arbitrary: ys) (auto simp: and_then_Inr_iff)

lemma contains_join: "k \<in> set ks \<Longrightarrow> contains (f k) (join_with sep (map f ks))"
proof (induction ks)
  case Nil
  then show ?case by simp
next
  case (Cons x ks)
  show ?case
  proof (cases "k = x")
    case True
    then show ?thesis by (auto simp: join_with_Cons contains_iff intro: exI [of _ "[]"])
  next
    case False
    with Cons obtain u v where uv: "join_with sep (map f ks) = u @ f k @ v" by (auto simp: contains_iff)
    have "ks \<noteq> []" using Cons.prems False by auto
    with uv show ?thesis by (auto simp: join_with_Cons contains_iff intro: exI [of _ "f x @ sep @ u"])
  qed
qed

lemma contains_mid: "contains p t \<Longrightarrow> contains p (a @ t @ b)"
  by (auto simp: contains_iff) (metis append.assoc)

lemma contains_trans: "contains a b \<Longrightarrow> contains b c \<Longrightarrow> contains a c"
  by (auto simp: contains_iff) (metis append.assoc)

lemma merge_note_keys:
  assumes "k \<in> set keys"
  shows "contains (''logical-key: '' @ k) (merge_note now n keys)"
proof -
  have "contains (key_line k) (join_with nl (map key_line (sort (remdups keys))))"
    by (rule contains_join) (use assms in simp)
  moreover have "contains (''logical-key: '' @ k) (key_line k)"
    unfolding key_line_def contains_iff by (rule exI [of _ "''<!-- ''"], rule exI [of _ "'' -->''"]) simp
  ultimately have "contains (''logical-key: '' @ k) (join_with nl (map key_line (sort (remdups keys))))"
    by (rule contains_trans [rotated])
  then show ?thesis unfolding merge_note_def
    using contains_mid [of _ _ "nl @ nl @ ''## Consolidation'' @ nl @ nl @ ''- merged-at: '' @ now @ nl @ ''- source-count: '' @ digits n @ nl" nl]
    by (simp del: append.simps)
qed

text \<open>A text with a front matter has its two lines of dashes.\<close>

lemma splitlines_from_infix: "l \<in> set (splitlines_from acc s) \<Longrightarrow> \<exists>u v. rev acc @ s = u @ l @ v"
proof (induction acc s rule: splitlines_from.induct)
  case (1 acc)
  then show ?case by (auto split: if_splits intro: exI [of _ "[]"])
next
  case (2 acc c cs)
  show ?case
  proof (cases "line_break c")
    case True
    with 2 consider "l = rev acc" | u v where "cs = u @ l @ v" by auto
    then show ?thesis
    proof cases
      case 1
      then show ?thesis by (auto intro: exI [of _ "[]"])
    next
      case (2 u v)
      then show ?thesis by (auto intro: exI [of _ "rev acc @ c # u"])
    qed
  next
    case False
    with 2 show ?thesis by simp
  qed
qed

lemma splitlines_from_Cons:
  "splitlines_from acc s = l # ls \<Longrightarrow> \<exists>r. rev acc @ s = l @ r \<and> (\<forall>x \<in> set ls. \<exists>u v. r = u @ x @ v)"
proof (induction acc s rule: splitlines_from.induct)
  case (1 acc)
  then show ?case by (auto split: if_splits)
next
  case (2 acc c cs)
  show ?case
  proof (cases "line_break c")
    case True
    have "\<exists>u v. c # cs = u @ x @ v" if "x \<in> set (splitlines_from [] cs)" for x
      using splitlines_from_infix [OF that] by (metis append_Cons append_Nil rev.simps(1))
    with True 2 show ?thesis by (auto intro: exI [of _ "c # cs"])
  next
    case False
    with 2 show ?thesis by simp
  qed
qed

lemma parsed_has_dashes:
  assumes "parse_frontmatter t = Inr f"
  obtains mid rest where "t = dashes @ mid @ dashes @ rest"
proof -
  obtain ls where ls: "splitlines t = dashes # ls" "dashes \<in> set ls"
    using assms by (auto simp: parse_frontmatter_def split: list.splits if_splits)
  from splitlines_from_Cons [of "[]" t] ls obtain r where "t = dashes @ r" "\<exists>u v. r = u @ dashes @ v"
    unfolding splitlines_def by fastforce
  with that show thesis by auto
qed

lemma rstrip_dashes: "rstrip (dashes @ mid @ dashes @ rest) = dashes @ mid @ dashes @ rstrip rest"
proof -
  have d: "rstrip (x @ dashes) = x @ dashes" for x
    by (rule rstrip_last) (simp_all add: dashes_def is_space_def code_def)
  show ?thesis
    using rstrip_append [of "dashes @ mid @ dashes" rest] d [of "dashes @ mid"] by (auto simp: rstrip_def)
qed

text \<open>The keys of every member are found in the canonical file.\<close>

lemma merge_group_keys:
  assumes merge: "merge_group now mtime (c # others) m = (Inr (), m')"
    and front: "read_frontmatter m c = Inr f"
    and key: "i \<in> set (c # others)" "read_body m i = Inr b" "k \<in> set (logical_keys b)"
    and plain: "CHR 0x0D \<notin> set (merge_note (now c) (length (c # others))
      (concat (map logical_keys (map (\<lambda>j. projr (read_body m j)) (c # others)))))"
  shows "\<exists>b'. read_body m' c = Inr b' \<and> contains (''logical-key: '' @ k) b'"
proof -
  obtain t bs where t: "read_text m c = Inr t" and bs: "traverse (read_body m) (c # others) = Inr bs"
    and m': "m' = put_experience c (rstrip t @ merge_note (now c) (length (c # others)) (concat (map logical_keys bs)))
      (mtime c) (remove_files others m)"
    using merge by (auto simp: merge_group_def and_then_Inr_iff split: sum.splits)
  have bs_eq: "bs = map (\<lambda>j. projr (read_body m j)) (c # others)" by (rule traverse_projr [OF bs])
  have "b \<in> set bs" using key(1,2) unfolding bs_eq by force
  with key(3) have k: "k \<in> set (concat (map logical_keys bs))" by auto
  let ?note = "merge_note (now c) (length (c # others)) (concat (map logical_keys bs))"
  obtain raw where raw: "t = normalize_newlines raw"
    using t by (auto simp: read_text_def split: option.splits)
  obtain mid rest where parts: "t = dashes @ mid @ dashes @ rest"
    by (rule parsed_has_dashes [of t f]) (use front t in \<open>simp add: read_frontmatter_def\<close>)
  have "CHR 0x0D \<notin> set t" by (simp add: raw no_return_normalize_newlines)
  then have "CHR 0x0D \<notin> set (rstrip t)"
    unfolding rstrip_def using set_dropWhileD by fastforce
  then have "CHR 0x0D \<notin> set (rstrip t @ ?note)" using plain by (simp add: bs_eq)
  then have "normalize_newlines (rstrip t @ ?note) = rstrip t @ ?note"
    using normalize_newlines_append [of "rstrip t @ ?note" "[]"] by (simp add: normalize_newlines_def)
  then have "read_body m' c = Inr (body_of (dashes @ mid @ dashes @ rstrip rest @ ?note))"
    by (simp add: read_body_def m' read_put_experience parts rstrip_dashes)
  moreover have "contains (''logical-key: '' @ k) (rstrip rest @ ?note)"
    using contains_mid [OF merge_note_keys [OF k, of "now c" "length (c # others)"], of "rstrip rest" "[]"] by simp
  ultimately show ?thesis
    using body_of_written [of "''logical-key: '' @ k" "rstrip rest @ ?note" mid]
    by (simp add: is_space_def code_def)
qed

end
