(* ===== verification/Memory_Properties.thy ===== *)
theory Memory_Properties
  imports Consolidation
begin

text \<open>
  The properties of the experience memory: what is written can be read, retrieval through the index is
  a scan of all files, a success is remembered once, and a dry run of the consolidation changes
  nothing.
\<close>

text \<open>C33. The front matter of an experience the program writes is read back: the keywords as they are,
  the description on one line.\<close>

theorem experience_round_trip:
  assumes "\<forall>k \<in> set ks. plain_keyword k"
  shows "parse_frontmatter (normalize_newlines (experience_text ks x)) =
    Inr \<lparr>fm_keyword = ks, fm_description = strip (single_line (ci_description x))\<rparr>"
  using assms by (rule parse_written)

definition sample_success :: confirmed_input where
  "sample_success = \<lparr>ci_session_id = ''sess_t1'', ci_attempt_id = ''attempt_001'', ci_original_sql = ''SELECT usr FROM t'',
     ci_confirmed_sql = ''SELECT user_id FROM t'', ci_keywords = [''column_not_found''], ci_description = ''renamed column'',
     ci_modification = ''usr to user_id'', ci_error_summary = ''no column usr''\<rparr>"

lemma sample_keyword: "plain_keyword ''column_not_found''" "plain_keyword ''unknown''"
  by (simp_all add: plain_keyword_def line_break_def is_space_def code_def)

theorem experience_round_trip_witness:
  "parse_frontmatter (normalize_newlines (experience_text [''column_not_found''] sample_success)) =
    Inr \<lparr>fm_keyword = [''column_not_found''], fm_description = strip (single_line ''renamed column'')\<rparr>"
  using experience_round_trip [of "[''column_not_found'']" sample_success] sample_keyword by (simp add: sample_success_def)

text \<open>C31. Retrieval by keywords through the index returns what scanning every file would: the experiences
  that share a keyword, ranked, the best ones up to the limit, without warnings.\<close>

theorem retrieval_is_scan:
  assumes "memory_ok m" "''unknown'' \<notin> set (normalize_keywords vals diagnosed)"
  shows "\<exists>r. retrieve_keywords vals max_hits budget m diagnosed query_summary limit = Inr r \<and>
    mr_experiences r = scan_result m max_hits limit (normalize_keywords vals diagnosed) query_summary \<and>
    mr_warnings r = []"
  using assms by (rule retrieve_is_scan)

definition sample_memory :: memory_disk where
  "sample_memory = \<lparr>md_files = [(''exp_1'', experience_text [''column_not_found''] sample_success, 0)],
     md_index = Some [(''column_not_found'', [''exp_1''])]\<rparr>"

lemma sample_memory_ok: "memory_ok sample_memory"
proof -
  have front: "parse_frontmatter (normalize_newlines (experience_text [''column_not_found''] sample_success)) =
      Inr \<lparr>fm_keyword = [''column_not_found''], fm_description = strip (single_line (ci_description sample_success))\<rparr>"
    using parse_written [of "[''column_not_found'']" sample_success] sample_keyword by simp
  show ?thesis
    by (simp add: memory_ok_def all_frontmatters_def sample_memory_def list_ids_def read_frontmatter_def read_text_def
        dict_get_def front index_of_def add_to_index_def dict_keys_def Let_def)
qed

theorem retrieval_is_scan_witness:
  "\<exists>r. retrieve_keywords [''column_not_found'', ''unknown''] 3 10 sample_memory [''column_not_found''] None None = Inr r \<and>
     mr_warnings r = []"
proof -
  have "''unknown'' \<notin> set (normalize_keywords [''column_not_found'', ''unknown''] [''column_not_found''])" by code_simp
  from retrieval_is_scan [OF sample_memory_ok this] show ?thesis by blast
qed

text \<open>C32. A confirmed success is remembered once: writing the same success again keeps every file and
  returns an experience that is there.\<close>

theorem success_remembered_once:
  assumes "memory_ok m" "find_by_logical_key m (ci_session_id x) (ci_attempt_id x) = None"
    "write_confirmed vals date uid n x m = (Inr i, m')"
    "plain_id (ci_session_id x)" "plain_id (ci_attempt_id x)" "\<forall>k \<in> insert ''unknown'' (set vals). plain_keyword k"
    "\<forall>j \<in> set (list_ids m). j \<noteq> []"
  shows "\<exists>j m''. write_confirmed vals date' uid' n' x m' = (Inr j, m'') \<and> md_files m'' = md_files m' \<and> j \<in> set (list_ids m')"
  using assms by (rule confirm_twice)

definition empty_memory :: memory_disk where "empty_memory = \<lparr>md_files = [], md_index = Some []\<rparr>"

theorem success_remembered_once_witness:
  "\<exists>m' j m''. write_confirmed [''column_not_found''] ''20250101'' ''u1'' 0 sample_success empty_memory = (Inr (experience_id ''20250101'' ''u1''), m') \<and>
     write_confirmed [''column_not_found''] ''20250102'' ''u2'' 5 sample_success m' = (Inr j, m'') \<and> md_files m'' = md_files m'"
proof -
  have ok: "memory_ok empty_memory"
    by (simp add: memory_ok_def all_frontmatters_def empty_memory_def list_ids_def index_of_def dict_keys_def Let_def)
  have none: "find_by_logical_key empty_memory (ci_session_id sample_success) (ci_attempt_id sample_success) = None"
    by (simp add: find_by_logical_key_def empty_memory_def list_ids_def dict_keys_def)
  have ks: "normalize_keywords [''column_not_found''] [''column_not_found''] = [''column_not_found'']" by code_simp
  then have ks': "normalize_keywords [''column_not_found''] (ci_keywords sample_success) = [''column_not_found'']"
    by (simp add: sample_success_def)
  have front: "parse_frontmatter (normalize_newlines (experience_text [''column_not_found''] sample_success)) =
      Inr \<lparr>fm_keyword = [''column_not_found''], fm_description = strip (single_line (ci_description sample_success))\<rparr>"
    using parse_written [of "[''column_not_found'']" sample_success] sample_keyword by simp
  obtain m' where run: "write_confirmed [''column_not_found''] ''20250101'' ''u1'' 0 sample_success empty_memory =
      (Inr (experience_id ''20250101'' ''u1''), m')"
    using none
    by (simp add: write_confirmed_def save_markdown_def rebuild_index_def put_experience_def empty_memory_def list_ids_def dict_keys_def
        read_frontmatter_def read_text_def dict_get_def front ks' bind_def seq_def gets_def modify_def ret_def Let_def)
  have plain: "plain_id (ci_session_id sample_success)" "plain_id (ci_attempt_id sample_success)"
    by (simp_all add: plain_id_def sample_success_def)
  from success_remembered_once [OF ok none run plain, of "''20250102''" "''u2''" 5] sample_keyword run
  show ?thesis by (fastforce simp: list_ids_def empty_memory_def dict_keys_def)
qed

text \<open>A dry run of the consolidation reports, and changes nothing.\<close>

theorem dry_run_changes_nothing: "snd (consolidate now mtime True m) = m"
  by (rule dry_run_unchanged)

end
