(* ===== verification/Service.thy ===== *)
theory Service
  imports Processor Candidate_Committer
begin

text \<open>
  \<open>orchestrator/repair_agent_service.py\<close>: the entry point of the program. A FAILED event gets an
  attempt, a run of the agent and an answer that is stored with the event; a SUCCESS event confirms the
  candidate the session waits for and writes the experience. Exceptions, the recovery of events a crash
  left behind, the rollback switch and the second delivery of an event are branches of the operations.

  The session lock is a port: what acquiring it does depends on the other processes. It may raise, and
  the stored state after it may have been changed by others. Validating JSON as a model with nested
  models (pydantic) is a parameter. A session or an attempt the code mutates is threaded explicitly; in
  the \<open>try\<close> block of \<open>_handle_failed_event\<close> both are part of the state, since its handlers
  write back whatever the block has changed so far.
\<close>

section \<open>State\<close>

record 'x service_world =
  sw_disk :: disk
  sw_memory :: memory_disk
  sw_active :: "string set"
  sw_tick :: nat
  sw_outside :: 'x

record ('t, 'x) service_config =
  sc_run :: "('t, 'x) services"
  sc_lock :: "string \<Rightarrow> ('x service_world, unit) io"
  sc_date :: "nat \<Rightarrow> string"
  sc_mtime :: "nat \<Rightarrow> int"
  sc_diagnosis_of :: "json \<Rightarrow> diagnosis_result outcome"
  sc_plan_of :: "json \<Rightarrow> repair_plan outcome"
  sc_metadata_of :: "json \<Rightarrow> metadata_snapshot outcome"

text \<open>Parts of the state: the disk, the memory directory.\<close>

definition on_store :: "(disk, 'a) io \<Rightarrow> ('x service_world, 'a) io" where
  "on_store = via sw_disk (\<lambda>d w. w\<lparr>sw_disk := d\<rparr>)"

definition on_memory :: "(memory_disk, 'a) io \<Rightarrow> ('x service_world, 'a) io" where
  "on_memory = via sw_memory (\<lambda>m w. w\<lparr>sw_memory := m\<rparr>)"

definition service_tick :: "('x service_world, nat) io" where
  "service_tick w = (Inr (sw_tick w), w\<lparr>sw_tick := Suc (sw_tick w)\<rparr>)"

definition service_now :: "('t, 'x) service_config \<Rightarrow> ('x service_world, string) io" where
  "service_now C = bind service_tick (\<lambda>n. ret (sv_now (sc_run C) n))"

definition service_emit ::
  "string \<Rightarrow> string \<Rightarrow> string \<Rightarrow> (string, json) dict \<Rightarrow> string option \<Rightarrow> ('x service_world, unit) io" where
  "service_emit sid ty stage payload aid = on_store (emit_trace sid ty stage payload aid)"

section \<open>Stored answers\<close>

fun external_status_value :: "external_status \<Rightarrow> string" where
  "external_status_value SQL_READY = ''SQL_READY''"
| "external_status_value NO_SQL = ''NO_SQL''"
| "external_status_value HUMAN_REQUIRED = ''HUMAN_REQUIRED''"
| "external_status_value SUCCESS_ACK = ''SUCCESS_ACK''"

definition external_status_of :: "string \<Rightarrow> external_status option" where
  "external_status_of t = List.find (\<lambda>s. external_status_value s = t) [SQL_READY, NO_SQL, HUMAN_REQUIRED, SUCCESS_ACK]"

definition dump_external :: "external_result \<Rightarrow> json" where
  "dump_external r = Js_dict
     [(''status'', Js_text (external_status_value (xr_status r))), (''sql'', json_of_opt (xr_sql r)),
      (''message'', json_of_opt (xr_message r))]"

text \<open>\<open>AgentExternalResult.model_validate\<close>: no extra field, a known status, and the validator.\<close>

definition external_of_json :: "json \<Rightarrow> external_result outcome" where
  "external_of_json v =
     (case v of
        Js_dict d \<Rightarrow>
          if \<not> set (dict_keys d) \<subseteq> {''status'', ''sql'', ''message''} then Inl (ValidationError ''AgentExternalResult'')
          else (case (Option.bind (js_text (dict_get d ''status'')) external_status_of,
                      js_opt_text (dict_get d ''sql''), js_opt_text (dict_get d ''message'')) of
             (Some s, Some q, Some m) \<Rightarrow> mk_external_result s q m
           | _ \<Rightarrow> Inl (ValidationError ''AgentExternalResult''))
      | _ \<Rightarrow> Inl (ValidationError ''AgentExternalResult''))"

text \<open>\<open>_load_processed_failed_result\<close> for the record that was found\<close>

definition load_processed_failed_result :: "event_record \<Rightarrow> 'a disk_scheme \<Rightarrow> external_result option outcome" where
  "load_processed_failed_result r d =
     (let p = or_text (er_result_ref r) [] in
      if \<not> truthy (er_result_ref r) \<or> file_at p d = None then Inr None
      else and_then (read_json p d) (\<lambda>v. and_then (external_of_json v) (\<lambda>x. Inr (Some x))))"

text \<open>
  \<open>_persist_external_result\<close>: the event is no longer active, the answer is stored as an artifact and
  recorded as the result of the event.
\<close>

definition persist_external_result ::
  "('t, 'x) service_config \<Rightarrow> repair_session \<Rightarrow> repair_attempt \<Rightarrow> external_result \<Rightarrow>
     ('x service_world, external_result) io" where
  "persist_external_result C s a r =
     seq (modify (\<lambda>w. w\<lparr>sw_active := sw_active w - {ra_source_event_key a}\<rparr>))
     (bind (on_store (save_json_legacy (sv_float (sc_run C)) (rs_session_id s) (ra_attempt_id a)
              ''external_result.json'' (dump_external r))) (\<lambda>path.
      let s' = s\<lparr>rs_last_result_ref := Some path\<rparr> in
      seq (case find_event s' (ra_source_event_key a) of
             Some rec \<Rightarrow> bind (service_now C) (\<lambda>now.
               bind (on_store (finish_event s' rec (Some path) None EP_SUCCEEDED now)) (\<lambda>_. ret ()))
           | None \<Rightarrow> on_store (save_session s'))
        (ret r)))"

text \<open>\<open>_load_attempt_artifact\<close>: a reference in JSON, or else the path of a JSON file.\<close>

definition load_attempt_artifact ::
  "(json \<Rightarrow> 'a outcome) \<Rightarrow> string option \<Rightarrow> 'b disk_scheme \<Rightarrow> 'a option outcome" where
  "load_attempt_artifact validate reference d =
     (if \<not> truthy reference then Inr None
      else let t = or_text reference [] in
        case and_then (parse_ref t) (\<lambda>r.
               and_then (load_artifact r None (Some (ar_session r)) (ar_attempt r) d) (\<lambda>c.
               and_then (json_loads c) validate)) of
          Inr v \<Rightarrow> Inr (Some v)
        | Inl _ \<Rightarrow>
            if file_at t d = None then Inr None
            else and_then (read_json t d) (\<lambda>v. and_then (validate v) (\<lambda>x. Inr (Some x))))"

section \<open>Recovery of an event without a stored answer\<close>

definition stage_refs :: "repair_attempt \<Rightarrow> string option list" where
  "stage_refs a =
     [ra_run_state_path a, ra_log_digest_path a, ra_diagnosis_path a, ra_metadata_path a, ra_memory_path a,
      ra_plan_path a, ra_candidate_path a]"

definition system_error ::
  "('t, 'x) service_config \<Rightarrow> repair_session \<Rightarrow> event_record \<Rightarrow> string \<Rightarrow> ('x service_world, unit) io" where
  "system_error C s r reason =
     bind (service_now C) (\<lambda>now. bind (on_store (finish_event s r None (Some reason) EP_SYSTEM_ERROR now)) (\<lambda>_. ret ()))"

text \<open>\<open>_recover_failed_event\<close>: the answer, or \<open>None\<close> for an attempt that can be run from its start.\<close>

definition recover_attempt ::
  "('t, 'x) service_config \<Rightarrow> repair_session \<Rightarrow> event_record \<Rightarrow> repair_attempt \<Rightarrow>
     ('x service_world, external_result option) io" where
  "recover_attempt C s r a =
     (if ra_status a = AS_SQL_READY \<and> truthy (ra_sql_candidate a)
      then bind (lift (result_sql_ready (or_text (ra_sql_candidate a) []))) (\<lambda>x.
             bind (persist_external_result C s a x) (\<lambda>y. ret (Some y)))
      else if ra_status a \<in> {AS_HUMAN_REQUIRED, AS_VALIDATION_BLOCKED, AS_REFLECTION_BLOCKED}
      then bind (lift (result_human_required (or_text (ra_stop_reason a) msg_terminated))) (\<lambda>x.
             bind (persist_external_result C s a x) (\<lambda>y. ret (Some y)))
      else if ra_status a = AS_CREATED \<and> \<not> list_ex truthy (stage_refs a)
      then seq (service_emit (rs_session_id s) ''event_recovery_resumed'' ''orchestrator''
                  [(''attempt_id'', Js_text (ra_attempt_id a))] (Some (ra_attempt_id a)))
             (ret None)
      else bind (service_now C) (\<lambda>now.
        seq (on_store (save_attempt s (a\<lparr>ra_status := AS_HUMAN_REQUIRED,
               ra_stop_reason := Some ''RECOVERY_PARTIAL_STATE_UNSAFE'', ra_updated_at := now\<rparr>)))
        (seq (system_error C s r ''RECOVERY_PARTIAL_STATE_UNSAFE'')
           (bind (lift (result_human_required msg_partial_state)) (\<lambda>x. ret (Some x))))))"

definition recover_failed_event ::
  "('t, 'x) service_config \<Rightarrow> repair_session \<Rightarrow> event_record \<Rightarrow> ('x service_world, external_result option) io" where
  "recover_failed_event C s r =
     (if \<not> truthy (er_attempt_id r)
      then seq (system_error C s r ''RECOVERY_ATTEMPT_MISSING'')
             (bind (lift (result_human_required msg_recover_missing)) (\<lambda>x. ret (Some x)))
      else bind (on_store (load_attempt s (or_text (er_attempt_id r) []))) (recover_attempt C s r))"

section \<open>Taking up a FAILED event\<close>

text \<open>
  The block under the session lock of \<open>_handle_failed_event\<close>: an answer at once, or the session
  and the attempt to work on.
\<close>

definition known_failed_event ::
  "('t, 'x) service_config \<Rightarrow> repair_session \<Rightarrow> event_record \<Rightarrow>
     ('x service_world, external_result + repair_session \<times> repair_attempt) io" where
  "known_failed_event C s r =
     bind (on_store (\<lambda>d. (load_processed_failed_result r d, d))) (\<lambda>processed. case processed of
       Some x \<Rightarrow> ret (Inl x)
     | None \<Rightarrow>
         bind (gets sw_active) (\<lambda>active.
           if er_event_key r \<in> active
           then bind (lift (result_human_required msg_event_active)) (\<lambda>x. ret (Inl x))
           else bind (recover_failed_event C s r) (\<lambda>recovered. case recovered of
             Some x \<Rightarrow> ret (Inl x)
           | None \<Rightarrow> bind (on_store (load_attempt s (or_text (er_attempt_id r) []))) (\<lambda>a. ret (Inr (s, a))))))"

definition new_failed_event ::
  "('t, 'x) service_config \<Rightarrow> upstream_event \<Rightarrow> repair_session \<Rightarrow>
     ('x service_world, external_result + repair_session \<times> repair_attempt) io" where
  "new_failed_event C ev s =
     bind (service_now C) (\<lambda>now.
     let r = create_event_record s ev now in
     bind (on_store (append_upstream_event s r now)) (\<lambda>s1.
     bind (on_store (create_attempt s1 r now)) (\<lambda>x. ret (Inr x))))"

definition start_session :: "string \<Rightarrow> repair_session \<Rightarrow> repair_session" where
  "start_session now s = s\<lparr>rs_status := SS_RUNNING, rs_updated_at := now\<rparr>"

text \<open>Marking the event as active and the session as running.\<close>

definition activate ::
  "('t, 'x) service_config \<Rightarrow> string \<Rightarrow> repair_session \<times> repair_attempt \<Rightarrow>
     ('x service_world, repair_session \<times> repair_attempt) io" where
  "activate C key x =
     seq (modify (\<lambda>w. w\<lparr>sw_active := insert key (sw_active w)\<rparr>))
     (bind (service_now C) (\<lambda>now.
      seq (on_store (save_session (start_session now (fst x)))) (ret (start_session now (fst x), snd x))))"

definition begin_failed_event ::
  "('t, 'x) service_config \<Rightarrow> upstream_event \<Rightarrow>
     ('x service_world, external_result + repair_session \<times> repair_attempt) io" where
  "begin_failed_event C ev =
     seq (sc_lock C (ev_id ev))
     (bind (service_now C) (\<lambda>now.
      bind (on_store (load_or_create_for_event ev now)) (\<lambda>s.
      bind (case find_event s (build_event_key ev) of
              Some r \<Rightarrow> known_failed_event C s r
            | None \<Rightarrow> new_failed_event C ev s) (\<lambda>x. case x of
        Inl y \<Rightarrow> ret (Inl y)
      | Inr z \<Rightarrow> bind (activate C (build_event_key ev) z) (\<lambda>sa. ret (Inr sa))))))"

section \<open>Working on an attempt\<close>

text \<open>The world with the two objects the \<open>try\<close> block mutates.\<close>

record 'x handling =
  hd_world :: "'x service_world"
  hd_session :: repair_session
  hd_attempt :: repair_attempt

definition in_world :: "('x service_world, 'a) io \<Rightarrow> ('x handling, 'a) io" where
  "in_world = via hd_world (\<lambda>w h. h\<lparr>hd_world := w\<rparr>)"

definition set_session :: "(repair_session \<Rightarrow> repair_session) \<Rightarrow> ('x handling, unit) io" where
  "set_session f = modify (\<lambda>h. h\<lparr>hd_session := f (hd_session h)\<rparr>)"

definition set_attempt :: "(repair_attempt \<Rightarrow> repair_attempt) \<Rightarrow> ('x handling, unit) io" where
  "set_attempt f = modify (\<lambda>h. h\<lparr>hd_attempt := f (hd_attempt h)\<rparr>)"

definition store_attempt :: "('x handling, unit) io" where
  "store_attempt = bind (gets (\<lambda>h. (hd_session h, hd_attempt h))) (\<lambda>(s, a). in_world (on_store (save_attempt s a)))"

definition store_session :: "('x handling, unit) io" where
  "store_session = bind (gets hd_session) (\<lambda>s. in_world (on_store (save_session s)))"

definition persist :: "('t, 'x) service_config \<Rightarrow> external_result \<Rightarrow> ('x handling, external_result) io" where
  "persist C r = bind (gets (\<lambda>h. (hd_session h, hd_attempt h))) (\<lambda>(s, a). in_world (persist_external_result C s a r))"

definition handling_emit :: "string \<Rightarrow> string \<Rightarrow> (string, json) dict \<Rightarrow> ('x handling, unit) io" where
  "handling_emit ty stage payload =
     bind (gets (\<lambda>h. (rs_session_id (hd_session h), ra_attempt_id (hd_attempt h)))) (\<lambda>(sid, aid).
       in_world (service_emit sid ty stage payload (Some aid)))"

text \<open>\<open>_human\<close>\<close>

definition human :: "('t, 'x) service_config \<Rightarrow> string \<Rightarrow> ('x handling, external_result) io" where
  "human C message =
     bind (in_world (service_now C)) (\<lambda>now.
     seq (set_attempt (\<lambda>a. a\<lparr>ra_status := AS_HUMAN_REQUIRED, ra_updated_at := now\<rparr>))
     (seq (set_session (\<lambda>s. s\<lparr>rs_status := SS_HUMAN_REQUIRED, rs_terminal_status := Some ''HUMAN_REQUIRED'',
             rs_updated_at := now\<rparr>))
     (seq store_attempt
     (seq store_session
     (seq (handling_emit ''human_required_returned'' ''orchestrator'' [(''reason'', Js_text message)])
       (bind (lift (result_human_required message)) (persist C)))))))"

section \<open>The run of the agent\<close>

text \<open>An operation of a run on the service's state: the disk, the ticks and the outside are shared.\<close>

definition run_in :: "'x service_world \<Rightarrow> 'x run_world \<Rightarrow> 'x run_world" where
  "run_in w = with_proc (\<lambda>p. p\<lparr>pw_disk := sw_disk w, pw_tick := sw_tick w, pw_outside := sw_outside w\<rparr>)"

definition absorb :: "'x run_world \<Rightarrow> 'x service_world \<Rightarrow> 'x service_world" where
  "absorb e w = w\<lparr>sw_disk := pw_disk (proc_of e), sw_tick := pw_tick (proc_of e), sw_outside := pw_outside (proc_of e)\<rparr>"

definition after_run :: "'x run_world \<Rightarrow> ('x run_world, 'a) io \<Rightarrow> ('x handling, 'a) io" where
  "after_run e m h =
     (let (r, e') = m (run_in (hd_world h) e) in (r, h\<lparr>hd_world := absorb e' (hd_world h)\<rparr>))"

text \<open>\<open>AgenticFailedEventProcessor(...).run(event, session, attempt)\<close>; memory is read from its directory.\<close>

definition run_processor ::
  "('t, 'x) service_config \<Rightarrow> upstream_event \<Rightarrow> ('x handling, run_result \<times> 'x run_world) io" where
  "run_processor C ev h =
     (let w = hd_world h;
          (r, e) = process_failed_event ((sc_run C)\<lparr>sv_memory := sw_memory w\<rparr>) ev
            (start_run (sc_run C) ev (hd_session h) (hd_attempt h) (sw_disk w) (sw_tick w) (sw_outside w))
      in (map_sum id (\<lambda>x. (x, e)) r, h\<lparr>hd_world := absorb e w\<rparr>))"

fun run_state_status_value :: "run_status \<Rightarrow> string" where
  "run_state_status_value RUNNING = ''RUNNING''"
| "run_state_status_value RUN_SUCCEEDED = ''SUCCEEDED''"
| "run_state_status_value RUN_NO_SQL = ''NO_SQL''"
| "run_state_status_value RUN_HUMAN_REQUIRED = ''HUMAN_REQUIRED''"
| "run_state_status_value RUN_FAILED = ''FAILED''"

definition dump_run_state :: "run_state \<Rightarrow> json" where
  "dump_run_state s = Js_dict
     [(''started_at'', Js_text (st_started_at s)), (''step_count'', Js_int (st_step_count s)),
      (''tool_call_count'', Js_int (st_tool_calls s)), (''sub_agent_call_count'', Js_int (st_sub_agent_calls s)),
      (''llm_call_count'', Js_int (st_llm_calls s)), (''wall_time_ms'', Js_int (st_wall_time_ms s)),
      (''gate_repair_rounds'', Js_int (st_gate_rounds s)), (''plan_revision_count'', Js_int (st_plan_revisions s)),
      (''no_progress_steps'', Js_int (st_no_progress s)),
      (''status'', Js_text (run_state_status_value (st_status s))), (''stop_reason'', json_of_opt (st_stop_reason s))]"

definition save_run_state :: "('t, 'x) service_config \<Rightarrow> 'x run_world \<Rightarrow> ('x handling, unit) io" where
  "save_run_state C e =
     bind (gets (\<lambda>h. (rs_session_id (hd_session h), ra_attempt_id (hd_attempt h)))) (\<lambda>(sid, aid).
     bind (in_world (on_store (save_json_legacy (sv_float (sc_run C)) sid aid ''agent_run_state.json''
             (dump_run_state (re_state e))))) (\<lambda>path.
       set_attempt (\<lambda>a. a\<lparr>ra_run_state_path := Some path\<rparr>)))"

text \<open>The references the workspace holds, each copied into the field of its stage.\<close>

definition copied_ref :: "agent_context \<Rightarrow> string \<Rightarrow> string option \<Rightarrow> string option" where
  "copied_ref ctx key old =
     (case dict_get (cx_workspace ctx) key of
        None \<Rightarrow> old
      | Some v \<Rightarrow> if truthy (wv_artifact_ref v) then wv_artifact_ref v else old)"

definition copy_references :: "agent_context \<Rightarrow> repair_attempt \<Rightarrow> repair_attempt" where
  "copy_references ctx a =
     a\<lparr>ra_log_digest_path := copied_ref ctx ''log_digest'' (ra_log_digest_path a),
       ra_diagnosis_path := copied_ref ctx ''diagnosis'' (ra_diagnosis_path a),
       ra_metadata_path := copied_ref ctx ''metadata_snapshot'' (ra_metadata_path a),
       ra_memory_path := copied_ref ctx ''memory_retrieval'' (ra_memory_path a),
       ra_plan_path := copied_ref ctx ''repair_plan'' (ra_plan_path a)\<rparr>"

text \<open>
  The reflection on the attempt before: only if its diagnosis, its plan and its candidate and the
  current diagnosis and log are there.
\<close>

definition post_input_of ::
  "('t, 'x) service_config \<Rightarrow> upstream_event \<Rightarrow> repair_session \<Rightarrow> repair_attempt \<Rightarrow> agent_objects \<Rightarrow> disk \<Rightarrow>
     post_input option outcome" where
  "post_input_of C ev s previous o1 d =
     (case oj_diagnosis o1 of None \<Rightarrow> Inr None
      | Some current \<Rightarrow>
          and_then (load_attempt_artifact (sc_diagnosis_of C) (ra_diagnosis_path previous) d) (\<lambda>pd.
          and_then (load_attempt_artifact (sc_plan_of C) (ra_plan_path previous) d) (\<lambda>pp.
            Inr (case (pd, pp, oj_log o1) of
                   (Some diagnosis, Some plan, Some digest) \<Rightarrow>
                     if truthy (ra_sql_candidate previous)
                     then Some \<lparr>pt_previous_attempt = previous, pt_previous_diagnosis = diagnosis, pt_previous_plan = plan,
                            pt_previous_candidate = or_text (ra_sql_candidate previous) [], pt_current_sql = ev_sql ev,
                            pt_current_log = digest, pt_current_diagnosis = current,
                            pt_history = rs_diagnosis_history s\<rparr>
                     else None
                 | _ \<Rightarrow> None))))"

definition dump_post :: "post_result \<Rightarrow> json" where
  "dump_post r = Js_dict
     [(''status'', Js_text (post_status_value (po_status r))), (''previous_error_resolved'', Js_bool (po_resolved r)),
      (''new_error_introduced'', Js_bool (po_new_error r)),
      (''recommendation_for_next_plan'', json_of_opt (po_recommendation r)), (''reasons'', texts (po_reasons r)),
      (''confidence'', Js_float (po_confidence r))]"

definition reflect_on_previous ::
  "('t, 'x) service_config \<Rightarrow> upstream_event \<Rightarrow> repair_attempt option \<Rightarrow> 'x run_world \<Rightarrow> ('x handling, unit) io" where
  "reflect_on_previous C ev previous e = (case previous of
     None \<Rightarrow> ret ()
   | Some p \<Rightarrow>
       bind (\<lambda>h. (post_input_of C ev (hd_session h) p (pw_objects (proc_of e)) (sw_disk (hd_world h)), h)) (\<lambda>x. case x of
         None \<Rightarrow> ret ()
       | Some i \<Rightarrow>
           bind (after_run e (post_reflect (ask_post (sc_run C)) i)) (\<lambda>r.
           bind (gets (\<lambda>h. (rs_session_id (hd_session h), ra_attempt_id (hd_attempt h)))) (\<lambda>(sid, aid).
           bind (in_world service_tick) (\<lambda>n.
           bind (in_world (on_store (save_json_ref (sv_float (sc_run C)) sid (Some aid) ''post_reflection_result.json''
                   (dump_post r) TRACE_PAYLOAD \<lparr>sp_uuid = sv_uuid (sc_run C) n, sp_now = sv_now (sc_run C) n\<rparr>))) (\<lambda>ref.
             set_attempt (\<lambda>a. a\<lparr>ra_post_reflection_path := Some (ref_json ref)\<rparr>)))))))"

definition copy_diagnosis :: "diagnosis_result option \<Rightarrow> repair_attempt \<Rightarrow> repair_attempt" where
  "copy_diagnosis d a =
     (case d of None \<Rightarrow> a
      | Some x \<Rightarrow> a\<lparr>ra_error_type := Some (error_type_value (dr_error_type x)), ra_keywords := dr_keywords x,
                   ra_fingerprint := Some (dr_fingerprint x)\<rparr>)"

section \<open>The two ends of a run\<close>

text \<open>\<open>Path.gate_feedback[-1].gate_name\<close>: a run the static gate stopped counts as blocked by validation.\<close>

definition static_blocked :: "agent_context \<Rightarrow> bool" where
  "static_blocked ctx =
     (case last_opt (cs_feedback (cx_candidate ctx)) of None \<Rightarrow> False | Some f \<Rightarrow> gf_gate f = ''StaticValidationGate'')"

definition rejected_status :: "agent_run_status \<Rightarrow> agent_context \<Rightarrow> attempt_status" where
  "rejected_status st ctx =
     (if st \<in> {AR_HUMAN_REQUIRED, AR_FAILED} then AS_HUMAN_REQUIRED
      else if static_blocked ctx then AS_VALIDATION_BLOCKED else AS_REFLECTION_BLOCKED)"

definition finish_without_candidate ::
  "('t, 'x) service_config \<Rightarrow> run_result \<Rightarrow> 'x run_world \<Rightarrow> ('x handling, external_result) io" where
  "finish_without_candidate C r e =
     seq (set_attempt (\<lambda>a. a\<lparr>ra_status := rejected_status (rr_status r) (re_ctx e),
            ra_stop_reason := or_opt (rr_reason r) (rr_stop_reason r)\<rparr>))
     (seq store_attempt
     (seq (set_session (\<lambda>s. s\<lparr>rs_terminal_status := Some (run_status_value (rr_status r))\<rparr>))
     (seq store_session
       (if rr_status r = AR_NO_SQL then bind (lift (result_no_sql (rr_reason r))) (persist C)
        else human C (or_text (rr_reason r) msg_agent_unsafe)))))"

text \<open>The committer on the session as it is stored now, with the verdict of the last gate run.\<close>

definition commit_checked ::
  "('t, 'x) service_config \<Rightarrow> run_result \<Rightarrow> 'x run_world \<Rightarrow> gate_result \<Rightarrow> repair_session \<Rightarrow>
     ('x handling, string + unit) io" where
  "commit_checked C r e g latest =
     bind (in_world (service_now C)) (\<lambda>now.
     bind (gets hd_attempt) (\<lambda>a.
     bind (in_world (on_store (commit latest a (cx_candidate (re_ctx e)) g now))) (\<lambda>x.
     let s1 = fst x; a1 = (snd x)\<lparr>ra_candidate_path := rr_candidate_ref r\<rparr> in
     seq (set_attempt (\<lambda>_. a1))
     (seq (in_world (on_store (save_attempt s1 a1)))
     (seq (set_session (\<lambda>_. s1)) (ret (Inr ())))))))"

text \<open>
  The commit under the session lock: the session is loaded anew, and the event must still belong to the
  attempt. \<open>Inl\<close> is the message of a refusal.
\<close>

definition still_owned :: "repair_session \<Rightarrow> repair_attempt \<Rightarrow> bool" where
  "still_owned latest a =
     (case find_event latest (ra_source_event_key a) of
        None \<Rightarrow> False | Some rec \<Rightarrow> er_attempt_id rec = Some (ra_attempt_id a))"

definition commit_candidate ::
  "('t, 'x) service_config \<Rightarrow> upstream_event \<Rightarrow> run_result \<Rightarrow> 'x run_world \<Rightarrow> ('x handling, string + unit) io" where
  "commit_candidate C ev r e =
     seq (in_world (sc_lock C (ev_id ev)))
     (bind (in_world (on_store (load_for_task (ev_id ev)))) (\<lambda>found. case found of
        None \<Rightarrow> ret (Inl msg_session_lost)
      | Some latest \<Rightarrow>
          bind (gets hd_attempt) (\<lambda>a.
            if \<not> still_owned latest a then ret (Inl msg_event_changed)
            else (case ge_last (re_world e) of
              None \<Rightarrow> ret (Inl msg_gate_lost)
            | Some g \<Rightarrow> commit_checked C r e g latest))))"

definition finish_with_candidate ::
  "('t, 'x) service_config \<Rightarrow> upstream_event \<Rightarrow> run_result \<Rightarrow> 'x run_world \<Rightarrow> ('x handling, external_result) io" where
  "finish_with_candidate C ev r e =
     bind (in_world (service_now C)) (\<lambda>now.
     seq (set_attempt (\<lambda>a. a\<lparr>ra_sql_candidate := rr_candidate_sql r, ra_candidate_path := rr_candidate_ref r,
            ra_status := AS_SQL_READY, ra_updated_at := now\<rparr>))
     (bind (commit_candidate C ev r e) (\<lambda>done. case done of
        Inl message \<Rightarrow> human C message
      | Inr _ \<Rightarrow> bind (lift (result_sql_ready (or_text (rr_candidate_sql r) []))) (persist C))))"

text \<open>The \<open>try\<close> block.\<close>

definition agent_attempt ::
  "('t, 'x) service_config \<Rightarrow> upstream_event \<Rightarrow> repair_attempt option \<Rightarrow> ('x handling, external_result) io" where
  "agent_attempt C ev previous =
     bind (run_processor C ev) (\<lambda>(r, e).
     seq (save_run_state C e)
     (seq (set_attempt (copy_references (re_ctx e)))
     (seq (reflect_on_previous C ev previous e)
     (seq (set_attempt (copy_diagnosis (oj_diagnosis (pw_objects (proc_of e)))))
       (if rr_status r \<noteq> CANDIDATE_READY \<or> \<not> truthy (rr_candidate_sql r) then finish_without_candidate C r e
        else finish_with_candidate C ev r e)))))"

definition attempt_failed :: "('t, 'x) service_config \<Rightarrow> py_error \<Rightarrow> ('x handling, external_result) io" where
  "attempt_failed C err =
     (if is_lock_timeout err then human C msg_commit_busy
      else seq (handling_emit ''agentic_processor_failed'' ''agent_runner'' [(''error_type'', Js_text (error_class err))])
             (human C msg_agent_failed))"

text \<open>The attempt whose candidate the failed event ran.\<close>

definition retire_previous ::
  "('t, 'x) service_config \<Rightarrow> upstream_event \<Rightarrow> ('x handling, repair_attempt option) io" where
  "retire_previous C ev =
     bind (gets hd_session) (\<lambda>s.
       if rs_latest_sql_candidate s = Some (ev_sql ev) \<and> truthy (rs_latest_attempt_id s)
       then bind (in_world (on_store (load_attempt s (or_text (rs_latest_attempt_id s) [])))) (\<lambda>p.
            bind (in_world (service_now C)) (\<lambda>now.
            let p' = p\<lparr>ra_status := AS_UPSTREAM_FAILED, ra_updated_at := now\<rparr> in
              seq (in_world (on_store (save_attempt s p'))) (ret (Some p'))))
       else ret None)"

definition work_on_attempt ::
  "('t, 'x) service_config \<Rightarrow> upstream_event \<Rightarrow> ('x handling, external_result) io" where
  "work_on_attempt C ev =
     (if \<not> truthy (ev_log_path ev) \<and> \<not> truthy (ev_error_message ev) then human C msg_no_evidence
      else bind (retire_previous C ev) (\<lambda>previous. try_catch (agent_attempt C ev previous) (attempt_failed C)))"

text \<open>\<open>_handle_failed_event\<close>; the local objects end with the call.\<close>

definition handle_failed_event ::
  "('t, 'x) service_config \<Rightarrow> upstream_event \<Rightarrow> ('x service_world, external_result) io" where
  "handle_failed_event C ev =
     bind (catch_if is_lock_timeout (begin_failed_event C ev)
             (\<lambda>_. bind (lift (result_human_required msg_session_busy)) (\<lambda>x. ret (Inl x)))) (\<lambda>x. case x of
       Inl y \<Rightarrow> ret y
     | Inr (s, a) \<Rightarrow> (\<lambda>w.
         let (r, h) = work_on_attempt C ev \<lparr>hd_world = w, hd_session = s, hd_attempt = a\<rparr> in (r, hd_world h)))"

section \<open>SUCCESS events\<close>

text \<open>What the first part of \<open>_handle_success_event\<close> leaves to do: the confirmed session, attempt and SQL.\<close>

type_synonym confirmed = "repair_session \<times> repair_attempt \<times> string"

definition success_unmatched ::
  "('t, 'x) service_config \<Rightarrow> repair_session \<Rightarrow> event_record \<Rightarrow> ('x service_world, external_result + confirmed) io" where
  "success_unmatched C s r =
     seq (service_emit (rs_session_id s) ''upstream_success_unmatched_candidate'' ''upstream_event'' [] None)
     (bind (service_now C) (\<lambda>now.
      bind (on_store (finish_event s r None (Some ''UNMATCHED_SUCCESS'') EP_SUCCEEDED now)) (\<lambda>_.
      bind (lift (result_success_ack (Some msg_success_unmatched))) (\<lambda>x. ret (Inl x)))))"

definition confirmed_session :: "string \<Rightarrow> string \<Rightarrow> string \<Rightarrow> repair_session \<Rightarrow> repair_session" where
  "confirmed_session sql aid now s =
     s\<lparr>rs_status := SS_UPSTREAM_CONFIRMED_SUCCESS, rs_terminal_status := Some ''SUCCEEDED'',
       rs_confirmed_sql := Some sql, rs_confirmed_attempt_id := Some aid, rs_updated_at := now\<rparr>"

definition success_matched ::
  "('t, 'x) service_config \<Rightarrow> repair_session \<Rightarrow> string \<Rightarrow> string \<Rightarrow> ('x service_world, external_result + confirmed) io" where
  "success_matched C s sql aid =
     bind (on_store (load_attempt s aid)) (\<lambda>a.
     bind (service_now C) (\<lambda>now.
     let a' = a\<lparr>ra_status := AS_UPSTREAM_CONFIRMED_SUCCESS, ra_updated_at := now\<rparr>;
         s' = confirmed_session sql aid now s in
     seq (on_store (save_attempt s' a'))
     (seq (on_store (save_session s'))
     (seq (service_emit (rs_session_id s') ''upstream_success_matched'' ''upstream_event'' [(''attempt_id'', Js_text aid)] (Some aid))
       (ret (Inr (s', a', sql)))))))"

definition receive_success ::
  "('t, 'x) service_config \<Rightarrow> upstream_event \<Rightarrow> repair_session \<Rightarrow> event_record \<Rightarrow>
     ('x service_world, external_result + confirmed) io" where
  "receive_success C ev s r =
     bind (service_now C) (\<lambda>now.
     bind (on_store (append_upstream_event s r now)) (\<lambda>s1.
     seq (service_emit (rs_session_id s1) ''upstream_success_received'' ''upstream_event'' [] None)
       (case (rs_latest_sql_candidate s1, rs_latest_attempt_id s1) of
          (Some sql, Some aid) \<Rightarrow> if ev_sql ev \<noteq> sql then success_unmatched C s1 r else success_matched C s1 sql aid
        | _ \<Rightarrow> success_unmatched C s1 r)))"

definition begin_success_event ::
  "('t, 'x) service_config \<Rightarrow> upstream_event \<Rightarrow> ('x service_world, external_result + confirmed) io" where
  "begin_success_event C ev =
     seq (sc_lock C (ev_id ev))
     (bind (service_now C) (\<lambda>now.
      bind (on_store (load_or_create_for_event ev now)) (\<lambda>s. case find_event s (build_event_key ev) of
        Some r \<Rightarrow>
          if er_processing_status r = EP_SUCCEEDED then bind (lift (result_success_ack None)) (\<lambda>x. ret (Inl x))
          else receive_success C ev s r
      | None \<Rightarrow> bind (service_now C) (\<lambda>now. receive_success C ev s (create_event_record s ev now)))))"

text \<open>The record of the event in the session as it is stored now gets its final state.\<close>

definition close_success ::
  "('t, 'x) service_config \<Rightarrow> string \<Rightarrow> string option \<Rightarrow> repair_session \<Rightarrow> ('x service_world, unit) io" where
  "close_success C key code_opt s =
     (case find_event s key of
        None \<Rightarrow> ret ()
      | Some r \<Rightarrow> bind (service_now C) (\<lambda>now.
          bind (on_store (finish_event s r None code_opt EP_SUCCEEDED now)) (\<lambda>_. ret ())))"

text \<open>The experience of a confirmed candidate.\<close>

definition remember ::
  "('t, 'x) service_config \<Rightarrow> confirmed \<Rightarrow> ('x service_world, unit) io" where
  "remember C x =
     (let (s, a, sql) = x in
      bind (on_store (\<lambda>d. (load_attempt_artifact (sc_metadata_of C) (ra_metadata_path a) d, d))) (\<lambda>_.
      bind (on_store (\<lambda>d. (load_attempt_artifact (sc_plan_of C) (ra_plan_path a) d, d))) (\<lambda>plan.
      seq (service_emit (rs_session_id s) ''memory_write_started'' ''memory'' [] (Some (ra_attempt_id a)))
      (bind service_tick (\<lambda>n.
       bind (on_memory (write_success (sv_keywords (sc_run C)) (sc_date C n) (take 8 (sv_uuid (sc_run C) n)) (sc_mtime C n)
               s a sql plan)) (\<lambda>i.
         service_emit (rs_session_id s) ''memory_write_finished'' ''memory'' [(''experience_id'', Js_text i)]
           (Some (ra_attempt_id a))))))))"

definition finish_success ::
  "('t, 'x) service_config \<Rightarrow> upstream_event \<Rightarrow> confirmed \<Rightarrow> ('x service_world, external_result) io" where
  "finish_success C ev x =
     seq (remember C x)
     (seq (sc_lock C (ev_id ev))
     (bind (on_store (load_for_task (ev_id ev))) (\<lambda>found. case found of
        None \<Rightarrow> lift (result_human_required msg_success_lost)
      | Some s \<Rightarrow> seq (close_success C (build_event_key ev) None s)
          (lift (result_success_ack (Some msg_success_confirmed))))))"

definition degrade_success ::
  "('t, 'x) service_config \<Rightarrow> upstream_event \<Rightarrow> confirmed \<Rightarrow> py_error \<Rightarrow> ('x service_world, external_result) io" where
  "degrade_success C ev x err =
     (let (s, a, sql) = x in
      seq (service_emit (rs_session_id s) ''stage_failed'' ''memory'' [(''error_type'', Js_text (error_class err))]
             (Some (ra_attempt_id a)))
      (seq (sc_lock C (ev_id ev))
      (bind (on_store (load_for_task (ev_id ev))) (\<lambda>found.
        seq (case found of None \<Rightarrow> ret () | Some s \<Rightarrow> close_success C (build_event_key ev) (Some ''MEMORY_WRITE_DEGRADED'') s)
          (lift (result_success_ack (Some msg_memory_degraded)))))))"

text \<open>\<open>_handle_success_event\<close>\<close>

definition handle_success_event ::
  "('t, 'x) service_config \<Rightarrow> upstream_event \<Rightarrow> ('x service_world, external_result) io" where
  "handle_success_event C ev =
     bind (catch_if is_lock_timeout (begin_success_event C ev)
             (\<lambda>_. bind (lift (result_human_required msg_session_busy)) (\<lambda>x. ret (Inl x)))) (\<lambda>x. case x of
       Inl y \<Rightarrow> ret y
     | Inr z \<Rightarrow> try_catch (finish_success C ev z) (degrade_success C ev z))"

section \<open>Events\<close>

text \<open>\<open>handle_upstream_event\<close>. An event has one of the two statuses, so its last line is not reached.\<close>

definition audit_session :: "upstream_event \<Rightarrow> string" where
  "audit_session ev = ''audit_'' @ ev_id ev"

definition success_failed ::
  "('t, 'x) service_config \<Rightarrow> upstream_event \<Rightarrow> py_error \<Rightarrow> ('x service_world, external_result) io" where
  "success_failed C ev err =
     bind (service_now C) (\<lambda>now.
     bind (on_store (load_or_create_for_event ev now)) (\<lambda>s.
     seq (service_emit (rs_session_id s) ''system_error'' ''orchestrator'' [(''error_type'', Js_text (error_class err))] None)
       (lift (result_human_required msg_success_failed))))"

definition handle_upstream_event ::
  "('t, 'x) service_config \<Rightarrow> upstream_event \<Rightarrow> ('x service_world, external_result) io" where
  "handle_upstream_event C ev =
     (case ev_status ev of
        US_FAILED \<Rightarrow>
          if \<not> cf_agentic_enabled (sv_config (sc_run C))
          then seq (service_emit (audit_session ev) ''agentic_rollback_returned'' ''orchestrator''
                      [(''event_id_hash'', Js_text (build_event_key ev))] None)
                 (lift (result_human_required msg_rollback))
          else handle_failed_event C ev
      | US_SUCCESS \<Rightarrow> try_catch (handle_success_event C ev) (success_failed C ev))"

text \<open>A sequence of events, as the process handles them one after the other.\<close>

fun handle_events ::
  "('t, 'x) service_config \<Rightarrow> upstream_event list \<Rightarrow> 'x service_world \<Rightarrow> external_result outcome list \<times> 'x service_world" where
  "handle_events C [] w = ([], w)"
| "handle_events C (ev # evs) w =
     (let (r, w1) = handle_upstream_event C ev w; (rs, w2) = handle_events C evs w1 in (r # rs, w2))"

end
