(* ===== verification/Service_Facts.thy ===== *)
theory Service_Facts
  imports Service Processor_Facts
begin

text \<open>
  What the handlers of \<open>Service\<close> keep true. \<open>handling_ok\<close> says that the stored state is good and
  that the session and the attempt in hand are the stored ones; every step of \<open>_handle_failed_event\<close>
  keeps it until the answer is stored. The law of the session lock (\<open>lock_respects\<close>) is what a
  worker relies on while it waits: the others keep the stored state good and leave the task alone.
\<close>

section \<open>Operations on parts of the state\<close>

lemma bind_gets_run [simp]: "bind (gets g) f s = f (g s) s"
  by (simp add: bind_def)

lemma preserves_triple: "triple P m (\<lambda>_. P) P \<Longrightarrow> preserves P m"
  unfolding triple_def preserves_def by (metis (mono_tags, lifting) prod.case_eq_if sum.case_eq_if)

lemma bind_lift_run [simp]: "bind (lift (Inr x)) f = f x"
  by (simp add: bind_def fun_eq_iff)

lemma on_store_run: "on_store m w = (fst (m (sw_disk w)), w\<lparr>sw_disk := snd (m (sw_disk w))\<rparr>)"
  by (simp add: on_store_def via_def case_prod_beta)

lemma in_world_run: "in_world m h = (fst (m (hd_world h)), h\<lparr>hd_world := snd (m (hd_world h))\<rparr>)"
  by (simp add: in_world_def via_def case_prod_beta)

lemma on_store_Inr: "on_store m w = (Inr x, w') \<longleftrightarrow> (\<exists>d. m (sw_disk w) = (Inr x, d) \<and> w' = w\<lparr>sw_disk := d\<rparr>)"
  by (cases "m (sw_disk w)") (auto simp: on_store_run)

lemma in_world_Inr: "in_world m h = (Inr x, h') \<longleftrightarrow> (\<exists>w. m (hd_world h) = (Inr x, w) \<and> h' = h\<lparr>hd_world := w\<rparr>)"
  by (cases "m (hd_world h)") (auto simp: in_world_run)

text \<open>The service's clock and its traces.\<close>

lemma service_now_run: "service_now C w = (Inr (sv_now (sc_run C) (sw_tick w)), w\<lparr>sw_tick := Suc (sw_tick w)\<rparr>)"
  by (simp add: service_now_def service_tick_def bind_def)

lemma service_emit_run:
  "\<exists>t. service_emit sid ty stage payload aid w = (Inr (), w\<lparr>sw_disk := (sw_disk w)\<lparr>d_trace := t\<rparr>\<rparr>)"
  unfolding service_emit_def on_store_run emit_trace_def modify_app by auto

section \<open>What a step leaves alone\<close>

text \<open>The stored sessions and attempts are \<open>d\<close>'s.\<close>

definition same_store :: "disk \<Rightarrow> 'x service_world \<Rightarrow> bool" where
  "same_store d w \<longleftrightarrow> d_sessions (sw_disk w) = d_sessions d \<and> d_attempts (sw_disk w) = d_attempts d"

lemma same_store_tick: "preserves (same_store d) service_tick" "preserves (same_store d) (service_now C)"
  by (simp_all add: preserves_def service_tick_def service_now_run same_store_def)

lemma same_store_emit: "preserves (same_store d) (service_emit sid ty stage payload aid)"
  by (simp add: preserves_def service_emit_def on_store_run emit_trace_def same_store_def)

lemma same_store_legacy: "preserves (same_store d) (on_store (save_json_legacy fl sid aid name v))"
  by (auto simp: preserves_def on_store_run save_json_legacy_def save_legacy_def bind_def seq_def put_file_def
      same_store_def split: sum.split)

lemma same_store_ref: "preserves (same_store d) (on_store (save_json_ref fl sid aid name v ty st))"
  by (auto simp: preserves_def on_store_run save_json_ref_def save_text_ref_def write_file_def bind_def seq_def put_file_def
      same_store_def split: sum.split)

lemma disk_ok_cong:
  assumes "d_sessions d' = d_sessions d" "d_attempts d' = d_attempts d"
  shows "disk_ok d' = disk_ok d" "attempt_of d' s a = attempt_of d s a"
  using assms by (simp_all only: disk_ok_def attempt_of_def session_ok_def record_ok_def)

section \<open>The session and the attempt in hand\<close>

text \<open>Two sessions that agree in what the invariant of the store reads.\<close>

definition alike :: "repair_session \<Rightarrow> repair_session \<Rightarrow> bool" where
  "alike s t \<longleftrightarrow>
     rs_session_id t = rs_session_id s \<and> rs_events t = rs_events s \<and> rs_attempt_ids t = rs_attempt_ids s \<and>
     rs_latest_sql_candidate t = rs_latest_sql_candidate s \<and> rs_latest_attempt_id t = rs_latest_attempt_id s"

definition in_hand :: "disk \<Rightarrow> repair_session \<Rightarrow> bool" where
  "in_hand d t \<longleftrightarrow> (\<exists>s. synced d s \<and> alike s t)"

lemma alike_refl: "alike s s"
  by (simp add: alike_def)

lemma synced_in_hand: "synced d s \<Longrightarrow> in_hand d s"
  unfolding in_hand_def using alike_refl by blast

lemma in_hand_alt: "in_hand d t \<longleftrightarrow> (\<exists>s. d_sessions d (rs_session_id t) = Some s \<and> alike s t)"
  by (auto simp: in_hand_def synced_def alike_def)

lemma session_ok_alike: "alike s t \<Longrightarrow> session_ok d t = session_ok d s"
  by (simp add: alike_def session_ok_def record_ok_def)

lemma find_event_alike: "alike s t \<Longrightarrow> find_event t k = find_event s k"
  by (simp add: alike_def find_event_def)

lemma put_in_hand:
  assumes "disk_ok d" "in_hand d t"
  shows "disk_ok (put_session t d) \<and> synced (put_session t d) t"
proof -
  obtain s where s: "synced d s" "alike s t" using assms(2) by (auto simp: in_hand_def)
  then have "session_ok d t" using assms(1) by (simp add: session_ok_alike disk_okD)
  with s assms(1) show ?thesis by (intro disk_ok_put_session) (auto simp: alike_def)
qed

lemma put_attempt_in_hand:
  assumes "disk_ok d" "in_hand d t" "attempt_of d t a"
  shows "disk_ok (put_attempt t a d)" "in_hand (put_attempt t a d) t" "attempt_of (put_attempt t a d) t a"
proof -
  obtain s where s: "synced d s" "alike s t" using assms(2) by (auto simp: in_hand_def)
  then have "attempt_of d s a" and same: "put_attempt t a d = put_attempt s a d"
    using assms(3) by (simp_all add: attempt_of_def alike_def put_attempt_def)
  then have "disk_ok (put_attempt s a d) \<and> synced (put_attempt s a d) s"
    using assms(1) s(1) by (intro disk_ok_put_attempt)
  with s same show "disk_ok (put_attempt t a d)" "in_hand (put_attempt t a d) t" by (auto simp: in_hand_def)
  show "attempt_of (put_attempt t a d) t a" by (simp add: attempt_of_def)
qed

lemma finish_in_hand:
  assumes "disk_ok d" "in_hand d t" "find_event t k = Some r"
  shows "\<exists>t' d'. finish_event t r ref c st now d = (Inr t', d') \<and> disk_ok d' \<and> synced d' t' \<and> d' = put_session t' d \<and>
    rs_session_id t' = rs_session_id t \<and> rs_attempt_ids t' = rs_attempt_ids t"
proof -
  obtain t' where t': "finish_event t r ref c st now (put_session t d) = (Inr t', put_session t' (put_session t d))"
    "disk_ok (put_session t' (put_session t d))" "synced (put_session t' (put_session t d)) t'"
    "rs_session_id t' = rs_session_id t" "rs_attempt_ids t' = rs_attempt_ids t"
    using finish_event_ok [of "put_session t d" t k r ref c st now] put_in_hand [OF assms(1,2)] assms(3) by blast
  have over: "put_session t' (put_session t d) = put_session t' d" using t'(4) by (simp add: put_session_def)
  have "finish_event t r ref c st now d = (Inr t', put_session t' d)"
    using t'(1) over
    by (auto simp: finish_event_def save_event_record_def Let_def save_session_def split: option.splits)
  with t' over show ?thesis by auto
qed

lemma replace_event_find:
  "replace_event r xs = Some ys \<Longrightarrow> List.find (\<lambda>x. er_event_key x = er_event_key r) ys = Some r"
  by (induction xs arbitrary: ys) (auto split: if_splits)

lemma finish_event_result:
  assumes "finish_event t r ref c st now d = (Inr t', d')"
  shows "find_event t' (er_event_key r) =
      Some (r\<lparr>er_processing_status := st, er_result_ref := ref, er_error_code := c, er_finished_at := Some now\<rparr>)"
    "rs_session_id t' = rs_session_id t" "rs_latest_sql_candidate t' = rs_latest_sql_candidate t"
    "rs_latest_attempt_id t' = rs_latest_attempt_id t" "rs_status t' = rs_status t"
    "rs_confirmed_sql t' = rs_confirmed_sql t" "rs_confirmed_attempt_id t' = rs_confirmed_attempt_id t"
    "d' = put_session t' d"
  using assms
  by (auto simp: finish_event_def save_event_record_def Let_def save_session_def find_event_def
      dest: replace_event_find split: option.splits)

section \<open>Names without a slash\<close>

lemma session_id_plain: "CHR ''/'' \<notin> set (session_id_for_task t)"
  by (auto simp: session_id_for_task_def safe_task_id_def Let_def id_char_def char_classes code_def split: if_splits)

lemma attempt_name_plain: "CHR ''/'' \<notin> set (attempt_name n)"
  using set_digits [of "CHR ''/''" n] by (auto simp: attempt_name_def zero_pad3_def char_classes code_def)

lemma attempt_id_plain:
  assumes "disk_ok d" "in_hand d s" "attempt_of d s a"
  shows "CHR ''/'' \<notin> set (ra_attempt_id a)"
proof -
  obtain u where u: "synced d u" "alike u s" using assms(2) by (auto simp: in_hand_def)
  then have "ra_attempt_id a \<in> set (rs_attempt_ids u)"
    using disk_ok_attempt [OF assms(1), of "rs_session_id s" "ra_attempt_id a"] assms(3)
    by (auto simp: attempt_of_def synced_def alike_def)
  moreover have "rs_attempt_ids u = attempt_names (length (rs_attempt_ids u))"
    using assms(1) u(1) disk_okD by (auto simp: session_ok_def)
  ultimately obtain n where "ra_attempt_id a = attempt_name n"
    unfolding attempt_names_def by (metis (no_types, lifting) imageE list.set_map)
  then show ?thesis by (simp add: attempt_name_plain)
qed

section \<open>Work on an attempt\<close>

definition handling_ok :: "string \<Rightarrow> string \<Rightarrow> 'x handling \<Rightarrow> bool" where
  "handling_ok t key h \<longleftrightarrow>
     disk_ok (sw_disk (hd_world h)) \<and> in_hand (sw_disk (hd_world h)) (hd_session h) \<and>
     attempt_of (sw_disk (hd_world h)) (hd_session h) (hd_attempt h) \<and>
     rs_session_id (hd_session h) = session_id_for_task t \<and> ra_source_event_key (hd_attempt h) = key \<and>
     find_event (hd_session h) key \<noteq> None"

lemma handling_world:
  assumes "\<And>d. preserves (same_store d) m"
  shows "preserves (handling_ok t key) (in_world m)"
  unfolding preserves_def
proof (intro allI impI)
  fix h :: "'a handling" assume h: "handling_ok t key h"
  have "same_store (sw_disk (hd_world h)) (snd (m (hd_world h)))"
    using assms [of "sw_disk (hd_world h)"] by (simp add: preserves_def same_store_def)
  then have "d_sessions (sw_disk (snd (m (hd_world h)))) = d_sessions (sw_disk (hd_world h))"
    "d_attempts (sw_disk (snd (m (hd_world h)))) = d_attempts (sw_disk (hd_world h))"
    by (simp_all add: same_store_def)
  note same = disk_ok_cong [OF this] this
  show "handling_ok t key (snd (in_world m h))"
    using h by (simp add: handling_ok_def in_world_run in_hand_def synced_def same)
qed

lemma set_session_ok: "(\<And>s. alike s (f s)) \<Longrightarrow> preserves (handling_ok t key) (set_session f)"
  by (auto simp: preserves_def set_session_def handling_ok_def in_hand_def alike_def attempt_of_def find_event_def)

lemma set_attempt_ok:
  assumes "\<And>a. ra_attempt_id (f a) = ra_attempt_id a \<and> ra_source_event_key (f a) = ra_source_event_key a"
  shows "preserves (handling_ok t key) (set_attempt f)"
  by (auto simp: preserves_def set_attempt_def handling_ok_def attempt_of_def assms)

lemma store_attempt_ok: "preserves (handling_ok t key) store_attempt"
  by (auto simp: preserves_def store_attempt_def in_world_run on_store_run save_attempt_def handling_ok_def
      intro: put_attempt_in_hand)

lemma store_session_ok: "preserves (handling_ok t key) store_session"
  unfolding preserves_def
proof (intro allI impI)
  fix h :: "'a handling" assume h: "handling_ok t key h"
  then have "disk_ok (put_session (hd_session h) (sw_disk (hd_world h)))"
    "in_hand (put_session (hd_session h) (sw_disk (hd_world h))) (hd_session h)"
    using put_in_hand [of "sw_disk (hd_world h)" "hd_session h"] by (auto simp: handling_ok_def synced_in_hand)
  then show "handling_ok t key (snd (store_session h))"
    using h by (auto simp: store_session_def in_world_run on_store_run save_session_def handling_ok_def attempt_of_def)
qed

lemma handling_emit_ok: "preserves (handling_ok t key) (handling_emit ty stage payload)"
  unfolding handling_emit_def case_prod_beta by (intro keeps handling_world same_store_emit)

lemma clock_ok: "preserves (handling_ok t key) (in_world (service_now C))" "preserves (handling_ok t key) (in_world service_tick)"
  by (intro handling_world same_store_tick)+

section \<open>The answer\<close>

text \<open>The event with the key has its answer: it is recorded as finished and the stored text is the answer's.\<close>

definition answered :: "('t, 'x) service_config \<Rightarrow> string \<Rightarrow> string \<Rightarrow> external_result \<Rightarrow> 'x service_world \<Rightarrow> bool" where
  "answered C t key x w \<longleftrightarrow>
     disk_ok (sw_disk w) \<and>
     (\<exists>s r path text. d_sessions (sw_disk w) (session_id_for_task t) = Some s \<and> find_event s key = Some r \<and>
        er_processing_status r = EP_SUCCEEDED \<and> er_result_ref r = Some path \<and> path \<noteq> [] \<and>
        sanitize (json_file_text (sv_float (sc_run C)) (dump_external x)) = Inr text \<and>
        file_at path (sw_disk w) = Some text)"

lemma persist_external_run:
  "persist_external_result C s a x w =
     (let w1 = w\<lparr>sw_active := sw_active w - {ra_source_event_key a}\<rparr> in
      case sanitize (json_file_text (sv_float (sc_run C)) (dump_external x)) of
        Inl e \<Rightarrow> (Inl e, w1)
      | Inr text \<Rightarrow>
          let path = legacy_text (d_base (sw_disk w)) (rs_session_id s) (ra_attempt_id a) ''external_result.json'';
              d1 = put_file (Legacy_Artifact (rs_session_id s) (ra_attempt_id a) ''external_result.json'') text (sw_disk w);
              s1 = s\<lparr>rs_last_result_ref := Some path\<rparr>
          in case find_event s (ra_source_event_key a) of
               None \<Rightarrow> (Inr x, w1\<lparr>sw_disk := put_session s1 d1\<rparr>)
             | Some r \<Rightarrow>
                 let (y, d2) = finish_event s1 r (Some path) None EP_SUCCEEDED (sv_now (sc_run C) (sw_tick w)) d1
                 in (map_sum id (\<lambda>_. x) y, w1\<lparr>sw_tick := Suc (sw_tick w), sw_disk := d2\<rparr>))"
  by (auto simp: persist_external_result_def on_store_run save_json_legacy_def save_legacy_def bind_def seq_def
      put_file_def find_event_def Let_def service_now_run save_session_def split: sum.split option.split prod.split)

lemma legacy_text_nonempty: "legacy_text base sid aid name \<noteq> []"
  by (simp add: legacy_text_def)

text \<open>Storing an answer either is refused by the sanitizer, and leaves all as it was, or answers the event.\<close>

lemma persist_cases:
  assumes h: "handling_ok t key h"
  shows "(\<exists>e. sanitize (json_file_text (sv_float (sc_run C)) (dump_external x)) = Inl e \<and>
        persist C x h = (Inl e, h\<lparr>hd_world := (hd_world h)\<lparr>sw_active := sw_active (hd_world h) - {key}\<rparr>\<rparr>)) \<or>
     (\<exists>h' s. persist C x h = (Inr x, h') \<and> answered C t key x (hd_world h') \<and>
        d_sessions (sw_disk (hd_world h')) (session_id_for_task t) = Some s \<and>
        d_attempts (sw_disk (hd_world h')) = d_attempts (sw_disk (hd_world h)) \<and>
        rs_latest_sql_candidate s = rs_latest_sql_candidate (hd_session h) \<and>
        rs_latest_attempt_id s = rs_latest_attempt_id (hd_session h) \<and> rs_status s = rs_status (hd_session h))"
proof -
  define s where "s = hd_session h"
  define a where "a = hd_attempt h"
  define w where "w = hd_world h"
  have inv: "disk_ok (sw_disk w)" "in_hand (sw_disk w) s" "attempt_of (sw_disk w) s a"
    "rs_session_id s = session_id_for_task t" "ra_source_event_key a = key"
    using h by (simp_all add: handling_ok_def s_def a_def w_def)
  obtain r where r: "find_event s key = Some r" using h by (auto simp: handling_ok_def s_def)
  have run: "persist C x h = (fst (persist_external_result C s a x w), h\<lparr>hd_world := snd (persist_external_result C s a x w)\<rparr>)"
    by (simp add: persist_def in_world_run s_def a_def w_def)
  show ?thesis
  proof (cases "sanitize (json_file_text (sv_float (sc_run C)) (dump_external x))")
    case (Inl e)
    then show ?thesis using run inv(5) by (simp add: persist_external_run Let_def w_def)
  next
    case (Inr content)
    define path where "path = legacy_text (d_base (sw_disk w)) (rs_session_id s) (ra_attempt_id a) ''external_result.json''"
    define d1 where "d1 = put_file (Legacy_Artifact (rs_session_id s) (ra_attempt_id a) ''external_result.json'') content (sw_disk w)"
    define s1 where "s1 = s\<lparr>rs_last_result_ref := Some path\<rparr>"
    have d1: "d_sessions d1 = d_sessions (sw_disk w)" "d_attempts d1 = d_attempts (sw_disk w)"
      by (simp_all add: d1_def put_file_def)
    have ok1: "disk_ok d1" using inv(1) disk_ok_cong [OF d1] by simp
    have hand1: "in_hand d1 s1"
      using inv(2) d1 by (auto simp: in_hand_def synced_def alike_def s1_def)
    have find1: "find_event s1 key = Some r" using r by (simp add: s1_def find_event_def)
    obtain t' where t': "finish_event s1 r (Some path) None EP_SUCCEEDED (sv_now (sc_run C) (sw_tick w)) d1
        = (Inr t', put_session t' d1)" "disk_ok (put_session t' d1)" "synced (put_session t' d1) t'"
      "rs_session_id t' = rs_session_id s"
      using finish_in_hand [OF ok1 hand1 find1, of "Some path" None EP_SUCCEEDED "sv_now (sc_run C) (sw_tick w)"]
      by (auto simp: s1_def)
    note res = finish_event_result [OF t'(1)]
    define w' where "w' = w\<lparr>sw_active := sw_active w - {key}, sw_tick := Suc (sw_tick w), sw_disk := put_session t' d1\<rparr>"
    have whole: "persist_external_result C s a x w = (Inr x, w')"
      using Inr r inv(5) t'(1)
      by (simp add: persist_external_run Let_def w'_def path_def [symmetric] d1_def [symmetric] s1_def [symmetric])
    have key: "er_event_key r = key" using r by (simp add: find_event_Some)
    have stored: "d_sessions (sw_disk w') (session_id_for_task t) = Some t'"
      using t'(4) inv(4) by (simp add: w'_def)
    have "file_at path (sw_disk w') = Some content"
      using locate_legacy [of "rs_session_id s" "ra_attempt_id a" "''external_result.json''" "d_base (sw_disk w)"]
        session_id_plain [of t] attempt_id_plain [OF inv(1-3)] inv(4)
      by (simp add: file_at_def path_def w'_def d1_def put_file_def)
    then have "answered C t key x w'"
      using stored res(1) key t'(2) Inr legacy_text_nonempty
      by (auto simp: answered_def w'_def path_def)
    moreover have "rs_latest_sql_candidate t' = rs_latest_sql_candidate s" "rs_latest_attempt_id t' = rs_latest_attempt_id s"
      "rs_status t' = rs_status s" using res by (simp_all add: s1_def)
    moreover have "d_attempts (sw_disk w') = d_attempts (sw_disk w)" by (simp add: w'_def d1)
    ultimately show ?thesis using run whole stored by (simp add: s_def w_def)
  qed
qed

lemma persist_ok: "triple (handling_ok t key) (persist C x) (\<lambda>y h. y = x \<and> answered C t key x (hd_world h)) (handling_ok t key)"
  using persist_cases [where C = C and x = x and t = t and key = key]
  by (fastforce simp: triple_def handling_ok_def split: prod.splits sum.splits)

section \<open>Every step keeps the objects in hand\<close>

lemma human_ok:
  "triple (handling_ok t key) (human C m)
     (\<lambda>y h. y = \<lparr>xr_status = HUMAN_REQUIRED, xr_sql = None, xr_message = Some m\<rparr> \<and> strip m \<noteq> [] \<and>
        answered C t key y (hd_world h)) (handling_ok t key)"
proof -
  have steps: "preserves (handling_ok t key) (set_attempt (\<lambda>a. a\<lparr>ra_status := AS_HUMAN_REQUIRED, ra_updated_at := now\<rparr>))"
    "preserves (handling_ok t key) (set_session (\<lambda>s. s\<lparr>rs_status := SS_HUMAN_REQUIRED,
       rs_terminal_status := Some ''HUMAN_REQUIRED'', rs_updated_at := now\<rparr>))" for now
    by (rule set_attempt_ok, simp) (rule set_session_ok, simp add: alike_def)
  have last: "triple (handling_ok t key) (bind (lift (result_human_required m)) (persist C))
     (\<lambda>y h. y = \<lparr>xr_status = HUMAN_REQUIRED, xr_sql = None, xr_message = Some m\<rparr> \<and> strip m \<noteq> [] \<and>
        answered C t key y (hd_world h)) (handling_ok t key)"
    by (rule triple_bind [where M = "\<lambda>x h. handling_ok t key h \<and> strip m \<noteq> [] \<and>
            x = \<lparr>xr_status = HUMAN_REQUIRED, xr_sql = None, xr_message = Some m\<rparr>"], rule triple_lift)
      (auto simp: result_human_required_def mk_external_result_iff valid_external_result_def has_text_def
        intro!: tripleI dest: triple_Inr [OF persist_ok] triple_Inl [OF persist_ok])
  show ?thesis
    unfolding human_def
    by (intro triple_bind [OF triple_preserves] triple_seq [OF triple_preserves] clock_ok steps store_attempt_ok
        store_session_ok handling_emit_ok last)
qed

text \<open>The law of the lock: others keep the stored state good and leave the task alone.\<close>

definition lock_respects :: "('t, 'x) service_config \<Rightarrow> bool" where
  "lock_respects C \<longleftrightarrow>
     (\<forall>t w. disk_ok (sw_disk w) \<longrightarrow>
        disk_ok (sw_disk (snd (sc_lock C t w))) \<and>
        d_sessions (sw_disk (snd (sc_lock C t w))) (session_id_for_task t) = d_sessions (sw_disk w) (session_id_for_task t) \<and>
        (\<forall>a. d_attempts (sw_disk (snd (sc_lock C t w))) (session_id_for_task t, a) =
              d_attempts (sw_disk w) (session_id_for_task t, a)))"

lemma lock_ok: "lock_respects C \<Longrightarrow> preserves (handling_ok t key) (in_world (sc_lock C t))"
  by (auto simp: preserves_def in_world_run handling_ok_def lock_respects_def in_hand_alt attempt_of_def)

lemma after_run_ok:
  assumes "\<And>d. preserves (stored d) m"
  shows "preserves (handling_ok t key) (after_run e m)"
  unfolding preserves_def
proof (intro allI impI)
  fix h :: "'a handling" assume h: "handling_ok t key h"
  let ?d = "sw_disk (hd_world h)"
  obtain r e' where run: "m (run_in (hd_world h) e) = (r, e')" by fastforce
  have "stored ?d (run_in (hd_world h) e)" by (simp add: stored_def run_in_def proc_of_def with_proc_def)
  then have "stored ?d e'" by (rule preserves_run [OF assms _ run])
  then have "d_sessions (pw_disk (proc_of e')) = d_sessions ?d" "d_attempts (pw_disk (proc_of e')) = d_attempts ?d"
    by (simp_all add: stored_def)
  note same = disk_ok_cong [OF this] this
  show "handling_ok t key (snd (after_run e m h))"
    using h by (simp add: after_run_def run handling_ok_def absorb_def in_hand_def synced_def same)
qed

lemma post_reflect_stored: "preserves (stored d) (post_reflect (ask_post S) i)"
proof (cases "sv_client S")
  case None
  then show ?thesis by (simp add: post_reflect_def ask_post_def preserves_def Let_def)
next
  case (Some c)
  have "preserves (stored d) (catch_if is_llm_error
      (llm_call S (\<lambda>r. ''PostReflectionResult:PostReflectionStatus.'' @ post_status_value (po_status r)) ''post_reflection''
        ''previous and current attempt reflection'' (lc_post c i)) (\<lambda>_. ret r))" for r
    by (intro keeps run_store.llm_call_keeps)
  then show ?thesis using Some by (simp add: post_reflect_def ask_post_def preserves_def Let_def)
qed

lemma run_processor_ok: "preserves (handling_ok t key) (run_processor C ev)"
  unfolding preserves_def
proof (intro allI impI)
  fix h :: "'a handling" assume h: "handling_ok t key h"
  let ?d = "sw_disk (hd_world h)" and ?S = "(sc_run C)\<lparr>sv_memory := sw_memory (hd_world h)\<rparr>"
  let ?e = "start_run (sc_run C) ev (hd_session h) (hd_attempt h) ?d (sw_tick (hd_world h)) (sw_outside (hd_world h))"
  obtain r e' where run: "process_failed_event ?S ev ?e = (r, e')" by fastforce
  have "stored ?d ?e" by (simp add: stored_def start_run_def proc_of_def)
  then have "stored ?d e'" by (rule preserves_run [OF process_store _ run])
  then have "d_sessions (pw_disk (proc_of e')) = d_sessions ?d" "d_attempts (pw_disk (proc_of e')) = d_attempts ?d"
    by (simp_all add: stored_def)
  note same = disk_ok_cong [OF this] this
  show "handling_ok t key (snd (run_processor C ev h))"
    using h by (simp add: run_processor_def run handling_ok_def absorb_def in_hand_def synced_def same)
qed

lemma save_run_state_ok: "preserves (handling_ok t key) (save_run_state C e)"
  unfolding save_run_state_def case_prod_beta
  by (intro keeps handling_world same_store_legacy set_attempt_ok) simp

lemma reflect_on_previous_ok: "preserves (handling_ok t key) (reflect_on_previous C ev previous e)"
proof (cases previous)
  case None
  then show ?thesis by (simp add: reflect_on_previous_def keeps)
next
  case (Some p)
  have read: "preserves (handling_ok t key) (\<lambda>h. (post_input_of C ev (hd_session h) p o1 (sw_disk (hd_world h)), h))" for o1
    by (simp add: preserves_def)
  have stored: "preserves (handling_ok t key) (set_attempt (\<lambda>a. a\<lparr>ra_post_reflection_path := x\<rparr>))" for x
    by (rule set_attempt_ok) simp
  show ?thesis
    unfolding Some reflect_on_previous_def option.case case_prod_beta
    by (intro keeps read after_run_ok post_reflect_stored clock_ok handling_world same_store_ref stored)
qed

lemma finish_without_ok:
  "triple (handling_ok t key) (finish_without_candidate C r e) (\<lambda>y h. answered C t key y (hd_world h)) (handling_ok t key)"
proof -
  have steps: "preserves (handling_ok t key) (set_attempt (\<lambda>a. a\<lparr>ra_status := st, ra_stop_reason := why\<rparr>))"
    "preserves (handling_ok t key) (set_session (\<lambda>s. s\<lparr>rs_terminal_status := ts\<rparr>))" for st why ts
    by (rule set_attempt_ok, simp) (rule set_session_ok, simp add: alike_def)
  have none: "triple (handling_ok t key) (bind (lift (result_no_sql (rr_reason r))) (persist C))
      (\<lambda>y h. answered C t key y (hd_world h)) (handling_ok t key)"
    by simp (rule triple_weaken [OF persist_ok]; simp)
  show ?thesis
    unfolding finish_without_candidate_def
    by (intro triple_seq [OF triple_preserves] steps store_attempt_ok store_session_ok triple_if none
        triple_weaken [OF human_ok]) simp_all
qed

section \<open>The commit\<close>

lemma validate_loaded: "session_ok d s \<Longrightarrow> validate_candidate_pair s = Inr s"
  by (auto simp: session_ok_def validate_candidate_pair_def)

lemma commit_checked_run:
  "commit_checked C r e g latest h =
     (let w = (hd_world h)\<lparr>sw_tick := Suc (sw_tick (hd_world h))\<rparr> in
      case commit latest (hd_attempt h) (cx_candidate (re_ctx e)) g (sv_now (sc_run C) (sw_tick (hd_world h))) (sw_disk w) of
        (Inl err, d) \<Rightarrow> (Inl err, h\<lparr>hd_world := w\<lparr>sw_disk := d\<rparr>\<rparr>)
      | (Inr x, d) \<Rightarrow>
          let a1 = (snd x)\<lparr>ra_candidate_path := rr_candidate_ref r\<rparr>
          in (Inr (Inr ()), \<lparr>hd_world = w\<lparr>sw_disk := put_attempt (fst x) a1 d\<rparr>, hd_session = fst x, hd_attempt = a1\<rparr>))"
  by (simp add: commit_checked_def bind_def seq_def in_world_run on_store_run service_now_run set_attempt_def
      set_session_def save_attempt_def Let_def split: prod.split sum.split)

text \<open>What a commit that went through has written, whatever the lock let others do before.\<close>

definition committed :: "string \<Rightarrow> string \<Rightarrow> 'x handling \<Rightarrow> bool" where
  "committed aid sql h \<longleftrightarrow>
     rs_latest_sql_candidate (hd_session h) = Some sql \<and> rs_latest_attempt_id (hd_session h) = Some aid \<and>
     rs_status (hd_session h) = SS_SQL_READY_PENDING_UPSTREAM \<and>
     ra_attempt_id (hd_attempt h) = aid \<and> ra_sql_candidate (hd_attempt h) = Some sql \<and>
     ra_status (hd_attempt h) = AS_SQL_READY \<and>
     d_sessions (sw_disk (hd_world h)) (rs_session_id (hd_session h)) = Some (hd_session h) \<and>
     d_attempts (sw_disk (hd_world h)) (rs_session_id (hd_session h), aid) = Some (hd_attempt h)"

lemma commit_checked_done:
  assumes "commit_checked C r e g latest h = (Inr u, h')"
  shows "\<exists>sql. cs_formal_sql (cx_candidate (re_ctx e)) = Some sql \<and> lets_pass (gt_decision g) \<and>
    committed (ra_attempt_id (hd_attempt h)) sql h'"
proof -
  let ?w = "(hd_world h)\<lparr>sw_tick := Suc (sw_tick (hd_world h))\<rparr>" and ?now = "sv_now (sc_run C) (sw_tick (hd_world h))"
  obtain s1 a1 d where done1: "commit latest (hd_attempt h) (cx_candidate (re_ctx e)) g ?now (sw_disk ?w) = (Inr (s1, a1), d)"
    and h': "h' = \<lparr>hd_world = ?w\<lparr>sw_disk := put_attempt s1 (a1\<lparr>ra_candidate_path := rr_candidate_ref r\<rparr>) d\<rparr>,
      hd_session = s1, hd_attempt = a1\<lparr>ra_candidate_path := rr_candidate_ref r\<rparr>\<rparr>"
    using assms unfolding commit_checked_run Let_def by (force split: prod.splits sum.splits)
  obtain sql where "committable latest (hd_attempt h) (cx_candidate (re_ctx e)) g (sw_disk ?w) sql"
    "s1 = committed_session latest (hd_attempt h) sql ?now" "a1 = committed_attempt (hd_attempt h) sql ?now"
    "d = put_session s1 (put_attempt s1 a1 (sw_disk ?w))"
    using done1 by (auto simp: commit_Inr)
  then show ?thesis
    by (auto simp: h' committable_def committed_def committed_session_def committed_attempt_def)
qed

lemma commit_candidate_done:
  assumes "commit_candidate C ev r e h = (Inr (Inr u), h')"
  shows "\<exists>g sql. ge_last (re_world e) = Some g \<and> cs_formal_sql (cx_candidate (re_ctx e)) = Some sql \<and>
    lets_pass (gt_decision g) \<and> committed (ra_attempt_id (hd_attempt h)) sql h'"
proof -
  obtain h1 h2 found where lock: "in_world (sc_lock C (ev_id ev)) h = (Inr (), h1)"
    and load: "in_world (on_store (load_for_task (ev_id ev))) h1 = (Inr found, h2)"
    and rest: "(case found of None \<Rightarrow> ret (Inl msg_session_lost) | Some latest \<Rightarrow>
          bind (gets hd_attempt) (\<lambda>a. if \<not> still_owned latest a then ret (Inl msg_event_changed)
            else (case ge_last (re_world e) of None \<Rightarrow> ret (Inl msg_gate_lost)
            | Some g \<Rightarrow> commit_checked C r e g latest))) h2 = (Inr (Inr u), h')"
    using assms by (auto simp: commit_candidate_def bind_Inr_iff seq_Inr_iff)
  have "hd_attempt h2 = hd_attempt h" using lock load by (auto simp: in_world_Inr)
  with rest show ?thesis
    by (auto dest: commit_checked_done split: option.splits if_splits)
qed

lemma commit_keeps_hand:
  assumes "commit_checked C r e g latest h = (y, h')" "handling_ok t key h"
    and latest: "synced (sw_disk (hd_world h)) latest" "rs_session_id latest = session_id_for_task t" "still_owned latest (hd_attempt h)"
  shows "handling_ok t key h'"
proof -
  let ?a = "hd_attempt h" and ?c = "cx_candidate (re_ctx e)" and ?now = "sv_now (sc_run C) (sw_tick (hd_world h))"
  have inv: "disk_ok (sw_disk (hd_world h))" "attempt_of (sw_disk (hd_world h)) latest ?a" "ra_source_event_key ?a = key"
    using assms(2) latest(2) by (auto simp: handling_ok_def attempt_of_def)
  show ?thesis
  proof (cases "commit latest ?a ?c g ?now (sw_disk (hd_world h))")
    case (Pair x d)
    show ?thesis
    proof (cases x)
      case (Inl err)
      then have "d = sw_disk (hd_world h)" using commit_Inl Pair by blast
      then show ?thesis using assms(1,2) Pair Inl by (auto simp: commit_checked_run handling_ok_def)
    next
      case (Inr sa)
      obtain s1 a1 where sa: "sa = (s1, a1)" by fastforce
      have done1: "commit latest ?a ?c g ?now (sw_disk (hd_world h)) = (Inr (s1, a1), d)" using Pair Inr sa by simp
      have ok: "disk_ok d" "synced d s1" "attempt_of d s1 a1"
        using commit_keeps_disk [OF done1 inv(1) latest(1) inv(2)] by auto
      have same: "rs_session_id s1 = rs_session_id latest" "rs_events s1 = rs_events latest"
        "ra_attempt_id a1 = ra_attempt_id ?a" "ra_source_event_key a1 = key"
        using done1 inv(3) by (auto simp: commit_Inr committed_session_def committed_attempt_def)
      define a2 where "a2 = a1\<lparr>ra_candidate_path := rr_candidate_ref r\<rparr>"
      have "attempt_of d s1 a2" using ok(3) by (simp add: attempt_of_def a2_def)
      from put_attempt_in_hand [OF ok(1) synced_in_hand [OF ok(2)] this]
      have put: "disk_ok (put_attempt s1 a2 d)" "in_hand (put_attempt s1 a2 d) s1" "attempt_of (put_attempt s1 a2 d) s1 a2" .
      have "find_event s1 key \<noteq> None"
        using latest(3) same(2) inv(3) by (auto simp: still_owned_def find_event_def split: option.splits)
      moreover have "h' = \<lparr>hd_world = (hd_world h)\<lparr>sw_tick := Suc (sw_tick (hd_world h)), sw_disk := put_attempt s1 a2 d\<rparr>,
          hd_session = s1, hd_attempt = a2\<rparr>"
        using assms(1) Pair Inr sa by (auto simp: commit_checked_run a2_def Let_def)
      ultimately show ?thesis
        using put same latest(2) by (simp add: handling_ok_def a2_def)
    qed
  qed
qed

lemma commit_candidate_ok:
  fixes C :: "('t, 'x) service_config"
  assumes C: "lock_respects C"
  shows "preserves (handling_ok (ev_id ev) key) (commit_candidate C ev r e)"
  unfolding preserves_def
proof (intro allI impI)
  fix h :: "'x handling" assume h: "handling_ok (ev_id ev) key h"
  let ?t = "ev_id ev" and ?h1 = "snd (in_world (sc_lock C (ev_id ev)) h)"
  have h1: "handling_ok ?t key ?h1" using lock_ok [OF C] h by (simp add: preserves_def)
  obtain s where s: "d_sessions (sw_disk (hd_world ?h1)) (session_id_for_task ?t) = Some s" "synced (sw_disk (hd_world ?h1)) s"
    "rs_session_id s = session_id_for_task ?t"
    using h1 by (auto simp: handling_ok_def in_hand_alt synced_def alike_def)
  then have "validate_candidate_pair s = Inr s"
    using h1 by (intro validate_loaded) (auto simp: handling_ok_def intro: disk_okD)
  then have load: "in_world (on_store (load_for_task ?t)) ?h1 = (Inr (Some s), ?h1)"
    using s by (simp add: in_world_run on_store_run load_for_task_def)
  have "handling_ok ?t key (snd (commit_checked C r e g s ?h1))" if "still_owned s (hd_attempt ?h1)" for g
    by (rule commit_keeps_hand [OF surjective_pairing h1 s(2,3) that])
  then have "handling_ok ?t key (snd (bind (in_world (on_store (load_for_task ?t))) (\<lambda>found. case found of
        None \<Rightarrow> ret (Inl msg_session_lost)
      | Some latest \<Rightarrow>
          bind (gets hd_attempt) (\<lambda>a.
            if \<not> still_owned latest a then ret (Inl msg_event_changed)
            else (case ge_last (re_world e) of
              None \<Rightarrow> ret (Inl msg_gate_lost)
            | Some g \<Rightarrow> commit_checked C r e g latest))) ?h1))"
    using h1 load by (simp add: bind_def [where m = "in_world (on_store (load_for_task (ev_id ev)))"] split: option.split)
  then show "handling_ok ?t key (snd (commit_candidate C ev r e h))"
    using h1 by (cases "fst (in_world (sc_lock C (ev_id ev)) h)")
      (auto simp: commit_candidate_def seq_def bind_def [where m = "in_world (sc_lock C (ev_id ev))"] split: prod.split)
qed

section \<open>A whole attempt\<close>

lemma finish_with_ok:
  assumes C: "lock_respects C"
  shows "triple (handling_ok (ev_id ev) key) (finish_with_candidate C ev r e)
    (\<lambda>y h. answered C (ev_id ev) key y (hd_world h)) (handling_ok (ev_id ev) key)"
proof -
  have ready: "preserves (handling_ok (ev_id ev) key) (set_attempt (\<lambda>a. a\<lparr>ra_sql_candidate := x, ra_candidate_path := p,
      ra_status := AS_SQL_READY, ra_updated_at := now\<rparr>))" for x p now
    by (rule set_attempt_ok) simp
  have answer: "triple (handling_ok (ev_id ev) key) (bind (lift (result_sql_ready x)) (persist C))
      (\<lambda>y h. answered C (ev_id ev) key y (hd_world h)) (handling_ok (ev_id ev) key)" for x
  proof (cases "result_sql_ready x")
    case (Inl err)
    then show ?thesis by (simp add: triple_def bind_def)
  next
    case (Inr y)
    then show ?thesis by simp (rule triple_weaken [OF persist_ok]; simp)
  qed
  show ?thesis
    unfolding finish_with_candidate_def
  proof (intro triple_bind [OF triple_preserves] triple_seq [OF triple_preserves] clock_ok ready commit_candidate_ok C)
    show "triple (handling_ok (ev_id ev) key)
        (case x of Inl message \<Rightarrow> human C message
         | Inr _ \<Rightarrow> bind (lift (result_sql_ready (or_text (rr_candidate_sql r) []))) (persist C))
        (\<lambda>y h. answered C (ev_id ev) key y (hd_world h)) (handling_ok (ev_id ev) key)" for x
      by (cases x) (auto intro: answer triple_weaken [OF human_ok])
  qed
qed

lemma agent_attempt_ok:
  assumes "lock_respects C"
  shows "triple (handling_ok (ev_id ev) key) (agent_attempt C ev previous)
    (\<lambda>y h. answered C (ev_id ev) key y (hd_world h)) (handling_ok (ev_id ev) key)"
proof -
  have copies: "preserves (handling_ok (ev_id ev) key) (set_attempt (copy_references ctx))"
    "preserves (handling_ok (ev_id ev) key) (set_attempt (copy_diagnosis d))" for ctx d
    by (rule set_attempt_ok, simp add: copy_references_def) (rule set_attempt_ok, simp add: copy_diagnosis_def split: option.split)
  show ?thesis
    unfolding agent_attempt_def case_prod_beta
    by (intro triple_bind [OF triple_preserves] triple_seq [OF triple_preserves] triple_if run_processor_ok save_run_state_ok
        copies reflect_on_previous_ok finish_without_ok finish_with_ok assms)
qed

lemma attempt_failed_ok:
  "triple (handling_ok t key) (attempt_failed C err) (\<lambda>y h. answered C t key y (hd_world h)) (handling_ok t key)"
  unfolding attempt_failed_def
  by (intro triple_if triple_seq [OF triple_preserves] handling_emit_ok triple_weaken [OF human_ok]) simp_all

lemma handling_attempts:
  assumes "handling_ok t key h" "rs_latest_attempt_id (hd_session h) = Some a"
  shows "\<exists>p. d_attempts (sw_disk (hd_world h)) (rs_session_id (hd_session h), a) = Some p \<and> ra_attempt_id p = a"
proof -
  obtain u where u: "synced (sw_disk (hd_world h)) u" "alike u (hd_session h)"
    using assms(1) by (auto simp: handling_ok_def in_hand_def)
  then have "session_ok (sw_disk (hd_world h)) u" using assms(1) by (auto simp: handling_ok_def intro: disk_okD)
  then show ?thesis using u(2) assms(2) by (auto simp: session_ok_def alike_def)
qed

text \<open>Retiring the previous attempt cannot fail: the attempt of the latest candidate is stored.\<close>

lemma retire_previous_run:
  assumes h: "handling_ok t key h"
  shows "\<exists>x h'. retire_previous C ev h = (Inr x, h') \<and> handling_ok t key h' \<and> hd_attempt h' = hd_attempt h"
proof (cases "rs_latest_sql_candidate (hd_session h) = Some (ev_sql ev) \<and> truthy (rs_latest_attempt_id (hd_session h))")
  case False
  then show ?thesis using h by (auto simp: retire_previous_def)
next
  case True
  let ?s = "hd_session h" and ?d = "sw_disk (hd_world h)"
  obtain a where a: "rs_latest_attempt_id ?s = Some a" "a \<noteq> []" using True by (auto simp: truthy_iff)
  obtain p where p: "d_attempts ?d (rs_session_id ?s, a) = Some p" "ra_attempt_id p = a"
    using handling_attempts [OF h a(1)] by blast
  define p' where "p' = p\<lparr>ra_status := AS_UPSTREAM_FAILED, ra_updated_at := sv_now (sc_run C) (sw_tick (hd_world h))\<rparr>"
  define h' where "h' = h\<lparr>hd_world := (hd_world h)\<lparr>sw_tick := Suc (sw_tick (hd_world h)), sw_disk := put_attempt ?s p' ?d\<rparr>\<rparr>"
  have run: "retire_previous C ev h = (Inr (Some p'), h')"
    using True a p(1)
    by (simp add: retire_previous_def in_world_run on_store_run load_attempt_def service_now_run save_attempt_def
        bind_def seq_def Let_def p'_def h'_def)
  have "attempt_of ?d ?s p'" using p by (simp add: attempt_of_def p'_def)
  from put_attempt_in_hand(1,2) [OF _ _ this]
  have put: "disk_ok (put_attempt ?s p' ?d)" "in_hand (put_attempt ?s p' ?d) ?s"
    using h by (auto simp: handling_ok_def)
  have "attempt_of (put_attempt ?s p' ?d) ?s (hd_attempt h)"
    using h p by (auto simp: handling_ok_def attempt_of_def p'_def)
  then have "handling_ok t key h'" using h put by (simp add: handling_ok_def h'_def)
  then show ?thesis using run by (auto simp: h'_def)
qed

lemma work_on_attempt_ok:
  assumes "lock_respects C"
  shows "triple (handling_ok (ev_id ev) key) (work_on_attempt C ev) (\<lambda>y h. answered C (ev_id ev) key y (hd_world h))
    (handling_ok (ev_id ev) key)"
proof -
  have retire: "triple (handling_ok (ev_id ev) key) (retire_previous C ev) (\<lambda>_. handling_ok (ev_id ev) key) (handling_ok (ev_id ev) key)"
    using retire_previous_run [where C = C and ev = ev] by (fastforce simp: triple_def)
  show ?thesis
    unfolding work_on_attempt_def
    by (intro triple_if triple_bind [OF retire] triple_try [OF agent_attempt_ok [OF assms]] attempt_failed_ok
        triple_weaken [OF human_ok]) simp_all
qed

section \<open>Taking up an event\<close>

definition store_ok :: "'x service_world \<Rightarrow> bool" where
  "store_ok w \<longleftrightarrow> disk_ok (sw_disk w)"

definition taken_up :: "string \<Rightarrow> string \<Rightarrow> repair_session \<times> repair_attempt \<Rightarrow> 'x service_world \<Rightarrow> bool" where
  "taken_up t key x w \<longleftrightarrow> handling_ok t key \<lparr>hd_world = w, hd_session = fst x, hd_attempt = snd x\<rparr>"

lemma taken_up_ok: "taken_up t key x w \<Longrightarrow> store_ok w"
  by (simp add: taken_up_def store_ok_def handling_ok_def)

lemma same_store_taken:
  assumes "\<And>d. preserves (same_store d) m"
  shows "preserves (taken_up t key x) m"
  unfolding preserves_def
proof (intro allI impI)
  fix w :: "'a service_world" assume "taken_up t key x w"
  then have "handling_ok t key (snd (in_world m \<lparr>hd_world = w, hd_session = fst x, hd_attempt = snd x\<rparr>))"
    using handling_world [of m t key, OF assms] unfolding preserves_def taken_up_def by blast
  then show "taken_up t key x (snd (m w))" by (simp add: taken_up_def in_world_run)
qed

lemma answered_store: "answered C t key x w \<Longrightarrow> store_ok w"
  by (simp add: answered_def store_ok_def)

lemma persist_taken:
  "triple (taken_up t key (s, a)) (persist_external_result C s a x) (\<lambda>y w. y = x \<and> answered C t key x w) store_ok"
proof (rule tripleI)
  fix w y w'
  assume w: "taken_up t key (s, a) w" and "persist_external_result C s a x w = (Inr y, w')"
  then have "persist C x \<lparr>hd_world = w, hd_session = s, hd_attempt = a\<rparr> = (Inr y, \<lparr>hd_world = w', hd_session = s, hd_attempt = a\<rparr>)"
    by (simp add: persist_def in_world_run)
  from triple_Inr [OF persist_ok _ this, of t key] w show "y = x \<and> answered C t key x w'"
    by (simp add: taken_up_def)
next
  fix w e w'
  assume w: "taken_up t key (s, a) w" and "persist_external_result C s a x w = (Inl e, w')"
  then have "persist C x \<lparr>hd_world = w, hd_session = s, hd_attempt = a\<rparr> = (Inl e, \<lparr>hd_world = w', hd_session = s, hd_attempt = a\<rparr>)"
    by (simp add: persist_def in_world_run)
  from triple_Inl [OF persist_ok _ this, of t key] w show "store_ok w'"
    by (simp add: taken_up_def store_ok_def handling_ok_def)
qed

text \<open>A session that is in hand, with a record of the event.\<close>

definition on_record :: "string \<Rightarrow> event_record \<Rightarrow> repair_session \<Rightarrow> 'x service_world \<Rightarrow> bool" where
  "on_record t r s w \<longleftrightarrow>
     disk_ok (sw_disk w) \<and> synced (sw_disk w) s \<and> rs_session_id s = session_id_for_task t \<and>
     find_event s (er_event_key r) = Some r"

lemma on_record_ok: "on_record t r s w \<Longrightarrow> store_ok w"
  by (simp add: on_record_def store_ok_def)

lemma same_store_record:
  assumes "\<And>d. preserves (same_store d) m"
  shows "preserves (on_record t r s) m"
  unfolding preserves_def
proof (intro allI impI)
  fix w :: "'a service_world" assume w: "on_record t r s w"
  have "same_store (sw_disk w) (snd (m w))" using assms [of "sw_disk w"] by (simp add: preserves_def same_store_def)
  then have "d_sessions (sw_disk (snd (m w))) = d_sessions (sw_disk w)"
    "d_attempts (sw_disk (snd (m w))) = d_attempts (sw_disk w)" by (simp_all add: same_store_def)
  note same = disk_ok_cong [OF this] this
  show "on_record t r s (snd (m w))" using w by (auto simp: on_record_def synced_def same)
qed

text \<open>The attempt of a recorded event is stored and belongs to it.\<close>

lemma load_recorded:
  assumes "on_record t r s w" "er_attempt_id r = Some aid"
  shows "\<exists>a. on_store (load_attempt s aid) w = (Inr a, w) \<and> taken_up t (er_event_key r) (s, a) w \<and> ra_attempt_id a = aid"
proof -
  have r: "r \<in> set (rs_events s)" using assms(1) find_event_Some by (auto simp: on_record_def)
  moreover have "session_ok (sw_disk w) s" using assms(1) by (auto simp: on_record_def intro: disk_okD)
  ultimately have "record_ok (sw_disk w) s r" by (simp add: session_ok_def)
  then obtain a where a: "d_attempts (sw_disk w) (rs_session_id s, aid) = Some a" "ra_attempt_id a = aid"
    "ra_source_event_key a = er_event_key r" using assms(2) by (auto simp: record_ok_def)
  then have "taken_up t (er_event_key r) (s, a) w"
    using assms(1) by (auto simp: taken_up_def handling_ok_def on_record_def attempt_of_def intro: synced_in_hand)
  with a show ?thesis by (auto simp: on_store_run load_attempt_def)
qed

lemma system_error_ok: "triple (on_record t r s) (system_error C s r reason) (\<lambda>_. store_ok) store_ok"
proof (rule tripleI)
  fix w x w' assume w: "on_record t r s w" and run: "system_error C s r reason w = (Inr x, w')"
  have ok: "disk_ok (sw_disk w)" "in_hand (sw_disk w) s" "find_event s (er_event_key r) = Some r"
    using w by (auto simp: on_record_def intro: synced_in_hand)
  from finish_in_hand [OF this, of None "Some reason" EP_SYSTEM_ERROR "sv_now (sc_run C) (sw_tick w)"]
  show "store_ok w'" using run by (auto simp: system_error_def bind_def service_now_run on_store_run store_ok_def)
next
  fix w e w' assume w: "on_record t r s w" and run: "system_error C s r reason w = (Inl e, w')"
  have ok: "disk_ok (sw_disk w)" "in_hand (sw_disk w) s" "find_event s (er_event_key r) = Some r"
    using w by (auto simp: on_record_def intro: synced_in_hand)
  from finish_in_hand [OF this, of None "Some reason" EP_SYSTEM_ERROR "sv_now (sc_run C) (sw_tick w)"]
  show "store_ok w'" using run by (auto simp: system_error_def bind_def service_now_run on_store_run store_ok_def)
qed

lemma save_taken:
  assumes "taken_up t key (s, a) w" "on_record t r s w" "ra_attempt_id b = ra_attempt_id a" "ra_source_event_key b = ra_source_event_key a"
  shows "on_record t r s (snd (on_store (save_attempt s b) w))"
proof -
  have "attempt_of (sw_disk w) s b" using assms(1,3,4) by (auto simp: taken_up_def handling_ok_def attempt_of_def)
  moreover have "disk_ok (sw_disk w)" "in_hand (sw_disk w) s" using assms(2) by (auto simp: on_record_def intro: synced_in_hand)
  ultimately have "disk_ok (put_attempt s b (sw_disk w))" by (intro put_attempt_in_hand)
  then show ?thesis using assms(2) by (auto simp: on_store_run save_attempt_def on_record_def synced_def)
qed

definition recovered :: "string \<Rightarrow> event_record \<Rightarrow> repair_session \<Rightarrow> external_result option \<Rightarrow> 'x service_world \<Rightarrow> bool" where
  "recovered t r s x w \<longleftrightarrow> (case x of None \<Rightarrow> on_record t r s w \<and> truthy (er_attempt_id r) | Some _ \<Rightarrow> store_ok w)"

lemma answer_persisted:
  "triple (taken_up t key (s, a)) (bind (lift y) (\<lambda>x. bind (persist_external_result C s a x) (\<lambda>z. ret (Some z))))
     (\<lambda>x w. x \<noteq> None \<and> store_ok w) store_ok"
  by (rule triple_bind, rule triple_lift [where Q = "\<lambda>_. taken_up t key (s, a)"])
    (auto intro!: triple_bind [OF persist_taken] triple_ret dest: taken_up_ok answered_store)

lemma recover_attempt_ok:
  assumes "truthy (er_attempt_id r)"
  shows "triple (\<lambda>w. taken_up t key (s, a) w \<and> on_record t r s w) (recover_attempt C s r a) (recovered t r s) store_ok"
proof -
  have answer: "triple (\<lambda>w. taken_up t key (s, a) w \<and> on_record t r s w)
      (bind (lift y) (\<lambda>x. bind (persist_external_result C s a x) (\<lambda>z. ret (Some z)))) (recovered t r s) store_ok" for y
    by (rule triple_weaken [OF answer_persisted]) (auto simp: recovered_def)
  have resume: "triple (on_record t r s) (seq (service_emit sid ty stage payload aid) (ret None)) (recovered t r s) store_ok"
    for sid ty stage payload aid
    by (rule triple_seq [where M = "\<lambda>_. on_record t r s"],
        rule triple_weaken [OF triple_preserves [OF same_store_record [OF same_store_emit]]])
      (auto simp: recovered_def assms dest: on_record_ok intro!: triple_ret)
  have stop: "triple (\<lambda>w. taken_up t key (s, a) w \<and> on_record t r s w) (bind (service_now C) (\<lambda>now.
        seq (on_store (save_attempt s (a\<lparr>ra_status := AS_HUMAN_REQUIRED, ra_stop_reason := why, ra_updated_at := now\<rparr>)))
        (seq (system_error C s r reason) (bind (lift y) (\<lambda>x. ret (Some x)))))) (recovered t r s) store_ok" for why reason y
  proof (rule triple_bind [where M = "\<lambda>_ w. taken_up t key (s, a) w \<and> on_record t r s w"])
    show "triple (\<lambda>w. taken_up t key (s, a) w \<and> on_record t r s w) (service_now C)
        (\<lambda>_ w. taken_up t key (s, a) w \<and> on_record t r s w) store_ok"
      using same_store_taken [OF same_store_tick(2), of t key "(s, a)"] same_store_record [OF same_store_tick(2), of t r s]
      by (auto simp: triple_def preserves_def on_record_ok service_now_run)
    show "triple (\<lambda>w. taken_up t key (s, a) w \<and> on_record t r s w)
        (seq (on_store (save_attempt s (a\<lparr>ra_status := AS_HUMAN_REQUIRED, ra_stop_reason := why, ra_updated_at := now\<rparr>)))
        (seq (system_error C s r reason) (bind (lift y) (\<lambda>x. ret (Some x))))) (recovered t r s) store_ok" for now
    proof (rule triple_seq [where M = "\<lambda>_. on_record t r s"])
      show "triple (\<lambda>w. taken_up t key (s, a) w \<and> on_record t r s w)
          (on_store (save_attempt s (a\<lparr>ra_status := AS_HUMAN_REQUIRED, ra_stop_reason := why, ra_updated_at := now\<rparr>)))
          (\<lambda>_. on_record t r s) store_ok"
        using save_taken [where t = t and key = key and s = s and a = a and r = r and
            b = "a\<lparr>ra_status := AS_HUMAN_REQUIRED, ra_stop_reason := why, ra_updated_at := now\<rparr>"]
        by (auto simp: triple_def on_store_run save_attempt_def)
      show "triple (on_record t r s) (seq (system_error C s r reason) (bind (lift y) (\<lambda>x. ret (Some x)))) (recovered t r s) store_ok"
        by (rule triple_seq [OF system_error_ok], rule triple_bind, rule triple_lift [where Q = "\<lambda>_. store_ok"])
          (auto simp: recovered_def intro!: triple_ret)
    qed
  qed
  show ?thesis
    unfolding recover_attempt_def
    by (intro triple_if answer stop triple_weaken [OF resume]) simp_all
qed

lemma recover_failed_event_ok: "triple (on_record t r s) (recover_failed_event C s r) (recovered t r s) store_ok"
proof (cases "truthy (er_attempt_id r)")
  case False
  have "triple (on_record t r s) (seq (system_error C s r reason) (bind (lift y) (\<lambda>x. ret (Some x)))) (recovered t r s) store_ok"
    for reason y
    by (rule triple_seq [OF system_error_ok], rule triple_bind, rule triple_lift [where Q = "\<lambda>_. store_ok"])
      (auto simp: recovered_def intro!: triple_ret)
  then show ?thesis unfolding recover_failed_event_def by (rule triple_if) (simp add: False)
next
  case True
  then obtain aid where aid: "er_attempt_id r = Some aid" by (auto simp: truthy_iff)
  have "case recover_failed_event C s r w of (Inl e, w') \<Rightarrow> store_ok w' | (Inr x, w') \<Rightarrow> recovered t r s x w'"
    if w: "on_record t r s w" for w
  proof -
    obtain a where a: "on_store (load_attempt s aid) w = (Inr a, w)" "taken_up t (er_event_key r) (s, a) w"
      using load_recorded [OF w aid] by blast
    have "recover_failed_event C s r w = recover_attempt C s r a w"
      using True aid a(1) by (simp add: recover_failed_event_def bind_def)
    then show ?thesis
      using recover_attempt_ok [OF True, of t "er_event_key r" s a C] a(2) w by (simp add: triple_def)
  qed
  then show ?thesis by (simp add: triple_def)
qed

text \<open>What taking up an event leaves: an answer, or the session and the attempt to work on.\<close>

definition begun :: "string \<Rightarrow> string \<Rightarrow> external_result + repair_session \<times> repair_attempt \<Rightarrow> 'x service_world \<Rightarrow> bool" where
  "begun t key x w \<longleftrightarrow> (case x of Inl _ \<Rightarrow> store_ok w | Inr z \<Rightarrow> taken_up t key z w)"

lemma known_failed_event_ok:
  fixes C :: "('t, 'x) service_config"
  shows "triple (on_record t r s) (known_failed_event C s r) (begun t (er_event_key r)) store_ok"
proof -
  have read: "triple (on_record t r s) (on_store (\<lambda>d. (load_processed_failed_result r d, d))) (\<lambda>_. on_record t r s) store_ok"
    by (auto simp: triple_def on_store_run split: sum.split dest: on_record_ok)
  have resume: "triple (recovered t r s x :: 'x service_world \<Rightarrow> bool)
      (case x of Some y \<Rightarrow> ret (Inl y)
       | None \<Rightarrow> bind (on_store (load_attempt s (or_text (er_attempt_id r) []))) (\<lambda>a. ret (Inr (s, a))))
      (begun t (er_event_key r)) store_ok" for x
  proof (cases x)
    case None
    have "case bind (on_store (load_attempt s (or_text (er_attempt_id r) []))) (\<lambda>a. ret (Inr (s, a))) w of
        (Inl e, w') \<Rightarrow> store_ok w' | (Inr y, w') \<Rightarrow> begun t (er_event_key r) y w'"
      if w: "recovered t r s None w" for w :: "'x service_world"
    proof -
      obtain aid where aid: "er_attempt_id r = Some aid" "aid \<noteq> []" and rec: "on_record t r s w"
        using w by (auto simp: recovered_def truthy_iff)
      obtain a where "on_store (load_attempt s aid) w = (Inr a, w)" "taken_up t (er_event_key r) (s, a) w"
        using load_recorded [OF rec aid(1)] by blast
      then show ?thesis using aid by (simp add: bind_def begun_def)
    qed
    then show ?thesis using None by (simp add: triple_def)
  qed (auto simp: recovered_def begun_def intro!: triple_ret)
  have active: "triple (on_record t r s) (bind (lift y) (\<lambda>x. ret (Inl x))) (begun t (er_event_key r)) store_ok" for y
    by (rule triple_bind, rule triple_lift [where Q = "\<lambda>_. on_record t r s"])
      (auto simp: begun_def intro!: triple_ret dest: on_record_ok)
  have look: "triple (on_record t r s)
      (case x of Some y \<Rightarrow> ret (Inl y)
       | None \<Rightarrow> bind (gets sw_active) (\<lambda>active.
           if er_event_key r \<in> active then bind (lift (result_human_required msg_event_active)) (\<lambda>x. ret (Inl x))
           else bind (recover_failed_event C s r) (\<lambda>recovered. case recovered of
             Some x \<Rightarrow> ret (Inl x)
           | None \<Rightarrow> bind (on_store (load_attempt s (or_text (er_attempt_id r) []))) (\<lambda>a. ret (Inr (s, a))))))
      (begun t (er_event_key r)) store_ok" for x
    unfolding known_failed_event_def
    by (cases x)
      (auto simp: begun_def intro!: triple_ret triple_gets triple_if triple_weaken [OF active]
        triple_bind [OF triple_weaken [OF recover_failed_event_ok] resume] simp del: result_human_required_simp dest: on_record_ok)
  show ?thesis unfolding known_failed_event_def by (rule triple_bind [OF read look])
qed

lemma append_found:
  assumes "append_upstream_event s r now d = (Inr s', d')" "find_event s (er_event_key r) = None"
  shows "find_event s' (er_event_key r) = Some r"
  using assms by (auto simp: append_upstream_event_def Let_def save_session_def find_event_def find_append)

lemma create_found:
  assumes "create_attempt s r now d = (Inr (s', a), d')" "er_attempt_id r = None"
  shows "find_event s' (er_event_key r) \<noteq> None"
  using assms
  by (auto simp: create_attempt_def save_event_record_def Let_def save_session_def save_attempt_def find_event_def
      bind_Inr_iff seq_Inr_iff dest!: replace_event_find split: if_splits option.splits)

text \<open>A FAILED event that is not on record always gets a session and an attempt.\<close>

lemma new_failed_event_run:
  assumes w: "disk_ok (sw_disk w)" "synced (sw_disk w) s" "rs_session_id s = session_id_for_task (ev_id ev)"
    and fresh: "find_event s (build_event_key ev) = None" "ev_status ev = US_FAILED"
  shows "\<exists>z w'. new_failed_event C ev s w = (Inr (Inr z), w') \<and> taken_up (ev_id ev) (build_event_key ev) z w'"
proof -
  let ?now = "sv_now (sc_run C) (sw_tick w)"
  define r where "r = create_event_record s ev ?now"
  have r: "er_event_key r = build_event_key ev" "er_session_id r = rs_session_id s" "er_attempt_id r = None" "er_status r = US_FAILED"
    by (simp_all add: r_def create_event_record_def fresh)
  obtain s1 d1 where one: "append_upstream_event s r ?now (sw_disk w) = (Inr s1, d1)" "disk_ok d1" "synced d1 s1"
    "rs_session_id s1 = rs_session_id s"
    using append_upstream_event_ok [OF w(1,2) r(2,3), of ?now] by blast
  have found: "find_event s1 (er_event_key r) = Some r"
    using append_found [OF one(1)] fresh(1) r(1) by simp
  obtain s2 a d2 where two: "create_attempt s1 r ?now d1 = (Inr (s2, a), d2)" "disk_ok d2" "synced d2 s2"
    "rs_session_id s2 = rs_session_id s1" "a = new_attempt s1 r ?now"
    "d_attempts d2 = (d_attempts d1)((rs_session_id s1, ra_attempt_id a) \<mapsto> a)"
    using create_attempt_ok [OF one(2,3) found r(4,3), of ?now] by blast
  define w' where "w' = w\<lparr>sw_tick := Suc (sw_tick w), sw_disk := d2\<rparr>"
  have "new_failed_event C ev s w = (Inr (Inr (s2, a)), w')"
    using one(1) two(1)
    by (simp add: new_failed_event_def bind_def service_now_run on_store_run Let_def r_def [symmetric] w'_def)
  moreover have "ra_source_event_key a = build_event_key ev" using two(5) r(1) by (simp add: new_attempt_def Let_def)
  then have "taken_up (ev_id ev) (build_event_key ev) (s2, a) w'"
    using two one w(3) create_found [OF two(1) r(3)] r(1)
    by (auto simp: taken_up_def handling_ok_def w'_def attempt_of_def intro: synced_in_hand)
  ultimately show ?thesis by blast
qed

lemma activate_run:
  assumes "taken_up t key z w"
  shows "\<exists>z' w'. activate C k z w = (Inr z', w') \<and> taken_up t key z' w' \<and> snd z' = snd z"
proof -
  let ?s = "start_session (sv_now (sc_run C) (sw_tick w)) (fst z)"
  have w: "disk_ok (sw_disk w)" "in_hand (sw_disk w) (fst z)"
    using assms by (simp_all add: taken_up_def handling_ok_def)
  have "in_hand (sw_disk w) ?s" using w(2) by (simp add: in_hand_alt alike_def start_session_def)
  from put_in_hand [OF w(1) this]
  have put: "disk_ok (put_session ?s (sw_disk w))" "in_hand (put_session ?s (sw_disk w)) ?s"
    by (auto intro: synced_in_hand)
  have "activate C k z w = (Inr (?s, snd z),
      w\<lparr>sw_active := insert k (sw_active w), sw_tick := Suc (sw_tick w), sw_disk := put_session ?s (sw_disk w)\<rparr>)"
    by (simp add: activate_def bind_def seq_def service_now_run on_store_run save_session_def)
  then show ?thesis
    using put assms
    by (auto simp: taken_up_def handling_ok_def attempt_of_def start_session_def find_event_def)
qed

lemma load_or_create_run:
  assumes "store_ok w"
  shows "\<exists>s d. on_store (load_or_create_for_event ev now) w = (Inr s, w\<lparr>sw_disk := d\<rparr>) \<and> disk_ok d \<and> synced d s \<and>
     rs_session_id s = session_id_for_task (ev_id ev)"
  using load_or_create_ok [of "sw_disk w" ev now] assms by (fastforce simp: on_store_run store_ok_def)

definition loaded :: "string \<Rightarrow> repair_session \<Rightarrow> 'x service_world \<Rightarrow> bool" where
  "loaded t s w \<longleftrightarrow> disk_ok (sw_disk w) \<and> synced (sw_disk w) s \<and> rs_session_id s = session_id_for_task t"

lemma load_or_create_triple: "triple store_ok (on_store (load_or_create_for_event ev now)) (\<lambda>s. loaded (ev_id ev) s) store_ok"
proof -
  have "case on_store (load_or_create_for_event ev now) w of (Inl e, w') \<Rightarrow> store_ok w' | (Inr s, w') \<Rightarrow> loaded (ev_id ev) s w'"
    if w: "store_ok w" for w :: "'x service_world"
    using load_or_create_run [OF w, of ev now] by (auto simp: loaded_def)
  then show ?thesis unfolding triple_def by blast
qed

lemma lock_store: "lock_respects C \<Longrightarrow> preserves store_ok (sc_lock C t)"
  by (auto simp: preserves_def store_ok_def lock_respects_def)

lemma now_store: "preserves store_ok (service_now C)" "preserves store_ok service_tick"
  by (simp_all add: preserves_def store_ok_def service_now_run service_tick_def)

lemma disk_ok_trace [simp]: "disk_ok (d\<lparr>d_trace := ts\<rparr>) = disk_ok d" for d :: disk
  by (rule disk_ok_cong) simp_all

lemma emit_store: "preserves store_ok (service_emit sid ty stage payload aid)"
  by (simp add: preserves_def service_emit_def on_store_run emit_trace_def store_ok_def)

lemma begin_failed_event_ok:
  assumes C: "lock_respects C" and failed: "ev_status ev = US_FAILED"
  shows "triple store_ok (begin_failed_event C ev) (begun (ev_id ev) (build_event_key ev)) store_ok"
proof -
  let ?t = "ev_id ev" and ?k = "build_event_key ev"
  have take: "triple (loaded ?t s) (case find_event s ?k of Some r \<Rightarrow> known_failed_event C s r | None \<Rightarrow> new_failed_event C ev s)
      (begun ?t ?k) store_ok" for s
  proof (cases "find_event s ?k")
    case None
    have "case new_failed_event C ev s w of (Inl e, w') \<Rightarrow> store_ok w' | (Inr x, w') \<Rightarrow> begun ?t ?k x w'" if "loaded ?t s w" for w
      using new_failed_event_run [of w s ev C] that None failed by (fastforce simp: loaded_def begun_def)
    then show ?thesis using None by (simp add: triple_def)
  next
    case (Some r)
    then have k: "er_event_key r = ?k" by (simp add: find_event_Some)
    have "triple (loaded ?t s) (known_failed_event C s r) (begun ?t (er_event_key r)) store_ok"
      by (rule triple_weaken [OF known_failed_event_ok]) (simp_all add: loaded_def on_record_def k Some)
    then show ?thesis by (simp add: Some k)
  qed
  have go: "triple (begun ?t ?k x) (case x of Inl y \<Rightarrow> ret (Inl y) | Inr z \<Rightarrow> bind (activate C ?k z) (\<lambda>sa. ret (Inr sa)))
      (begun ?t ?k) store_ok" for x
  proof (cases x)
    case (Inr z)
    have "case bind (activate C ?k z) (\<lambda>sa. ret (Inr sa)) w of (Inl e, w') \<Rightarrow> store_ok w' | (Inr y, w') \<Rightarrow> begun ?t ?k y w'"
      if "taken_up ?t ?k z w" for w
      using activate_run [OF that, of C ?k] by (auto simp: bind_def begun_def)
    then show ?thesis using Inr by (simp add: triple_def begun_def)
  qed (auto simp: begun_def intro!: triple_ret)
  show ?thesis
    unfolding begin_failed_event_def
    by (intro triple_seq [OF triple_preserves [OF lock_store [OF C]]] triple_bind [OF triple_preserves [OF now_store(1)]]
        triple_bind [OF load_or_create_triple] triple_bind [OF take] go)
qed

lemma handle_failed_event_ok:
  assumes "lock_respects C" "ev_status ev = US_FAILED"
  shows "preserves store_ok (handle_failed_event C ev)"
proof -
  let ?t = "ev_id ev" and ?k = "build_event_key ev"
  have start: "triple store_ok (catch_if is_lock_timeout (begin_failed_event C ev)
      (\<lambda>_. bind (lift (result_human_required msg_session_busy)) (\<lambda>x. ret (Inl x)))) (begun ?t ?k) store_ok"
    by (rule triple_catch [OF begin_failed_event_ok [OF assms]]) (simp_all add: begun_def triple_def)
  have work: "triple (begun ?t ?k x) (case x of Inl y \<Rightarrow> ret y
     | Inr (s, a) \<Rightarrow> (\<lambda>w. let (r, h) = work_on_attempt C ev \<lparr>hd_world = w, hd_session = s, hd_attempt = a\<rparr> in (r, hd_world h)))
      (\<lambda>_. store_ok) store_ok" for x
  proof (cases x)
    case (Inr z)
    have "store_ok (hd_world h)" if "taken_up ?t ?k z w"
      "work_on_attempt C ev \<lparr>hd_world = w, hd_session = fst z, hd_attempt = snd z\<rparr> = (r, h)" for w r h
    proof (cases r)
      case (Inl e)
      from triple_Inl [OF work_on_attempt_ok [OF assms(1)] that(1) [unfolded taken_up_def] that(2) [unfolded Inl]]
      show ?thesis by (simp add: store_ok_def handling_ok_def)
    next
      case (Inr y)
      from triple_Inr [OF work_on_attempt_ok [OF assms(1)] that(1) [unfolded taken_up_def] that(2) [unfolded Inr]]
      show ?thesis by (rule answered_store)
    qed
    then show ?thesis using Inr by (auto simp: triple_def begun_def split: prod.splits sum.splits)
  qed (auto simp: begun_def intro!: triple_ret)
  have "triple store_ok (handle_failed_event C ev) (\<lambda>_. store_ok) store_ok"
    unfolding handle_failed_event_def by (rule triple_bind [OF start work])
  then show ?thesis by (rule preserves_triple)
qed

section \<open>SUCCESS events\<close>

lemma finish_store:
  assumes "loaded t s w" "find_event s k = Some r"
  shows "\<exists>s' d. on_store (finish_event s r ref c st now) w = (Inr s', w\<lparr>sw_disk := d\<rparr>) \<and> disk_ok d"
  using finish_in_hand [of "sw_disk w" s k r ref c st now] assms
  by (fastforce simp: loaded_def on_store_run intro: synced_in_hand)

lemma same_store_loaded:
  assumes "\<And>d. preserves (same_store d) m"
  shows "preserves (loaded t s) m"
  unfolding preserves_def
proof (intro allI impI)
  fix w :: "'a service_world" assume w: "loaded t s w"
  have "same_store (sw_disk w) (snd (m w))" using assms [of "sw_disk w"] by (simp add: preserves_def same_store_def)
  then have "d_sessions (sw_disk (snd (m w))) = d_sessions (sw_disk w)"
    "d_attempts (sw_disk (snd (m w))) = d_attempts (sw_disk w)" by (simp_all add: same_store_def)
  note same = disk_ok_cong [OF this] this
  show "loaded t s (snd (m w))" using w by (auto simp: loaded_def synced_def same)
qed

lemma loaded_store: "loaded t s w \<Longrightarrow> store_ok w"
  by (simp add: loaded_def store_ok_def)

lemma loaded_step:
  assumes "\<And>d. preserves (same_store d) m"
  shows "triple (loaded t s) m (\<lambda>_. loaded t s) store_ok"
  by (rule triple_weaken [OF triple_preserves [OF same_store_loaded [OF assms]]]) (auto dest: loaded_store)

lemma success_unmatched_ok:
  assumes "find_event s k = Some r"
  shows "triple (loaded t s) (success_unmatched C s r) (\<lambda>_. store_ok) store_ok"
proof -
  have finish: "triple (loaded t s) (on_store (finish_event s r None why EP_SUCCEEDED now)) (\<lambda>_. store_ok) store_ok" for why now
  proof (rule tripleI)
    show "store_ok w'" if "loaded t s w" "on_store (finish_event s r None why EP_SUCCEEDED now) w = (Inr x, w')" for w w' x
      using finish_store [OF that(1) assms, of None why EP_SUCCEEDED now] that(2) by (auto simp: store_ok_def)
    show "store_ok w'" if "loaded t s w" "on_store (finish_event s r None why EP_SUCCEEDED now) w = (Inl e, w')" for w w' e
      using finish_store [OF that(1) assms, of None why EP_SUCCEEDED now] that(2) by (auto simp: store_ok_def)
  qed
  have ack: "triple store_ok (bind (lift y) (\<lambda>x. ret (Inl x))) (\<lambda>_. store_ok) store_ok" for y
    by (rule triple_bind, rule triple_lift [where Q = "\<lambda>_. store_ok"]) (auto intro!: triple_ret)
  show ?thesis
    unfolding success_unmatched_def
    by (intro triple_seq [OF loaded_step [OF same_store_emit]] triple_bind [OF loaded_step [OF same_store_tick(2)]]
        triple_bind [OF finish] ack)
qed

text \<open>The task's candidate is confirmed: in the session and in its attempt.\<close>

definition confirmed_in :: "string \<Rightarrow> string \<Rightarrow> string \<Rightarrow> 'x service_world \<Rightarrow> bool" where
  "confirmed_in t sql aid w \<longleftrightarrow>
     disk_ok (sw_disk w) \<and>
     (\<exists>s a. d_sessions (sw_disk w) (session_id_for_task t) = Some s \<and> rs_confirmed_sql s = Some sql \<and>
        rs_confirmed_attempt_id s = Some aid \<and> rs_status s = SS_UPSTREAM_CONFIRMED_SUCCESS \<and>
        d_attempts (sw_disk w) (session_id_for_task t, aid) = Some a \<and> ra_status a = AS_UPSTREAM_CONFIRMED_SUCCESS)"

lemma confirmed_same_store:
  assumes "\<And>d. preserves (same_store d) m"
  shows "preserves (confirmed_in t sql aid) m"
  unfolding preserves_def
proof (intro allI impI)
  fix w :: "'a service_world" assume w: "confirmed_in t sql aid w"
  have "same_store (sw_disk w) (snd (m w))" using assms [of "sw_disk w"] by (simp add: preserves_def same_store_def)
  then have "d_sessions (sw_disk (snd (m w))) = d_sessions (sw_disk w)"
    "d_attempts (sw_disk (snd (m w))) = d_attempts (sw_disk w)" by (simp_all add: same_store_def)
  note same = disk_ok_cong [OF this] this
  show "confirmed_in t sql aid (snd (m w))" using w by (simp add: confirmed_in_def same)
qed

lemma success_matched_run:
  assumes "loaded t s w" "rs_latest_attempt_id s = Some aid"
  shows "\<exists>z w'. success_matched C s sql aid w = (Inr (Inr z), w') \<and> confirmed_in t sql aid w'"
proof -
  have ok: "disk_ok (sw_disk w)" "in_hand (sw_disk w) s" "rs_session_id s = session_id_for_task t"
    using assms(1) by (auto simp: loaded_def intro: synced_in_hand)
  have "session_ok (sw_disk w) s" using assms(1) by (auto simp: loaded_def intro: disk_okD)
  then obtain a where a: "d_attempts (sw_disk w) (rs_session_id s, aid) = Some a" "ra_attempt_id a = aid"
    using assms(2) by (auto simp: session_ok_def)
  define now where "now = sv_now (sc_run C) (sw_tick w)"
  define a' where "a' = a\<lparr>ra_status := AS_UPSTREAM_CONFIRMED_SUCCESS, ra_updated_at := now\<rparr>"
  define s' where "s' = confirmed_session sql aid now s"
  have s': "rs_session_id s' = session_id_for_task t" using ok(3) by (simp add: s'_def confirmed_session_def)
  have "in_hand (sw_disk w) s'" using ok(2) by (simp add: in_hand_alt alike_def s'_def confirmed_session_def)
  moreover have "attempt_of (sw_disk w) s' a'" using a by (simp add: attempt_of_def a'_def s'_def confirmed_session_def)
  ultimately have "disk_ok (put_attempt s' a' (sw_disk w))" "in_hand (put_attempt s' a' (sw_disk w)) s'"
    using ok(1) by (auto intro: put_attempt_in_hand)
  then have good: "disk_ok (put_session s' (put_attempt s' a' (sw_disk w)))" using put_in_hand by blast
  let ?w1 = "w\<lparr>sw_tick := Suc (sw_tick w), sw_disk := put_session s' (put_attempt s' a' (sw_disk w))\<rparr>"
  have "confirmed_in t sql aid ?w1"
    using good a s' by (simp add: confirmed_in_def a'_def) (simp add: s'_def confirmed_session_def)
  then have "confirmed_in t sql aid (snd (service_emit (rs_session_id s') ''upstream_success_matched'' ''upstream_event''
      [(''attempt_id'', Js_text aid)] (Some aid) ?w1))"
    using confirmed_same_store [OF same_store_emit, of t sql aid] unfolding preserves_def by blast
  moreover obtain w2 where emit: "service_emit (rs_session_id s') ''upstream_success_matched'' ''upstream_event''
      [(''attempt_id'', Js_text aid)] (Some aid) ?w1 = (Inr (), w2)"
    using service_emit_run by blast
  moreover have "success_matched C s sql aid w = (Inr (Inr (s', a', sql)), w2)"
    using a(1) emit
    by (simp add: success_matched_def bind_def seq_def on_store_run load_attempt_def service_now_run save_attempt_def
        save_session_def Let_def now_def a'_def s'_def)
  ultimately show ?thesis by auto
qed

lemma success_matched_ok:
  assumes "rs_latest_attempt_id s = Some aid"
  shows "triple (loaded t s) (success_matched C s sql aid) (\<lambda>_. store_ok) store_ok"
proof -
  have "case success_matched C s sql aid w of (Inl e, w') \<Rightarrow> store_ok w' | (Inr x, w') \<Rightarrow> store_ok w'" if "loaded t s w" for w
    using success_matched_run [OF that assms, of C sql] by (auto simp: confirmed_in_def store_ok_def)
  then show ?thesis by (simp add: triple_def)
qed

definition recordable :: "repair_session \<Rightarrow> event_record \<Rightarrow> bool" where
  "recordable s r \<longleftrightarrow>
     (case find_event s (er_event_key r) of
        Some r' \<Rightarrow> r' = r
      | None \<Rightarrow> er_session_id r = rs_session_id s \<and> er_attempt_id r = None)"

lemma append_triple:
  assumes "recordable s r"
  shows "triple (loaded t s :: 'x service_world \<Rightarrow> bool) (on_store (append_upstream_event s r now))
    (\<lambda>s1 w. loaded t s1 w \<and> find_event s1 (er_event_key r) = Some r) store_ok"
proof -
  have "case on_store (append_upstream_event s r now) w of (Inl e, w') \<Rightarrow> store_ok w'
     | (Inr s1, w') \<Rightarrow> loaded t s1 w' \<and> find_event s1 (er_event_key r) = Some r"
    if w: "loaded t s w" for w :: "'x service_world"
  proof (cases "find_event s (er_event_key r)")
    case None
    then have r: "er_session_id r = rs_session_id s" "er_attempt_id r = None" using assms by (auto simp: recordable_def)
    obtain s1 d1 where one: "append_upstream_event s r now (sw_disk w) = (Inr s1, d1)" "disk_ok d1" "synced d1 s1"
      "rs_session_id s1 = rs_session_id s"
      using append_upstream_event_ok [of "sw_disk w" s r now] w r by (auto simp: loaded_def)
    with w append_found [OF one(1) None] show ?thesis by (simp add: on_store_run loaded_def)
  next
    case (Some r')
    with assms w show ?thesis by (simp add: recordable_def append_upstream_event_def on_store_run)
  qed
  then show ?thesis by (simp add: triple_def)
qed

lemma receive_success_ok:
  fixes C :: "('t, 'x) service_config"
  assumes "recordable s r"
  shows "triple (loaded t s) (receive_success C ev s r) (\<lambda>_. store_ok) store_ok"
proof -
  have rest: "triple (\<lambda>w :: 'x service_world. loaded t s1 w \<and> find_event s1 (er_event_key r) = Some r)
      (seq (service_emit (rs_session_id s1) ''upstream_success_received'' ''upstream_event'' [] None)
       (case (rs_latest_sql_candidate s1, rs_latest_attempt_id s1) of
          (Some sql, Some aid) \<Rightarrow> if ev_sql ev \<noteq> sql then success_unmatched C s1 r else success_matched C s1 sql aid
        | _ \<Rightarrow> success_unmatched C s1 r)) (\<lambda>_. store_ok) store_ok" for s1
  proof (cases "find_event s1 (er_event_key r) = Some r")
    case True
    have "triple (loaded t s1) (seq (service_emit (rs_session_id s1) ''upstream_success_received'' ''upstream_event'' [] None)
       (case (rs_latest_sql_candidate s1, rs_latest_attempt_id s1) of
          (Some sql, Some aid) \<Rightarrow> if ev_sql ev \<noteq> sql then success_unmatched C s1 r else success_matched C s1 sql aid
        | _ \<Rightarrow> success_unmatched C s1 r)) (\<lambda>_. store_ok) (store_ok :: 'x service_world \<Rightarrow> bool)"
      by (intro triple_seq [OF loaded_step [OF same_store_emit]])
        (auto split: option.split intro: success_unmatched_ok [OF True] success_matched_ok)
    then show ?thesis by (rule triple_weaken) auto
  qed (simp add: triple_def)
  show ?thesis
    unfolding receive_success_def
    by (intro triple_bind [OF loaded_step [OF same_store_tick(2)]] triple_bind [OF append_triple [OF assms]] rest)
qed

lemma begin_success_event_ok:
  assumes "lock_respects C"
  shows "triple store_ok (begin_success_event C ev) (\<lambda>_. store_ok) store_ok"
proof -
  have known: "recordable s r" if "find_event s (build_event_key ev) = Some r" for s r
    using that find_event_Some [OF that] by (simp add: recordable_def)
  have fresh: "recordable s (create_event_record s ev now)" if "find_event s (build_event_key ev) = None" for s now
    using that by (simp add: recordable_def create_event_record_def)
  have ack: "triple (loaded t s) (bind (lift y) (\<lambda>x. ret (Inl x))) (\<lambda>_. store_ok) store_ok" for y s t
    by (rule triple_bind, rule triple_lift [where Q = "\<lambda>_. store_ok"]) (auto intro!: triple_ret dest: loaded_store)
  have go: "triple (loaded (ev_id ev) s) (case find_event s (build_event_key ev) of
        Some r \<Rightarrow> if er_processing_status r = EP_SUCCEEDED then bind (lift (result_success_ack None)) (\<lambda>x. ret (Inl x))
          else receive_success C ev s r
      | None \<Rightarrow> bind (service_now C) (\<lambda>now. receive_success C ev s (create_event_record s ev now))) (\<lambda>_. store_ok) store_ok" for s
    by (cases "find_event s (build_event_key ev)")
      (auto simp del: result_success_ack_simp intro: ack receive_success_ok known fresh
        intro!: triple_bind [OF loaded_step [OF same_store_tick(2)]])
  show ?thesis
    unfolding begin_success_event_def
    by (intro triple_seq [OF triple_preserves [OF lock_store [OF assms]]] triple_bind [OF triple_preserves [OF now_store(1)]]
        triple_bind [OF load_or_create_triple] go)
qed

lemma read_store: "preserves store_ok (on_store (\<lambda>d. (f d, d)))"
  by (simp add: preserves_def on_store_run store_ok_def)

lemma memory_store: "preserves store_ok (on_memory m)"
  by (simp add: preserves_def on_memory_def via_def store_ok_def case_prod_beta)

lemma remember_store: "preserves store_ok (remember C x)"
  unfolding remember_def Let_def case_prod_beta
  by (intro keeps read_store memory_store emit_store now_store)

lemma load_for_task_triple:
  "triple (store_ok :: 'x service_world \<Rightarrow> bool) (on_store (load_for_task t)) (\<lambda>x w. case x of None \<Rightarrow> store_ok w | Some s \<Rightarrow> loaded t s w) store_ok"
proof -
  have "case on_store (load_for_task t) w of (Inl e, w') \<Rightarrow> store_ok w'
     | (Inr x, w') \<Rightarrow> (case x of None \<Rightarrow> store_ok w' | Some s \<Rightarrow> loaded t s w')"
    if w: "store_ok w" for w :: "'x service_world"
  proof (cases "d_sessions (sw_disk w) (session_id_for_task t)")
    case None
    with w show ?thesis by (simp add: on_store_run load_for_task_def)
  next
    case (Some s)
    with w have "session_ok (sw_disk w) s" "rs_session_id s = session_id_for_task t"
      by (auto simp: store_ok_def dest: disk_ok_session disk_ok_id)
    with Some w validate_loaded [OF this(1)] show ?thesis
      by (auto simp: on_store_run load_for_task_def loaded_def synced_def store_ok_def)
  qed
  then show ?thesis by (simp add: triple_def)
qed

lemma close_success_ok: "triple (loaded t s) (close_success C key why s) (\<lambda>_. store_ok) store_ok"
proof (cases "find_event s key")
  case None
  then show ?thesis by (auto simp: close_success_def triple_def dest: loaded_store)
next
  case (Some r)
  have "store_ok (snd (close_success C key why s w))" if w: "loaded t s w" for w
  proof -
    have "loaded t s (w\<lparr>sw_tick := Suc (sw_tick w)\<rparr>)" using w by (simp add: loaded_def)
    from finish_store [OF this Some, of None why EP_SUCCEEDED "sv_now (sc_run C) (sw_tick w)"]
    show ?thesis using Some by (auto simp: close_success_def bind_def service_now_run store_ok_def)
  qed
  then show ?thesis
    unfolding triple_def by (metis (mono_tags, lifting) prod.case_eq_if sum.case_eq_if)
qed

lemma finish_success_ok:
  assumes "lock_respects C"
  shows "preserves store_ok (finish_success C ev x)"
proof (rule preserves_triple)
  have pure: "triple store_ok (lift y) (\<lambda>_. store_ok) store_ok" for y :: "external_result outcome"
    by (rule triple_lift)
  have close: "triple (case f of None \<Rightarrow> store_ok | Some s \<Rightarrow> loaded (ev_id ev) s)
      (case f of None \<Rightarrow> lift (result_human_required msg_success_lost)
      | Some s \<Rightarrow> seq (close_success C (build_event_key ev) None s) (lift (result_success_ack (Some msg_success_confirmed))))
      (\<lambda>_. store_ok) store_ok" for f
    by (cases f) (auto simp del: result_human_required_simp result_success_ack_simp intro: pure triple_seq [OF close_success_ok pure])
  show "triple store_ok (finish_success C ev x) (\<lambda>_. store_ok) store_ok"
    unfolding finish_success_def
    by (intro triple_seq [OF triple_preserves [OF remember_store]] triple_seq [OF triple_preserves [OF lock_store [OF assms]]]
        triple_bind [OF load_for_task_triple] triple_weaken [OF close]) (auto split: option.splits)
qed

lemma degrade_success_ok:
  assumes "lock_respects C"
  shows "preserves store_ok (degrade_success C ev x err)"
proof (rule preserves_triple)
  have close: "triple (case f of None \<Rightarrow> store_ok | Some s \<Rightarrow> loaded (ev_id ev) s)
      (case f of None \<Rightarrow> ret () | Some s \<Rightarrow> close_success C (build_event_key ev) (Some ''MEMORY_WRITE_DEGRADED'') s)
      (\<lambda>_. store_ok) store_ok" for f
    by (cases f) (auto intro: triple_ret close_success_ok)
  have whole: "triple (case f of None \<Rightarrow> store_ok | Some s \<Rightarrow> loaded (ev_id ev) s)
      (seq (case f of None \<Rightarrow> ret () | Some s \<Rightarrow> close_success C (build_event_key ev) (Some ''MEMORY_WRITE_DEGRADED'') s)
        (lift (result_success_ack (Some msg_memory_degraded)))) (\<lambda>_. store_ok) store_ok" for f
    by (rule triple_seq [OF close]) (rule triple_lift)
  show "triple store_ok (degrade_success C ev x err) (\<lambda>_. store_ok) store_ok"
    unfolding degrade_success_def Let_def case_prod_beta
    by (intro triple_seq [OF triple_preserves [OF emit_store]] triple_seq [OF triple_preserves [OF lock_store [OF assms]]]
        triple_bind [OF load_for_task_triple] triple_weaken [OF whole]) (auto split: option.splits)
qed

lemma handle_success_event_ok:
  assumes "lock_respects C"
  shows "preserves store_ok (handle_success_event C ev)"
proof (rule preserves_triple)
  have start: "triple store_ok (catch_if is_lock_timeout (begin_success_event C ev)
      (\<lambda>_. bind (lift (result_human_required msg_session_busy)) (\<lambda>x. ret (Inl x)))) (\<lambda>_. store_ok) store_ok"
    by (rule triple_catch [OF begin_success_event_ok [OF assms]]) (simp_all add: triple_def)
  have rest: "triple store_ok (case x of Inl y \<Rightarrow> ret y | Inr z \<Rightarrow> try_catch (finish_success C ev z) (degrade_success C ev z))
      (\<lambda>_. store_ok) store_ok" for x
    by (cases x) (auto intro: triple_ret triple_preserves preserves_try finish_success_ok degrade_success_ok assms)
  show "triple store_ok (handle_success_event C ev) (\<lambda>_. store_ok) store_ok"
    unfolding handle_success_event_def by (rule triple_bind [OF start rest])
qed

lemma success_failed_ok: "preserves store_ok (success_failed C ev err)"
proof (rule preserves_triple)
  have "triple (loaded (ev_id ev) s) (seq (service_emit (rs_session_id s) ''system_error'' ''orchestrator''
      [(''error_type'', Js_text (error_class err))] None) (lift y)) (\<lambda>_. store_ok) store_ok"
    for s and y :: "external_result outcome"
    by (intro triple_seq [OF loaded_step [OF same_store_emit]] triple_lift) (auto dest: loaded_store)
  then show "triple store_ok (success_failed C ev err) (\<lambda>_. store_ok) store_ok"
    unfolding success_failed_def
    by (intro triple_bind [OF triple_preserves [OF now_store(1)]] triple_bind [OF load_or_create_triple])
qed

text \<open>Every event keeps the stored state good, whatever happens while it is handled.\<close>

lemma handle_upstream_event_ok:
  assumes "lock_respects C"
  shows "preserves store_ok (handle_upstream_event C ev)"
  unfolding handle_upstream_event_def
  by (cases "ev_status ev")
    (auto simp del: result_human_required_simp intro!: keeps emit_store handle_failed_event_ok handle_success_event_ok
      success_failed_ok assms)

lemma handle_events_ok:
  assumes "lock_respects C" "store_ok w"
  shows "store_ok (snd (handle_events C evs w))"
  using assms(2)
proof (induction evs arbitrary: w)
  case (Cons ev evs)
  then have "store_ok (snd (handle_upstream_event C ev w))"
    using handle_upstream_event_ok [OF assms(1)] by (simp add: preserves_def)
  with Cons.IH show ?case by (simp add: case_prod_beta)
qed simp

end
