(* ===== verification/Service_Texts.thy ===== *)
theory Service_Texts
  imports Service
begin

text \<open>
  The answers the handlers of the last resort store: their JSON, byte by byte, passes the sanitizer
  unchanged, so storing them cannot be refused.
\<close>

definition human_answer :: "string \<Rightarrow> external_result" where
  "human_answer m = \<lparr>xr_status = HUMAN_REQUIRED, xr_sql = None, xr_message = Some m\<rparr>"

text \<open>The stored JSON of these answers holds nothing the sanitizer looks for; the bytes are written out.\<close>

definition storable :: "external_result \<Rightarrow> bool" where
  "storable x \<longleftrightarrow> unaffected (json_file_text (\<lambda>_. []) (dump_external x))"

lemma dump_external_plain: "json_file_text fl (dump_external x) = json_file_text fl' (dump_external x)"
  by (cases "xr_sql x"; cases "xr_message x") (simp_all add: json_file_text_def dump_external_def json_of_opt_def)

lemma storable_sanitize: "storable x \<Longrightarrow> sanitize (json_file_text fl (dump_external x)) = Inr (json_file_text fl (dump_external x))"
  unfolding storable_def by (rule sanitize_unaffected) (simp add: dump_external_plain [of fl x "\<lambda>_. []"])

lemma bytes_no_evidence: "msg_no_evidence =
     [CHR 0xE7, CHR 0xBC, CHR 0xBA, CHR 0xE5, CHR 0xB0, CHR 0x91, CHR 0xE5, CHR 0x8F, CHR 0xAF, CHR 0xE7, CHR 0x94,
     CHR 0xA8, CHR 0xE4, CHR 0xBA, CHR 0x8E, CHR 0xE8, CHR 0xAF, CHR 0x8A, CHR 0xE6, CHR 0x96, CHR 0xAD, CHR 0xE7,
     CHR 0x9A, CHR 0x84, CHR 0xE6, CHR 0x97, CHR 0xA5, CHR 0xE5, CHR 0xBF, CHR 0x97, CHR 0xE5, CHR 0x92, CHR 0x8C,
     CHR 0xE9, CHR 0x94, CHR 0x99, CHR 0xE8, CHR 0xAF, CHR 0xAF, CHR 0xE4, CHR 0xBF, CHR 0xA1, CHR 0xE6, CHR 0x81,
     CHR 0xAF, CHR 0xE3, CHR 0x80, CHR 0x82]"
  by (simp add: msg_no_evidence_def u8_def utf8_bytes_def char_of_def bit_Suc_0_iff)

lemma storable_no_evidence: "storable (human_answer msg_no_evidence)"
proof -
  have "json_file_text (\<lambda>_. []) (dump_external (human_answer [CHR 0xE7, CHR 0xBC, CHR 0xBA, CHR 0xE5, CHR 0xB0, CHR 0x91, CHR 0xE5, CHR 0x8F, CHR 0xAF, CHR 0xE7, CHR 0x94,
     CHR 0xA8, CHR 0xE4, CHR 0xBA, CHR 0x8E, CHR 0xE8, CHR 0xAF, CHR 0x8A, CHR 0xE6, CHR 0x96, CHR 0xAD, CHR 0xE7,
     CHR 0x9A, CHR 0x84, CHR 0xE6, CHR 0x97, CHR 0xA5, CHR 0xE5, CHR 0xBF, CHR 0x97, CHR 0xE5, CHR 0x92, CHR 0x8C,
     CHR 0xE9, CHR 0x94, CHR 0x99, CHR 0xE8, CHR 0xAF, CHR 0xAF, CHR 0xE4, CHR 0xBF, CHR 0xA1, CHR 0xE6, CHR 0x81,
     CHR 0xAF, CHR 0xE3, CHR 0x80, CHR 0x82])) =
     [CHR 0x7B, CHR 0x0A, CHR 0x20, CHR 0x20, CHR 0x22, CHR 0x73, CHR 0x74, CHR 0x61, CHR 0x74, CHR 0x75, CHR 0x73,
     CHR 0x22, CHR 0x3A, CHR 0x20, CHR 0x22, CHR 0x48, CHR 0x55, CHR 0x4D, CHR 0x41, CHR 0x4E, CHR 0x5F, CHR 0x52,
     CHR 0x45, CHR 0x51, CHR 0x55, CHR 0x49, CHR 0x52, CHR 0x45, CHR 0x44, CHR 0x22, CHR 0x2C, CHR 0x0A, CHR 0x20,
     CHR 0x20, CHR 0x22, CHR 0x73, CHR 0x71, CHR 0x6C, CHR 0x22, CHR 0x3A, CHR 0x20, CHR 0x6E, CHR 0x75, CHR 0x6C,
     CHR 0x6C, CHR 0x2C, CHR 0x0A, CHR 0x20, CHR 0x20, CHR 0x22, CHR 0x6D, CHR 0x65, CHR 0x73, CHR 0x73, CHR 0x61,
     CHR 0x67, CHR 0x65, CHR 0x22, CHR 0x3A, CHR 0x20, CHR 0x22, CHR 0xE7, CHR 0xBC, CHR 0xBA, CHR 0xE5, CHR 0xB0,
     CHR 0x91, CHR 0xE5, CHR 0x8F, CHR 0xAF, CHR 0xE7, CHR 0x94, CHR 0xA8, CHR 0xE4, CHR 0xBA, CHR 0x8E, CHR 0xE8,
     CHR 0xAF, CHR 0x8A, CHR 0xE6, CHR 0x96, CHR 0xAD, CHR 0xE7, CHR 0x9A, CHR 0x84, CHR 0xE6, CHR 0x97, CHR 0xA5,
     CHR 0xE5, CHR 0xBF, CHR 0x97, CHR 0xE5, CHR 0x92, CHR 0x8C, CHR 0xE9, CHR 0x94, CHR 0x99, CHR 0xE8, CHR 0xAF,
     CHR 0xAF, CHR 0xE4, CHR 0xBF, CHR 0xA1, CHR 0xE6, CHR 0x81, CHR 0xAF, CHR 0xE3, CHR 0x80, CHR 0x82, CHR 0x22,
     CHR 0x0A, CHR 0x7D, CHR 0x0A]"
    by code_simp
  moreover have "unaffected
     [CHR 0x7B, CHR 0x0A, CHR 0x20, CHR 0x20, CHR 0x22, CHR 0x73, CHR 0x74, CHR 0x61, CHR 0x74, CHR 0x75, CHR 0x73,
     CHR 0x22, CHR 0x3A, CHR 0x20, CHR 0x22, CHR 0x48, CHR 0x55, CHR 0x4D, CHR 0x41, CHR 0x4E, CHR 0x5F, CHR 0x52,
     CHR 0x45, CHR 0x51, CHR 0x55, CHR 0x49, CHR 0x52, CHR 0x45, CHR 0x44, CHR 0x22, CHR 0x2C, CHR 0x0A, CHR 0x20,
     CHR 0x20, CHR 0x22, CHR 0x73, CHR 0x71, CHR 0x6C, CHR 0x22, CHR 0x3A, CHR 0x20, CHR 0x6E, CHR 0x75, CHR 0x6C,
     CHR 0x6C, CHR 0x2C, CHR 0x0A, CHR 0x20, CHR 0x20, CHR 0x22, CHR 0x6D, CHR 0x65, CHR 0x73, CHR 0x73, CHR 0x61,
     CHR 0x67, CHR 0x65, CHR 0x22, CHR 0x3A, CHR 0x20, CHR 0x22, CHR 0xE7, CHR 0xBC, CHR 0xBA, CHR 0xE5, CHR 0xB0,
     CHR 0x91, CHR 0xE5, CHR 0x8F, CHR 0xAF, CHR 0xE7, CHR 0x94, CHR 0xA8, CHR 0xE4, CHR 0xBA, CHR 0x8E, CHR 0xE8,
     CHR 0xAF, CHR 0x8A, CHR 0xE6, CHR 0x96, CHR 0xAD, CHR 0xE7, CHR 0x9A, CHR 0x84, CHR 0xE6, CHR 0x97, CHR 0xA5,
     CHR 0xE5, CHR 0xBF, CHR 0x97, CHR 0xE5, CHR 0x92, CHR 0x8C, CHR 0xE9, CHR 0x94, CHR 0x99, CHR 0xE8, CHR 0xAF,
     CHR 0xAF, CHR 0xE4, CHR 0xBF, CHR 0xA1, CHR 0xE6, CHR 0x81, CHR 0xAF, CHR 0xE3, CHR 0x80, CHR 0x82, CHR 0x22,
     CHR 0x0A, CHR 0x7D, CHR 0x0A]"
    by code_simp
  ultimately show ?thesis by (simp only: storable_def bytes_no_evidence)
qed

lemma bytes_agent_failed: "msg_agent_failed =
     [CHR 0x41, CHR 0x67, CHR 0x65, CHR 0x6E, CHR 0x74, CHR 0x20, CHR 0xE5, CHR 0x86, CHR 0x85, CHR 0xE9, CHR 0x83,
     CHR 0xA8, CHR 0xE5, CHR 0xA4, CHR 0x84, CHR 0xE7, CHR 0x90, CHR 0x86, CHR 0xE5, CHR 0xA4, CHR 0xB1, CHR 0xE8,
     CHR 0xB4, CHR 0xA5, CHR 0xEF, CHR 0xBC, CHR 0x8C, CHR 0xE8, CHR 0xAF, CHR 0xB7, CHR 0xE4, CHR 0xBA, CHR 0xBA,
     CHR 0xE5, CHR 0xB7, CHR 0xA5, CHR 0xE4, CHR 0xBB, CHR 0x8B, CHR 0xE5, CHR 0x85, CHR 0xA5, CHR 0xE3, CHR 0x80,
     CHR 0x82]"
  by (simp add: msg_agent_failed_def u8_def utf8_bytes_def char_of_def bit_Suc_0_iff)

lemma storable_agent_failed: "storable (human_answer msg_agent_failed)"
proof -
  have "json_file_text (\<lambda>_. []) (dump_external (human_answer [CHR 0x41, CHR 0x67, CHR 0x65, CHR 0x6E, CHR 0x74, CHR 0x20, CHR 0xE5, CHR 0x86, CHR 0x85, CHR 0xE9, CHR 0x83,
     CHR 0xA8, CHR 0xE5, CHR 0xA4, CHR 0x84, CHR 0xE7, CHR 0x90, CHR 0x86, CHR 0xE5, CHR 0xA4, CHR 0xB1, CHR 0xE8,
     CHR 0xB4, CHR 0xA5, CHR 0xEF, CHR 0xBC, CHR 0x8C, CHR 0xE8, CHR 0xAF, CHR 0xB7, CHR 0xE4, CHR 0xBA, CHR 0xBA,
     CHR 0xE5, CHR 0xB7, CHR 0xA5, CHR 0xE4, CHR 0xBB, CHR 0x8B, CHR 0xE5, CHR 0x85, CHR 0xA5, CHR 0xE3, CHR 0x80,
     CHR 0x82])) =
     [CHR 0x7B, CHR 0x0A, CHR 0x20, CHR 0x20, CHR 0x22, CHR 0x73, CHR 0x74, CHR 0x61, CHR 0x74, CHR 0x75, CHR 0x73,
     CHR 0x22, CHR 0x3A, CHR 0x20, CHR 0x22, CHR 0x48, CHR 0x55, CHR 0x4D, CHR 0x41, CHR 0x4E, CHR 0x5F, CHR 0x52,
     CHR 0x45, CHR 0x51, CHR 0x55, CHR 0x49, CHR 0x52, CHR 0x45, CHR 0x44, CHR 0x22, CHR 0x2C, CHR 0x0A, CHR 0x20,
     CHR 0x20, CHR 0x22, CHR 0x73, CHR 0x71, CHR 0x6C, CHR 0x22, CHR 0x3A, CHR 0x20, CHR 0x6E, CHR 0x75, CHR 0x6C,
     CHR 0x6C, CHR 0x2C, CHR 0x0A, CHR 0x20, CHR 0x20, CHR 0x22, CHR 0x6D, CHR 0x65, CHR 0x73, CHR 0x73, CHR 0x61,
     CHR 0x67, CHR 0x65, CHR 0x22, CHR 0x3A, CHR 0x20, CHR 0x22, CHR 0x41, CHR 0x67, CHR 0x65, CHR 0x6E, CHR 0x74,
     CHR 0x20, CHR 0xE5, CHR 0x86, CHR 0x85, CHR 0xE9, CHR 0x83, CHR 0xA8, CHR 0xE5, CHR 0xA4, CHR 0x84, CHR 0xE7,
     CHR 0x90, CHR 0x86, CHR 0xE5, CHR 0xA4, CHR 0xB1, CHR 0xE8, CHR 0xB4, CHR 0xA5, CHR 0xEF, CHR 0xBC, CHR 0x8C,
     CHR 0xE8, CHR 0xAF, CHR 0xB7, CHR 0xE4, CHR 0xBA, CHR 0xBA, CHR 0xE5, CHR 0xB7, CHR 0xA5, CHR 0xE4, CHR 0xBB,
     CHR 0x8B, CHR 0xE5, CHR 0x85, CHR 0xA5, CHR 0xE3, CHR 0x80, CHR 0x82, CHR 0x22, CHR 0x0A, CHR 0x7D, CHR 0x0A]"
    by code_simp
  moreover have "unaffected
     [CHR 0x7B, CHR 0x0A, CHR 0x20, CHR 0x20, CHR 0x22, CHR 0x73, CHR 0x74, CHR 0x61, CHR 0x74, CHR 0x75, CHR 0x73,
     CHR 0x22, CHR 0x3A, CHR 0x20, CHR 0x22, CHR 0x48, CHR 0x55, CHR 0x4D, CHR 0x41, CHR 0x4E, CHR 0x5F, CHR 0x52,
     CHR 0x45, CHR 0x51, CHR 0x55, CHR 0x49, CHR 0x52, CHR 0x45, CHR 0x44, CHR 0x22, CHR 0x2C, CHR 0x0A, CHR 0x20,
     CHR 0x20, CHR 0x22, CHR 0x73, CHR 0x71, CHR 0x6C, CHR 0x22, CHR 0x3A, CHR 0x20, CHR 0x6E, CHR 0x75, CHR 0x6C,
     CHR 0x6C, CHR 0x2C, CHR 0x0A, CHR 0x20, CHR 0x20, CHR 0x22, CHR 0x6D, CHR 0x65, CHR 0x73, CHR 0x73, CHR 0x61,
     CHR 0x67, CHR 0x65, CHR 0x22, CHR 0x3A, CHR 0x20, CHR 0x22, CHR 0x41, CHR 0x67, CHR 0x65, CHR 0x6E, CHR 0x74,
     CHR 0x20, CHR 0xE5, CHR 0x86, CHR 0x85, CHR 0xE9, CHR 0x83, CHR 0xA8, CHR 0xE5, CHR 0xA4, CHR 0x84, CHR 0xE7,
     CHR 0x90, CHR 0x86, CHR 0xE5, CHR 0xA4, CHR 0xB1, CHR 0xE8, CHR 0xB4, CHR 0xA5, CHR 0xEF, CHR 0xBC, CHR 0x8C,
     CHR 0xE8, CHR 0xAF, CHR 0xB7, CHR 0xE4, CHR 0xBA, CHR 0xBA, CHR 0xE5, CHR 0xB7, CHR 0xA5, CHR 0xE4, CHR 0xBB,
     CHR 0x8B, CHR 0xE5, CHR 0x85, CHR 0xA5, CHR 0xE3, CHR 0x80, CHR 0x82, CHR 0x22, CHR 0x0A, CHR 0x7D, CHR 0x0A]"
    by code_simp
  ultimately show ?thesis by (simp only: storable_def bytes_agent_failed)
qed

lemma bytes_commit_busy: "msg_commit_busy =
     [CHR 0x53, CHR 0x65, CHR 0x73, CHR 0x73, CHR 0x69, CHR 0x6F, CHR 0x6E, CHR 0x20, CHR 0xE6, CHR 0xAD, CHR 0xA3,
     CHR 0xE5, CHR 0x9C, CHR 0xA8, CHR 0xE5, CHR 0xA4, CHR 0x84, CHR 0xE7, CHR 0x90, CHR 0x86, CHR 0xE4, CHR 0xB8,
     CHR 0xAD, CHR 0xEF, CHR 0xBC, CHR 0x8C, CHR 0xE5, CHR 0x80, CHR 0x99, CHR 0xE9, CHR 0x80, CHR 0x89, CHR 0xE6,
     CHR 0x8F, CHR 0x90, CHR 0xE4, CHR 0xBA, CHR 0xA4, CHR 0xE5, CHR 0xA4, CHR 0xB1, CHR 0xE8, CHR 0xB4, CHR 0xA5,
     CHR 0xE3, CHR 0x80, CHR 0x82]"
  by (simp add: msg_commit_busy_def u8_def utf8_bytes_def char_of_def bit_Suc_0_iff)

lemma storable_commit_busy: "storable (human_answer msg_commit_busy)"
proof -
  have "json_file_text (\<lambda>_. []) (dump_external (human_answer [CHR 0x53, CHR 0x65, CHR 0x73, CHR 0x73, CHR 0x69, CHR 0x6F, CHR 0x6E, CHR 0x20, CHR 0xE6, CHR 0xAD, CHR 0xA3,
     CHR 0xE5, CHR 0x9C, CHR 0xA8, CHR 0xE5, CHR 0xA4, CHR 0x84, CHR 0xE7, CHR 0x90, CHR 0x86, CHR 0xE4, CHR 0xB8,
     CHR 0xAD, CHR 0xEF, CHR 0xBC, CHR 0x8C, CHR 0xE5, CHR 0x80, CHR 0x99, CHR 0xE9, CHR 0x80, CHR 0x89, CHR 0xE6,
     CHR 0x8F, CHR 0x90, CHR 0xE4, CHR 0xBA, CHR 0xA4, CHR 0xE5, CHR 0xA4, CHR 0xB1, CHR 0xE8, CHR 0xB4, CHR 0xA5,
     CHR 0xE3, CHR 0x80, CHR 0x82])) =
     [CHR 0x7B, CHR 0x0A, CHR 0x20, CHR 0x20, CHR 0x22, CHR 0x73, CHR 0x74, CHR 0x61, CHR 0x74, CHR 0x75, CHR 0x73,
     CHR 0x22, CHR 0x3A, CHR 0x20, CHR 0x22, CHR 0x48, CHR 0x55, CHR 0x4D, CHR 0x41, CHR 0x4E, CHR 0x5F, CHR 0x52,
     CHR 0x45, CHR 0x51, CHR 0x55, CHR 0x49, CHR 0x52, CHR 0x45, CHR 0x44, CHR 0x22, CHR 0x2C, CHR 0x0A, CHR 0x20,
     CHR 0x20, CHR 0x22, CHR 0x73, CHR 0x71, CHR 0x6C, CHR 0x22, CHR 0x3A, CHR 0x20, CHR 0x6E, CHR 0x75, CHR 0x6C,
     CHR 0x6C, CHR 0x2C, CHR 0x0A, CHR 0x20, CHR 0x20, CHR 0x22, CHR 0x6D, CHR 0x65, CHR 0x73, CHR 0x73, CHR 0x61,
     CHR 0x67, CHR 0x65, CHR 0x22, CHR 0x3A, CHR 0x20, CHR 0x22, CHR 0x53, CHR 0x65, CHR 0x73, CHR 0x73, CHR 0x69,
     CHR 0x6F, CHR 0x6E, CHR 0x20, CHR 0xE6, CHR 0xAD, CHR 0xA3, CHR 0xE5, CHR 0x9C, CHR 0xA8, CHR 0xE5, CHR 0xA4,
     CHR 0x84, CHR 0xE7, CHR 0x90, CHR 0x86, CHR 0xE4, CHR 0xB8, CHR 0xAD, CHR 0xEF, CHR 0xBC, CHR 0x8C, CHR 0xE5,
     CHR 0x80, CHR 0x99, CHR 0xE9, CHR 0x80, CHR 0x89, CHR 0xE6, CHR 0x8F, CHR 0x90, CHR 0xE4, CHR 0xBA, CHR 0xA4,
     CHR 0xE5, CHR 0xA4, CHR 0xB1, CHR 0xE8, CHR 0xB4, CHR 0xA5, CHR 0xE3, CHR 0x80, CHR 0x82, CHR 0x22, CHR 0x0A,
     CHR 0x7D, CHR 0x0A]"
    by code_simp
  moreover have "unaffected
     [CHR 0x7B, CHR 0x0A, CHR 0x20, CHR 0x20, CHR 0x22, CHR 0x73, CHR 0x74, CHR 0x61, CHR 0x74, CHR 0x75, CHR 0x73,
     CHR 0x22, CHR 0x3A, CHR 0x20, CHR 0x22, CHR 0x48, CHR 0x55, CHR 0x4D, CHR 0x41, CHR 0x4E, CHR 0x5F, CHR 0x52,
     CHR 0x45, CHR 0x51, CHR 0x55, CHR 0x49, CHR 0x52, CHR 0x45, CHR 0x44, CHR 0x22, CHR 0x2C, CHR 0x0A, CHR 0x20,
     CHR 0x20, CHR 0x22, CHR 0x73, CHR 0x71, CHR 0x6C, CHR 0x22, CHR 0x3A, CHR 0x20, CHR 0x6E, CHR 0x75, CHR 0x6C,
     CHR 0x6C, CHR 0x2C, CHR 0x0A, CHR 0x20, CHR 0x20, CHR 0x22, CHR 0x6D, CHR 0x65, CHR 0x73, CHR 0x73, CHR 0x61,
     CHR 0x67, CHR 0x65, CHR 0x22, CHR 0x3A, CHR 0x20, CHR 0x22, CHR 0x53, CHR 0x65, CHR 0x73, CHR 0x73, CHR 0x69,
     CHR 0x6F, CHR 0x6E, CHR 0x20, CHR 0xE6, CHR 0xAD, CHR 0xA3, CHR 0xE5, CHR 0x9C, CHR 0xA8, CHR 0xE5, CHR 0xA4,
     CHR 0x84, CHR 0xE7, CHR 0x90, CHR 0x86, CHR 0xE4, CHR 0xB8, CHR 0xAD, CHR 0xEF, CHR 0xBC, CHR 0x8C, CHR 0xE5,
     CHR 0x80, CHR 0x99, CHR 0xE9, CHR 0x80, CHR 0x89, CHR 0xE6, CHR 0x8F, CHR 0x90, CHR 0xE4, CHR 0xBA, CHR 0xA4,
     CHR 0xE5, CHR 0xA4, CHR 0xB1, CHR 0xE8, CHR 0xB4, CHR 0xA5, CHR 0xE3, CHR 0x80, CHR 0x82, CHR 0x22, CHR 0x0A,
     CHR 0x7D, CHR 0x0A]"
    by code_simp
  ultimately show ?thesis by (simp only: storable_def bytes_commit_busy)
qed

end
