(* ===== verification/Service_Answers.thy ===== *)
theory Service_Answers
  imports Service_Facts Service_Texts
begin

text \<open>
  The answers of the service. Every answer satisfies the contract of \<open>AgentExternalResult\<close>; a failed
  event that is taken up always gets one; the stored answer is what a second delivery of the event reads
  back; and a candidate is answered only after the gates released it and the committer recorded it.
\<close>

section \<open>What an answer is\<close>

text \<open>Properties of the answer and the state it is given in, for operations that may raise anywhere.\<close>

abbreviation ends_in :: "('s, 'a) io \<Rightarrow> ('a \<Rightarrow> 's \<Rightarrow> bool) \<Rightarrow> bool" where
  "ends_in m Q \<equiv> triple (\<lambda>_. True) m Q (\<lambda>_. True)"

lemma ends_bind: "(\<And>x. ends_in (f x) Q) \<Longrightarrow> ends_in (bind m f) Q"
  by (rule triple_bind [OF triple_any]) simp

lemma ends_seq: "ends_in n Q \<Longrightarrow> ends_in (seq m n) Q"
  by (simp add: seq_def ends_bind)

lemma ends_assume: "(b \<Longrightarrow> ends_in m Q) \<Longrightarrow> triple (\<lambda>_. b) m Q (\<lambda>_. True)"
  by (cases b) (simp_all add: triple_def)

lemma ends_lift: "(\<And>x. r = Inr x \<Longrightarrow> ends_in (f x) Q) \<Longrightarrow> ends_in (bind (lift r) f) Q"
  by (cases r) (simp_all add: triple_def bind_def)

lemma const_sum: "map_sum id (\<lambda>_. x) r = Inr y \<longleftrightarrow> y = x \<and> is_ok r"
  by (cases r) auto

lemma persist_same: "ends_in (persist C x) (\<lambda>y _. y = x)"
  by (auto simp: triple_def persist_def in_world_run persist_external_run Let_def const_sum
      split: sum.split option.split prod.split)

text \<open>The contract of an external result\<close>

lemma persist_valid: "valid_external_result x \<Longrightarrow> ends_in (persist C x) (\<lambda>y _. valid_external_result y)"
  by (rule triple_weaken [OF persist_same]) simp_all

lemma human_valid: "ends_in (human C m) (\<lambda>y _. valid_external_result y)"
  unfolding human_def
  by (intro ends_bind ends_seq ends_lift persist_valid) (auto simp: result_human_required_def mk_external_result_iff)

lemma finish_without_valid: "ends_in (finish_without_candidate C r e) (\<lambda>y _. valid_external_result y)"
  unfolding finish_without_candidate_def
  by (intro ends_seq triple_if human_valid ends_lift persist_valid) (auto simp: valid_external_result_def)

lemma finish_with_valid: "ends_in (finish_with_candidate C ev r e) (\<lambda>y _. valid_external_result y)"
proof -
  have "ends_in (case x of Inl message \<Rightarrow> human C message
      | Inr _ \<Rightarrow> bind (lift (result_sql_ready (or_text (rr_candidate_sql r) []))) (persist C)) (\<lambda>y _. valid_external_result y)" for x
    by (cases x) (auto intro!: human_valid ends_lift persist_valid dest: result_factory_valid(1))
  then show ?thesis unfolding finish_with_candidate_def by (intro ends_bind ends_seq)
qed

lemma agent_attempt_valid: "ends_in (agent_attempt C ev previous) (\<lambda>y _. valid_external_result y)"
  unfolding agent_attempt_def case_prod_beta
  by (intro ends_bind ends_seq triple_if finish_without_valid finish_with_valid)

lemma attempt_failed_valid: "ends_in (attempt_failed C err) (\<lambda>y _. valid_external_result y)"
  unfolding attempt_failed_def by (intro triple_if ends_seq human_valid)

lemma work_valid: "ends_in (work_on_attempt C ev) (\<lambda>y _. valid_external_result y)"
  unfolding work_on_attempt_def
  by (intro triple_if human_valid ends_bind triple_try [OF agent_attempt_valid] attempt_failed_valid)

section \<open>Only a released candidate is answered\<close>

text \<open>
  An SQL_READY answer is the candidate of a passed gate run on the event's text, and it is what the
  session waits for: recorded as the latest candidate together with its attempt.
\<close>

definition released_answer :: "('t, 'x) service_config \<Rightarrow> upstream_event \<Rightarrow> external_result \<Rightarrow> 'x service_world \<Rightarrow> bool" where
  "released_answer C ev x w \<longleftrightarrow>
     (\<exists>q g s aid a. released (run_gates (sc_run C)) q g \<and> lets_pass (gt_decision g) \<and> gq_original_sql q = ev_sql ev \<and>
        gq_allow_medium q = sv_allow_medium (sc_run C) \<and> xr_sql x = Some (gq_candidate_sql q) \<and>
        d_sessions (sw_disk w) (rs_session_id s) = Some s \<and> rs_latest_sql_candidate s = xr_sql x \<and>
        rs_latest_attempt_id s = Some aid \<and> rs_status s = SS_SQL_READY_PENDING_UPSTREAM \<and>
        d_attempts (sw_disk w) (rs_session_id s, aid) = Some a \<and> ra_status a = AS_SQL_READY \<and>
        ra_sql_candidate a = xr_sql x)"

definition ready_released :: "('t, 'x) service_config \<Rightarrow> upstream_event \<Rightarrow> external_result \<Rightarrow> 'x handling \<Rightarrow> bool" where
  "ready_released C ev x h \<longleftrightarrow> (xr_status x = SQL_READY \<longrightarrow> released_answer C ev x (hd_world h))"

lemma persist_not_ready: "xr_status x \<noteq> SQL_READY \<Longrightarrow> ends_in (persist C x) (ready_released C ev)"
  by (rule triple_weaken [OF persist_same]) (simp_all add: ready_released_def)

lemma human_not_ready: "ends_in (human C m) (ready_released C ev)"
  unfolding human_def
  by (intro ends_bind ends_seq ends_lift persist_not_ready) (auto simp: result_human_required_def mk_external_result_iff)

lemma finish_without_not_ready: "ends_in (finish_without_candidate C r e) (ready_released C ev)"
  unfolding finish_without_candidate_def
  by (intro ends_seq triple_if human_not_ready ends_lift persist_not_ready) (auto simp: result_no_sql_def mk_external_result_iff)

lemma persist_committed:
  assumes "committed aid sql h" "persist C x h = (Inr y, h')"
  shows "\<exists>s a. d_sessions (sw_disk (hd_world h')) (rs_session_id s) = Some s \<and> rs_latest_sql_candidate s = Some sql \<and>
    rs_latest_attempt_id s = Some aid \<and> rs_status s = SS_SQL_READY_PENDING_UPSTREAM \<and>
    d_attempts (sw_disk (hd_world h')) (rs_session_id s, aid) = Some a \<and> ra_status a = AS_SQL_READY \<and> ra_sql_candidate a = Some sql"
proof -
  define s where "s = hd_session h"
  define a where "a = hd_attempt h"
  define w where "w = hd_world h"
  have c: "rs_latest_sql_candidate s = Some sql" "rs_latest_attempt_id s = Some aid" "rs_status s = SS_SQL_READY_PENDING_UPSTREAM"
    "d_attempts (sw_disk w) (rs_session_id s, aid) = Some a" "ra_status a = AS_SQL_READY" "ra_sql_candidate a = Some sql"
    using assms(1) by (simp_all add: committed_def s_def a_def w_def)
  have run: "persist_external_result C s a x w = (Inr y, hd_world h')"
    using assms(2) by (auto simp: persist_def in_world_Inr s_def a_def w_def)
  obtain content where content: "sanitize (json_file_text (sv_float (sc_run C)) (dump_external x)) = Inr content"
    using run by (cases "sanitize (json_file_text (sv_float (sc_run C)) (dump_external x))") (auto simp: persist_external_run Let_def)
  define path where "path = legacy_text (d_base (sw_disk w)) (rs_session_id s) (ra_attempt_id a) ''external_result.json''"
  define d1 where "d1 = put_file (Legacy_Artifact (rs_session_id s) (ra_attempt_id a) ''external_result.json'') content (sw_disk w)"
  define s1 where "s1 = s\<lparr>rs_last_result_ref := Some path\<rparr>"
  have d1: "d_attempts d1 = d_attempts (sw_disk w)" by (simp add: d1_def put_file_def)
  show ?thesis
  proof (cases "find_event s (ra_source_event_key a)")
    case None
    then have "sw_disk (hd_world h') = put_session s1 d1"
      using run content
      by (auto simp: persist_external_run Let_def path_def [symmetric] d1_def [symmetric] s1_def [symmetric]
          dest!: sym [where t = "hd_world h'"])
    then show ?thesis using c d1 by (intro exI [of _ s1] exI [of _ a]) (simp add: s1_def)
  next
    case (Some r)
    let ?f = "finish_event s1 r (Some path) None EP_SUCCEEDED (sv_now (sc_run C) (sw_tick w)) d1"
    obtain t' d2 where f: "?f = (Inr t', d2)" "sw_disk (hd_world h') = d2"
      using run content Some
      by (cases ?f; cases "fst ?f")
        (auto simp: persist_external_run Let_def path_def [symmetric] d1_def [symmetric] s1_def [symmetric]
          dest!: sym [where t = "hd_world h'"])
    note res = finish_event_result [OF f(1)]
    have "d2 = put_session t' d1" using res by simp
    then show ?thesis using c d1 res f(2) by (intro exI [of _ t'] exI [of _ a]) (simp add: s1_def)
  qed
qed

lemma run_gates_memory: "run_gates (S\<lparr>sv_memory := m\<rparr>) = run_gates S"
  by (simp add: run_gates_def ask_reflection_def llm_call_def hooked_def run_hooks_def retries_def fresh_stamp_def limits_def)

lemma finish_with_released:
  assumes run: "delivered (sc_run C) (ev_sql ev) r e"
  shows "ends_in (finish_with_candidate C ev r e) (ready_released C ev)"
proof (rule tripleI)
  fix h y h' assume "finish_with_candidate C ev r e h = (Inr y, h')"
  then obtain h1 x h2 where commit: "commit_candidate C ev r e h1 = (Inr x, h2)"
    and rest: "(case x of Inl message \<Rightarrow> human C message
        | Inr _ \<Rightarrow> bind (lift (result_sql_ready (or_text (rr_candidate_sql r) []))) (persist C)) h2 = (Inr y, h')"
    by (auto simp: finish_with_candidate_def bind_Inr_iff seq_Inr_iff)
  show "ready_released C ev y h'"
  proof (cases x)
    case (Inl message)
    with rest show ?thesis using triple_Inr [OF human_not_ready] by fastforce
  next
    case (Inr u)
    obtain q g where q: "released (run_gates (sc_run C)) q g" "lets_pass (gt_decision g)" "gq_original_sql q = ev_sql ev"
      "gq_allow_medium q = sv_allow_medium (sc_run C)" "rr_candidate_sql r = Some (gq_candidate_sql q)"
      "cs_formal_sql (cx_candidate (re_ctx e)) = Some (gq_candidate_sql q)"
      using run by (auto simp: delivered_def)
    obtain aid where "committed aid (gq_candidate_sql q) h2"
      using commit_candidate_done [OF commit [unfolded Inr]] q(6) by auto
    moreover obtain z where z: "result_sql_ready (or_text (rr_candidate_sql r) []) = Inr z" "persist C z h2 = (Inr y, h')"
      using rest Inr by (auto simp: bind_Inr_iff)
    moreover have "y = z" using triple_Inr [OF persist_same _ z(2)] by simp
    moreover have "xr_sql z = Some (gq_candidate_sql q)"
      using z(1) q(5) by (auto simp: result_sql_ready_def mk_external_result_iff)
    ultimately show ?thesis
      using q persist_committed unfolding ready_released_def released_answer_def by metis
  qed
qed simp

lemma run_processor_delivers:
  "ends_in (run_processor C ev) (\<lambda>x _. rr_status (fst x) = CANDIDATE_READY \<longrightarrow> delivered (sc_run C) (ev_sql ev) (fst x) (snd x))"
proof (rule tripleI)
  fix h x h' assume run: "run_processor C ev h = (Inr x, h')"
  let ?S = "(sc_run C)\<lparr>sv_memory := sw_memory (hd_world h)\<rparr>" and ?c = "new_context ev (hd_session h) (hd_attempt h)"
  let ?e = "start_run (sc_run C) ev (hd_session h) (hd_attempt h) (sw_disk (hd_world h)) (sw_tick (hd_world h)) (sw_outside (hd_world h))"
  have process: "process_failed_event ?S ev ?e = (Inr (fst x), snd x)"
    using run by (cases "process_failed_event ?S ev ?e"; cases "fst (process_failed_event ?S ev ?e)")
      (auto simp: run_processor_def Let_def)
  have start: "same_run ?c ?e" by (simp add: same_run_def start_run_def new_context_def empty_candidate_def)
  show "rr_status (fst x) = CANDIDATE_READY \<longrightarrow> delivered (sc_run C) (ev_sql ev) (fst x) (snd x)"
    using process_delivers [OF process start] by (simp add: delivered_def run_gates_memory new_context_def)
qed simp

lemma agent_attempt_released: "ends_in (agent_attempt C ev previous) (ready_released C ev)"
  unfolding agent_attempt_def case_prod_beta
  by (rule triple_bind [OF run_processor_delivers], rule ends_assume)
    (intro ends_seq triple_if finish_without_not_ready finish_with_released, simp)

lemma work_released: "ends_in (work_on_attempt C ev) (ready_released C ev)"
  unfolding work_on_attempt_def attempt_failed_def
  by (intro triple_if human_not_ready ends_bind triple_try [OF agent_attempt_released] ends_seq)

text \<open>The event is on record when the lock is granted.\<close>

definition known_event :: "('t, 'x) service_config \<Rightarrow> upstream_event \<Rightarrow> 'x service_world \<Rightarrow> bool" where
  "known_event C ev w =
     (case d_sessions (sw_disk (snd (sc_lock C (ev_id ev) w))) (session_id_for_task (ev_id ev)) of
        None \<Rightarrow> False
      | Some s \<Rightarrow> find_event s (build_event_key ev) \<noteq> None)"

lemma load_or_create_known:
  assumes "load_or_create_for_event ev now d = (Inr s, d')" "find_event s k \<noteq> None"
  shows "d_sessions d (session_id_for_task (ev_id ev)) = Some s"
  using assms
  by (auto simp: load_or_create_for_event_def load_for_task_def bind_def seq_def save_session_def new_session_def
      find_event_def Let_def validate_candidate_pair_def split: option.splits if_splits)

lemma fresh_not_answered:
  assumes "begin_failed_event C ev w = (Inr (Inl y), w')"
  shows "known_event C ev w"
proof -
  obtain now s w1 w2 where lock: "sc_lock C (ev_id ev) w = (Inr (), w1)"
    and load: "on_store (load_or_create_for_event ev now) (w1\<lparr>sw_tick := Suc (sw_tick w1)\<rparr>) = (Inr s, w2)"
    and rest: "bind (case find_event s (build_event_key ev) of
              Some r \<Rightarrow> known_failed_event C s r
            | None \<Rightarrow> new_failed_event C ev s) (\<lambda>x. case x of
        Inl y \<Rightarrow> ret (Inl y)
      | Inr z \<Rightarrow> bind (activate C (build_event_key ev) z) (\<lambda>sa. ret (Inr sa))) w2 = (Inr (Inl y), w')"
    using assms by (auto simp: begin_failed_event_def bind_Inr_iff seq_Inr_iff service_now_run)
  have "find_event s (build_event_key ev) \<noteq> None"
  proof
    assume "find_event s (build_event_key ev) = None"
    with rest show False
      by (auto simp: new_failed_event_def bind_Inr_iff Let_def split: sum.splits) (metis sumE surj_pair)
  qed
  moreover from this have "d_sessions (sw_disk w1) (session_id_for_task (ev_id ev)) = Some s"
    using load by (auto simp: on_store_Inr dest: load_or_create_known)
  ultimately show ?thesis by (simp add: known_event_def lock)
qed

lemma handle_failed_released:
  assumes "handle_failed_event C ev w = (Inr x, w')" "xr_status x = SQL_READY"
  shows "known_event C ev w \<or> released_answer C ev x w'"
proof -
  obtain y w1 where start: "catch_if is_lock_timeout (begin_failed_event C ev)
      (\<lambda>_. bind (lift (result_human_required msg_session_busy)) (\<lambda>x. ret (Inl x))) w = (Inr y, w1)"
    and rest: "(case y of Inl z \<Rightarrow> ret z
     | Inr (s, a) \<Rightarrow> (\<lambda>w. let (r, h) = work_on_attempt C ev \<lparr>hd_world = w, hd_session = s, hd_attempt = a\<rparr> in (r, hd_world h))) w1
      = (Inr x, w')"
    using assms(1) by (auto simp: handle_failed_event_def bind_Inr_iff)
  show ?thesis
  proof (cases y)
    case (Inl z)
    then have z: "z = x" using rest by simp
    have "begin_failed_event C ev w = (Inr (Inl z), w1)"
      using start Inl z assms(2)
      by (auto simp: catch_if_def split: prod.splits sum.splits if_splits)
    then show ?thesis by (intro disjI1 fresh_not_answered)
  next
    case (Inr sa)
    obtain s a where sa: "sa = (s, a)" by fastforce
    obtain h where "work_on_attempt C ev \<lparr>hd_world = w1, hd_session = s, hd_attempt = a\<rparr> = (Inr x, h)" "w' = hd_world h"
      using rest Inr sa by (auto simp: Let_def split: prod.splits)
    then show ?thesis
      using triple_Inr [OF work_released] assms(2) by (fastforce simp: ready_released_def)
  qed
qed

section \<open>A new failed event is answered\<close>

lemma sure_step:
  assumes "preserves P m" "\<And>s. is_ok (fst (m s))"
  shows "triple P m (\<lambda>_. P) (\<lambda>_. False)"
proof (rule tripleI)
  show "P s'" if "P s" "m s = (Inr x, s')" for s x s' by (rule preserves_run [OF assms(1) that])
  show "False" if "P s" "m s = (Inl e, s')" for s e s' using assms(2) [of s] that(2) by simp
qed

lemma persist_sure:
  assumes "storable x"
  shows "triple (handling_ok t key) (persist C x) (\<lambda>y h. y = x \<and> answered C t key y (hd_world h)) (\<lambda>_. False)"
proof -
  have "case persist C x h of (Inl e, h') \<Rightarrow> False | (Inr y, h') \<Rightarrow> y = x \<and> answered C t key y (hd_world h')"
    if "handling_ok t key h" for h
    using persist_cases [OF that, of C x] storable_sanitize [OF assms, of "sv_float (sc_run C)"] by auto
  then show ?thesis by (simp add: triple_def)
qed

lemma human_sure:
  assumes "storable (human_answer m)" "strip m \<noteq> []"
  shows "triple (handling_ok t key) (human C m) (\<lambda>y h. answered C t key y (hd_world h)) (\<lambda>_. False)"
proof -
  have steps: "preserves (handling_ok t key) (set_attempt (\<lambda>a. a\<lparr>ra_status := AS_HUMAN_REQUIRED, ra_updated_at := now\<rparr>))"
    "preserves (handling_ok t key) (set_session (\<lambda>s. s\<lparr>rs_status := SS_HUMAN_REQUIRED,
       rs_terminal_status := Some ''HUMAN_REQUIRED'', rs_updated_at := now\<rparr>))" for now
    by (rule set_attempt_ok, simp) (rule set_session_ok, simp add: alike_def)
  have total: "is_ok (fst (in_world (service_now C) h))" "is_ok (fst (set_attempt f h))" "is_ok (fst (set_session f' h))"
    "is_ok (fst (store_attempt h))" "is_ok (fst (store_session h))" "is_ok (fst (handling_emit ty stage payload h))"
    for h f f' ty stage payload
    by (simp_all add: in_world_run service_now_run set_attempt_def set_session_def store_attempt_def store_session_def
        handling_emit_def on_store_run save_attempt_def save_session_def service_emit_def emit_trace_def)
  have answer: "result_human_required m = Inr (human_answer m)"
    using assms(2) by (cases m) (simp_all add: result_human_required_def mk_external_result_iff valid_external_result_def has_text_def human_answer_def)
  have last: "triple (handling_ok t key) (persist C (human_answer m)) (\<lambda>y h. answered C t key y (hd_world h)) (\<lambda>_. False)"
    by (rule triple_weaken [OF persist_sure [OF assms(1)]]) simp_all
  show ?thesis
    unfolding human_def answer bind_lift_run
    by (intro triple_bind [OF sure_step] triple_seq [OF sure_step] clock_ok steps store_attempt_ok store_session_ok
        handling_emit_ok total last)
qed

lemma attempt_failed_sure:
  "triple (handling_ok t key) (attempt_failed C err) (\<lambda>y h. answered C t key y (hd_world h)) (\<lambda>_. False)"
proof -
  have "is_ok (fst (handling_emit ty stage payload h))" for ty stage payload h
    by (simp add: handling_emit_def in_world_run on_store_run service_emit_def emit_trace_def)
  then show ?thesis
    unfolding attempt_failed_def
    by (intro triple_if triple_seq [OF sure_step] handling_emit_ok human_sure storable_agent_failed storable_commit_busy) simp_all
qed

lemma work_on_attempt_sure:
  assumes "lock_respects C"
  shows "triple (handling_ok (ev_id ev) key) (work_on_attempt C ev) (\<lambda>y h. answered C (ev_id ev) key y (hd_world h)) (\<lambda>_. False)"
proof -
  have retire: "triple (handling_ok (ev_id ev) key) (retire_previous C ev) (\<lambda>_. handling_ok (ev_id ev) key) (\<lambda>_. False)"
    using retire_previous_run [where C = C and ev = ev] by (fastforce simp: triple_def)
  show ?thesis
    unfolding work_on_attempt_def
    by (intro triple_if human_sure storable_no_evidence triple_bind [OF retire] triple_try [OF agent_attempt_ok [OF assms]]
        attempt_failed_sure) simp_all
qed

lemma begin_fresh:
  assumes C: "lock_respects C" "store_ok w" and lock: "fst (sc_lock C (ev_id ev) w) = Inr ()"
    and fresh: "\<not> known_event C ev w" "ev_status ev = US_FAILED"
  shows "\<exists>z w'. begin_failed_event C ev w = (Inr (Inr z), w') \<and> taken_up (ev_id ev) (build_event_key ev) z w'"
proof -
  define w1 where "w1 = snd (sc_lock C (ev_id ev) w)"
  define w2 where "w2 = w1\<lparr>sw_tick := Suc (sw_tick w1)\<rparr>"
  have lock': "sc_lock C (ev_id ev) w = (Inr (), w1)" using lock by (simp add: w1_def prod_eq_iff)
  have "store_ok w2" using lock_store [OF C(1)] C(2) by (simp add: preserves_def w1_def w2_def store_ok_def)
  then obtain s d where load: "on_store (load_or_create_for_event ev (sv_now (sc_run C) (sw_tick w1))) w2 = (Inr s, w2\<lparr>sw_disk := d\<rparr>)"
    "disk_ok d" "synced d s" "rs_session_id s = session_id_for_task (ev_id ev)"
    using load_or_create_run by blast
  have "find_event s (build_event_key ev) = None"
  proof (rule ccontr)
    assume "find_event s (build_event_key ev) \<noteq> None"
    moreover from this have "d_sessions (sw_disk w2) (session_id_for_task (ev_id ev)) = Some s"
      using load(1) by (auto simp: on_store_Inr dest: load_or_create_known)
    ultimately show False using fresh(1) by (simp add: known_event_def w1_def w2_def)
  qed
  with load fresh(2) obtain z w3 where new: "new_failed_event C ev s (w2\<lparr>sw_disk := d\<rparr>) = (Inr (Inr z), w3)"
    "taken_up (ev_id ev) (build_event_key ev) z w3" "find_event s (build_event_key ev) = None"
    using new_failed_event_run [of "w2\<lparr>sw_disk := d\<rparr>" s ev C] by auto
  obtain z' w4 where act: "activate C (build_event_key ev) z w3 = (Inr z', w4)" "taken_up (ev_id ev) (build_event_key ev) z' w4"
    using activate_run [OF new(2)] by blast
  have "begin_failed_event C ev w = (Inr (Inr z'), w4)"
    using lock' load(1) new act(1)
    by (simp add: begin_failed_event_def seq_def bind_def service_now_run w2_def)
  with act(2) show ?thesis by blast
qed

lemma fresh_event_answered:
  assumes "lock_respects C" "store_ok w" "fst (sc_lock C (ev_id ev) w) = Inr ()" "\<not> known_event C ev w" "ev_status ev = US_FAILED"
  shows "\<exists>x w'. handle_failed_event C ev w = (Inr x, w') \<and> valid_external_result x \<and>
    answered C (ev_id ev) (build_event_key ev) x w'"
proof -
  obtain s a w1 where start: "begin_failed_event C ev w = (Inr (Inr (s, a)), w1)"
    "handling_ok (ev_id ev) (build_event_key ev) \<lparr>hd_world = w1, hd_session = s, hd_attempt = a\<rparr>"
    using begin_fresh [OF assms] by (auto simp: taken_up_def)
  obtain r h where work: "work_on_attempt C ev \<lparr>hd_world = w1, hd_session = s, hd_attempt = a\<rparr> = (r, h)" by fastforce
  then obtain x where x: "r = Inr x"
    using triple_Inl [OF work_on_attempt_sure [OF assms(1)] start(2)] by (cases r) auto
  have "answered C (ev_id ev) (build_event_key ev) x (hd_world h)"
    by (rule triple_Inr [OF work_on_attempt_sure [OF assms(1)] start(2) work [unfolded x]])
  moreover have "valid_external_result x" by (rule triple_Inr [OF work_valid _ work [unfolded x]]) simp
  moreover have "handle_failed_event C ev w = (Inr x, hd_world h)"
    using start(1) work x by (simp add: handle_failed_event_def bind_def catch_if_def)
  ultimately show ?thesis by blast
qed

section \<open>The second delivery\<close>

lemma no_return_char: "CHR 0x0D \<notin> set (esc_char c)"
proof -
  have "code c < 32 \<Longrightarrow> hex_digit (code c div 16) \<noteq> CHR 0x0D" "hex_digit (code c mod 16) \<noteq> CHR 0x0D"
    by (rule hex_digit_printable; simp add: hex_value_def is_digit_def code_def)+
  moreover have "code (CHR 0x0D) = 13" by (simp add: code_def)
  ultimately show ?thesis by (cases "c = CHR 0x0D") (auto simp: esc_char_def)
qed

lemma no_return_escape: "CHR 0x0D \<notin> set (json_string s)"
  using no_return_char by (auto simp: json_string_def)

lemma dump_external_text: "CHR 0x0D \<notin> set (json_file_text fl (dump_external x))"
  using no_return_escape
  by (cases "xr_sql x"; cases "xr_message x")
    (auto simp: json_file_text_def dump_external_def json_of_opt_def indent_style_def)

lemma external_of_dump: "valid_external_result x \<Longrightarrow> external_of_json (dump_external x) = Inr x"
  by (cases x; cases "xr_status x"; cases "xr_sql x"; cases "xr_message x")
    (auto simp: external_of_json_def dump_external_def dict_get_def dict_keys_def json_of_opt_def external_status_of_def
      mk_external_result_iff)

lemma answered_again:
  assumes x: "answered C (ev_id ev) (build_event_key ev) x w" "valid_external_result x" "storable x"
    and lock: "sc_lock C (ev_id ev) w = (Inr (), w)"
  shows "handle_failed_event C ev w = (Inr x, w\<lparr>sw_tick := Suc (sw_tick w)\<rparr>)"
proof -
  obtain s r path content where s: "disk_ok (sw_disk w)" "d_sessions (sw_disk w) (session_id_for_task (ev_id ev)) = Some s"
    "find_event s (build_event_key ev) = Some r" "er_result_ref r = Some path" "path \<noteq> []"
    "sanitize (json_file_text (sv_float (sc_run C)) (dump_external x)) = Inr content" "file_at path (sw_disk w) = Some content"
    using x(1) by (auto simp: answered_def)
  have content: "content = json_file_text (sv_float (sc_run C)) (dump_external x)"
    using s(6) storable_sanitize [OF x(3), of "sv_float (sc_run C)"] by simp
  have plain: "plain_json (dump_external x)" by (simp add: dump_external_def json_of_opt_def split: option.split)
  have "read_json path (sw_disk w) = Inr (dump_external x)"
    using s(7) dump_external_text [of "sv_float (sc_run C)" x]
    by (simp add: read_json_def content normalize_newlines_id json_file_loads [OF plain])
  then have "load_processed_failed_result r (sw_disk w) = Inr (Some x)"
    using s(4,5,7) external_of_dump [OF x(2)] by (simp add: load_processed_failed_result_def Let_def truthy_iff)
  moreover have "validate_candidate_pair s = Inr s" by (rule validate_loaded [OF disk_ok_session [OF s(1,2)]])
  ultimately have "begin_failed_event C ev w = (Inr (Inl x), w\<lparr>sw_tick := Suc (sw_tick w)\<rparr>)"
    using lock s(2,3)
    by (simp add: begin_failed_event_def seq_def bind_def service_now_run on_store_run load_or_create_for_event_def
        load_for_task_def known_failed_event_def)
  then show ?thesis by (simp add: handle_failed_event_def bind_def catch_if_def)
qed

section \<open>SUCCESS events\<close>

lemma confirmed_lock: "lock_respects C \<Longrightarrow> preserves (confirmed_in t sql aid) (sc_lock C t)"
  by (auto simp: preserves_def confirmed_in_def lock_respects_def)

lemma confirmed_memory: "preserves (confirmed_in t sql aid) (on_memory m)"
  by (simp add: preserves_def on_memory_def via_def confirmed_in_def case_prod_beta)

lemma confirmed_read: "preserves (confirmed_in t sql aid) (on_store (\<lambda>d. (f d, d)))"
  by (simp add: preserves_def on_store_run confirmed_in_def)

lemma confirmed_remember: "preserves (confirmed_in t sql aid) (remember C x)"
  unfolding remember_def Let_def case_prod_beta
  by (intro keeps confirmed_read confirmed_memory confirmed_same_store same_store_emit same_store_tick)

lemma confirmed_close:
  assumes "confirmed_in t sql aid w" "d_sessions (sw_disk w) (session_id_for_task t) = Some s"
  shows "confirmed_in t sql aid (snd (close_success C key why s w))"
proof (cases "find_event s key")
  case None
  with assms(1) show ?thesis by (simp add: close_success_def)
next
  case (Some r)
  let ?now = "sv_now (sc_run C) (sw_tick w)"
  have w: "disk_ok (sw_disk w)" "synced (sw_disk w) s" "rs_session_id s = session_id_for_task t"
    using assms by (auto simp: confirmed_in_def synced_def dest: disk_ok_id)
  obtain s' d' where f: "finish_event s r None why EP_SUCCEEDED ?now (sw_disk w) = (Inr s', d')" "disk_ok d'"
    using finish_in_hand [OF w(1) synced_in_hand [OF w(2)] Some, of None why EP_SUCCEEDED ?now] by blast
  note res = finish_event_result [OF f(1)]
  have "snd (close_success C key why s w) = w\<lparr>sw_tick := Suc (sw_tick w), sw_disk := put_session s' (sw_disk w)\<rparr>"
    using f res by (simp add: close_success_def Some bind_def service_now_run on_store_run)
  then show ?thesis using assms f(2) res w(3) by (auto simp: confirmed_in_def)
qed

lemma confirmed_load:
  assumes "confirmed_in t sql aid w"
  shows "\<exists>s. on_store (load_for_task t) w = (Inr (Some s), w) \<and> load_for_task t (sw_disk w) = (Inr (Some s), sw_disk w) \<and>
    d_sessions (sw_disk w) (session_id_for_task t) = Some s"
proof -
  obtain s where s: "disk_ok (sw_disk w)" "d_sessions (sw_disk w) (session_id_for_task t) = Some s"
    using assms by (auto simp: confirmed_in_def)
  then have "validate_candidate_pair s = Inr s" by (intro validate_loaded disk_ok_session)
  with s(2) show ?thesis by (simp add: on_store_run load_for_task_def)
qed

lemma confirmed_reload:
  assumes "\<And>s w :: 'x service_world. confirmed_in t sql aid w \<Longrightarrow> d_sessions (sw_disk w) (session_id_for_task t) = Some s \<Longrightarrow>
     confirmed_in t sql aid (snd (k (Some s) w))"
  shows "preserves (confirmed_in t sql aid) (bind (on_store (load_for_task t)) k)"
  unfolding preserves_def
proof (intro allI impI)
  fix w :: "'x service_world" assume w: "confirmed_in t sql aid w"
  obtain s where s: "on_store (load_for_task t) w = (Inr (Some s), w)" "d_sessions (sw_disk w) (session_id_for_task t) = Some s"
    using confirmed_load [OF w] by blast
  with assms [OF w s(2)] show "confirmed_in t sql aid (snd (bind (on_store (load_for_task t)) k w))"
    by (simp add: bind_def)
qed

lemma confirmed_finish:
  assumes "lock_respects C"
  shows "preserves (confirmed_in (ev_id ev) sql aid) (finish_success C ev x)"
proof -
  have tail: "confirmed_in (ev_id ev) sql aid (snd (seq (close_success C k why s) (lift y) w))"
    if "confirmed_in (ev_id ev) sql aid w" "d_sessions (sw_disk w) (session_id_for_task (ev_id ev)) = Some s"
    for k why s w and y :: "external_result outcome"
    using confirmed_close [OF that, of C k why]
    by (cases "close_success C k why s w") (auto simp: seq_def bind_def split: sum.split)
  show ?thesis
    unfolding finish_success_def
    by (intro keeps confirmed_remember confirmed_lock assms confirmed_reload)
      (auto simp del: result_success_ack_simp intro: tail)
qed

lemma confirmed_degrade:
  assumes "lock_respects C"
  shows "preserves (confirmed_in (ev_id ev) sql aid) (degrade_success C ev x err)"
proof -
  have tail: "confirmed_in (ev_id ev) sql aid (snd (seq (close_success C k why s) (lift y) w))"
    if "confirmed_in (ev_id ev) sql aid w" "d_sessions (sw_disk w) (session_id_for_task (ev_id ev)) = Some s"
    for k why s w and y :: "external_result outcome"
    using confirmed_close [OF that, of C k why]
    by (cases "close_success C k why s w") (auto simp: seq_def bind_def split: sum.split)
  show ?thesis
    unfolding degrade_success_def Let_def case_prod_beta
    by (intro keeps confirmed_same_store same_store_emit confirmed_lock assms confirmed_reload)
      (auto simp del: result_success_ack_simp intro: tail)
qed

lemma confirmed_failed:
  fixes C :: "('t, 'x) service_config"
  shows "preserves (confirmed_in (ev_id ev) sql aid) (success_failed C ev err)"
proof -
  have load: "preserves (confirmed_in (ev_id ev) sql aid :: 'x service_world \<Rightarrow> bool) (on_store (load_or_create_for_event ev now))" for now
    unfolding preserves_def
  proof (intro allI impI)
    fix w :: "'x service_world" assume w: "confirmed_in (ev_id ev) sql aid w"
    from confirmed_load [OF w] show "confirmed_in (ev_id ev) sql aid (snd (on_store (load_or_create_for_event ev now) w))"
      using w by (auto simp: on_store_run load_or_create_for_event_def bind_def)
  qed
  show ?thesis
    unfolding success_failed_def by (intro keeps load confirmed_same_store same_store_tick same_store_emit)
qed

text \<open>The session, the attempts of the task and the memory before and after a SUCCESS is recorded.\<close>

definition unconfirmed :: "repair_session \<Rightarrow> repair_session \<Rightarrow> bool" where
  "unconfirmed s t \<longleftrightarrow>
     rs_session_id t = rs_session_id s \<and> rs_latest_sql_candidate t = rs_latest_sql_candidate s \<and>
     rs_latest_attempt_id t = rs_latest_attempt_id s \<and> rs_status t = rs_status s \<and>
     rs_confirmed_sql t = rs_confirmed_sql s \<and> rs_confirmed_attempt_id t = rs_confirmed_attempt_id s"

lemma receive_run:
  assumes w: "loaded t s w" and r: "find_event s (er_event_key r) = None" "er_session_id r = rs_session_id s" "er_attempt_id r = None"
  shows "\<exists>s1 w1. loaded t s1 w1 \<and> find_event s1 (er_event_key r) = Some r \<and> unconfirmed s s1 \<and>
    d_attempts (sw_disk w1) = d_attempts (sw_disk w) \<and> sw_memory w1 = sw_memory w \<and>
    receive_success C ev s r w =
      (case (rs_latest_sql_candidate s1, rs_latest_attempt_id s1) of
          (Some sql, Some aid) \<Rightarrow> if ev_sql ev \<noteq> sql then success_unmatched C s1 r else success_matched C s1 sql aid
        | _ \<Rightarrow> success_unmatched C s1 r) w1"
proof -
  let ?now = "sv_now (sc_run C) (sw_tick w)"
  define s1 where "s1 = s\<lparr>rs_events := rs_events s @ [r], rs_updated_at := ?now\<rparr>"
  obtain s' d1 where one: "append_upstream_event s r ?now (sw_disk w) = (Inr s', d1)" "disk_ok d1" "synced d1 s'"
    "rs_session_id s' = rs_session_id s" "d_attempts d1 = d_attempts (sw_disk w)"
    using append_upstream_event_ok [of "sw_disk w" s r ?now] w r by (auto simp: loaded_def)
  have s': "s' = s1" using one(1) r(1) by (auto simp: append_upstream_event_def Let_def save_session_def s1_def)
  define w0 where "w0 = w\<lparr>sw_tick := Suc (sw_tick w), sw_disk := d1\<rparr>"
  have "loaded t s1 w0" using one w by (simp add: loaded_def w0_def s')
  moreover obtain ts where emit: "service_emit (rs_session_id s1) ''upstream_success_received'' ''upstream_event'' [] None w0
      = (Inr (), w0\<lparr>sw_disk := (sw_disk w0)\<lparr>d_trace := ts\<rparr>\<rparr>)"
    using service_emit_run by blast
  ultimately have loaded1: "loaded t s1 (w0\<lparr>sw_disk := (sw_disk w0)\<lparr>d_trace := ts\<rparr>\<rparr>)"
    by (auto simp: loaded_def synced_def)
  have "receive_success C ev s r w =
      (case (rs_latest_sql_candidate s1, rs_latest_attempt_id s1) of
          (Some sql, Some aid) \<Rightarrow> if ev_sql ev \<noteq> sql then success_unmatched C s1 r else success_matched C s1 sql aid
        | _ \<Rightarrow> success_unmatched C s1 r) (w0\<lparr>sw_disk := (sw_disk w0)\<lparr>d_trace := ts\<rparr>\<rparr>)"
    using one(1) emit by (simp add: receive_success_def bind_def seq_def service_now_run on_store_run s' w0_def)
  moreover have "find_event s1 (er_event_key r) = Some r" using append_found [OF one(1) r(1)] by (simp add: s')
  moreover have "unconfirmed s s1" by (simp add: unconfirmed_def s1_def)
  moreover have "d_attempts (sw_disk (w0\<lparr>sw_disk := (sw_disk w0)\<lparr>d_trace := ts\<rparr>\<rparr>)) = d_attempts (sw_disk w)"
    "sw_memory (w0\<lparr>sw_disk := (sw_disk w0)\<lparr>d_trace := ts\<rparr>\<rparr>) = sw_memory w"
    using one(5) by (simp_all add: w0_def)
  ultimately show ?thesis using loaded1 by blast
qed

lemma begin_success_new:
  assumes C: "lock_respects C" "disk_ok (sw_disk w)" and lock: "sc_lock C (ev_id ev) w = (Inr (), w0)"
    and s: "d_sessions (sw_disk w) (session_id_for_task (ev_id ev)) = Some s" "find_event s (build_event_key ev) = None"
  shows "\<exists>r w1. begin_success_event C ev w = receive_success C ev s r w1 \<and> loaded (ev_id ev) s w1 \<and> sw_disk w1 = sw_disk w0 \<and>
     sw_memory w1 = sw_memory w0 \<and> er_event_key r = build_event_key ev \<and> er_session_id r = rs_session_id s \<and> er_attempt_id r = None"
proof -
  have w0: "disk_ok (sw_disk w0)" "d_sessions (sw_disk w0) (session_id_for_task (ev_id ev)) = Some s"
    using C lock s(1) unfolding lock_respects_def by (metis snd_conv)+
  then have valid: "validate_candidate_pair s = Inr s" by (intro validate_loaded disk_ok_session)
  have id: "rs_session_id s = session_id_for_task (ev_id ev)" using w0 by (rule disk_ok_id)
  let ?w1 = "w0\<lparr>sw_tick := Suc (Suc (sw_tick w0))\<rparr>"
  let ?r = "create_event_record s ev (sv_now (sc_run C) (Suc (sw_tick w0)))"
  have "begin_success_event C ev w = receive_success C ev s ?r ?w1"
    using lock w0(2) valid s(2)
    by (simp add: begin_success_event_def seq_def bind_def service_now_run on_store_run load_or_create_for_event_def
        load_for_task_def)
  moreover have "loaded (ev_id ev) s ?w1" using w0 id by (simp add: loaded_def synced_def)
  ultimately show ?thesis by (intro exI [of _ ?r] exI [of _ ?w1]) (simp add: create_event_record_def)
qed

lemma success_unmatched_run:
  assumes "loaded t s w" "find_event s k = Some r"
  shows "\<exists>s' w'. success_unmatched C s r w = (Inr (Inl \<lparr>xr_status = SUCCESS_ACK, xr_sql = None, xr_message = Some msg_success_unmatched\<rparr>), w') \<and>
    d_sessions (sw_disk w') (session_id_for_task t) = Some s' \<and> unconfirmed s s' \<and>
    d_attempts (sw_disk w') = d_attempts (sw_disk w) \<and> sw_memory w' = sw_memory w"
proof -
  let ?now = "sv_now (sc_run C) (sw_tick w)"
  obtain ts where emit: "service_emit (rs_session_id s) ''upstream_success_unmatched_candidate'' ''upstream_event'' [] None w
      = (Inr (), w\<lparr>sw_disk := (sw_disk w)\<lparr>d_trace := ts\<rparr>\<rparr>)"
    using service_emit_run by blast
  have ok: "disk_ok ((sw_disk w)\<lparr>d_trace := ts\<rparr>)" "in_hand ((sw_disk w)\<lparr>d_trace := ts\<rparr>) s"
    using assms(1) by (auto simp: loaded_def synced_def intro: synced_in_hand)
  obtain s' d' where f: "finish_event s r None (Some ''UNMATCHED_SUCCESS'') EP_SUCCEEDED ?now ((sw_disk w)\<lparr>d_trace := ts\<rparr>) = (Inr s', d')"
    using finish_in_hand [OF ok assms(2)] by blast
  note res = finish_event_result [OF f]
  let ?w' = "w\<lparr>sw_disk := d', sw_tick := Suc (sw_tick w)\<rparr>"
  have "success_unmatched C s r w = (Inr (Inl \<lparr>xr_status = SUCCESS_ACK, xr_sql = None, xr_message = Some msg_success_unmatched\<rparr>), ?w')"
    using emit f by (simp add: success_unmatched_def seq_def bind_def service_now_run on_store_run)
  moreover have "d_sessions d' (session_id_for_task t) = Some s'" "d_attempts d' = d_attempts (sw_disk w)"
    using res assms(1) by (simp_all add: loaded_def)
  moreover have "unconfirmed s s'" using res by (simp add: unconfirmed_def)
  ultimately show ?thesis by (intro exI [of _ s'] exI [of _ ?w']) simp
qed

text \<open>An answer to a SUCCESS event carries no SQL.\<close>

definition no_candidate :: "external_result \<Rightarrow> bool" where
  "no_candidate x \<longleftrightarrow> xr_status x \<noteq> SQL_READY \<and> xr_sql x = None"

lemma plain_answers:
  "ends_in (bind (lift (result_success_ack m)) (\<lambda>x. ret (Inl x))) (\<lambda>y _. case y of Inl x \<Rightarrow> no_candidate x | Inr _ \<Rightarrow> True)"
  "ends_in (bind (lift (result_human_required m')) (\<lambda>x. ret (Inl x))) (\<lambda>y _. case y of Inl x \<Rightarrow> no_candidate x | Inr _ \<Rightarrow> True)"
  "ends_in (lift (result_success_ack m)) (\<lambda>x _. no_candidate x)"
  "ends_in (lift (result_human_required m')) (\<lambda>x _. no_candidate x)"
  by (auto simp: triple_def bind_def result_human_required_def mk_external_result_iff no_candidate_def
      split: sum.splits)

lemma begin_success_plain:
  "ends_in (begin_success_event C ev) (\<lambda>y _. case y of Inl x \<Rightarrow> no_candidate x | Inr _ \<Rightarrow> True)"
proof -
  have un: "ends_in (success_unmatched C s r) (\<lambda>y _. case y of Inl x \<Rightarrow> no_candidate x | Inr _ \<Rightarrow> True)" for s r
    unfolding success_unmatched_def by (intro ends_seq ends_bind plain_answers)
  have ma: "ends_in (success_matched C s sql aid) (\<lambda>y _. case y of Inl x \<Rightarrow> no_candidate x | Inr _ \<Rightarrow> True)" for s sql aid
    unfolding success_matched_def Let_def by (intro ends_seq ends_bind triple_ret) simp
  have rec: "ends_in (receive_success C ev s r) (\<lambda>y _. case y of Inl x \<Rightarrow> no_candidate x | Inr _ \<Rightarrow> True)" for s r
    unfolding receive_success_def
    by (intro ends_seq ends_bind) (auto split: option.split intro: un ma)
  have "ends_in (case find_event s (build_event_key ev) of
        Some r \<Rightarrow> if er_processing_status r = EP_SUCCEEDED then bind (lift (result_success_ack None)) (\<lambda>x. ret (Inl x))
          else receive_success C ev s r
      | None \<Rightarrow> bind (service_now C) (\<lambda>now. receive_success C ev s (create_event_record s ev now)))
      (\<lambda>y _. case y of Inl x \<Rightarrow> no_candidate x | Inr _ \<Rightarrow> True)" for s
    by (cases "find_event s (build_event_key ev)") (auto simp del: result_success_ack_simp intro: rec plain_answers ends_bind)
  then show ?thesis unfolding begin_success_event_def by (intro ends_seq ends_bind)
qed

lemma handle_success_plain: "ends_in (handle_success_event C ev) (\<lambda>x _. no_candidate x)"
proof -
  have start: "ends_in (catch_if is_lock_timeout (begin_success_event C ev)
      (\<lambda>_. bind (lift (result_human_required msg_session_busy)) (\<lambda>x. ret (Inl x))))
      (\<lambda>y _. case y of Inl x \<Rightarrow> no_candidate x | Inr _ \<Rightarrow> True)"
    by (rule triple_catch [OF begin_success_plain plain_answers(2)]) simp
  have fin: "ends_in (finish_success C ev z) (\<lambda>x _. no_candidate x)" for z
  proof -
    have "ends_in (case f of None \<Rightarrow> lift (result_human_required msg_success_lost)
      | Some s \<Rightarrow> seq (close_success C (build_event_key ev) None s) (lift (result_success_ack (Some msg_success_confirmed))))
      (\<lambda>x _. no_candidate x)" for f
      by (cases f) (auto simp del: result_human_required_simp result_success_ack_simp intro: plain_answers ends_seq)
    then show ?thesis unfolding finish_success_def by (intro ends_seq ends_bind)
  qed
  have deg: "ends_in (degrade_success C ev z err) (\<lambda>x _. no_candidate x)" for z err
    unfolding degrade_success_def Let_def case_prod_beta by (intro ends_seq ends_bind plain_answers)
  have "triple (\<lambda>_. case y of Inl x \<Rightarrow> no_candidate x | Inr _ \<Rightarrow> True)
      (case y of Inl x \<Rightarrow> ret x | Inr z \<Rightarrow> try_catch (finish_success C ev z) (degrade_success C ev z)) (\<lambda>x _. no_candidate x) (\<lambda>_. True)" for y
    by (cases y) (auto intro: triple_ret triple_try [OF fin deg])
  then show ?thesis unfolding handle_success_event_def by (rule triple_bind [OF start])
qed

lemma success_failed_plain: "ends_in (success_failed C ev err) (\<lambda>x _. no_candidate x)"
  unfolding success_failed_def by (intro ends_seq ends_bind plain_answers)

end
