(* ===== verification/Service_Properties.thy ===== *)
theory Service_Properties
  imports Service_Answers Run_Properties
begin

text \<open>The properties of the service.\<close>

section \<open>Candidates\<close>


section \<open>A service of one worker\<close>

text \<open>
  A concrete service for the examples: one worker, so the lock is granted at once and nobody else writes,
  no LLM client, and an event with neither a log nor an error message.
\<close>

definition sample_services :: "(string, unit) services" where
  "sample_services =
     \<lparr>sv_config = default_agent_config, sv_client = None, sv_now = digits, sv_uuid = digits, sv_ms = int,
      sv_float = (\<lambda>_. ''0.5''), sv_repr = (\<lambda>s. s), sv_vocab = [], sv_digest = (\<lambda>_ _ _. Inl (OtherError ''log'')),
      sv_dump_digest = (\<lambda>_. Js_null), sv_tables = (\<lambda>_. Inl ''no parser''), sv_metadata = [], sv_keywords = [],
      sv_memory = \<lparr>md_files = [], md_index = None\<rparr>, sv_engine = text_engine, sv_allow_medium = False,
      sv_dump_context = (\<lambda>_. []), sv_sorted_dump = (\<lambda>_. []), sv_dump_summary = (\<lambda>_. [])\<rparr>"

definition sample_service :: "(string, unit) service_config" where
  "sample_service =
     \<lparr>sc_run = sample_services, sc_lock = (\<lambda>_. ret ()), sc_date = digits, sc_mtime = int,
      sc_diagnosis_of = (\<lambda>_. Inl (ValidationError ''x'')), sc_plan_of = (\<lambda>_. Inl (ValidationError ''x'')),
      sc_metadata_of = (\<lambda>_. Inl (ValidationError ''x''))\<rparr>"

definition empty_world :: "unit service_world" where
  "empty_world =
     \<lparr>sw_disk = \<lparr>d_base = ''.s'', d_sessions = Map.empty, d_attempts = Map.empty, d_files = Map.empty, d_trace = []\<rparr>,
      sw_memory = \<lparr>md_files = [], md_index = None\<rparr>, sw_active = {}, sw_tick = 0, sw_outside = ()\<rparr>"

definition silent_event :: upstream_event where
  "silent_event = \<lparr>ev_id = ''t1'', ev_status = US_FAILED, ev_sql = ''SELECT usr FROM t'', ev_error_message = None, ev_log_path = None\<rparr>"

lemma sample_lock: "lock_respects sample_service" "sc_lock sample_service t w = (Inr (), w)"
  by (simp_all add: lock_respects_def sample_service_def)

lemma sample_enabled: "cf_agentic_enabled (sv_config (sc_run sample_service))"
  by (simp add: sample_service_def sample_services_def default_agent_config_def)

lemma empty_world_ok: "disk_ok (sw_disk empty_world)" "\<not> known_event sample_service ev empty_world"
  by (simp_all add: disk_ok_def empty_world_def known_event_def sample_lock)

lemma silent_fields: "ev_status silent_event = US_FAILED" "ev_id silent_event = ''t1''"
  by (simp_all add: silent_event_def)

section \<open>The stored state\<close>



section \<open>Answers to FAILED events\<close>

text \<open>C3. A FAILED event that is not on record yet is always answered once the lock is granted: whatever the
  run of the agent does or raises, the service returns a valid answer and has recorded it as the result of
  the event. In particular the messages the handlers fall back to pass the sanitizer.
\<close>

theorem failed_event_always_answered:
  assumes "lock_respects C" "disk_ok (sw_disk w)" "fst (sc_lock C (ev_id ev) w) = Inr ()"
    and "\<not> known_event C ev w" "ev_status ev = US_FAILED" "cf_agentic_enabled (sv_config (sc_run C))"
  shows "\<exists>x w'. handle_upstream_event C ev w = (Inr x, w') \<and> valid_external_result x \<and>
    answered C (ev_id ev) (build_event_key ev) x w'"
  using fresh_event_answered [of C w ev] assms by (simp add: store_ok_def handle_upstream_event_def)

theorem failed_event_always_answered_witness:
  "\<exists>x w'. handle_upstream_event sample_service silent_event empty_world = (Inr x, w') \<and> valid_external_result x \<and>
     answered sample_service ''t1'' (build_event_key silent_event) x w'"
  using failed_event_always_answered [OF sample_lock(1) empty_world_ok(1) _ empty_world_ok(2) silent_fields(1) sample_enabled]
  by (simp add: sample_lock silent_fields)

text \<open>C4. A second delivery of an answered FAILED event returns the answer of the first one, read back from its
  file, and changes nothing that is stored: no new attempt, no second run, no trace. The stored text of the
  answer has to be one the sanitizer leaves alone.
\<close>

theorem second_delivery_replays:
  assumes first: "lock_respects C" "disk_ok (sw_disk w)" "fst (sc_lock C (ev_id ev) w) = Inr ()"
      "\<not> known_event C ev w" "ev_status ev = US_FAILED" "cf_agentic_enabled (sv_config (sc_run C))"
    and answer: "handle_upstream_event C ev w = (Inr x, w1)" "storable x"
    and second: "sc_lock C (ev_id ev) w1 = (Inr (), w1)"
  shows "handle_upstream_event C ev w1 = (Inr x, w1\<lparr>sw_tick := Suc (sw_tick w1)\<rparr>)"
proof -
  have h: "handle_failed_event C ev w = (Inr x, w1)" using answer(1) first by (simp add: handle_upstream_event_def)
  have "valid_external_result x" "answered C (ev_id ev) (build_event_key ev) x w1"
    using fresh_event_answered [of C w ev] first h by (auto simp: store_ok_def)
  from answered_again [OF this(2,1) answer(2) second] first show ?thesis by (simp add: handle_upstream_event_def)
qed

lemma silent_answer:
  "\<exists>w1. handle_upstream_event sample_service silent_event empty_world = (Inr (human_answer msg_no_evidence), w1)"
proof -
  obtain s a w' where start: "begin_failed_event sample_service silent_event empty_world = (Inr (Inr (s, a)), w')"
    "handling_ok ''t1'' (build_event_key silent_event) \<lparr>hd_world = w', hd_session = s, hd_attempt = a\<rparr>"
    using begin_fresh [OF sample_lock(1), of empty_world silent_event] empty_world_ok
    by (auto simp: store_ok_def sample_lock taken_up_def silent_fields)
  obtain r h where run: "human sample_service msg_no_evidence \<lparr>hd_world = w', hd_session = s, hd_attempt = a\<rparr> = (r, h)" by fastforce
  obtain x where r: "r = Inr x"
    using triple_Inl [OF human_sure [OF storable_no_evidence strip_msg_no_evidence] start(2)] run by (cases r) auto
  have "x = human_answer msg_no_evidence"
    using triple_Inr [OF human_ok start(2) run [unfolded r]] by (simp add: human_answer_def)
  moreover have "work_on_attempt sample_service silent_event = human sample_service msg_no_evidence"
    by (simp add: work_on_attempt_def silent_event_def)
  ultimately show ?thesis
    using start(1) run r
    by (simp add: handle_upstream_event_def handle_failed_event_def bind_def catch_if_def sample_enabled silent_fields)
qed

theorem second_delivery_replays_witness:
  "\<exists>w1 w2. handle_upstream_event sample_service silent_event empty_world = (Inr (human_answer msg_no_evidence), w1) \<and>
     handle_upstream_event sample_service silent_event w1 = (Inr (human_answer msg_no_evidence), w2) \<and>
     sw_disk w2 = sw_disk w1"
proof -
  obtain w1 where one: "handle_upstream_event sample_service silent_event empty_world = (Inr (human_answer msg_no_evidence), w1)"
    using silent_answer by blast
  have "handle_upstream_event sample_service silent_event w1 =
      (Inr (human_answer msg_no_evidence), w1\<lparr>sw_tick := Suc (sw_tick w1)\<rparr>)"
    by (rule second_delivery_replays [OF sample_lock(1) empty_world_ok(1) _ empty_world_ok(2) silent_fields(1)
          sample_enabled one storable_no_evidence]) (simp_all add: sample_lock)
  with one show ?thesis by fastforce
qed

section \<open>SUCCESS events\<close>

text \<open>C6. A SUCCESS whose SQL is not exactly the candidate the session waits for is acknowledged and confirms
  nothing: the session keeps its candidate, its status and what was confirmed before, no attempt of the task
  changes, and no experience is written.
\<close>

theorem unmatched_success_confirms_nothing:
  assumes "lock_respects C" "disk_ok (sw_disk w)" "sc_lock C (ev_id ev) w = (Inr (), w0)" "ev_status ev = US_SUCCESS"
    and s: "d_sessions (sw_disk w) (session_id_for_task (ev_id ev)) = Some s" "find_event s (build_event_key ev) = None"
    and other: "rs_latest_sql_candidate s \<noteq> Some (ev_sql ev)"
  shows "\<exists>s' w'. handle_upstream_event C ev w =
      (Inr \<lparr>xr_status = SUCCESS_ACK, xr_sql = None, xr_message = Some msg_success_unmatched\<rparr>, w') \<and>
    d_sessions (sw_disk w') (session_id_for_task (ev_id ev)) = Some s' \<and> unconfirmed s s' \<and>
    d_attempts (sw_disk w') = d_attempts (sw_disk w0) \<and> sw_memory w' = sw_memory w0"
proof -
  obtain r w1 where one: "begin_success_event C ev w = receive_success C ev s r w1" "loaded (ev_id ev) s w1"
    "sw_disk w1 = sw_disk w0" "sw_memory w1 = sw_memory w0"
    "er_event_key r = build_event_key ev" "er_session_id r = rs_session_id s" "er_attempt_id r = None"
    using begin_success_new [OF assms(1-3) s] by blast
  obtain s1 w2 where two: "loaded (ev_id ev) s1 w2" "find_event s1 (er_event_key r) = Some r" "unconfirmed s s1"
    "d_attempts (sw_disk w2) = d_attempts (sw_disk w1)" "sw_memory w2 = sw_memory w1"
    "receive_success C ev s r w1 =
      (case (rs_latest_sql_candidate s1, rs_latest_attempt_id s1) of
          (Some sql, Some aid) \<Rightarrow> if ev_sql ev \<noteq> sql then success_unmatched C s1 r else success_matched C s1 sql aid
        | _ \<Rightarrow> success_unmatched C s1 r) w2"
    using receive_run [OF one(2), of r C ev] one s(2) by auto
  have "receive_success C ev s r w1 = success_unmatched C s1 r w2"
    using two(3,6) other by (auto simp: unconfirmed_def split: option.splits)
  with success_unmatched_run [OF two(1,2), of C] obtain s' w' where three:
    "begin_success_event C ev w = (Inr (Inl \<lparr>xr_status = SUCCESS_ACK, xr_sql = None, xr_message = Some msg_success_unmatched\<rparr>), w')"
    "d_sessions (sw_disk w') (session_id_for_task (ev_id ev)) = Some s'" "unconfirmed s1 s'"
    "d_attempts (sw_disk w') = d_attempts (sw_disk w2)" "sw_memory w' = sw_memory w2"
    using one(1) by auto
  have "handle_upstream_event C ev w =
      (Inr \<lparr>xr_status = SUCCESS_ACK, xr_sql = None, xr_message = Some msg_success_unmatched\<rparr>, w')"
    using three(1) assms(4) by (simp add: handle_upstream_event_def handle_success_event_def try_catch_def catch_if_def bind_def)
  moreover have "unconfirmed s s'" using two(3) three(3) by (simp add: unconfirmed_def)
  ultimately show ?thesis using three one two by auto
qed


text \<open>A session that waits for a candidate, and a SUCCESS for it and for another text.\<close>

definition waiting_session :: repair_session where
  "waiting_session = (new_session ''.s'' silent_event ''T0'')
     \<lparr>rs_status := SS_SQL_READY_PENDING_UPSTREAM, rs_latest_sql_candidate := Some ''SELECT user_id FROM t'',
      rs_latest_attempt_id := Some (attempt_name 1), rs_attempt_ids := [attempt_name 1]\<rparr>"

definition waiting_world :: "unit service_world" where
  "waiting_world = empty_world\<lparr>sw_disk := (sw_disk empty_world)\<lparr>d_sessions := [session_id_for_task ''t1'' \<mapsto> waiting_session],
     d_attempts := [(session_id_for_task ''t1'', attempt_name 1) \<mapsto>
       new_attempt (new_session ''.s'' silent_event ''T0'')
         (create_event_record (new_session ''.s'' silent_event ''T0'') silent_event ''T0'') ''T0'']\<rparr>\<rparr>"

definition success_event :: "string \<Rightarrow> upstream_event" where
  "success_event sql = silent_event\<lparr>ev_status := US_SUCCESS, ev_sql := sql\<rparr>"

lemma waiting_fields:
  "d_sessions (sw_disk waiting_world) (session_id_for_task ''t1'') = Some waiting_session"
  "find_event waiting_session k = None" "rs_latest_sql_candidate waiting_session = Some ''SELECT user_id FROM t''"
  "rs_latest_attempt_id waiting_session = Some (attempt_name 1)" "rs_session_id waiting_session = session_id_for_task ''t1''"
  "ev_id (success_event sql) = ''t1''" "ev_status (success_event sql) = US_SUCCESS" "ev_sql (success_event sql) = sql"
  by (simp_all add: waiting_world_def waiting_session_def find_event_def new_session_def Let_def success_event_def silent_event_def)

lemma waiting_world_ok: "disk_ok (sw_disk waiting_world)"
  by (auto simp: disk_ok_def session_ok_def record_ok_def waiting_world_def waiting_session_def new_session_def Let_def
      empty_world_def silent_event_def new_attempt_def split: if_splits)

theorem unmatched_success_confirms_nothing_witness:
  "\<exists>s' w'. handle_upstream_event sample_service (success_event ''SELECT 1'') waiting_world =
      (Inr \<lparr>xr_status = SUCCESS_ACK, xr_sql = None, xr_message = Some msg_success_unmatched\<rparr>, w') \<and>
    d_sessions (sw_disk w') (session_id_for_task ''t1'') = Some s' \<and> rs_confirmed_sql s' = None"
proof -
  have "rs_latest_sql_candidate waiting_session \<noteq> Some (ev_sql (success_event ''SELECT 1''))" by (simp add: waiting_fields)
  from unmatched_success_confirms_nothing [OF sample_lock(1) waiting_world_ok sample_lock(2) waiting_fields(7) _ waiting_fields(2) this]
  show ?thesis
    by (auto simp: waiting_fields unconfirmed_def) (simp add: waiting_session_def new_session_def Let_def)
qed


end
