(* ===== verification/Mock_Upstream.thy ===== *)
theory Mock_Upstream
  imports Service_Answers
begin

text \<open>
  \<open>mock_external_system/\<close>: an upstream system that plays a scenario. In each round it reports the
  current SQL as failed, takes the answer of the service, runs it in a mock executor and, if the executor
  accepts it, reports the success. It talks to the service by events only; that, the number of rounds and
  what each of the five final statuses stands for are the facts of this theory.
\<close>

section \<open>Scenarios\<close>

record mock_round =
  mr_no :: int
  mr_upstream_status :: upstream_status
  mr_error_message :: "string option"
  mr_log_path :: "string option"
  mr_condition :: "(string, json) dict option"

record mock_scenario =
  ms_id :: string
  ms_task :: string
  ms_max_retry :: int
  ms_allow_medium :: bool
  ms_sql :: string
  ms_rounds :: "mock_round list"

definition to_agent_failed_event :: "mock_scenario \<Rightarrow> string \<Rightarrow> mock_round \<Rightarrow> upstream_event" where
  "to_agent_failed_event sc sql r =
     \<lparr>ev_id = ms_task sc, ev_status = US_FAILED, ev_sql = sql, ev_error_message = mr_error_message r,
      ev_log_path = mr_log_path r\<rparr>"

definition to_agent_success_event :: "mock_scenario \<Rightarrow> string \<Rightarrow> upstream_event" where
  "to_agent_success_event sc sql =
     \<lparr>ev_id = ms_task sc, ev_status = US_SUCCESS, ev_sql = sql, ev_error_message = None, ev_log_path = None\<rparr>"

section \<open>The executor\<close>

record mock_execution =
  xe_status :: upstream_status
  xe_error_message :: "string option"
  xe_log_path :: "string option"

definition execution_failed :: "mock_round \<Rightarrow> mock_execution" where
  "execution_failed r =
     \<lparr>xe_status = US_FAILED, xe_error_message = mr_error_message r, xe_log_path = mr_log_path r\<rparr>"

text \<open>
  \<open>condition.get(key)\<close> where it is used as a text: a falsy value is skipped, another value that is
  not a text has no \<open>casefold\<close>.
\<close>

definition condition_text :: "(string, json) dict \<Rightarrow> string \<Rightarrow> string option outcome" where
  "condition_text c key =
     (case dict_get c key of
        None \<Rightarrow> Inr None
      | Some v \<Rightarrow>
          if \<not> json_truthy v then Inr None
          else (case v of Js_text t \<Rightarrow> Inr (Some t) | _ \<Rightarrow> Inl (OtherError ''AttributeError'')))"

definition mentions :: "string \<Rightarrow> string \<Rightarrow> bool" where
  "mentions t sql = contains (casefold t) (casefold sql)"

definition mock_execute :: "mock_scenario \<Rightarrow> int \<Rightarrow> string \<Rightarrow> mock_execution outcome" where
  "mock_execute sc no sql =
     (case List.find (\<lambda>r. mr_no r = no) (ms_rounds sc) of
        None \<Rightarrow> Inr \<lparr>xe_status = US_FAILED, xe_error_message = Some ''Mock round missing'', xe_log_path = None\<rparr>
      | Some r \<Rightarrow>
          let c = (case mr_condition r of None \<Rightarrow> [] | Some d \<Rightarrow> d) in
          and_then (condition_text c ''must_contain'') (\<lambda>wanted.
            if (case wanted of None \<Rightarrow> False | Some t \<Rightarrow> \<not> mentions t sql) then Inr (execution_failed r)
            else and_then (condition_text c ''must_not_contain'') (\<lambda>unwanted.
              if (case unwanted of None \<Rightarrow> False | Some t \<Rightarrow> mentions t sql) then Inr (execution_failed r)
              else if dict_get c ''success'' = Some (Js_bool True)
                then Inr \<lparr>xe_status = US_SUCCESS, xe_error_message = None, xe_log_path = None\<rparr>
              else Inr (execution_failed r))))"

text \<open>What the executor accepts\<close>

lemma contains_Nil [simp]: "contains [] s"
  by (cases s) simp_all

definition accepting :: "(string, json) dict \<Rightarrow> string \<Rightarrow> bool" where
  "accepting d sql \<longleftrightarrow>
     dict_get d ''success'' = Some (Js_bool True) \<and>
     (case dict_get d ''must_contain'' of Some (Js_text t) \<Rightarrow> contains (casefold t) (casefold sql) | Some v \<Rightarrow> \<not> json_truthy v | None \<Rightarrow> True) \<and>
     (case dict_get d ''must_not_contain'' of
        Some (Js_text t) \<Rightarrow> t = [] \<or> \<not> contains (casefold t) (casefold sql) | Some v \<Rightarrow> \<not> json_truthy v | None \<Rightarrow> True)"

lemma condition_wanted:
  assumes "condition_text d k = Inr wanted" "\<not> (case wanted of None \<Rightarrow> False | Some t \<Rightarrow> \<not> mentions t sql)"
  shows "case dict_get d k of Some (Js_text t) \<Rightarrow> contains (casefold t) (casefold sql) | Some v \<Rightarrow> \<not> json_truthy v | None \<Rightarrow> True"
  using assms by (auto simp: condition_text_def mentions_def casefold_def split: option.splits if_splits json.splits)

lemma condition_unwanted:
  assumes "condition_text d k = Inr unwanted" "\<not> (case unwanted of None \<Rightarrow> False | Some t \<Rightarrow> mentions t sql)"
  shows "case dict_get d k of
      Some (Js_text t) \<Rightarrow> t = [] \<or> \<not> contains (casefold t) (casefold sql) | Some v \<Rightarrow> \<not> json_truthy v | None \<Rightarrow> True"
  using assms by (auto simp: condition_text_def mentions_def split: option.splits if_splits json.splits)

lemma mock_execute_success:
  assumes "mock_execute sc no sql = Inr e" "xe_status e = US_SUCCESS"
  shows "\<exists>r d. r \<in> set (ms_rounds sc) \<and> mr_no r = no \<and> mr_condition r = Some d \<and>
     accepting d sql"
proof -
  obtain r where r: "List.find (\<lambda>r. mr_no r = no) (ms_rounds sc) = Some r"
    using assms by (auto simp: mock_execute_def split: option.splits)
  define d where "d = (case mr_condition r of None \<Rightarrow> [] | Some d \<Rightarrow> d)"
  from assms r obtain wanted unwanted where
    w: "condition_text d ''must_contain'' = Inr wanted" "\<not> (case wanted of None \<Rightarrow> False | Some t \<Rightarrow> \<not> mentions t sql)" and
    u: "condition_text d ''must_not_contain'' = Inr unwanted" "\<not> (case unwanted of None \<Rightarrow> False | Some t \<Rightarrow> mentions t sql)" and
    ok: "dict_get d ''success'' = Some (Js_bool True)"
    by (auto simp: mock_execute_def d_def [symmetric] Let_def and_then_Inr_iff execution_failed_def split: if_splits)
  have "mr_condition r = Some d" using ok by (cases "mr_condition r") (simp_all add: d_def dict_get_def)
  moreover have "r \<in> set (ms_rounds sc)" "mr_no r = no" using r by (auto simp: find_Some_iff)
  ultimately show ?thesis using condition_wanted [OF w] condition_unwanted [OF u] ok unfolding accepting_def by blast
qed

section \<open>The runner\<close>

datatype mock_status = MOCK_SUCCESS | MOCK_HUMAN_REQUIRED | MOCK_NO_SQL | MOCK_RETRY_EXHAUSTED | MOCK_UNEXPECTED

fun mock_status_value :: "mock_status \<Rightarrow> string" where
  "mock_status_value MOCK_SUCCESS = ''MOCK_SUCCESS''"
| "mock_status_value MOCK_HUMAN_REQUIRED = ''MOCK_HUMAN_REQUIRED''"
| "mock_status_value MOCK_NO_SQL = ''MOCK_NO_SQL''"
| "mock_status_value MOCK_RETRY_EXHAUSTED = ''MOCK_RETRY_EXHAUSTED''"
| "mock_status_value MOCK_UNEXPECTED = ''MOCK_UNEXPECTED''"

record mock_final =
  mf_scenario :: string
  mf_task :: string
  mf_status :: mock_status
  mf_attempts :: int
  mf_message :: "string option"

definition from_agent_result :: "mock_scenario \<Rightarrow> mock_status \<Rightarrow> int \<Rightarrow> external_result \<Rightarrow> mock_final" where
  "from_agent_result sc st n x =
     \<lparr>mf_scenario = ms_id sc, mf_task = ms_task sc, mf_status = st, mf_attempts = n, mf_message = xr_message x\<rparr>"

definition mock_ended :: "mock_scenario \<Rightarrow> mock_status \<Rightarrow> int \<Rightarrow> string option \<Rightarrow> mock_final" where
  "mock_ended sc st n msg =
     \<lparr>mf_scenario = ms_id sc, mf_task = ms_task sc, mf_status = st, mf_attempts = n, mf_message = msg\<rparr>"

text \<open>The answer to a FAILED event: the final result of the run, or the SQL to execute.\<close>

definition mock_answer :: "mock_scenario \<Rightarrow> int \<Rightarrow> external_result \<Rightarrow> mock_final + string" where
  "mock_answer sc n x =
     (if xr_status x = HUMAN_REQUIRED then Inl (from_agent_result sc MOCK_HUMAN_REQUIRED n x)
      else if xr_status x = NO_SQL then Inl (from_agent_result sc MOCK_NO_SQL n x)
      else if xr_status x \<noteq> SQL_READY \<or> \<not> truthy (xr_sql x) then Inl (from_agent_result sc MOCK_UNEXPECTED n x)
      else Inr (or_text (xr_sql x) []))"

text \<open>After a success of the executor the service has to acknowledge the success.\<close>

definition mock_confirm ::
  "('t, 'x) service_config \<Rightarrow> mock_scenario \<Rightarrow> int \<Rightarrow> string \<Rightarrow> ('x service_world, mock_final) io" where
  "mock_confirm C sc n sql =
     bind (handle_upstream_event C (to_agent_success_event sc sql)) (\<lambda>ack.
       if xr_status ack \<noteq> SUCCESS_ACK then ret (from_agent_result sc MOCK_UNEXPECTED n ack)
       else ret (mock_ended sc MOCK_SUCCESS n None))"

text \<open>One pass of the loop: the final result, or the SQL of the next round.\<close>

definition mock_round_run ::
  "('t, 'x) service_config \<Rightarrow> mock_scenario \<Rightarrow> int \<Rightarrow> mock_round \<Rightarrow> string \<Rightarrow> ('x service_world, mock_final + string) io" where
  "mock_round_run C sc n r current =
     bind (handle_upstream_event C (to_agent_failed_event sc current r)) (\<lambda>x.
       case mock_answer sc n x of
         Inl f \<Rightarrow> ret (Inl f)
       | Inr sql \<Rightarrow> bind (lift (mock_execute sc (mr_no r) sql)) (\<lambda>e.
           if xe_status e = US_SUCCESS then bind (mock_confirm C sc n sql) (\<lambda>f. ret (Inl f))
           else ret (Inr sql)))"

definition round_limit :: "int \<Rightarrow> mock_scenario \<Rightarrow> int" where
  "round_limit most sc = min most (min (ms_max_retry sc) (int (length (ms_rounds sc))))"

fun mock_rounds ::
  "('t, 'x) service_config \<Rightarrow> mock_scenario \<Rightarrow> int \<Rightarrow> int \<Rightarrow> mock_round list \<Rightarrow> string \<Rightarrow> ('x service_world, mock_final) io" where
  "mock_rounds C sc limit n [] current =
     ret (mock_ended sc MOCK_RETRY_EXHAUSTED limit (Some ''Mock upstream retry count exhausted.''))"
| "mock_rounds C sc limit n (r # rs) current =
     bind (mock_round_run C sc (n + 1) r current) (\<lambda>y. case y of
       Inl f \<Rightarrow> ret f
     | Inr sql \<Rightarrow> mock_rounds C sc limit (n + 1) rs sql)"

definition mock_run :: "('t, 'x) service_config \<Rightarrow> int \<Rightarrow> mock_scenario \<Rightarrow> ('x service_world, mock_final) io" where
  "mock_run C most sc =
     (let limit = round_limit most sc in
      mock_rounds C sc limit 0 (take (nat limit) (ms_rounds sc)) (ms_sql sc))"


section \<open>What a run does to the service\<close>

text \<open>
  The events of a run: all are of the task of the scenario, only the last one may report a success, and
  \<open>rounds_of\<close> counts the reported failures.
\<close>

definition run_events :: "mock_scenario \<Rightarrow> upstream_event list \<Rightarrow> bool" where
  "run_events sc evs \<longleftrightarrow>
     list_all (\<lambda>ev. ev_id ev = ms_task sc) evs \<and> list_all (\<lambda>ev. ev_status ev = US_FAILED) (butlast evs)"

definition rounds_of :: "upstream_event list \<Rightarrow> nat" where
  "rounds_of evs = length (filter (\<lambda>ev. ev_status ev = US_FAILED) evs)"

lemma event_fields [simp]:
  "ev_id (to_agent_failed_event sc sql r) = ms_task sc" "ev_status (to_agent_failed_event sc sql r) = US_FAILED"
  "ev_sql (to_agent_failed_event sc sql r) = sql"
  "ev_id (to_agent_success_event sc sql) = ms_task sc" "ev_status (to_agent_success_event sc sql) = US_SUCCESS"
  "ev_sql (to_agent_success_event sc sql) = sql"
  by (simp_all add: to_agent_failed_event_def to_agent_success_event_def)

lemma handle_events_Cons: "snd (handle_events C (ev # evs) w) = snd (handle_events C evs (snd (handle_upstream_event C ev w)))"
  by (simp split: prod.split)

lemma final_fields [simp]:
  "mf_status (from_agent_result sc st n x) = st" "mf_attempts (from_agent_result sc st n x) = n"
  "mf_message (from_agent_result sc st n x) = xr_message x"
  "mf_status (mock_ended sc st n msg) = st" "mf_attempts (mock_ended sc st n msg) = n"
  by (simp_all add: from_agent_result_def mock_ended_def)

text \<open>
  One pass: a failure is reported; then either nothing more or a success. A final result of the pass
  counts the pass, and is never the one of an exhausted run.
\<close>

lemma mock_round_events:
  "\<exists>ss. snd (mock_round_run C sc n r cur w) = snd (handle_events C (to_agent_failed_event sc cur r # ss) w) \<and>
     (ss = [] \<or> (\<exists>sql. ss = [to_agent_success_event sc sql])) \<and>
     (case fst (mock_round_run C sc n r cur w) of
        Inl _ \<Rightarrow> True
      | Inr (Inl f) \<Rightarrow> mf_attempts f = n \<and> mf_status f \<noteq> MOCK_RETRY_EXHAUSTED
      | Inr (Inr sql) \<Rightarrow> ss = [])"
proof -
  obtain x w1 where first: "handle_upstream_event C (to_agent_failed_event sc cur r) w = (x, w1)" by fastforce
  have none: "snd (handle_events C [to_agent_failed_event sc cur r] w) = w1"
    by (simp add: first split: prod.split)
  have one: "snd (handle_events C [to_agent_failed_event sc cur r, to_agent_success_event sc sql] w) =
      snd (handle_upstream_event C (to_agent_success_event sc sql) w1)" for sql
    by (simp add: first split: prod.split)
  show ?thesis
  proof (cases "\<exists>y sql e. x = Inr y \<and> mock_answer sc n y = Inr sql \<and> mock_execute sc (mr_no r) sql = Inr e \<and>
      xe_status e = US_SUCCESS")
    case True
    then obtain y sql e where y: "x = Inr y" "mock_answer sc n y = Inr sql" "mock_execute sc (mr_no r) sql = Inr e"
      "xe_status e = US_SUCCESS" by blast
    obtain z w2 where second: "handle_upstream_event C (to_agent_success_event sc sql) w1 = (z, w2)" by fastforce
    show ?thesis
      by (rule exI [of _ "[to_agent_success_event sc sql]"])
        (use one [of sql] y first second in
          \<open>auto simp: mock_round_run_def mock_confirm_def bind_def split: sum.split\<close>)
  next
    case False
    then show ?thesis
      by (intro exI [of _ "[]"])
        (use none first in
          \<open>auto simp: mock_round_run_def bind_def mock_answer_def split: sum.split if_splits\<close>)
  qed
qed


lemma run_events_Cons:
  "run_events sc [to_agent_failed_event sc cur r]" "run_events sc [to_agent_failed_event sc cur r, to_agent_success_event sc sql]"
  "run_events sc evs \<Longrightarrow> run_events sc (to_agent_failed_event sc cur r # evs)"
  by (simp_all add: run_events_def)

lemma rounds_of_Cons [simp]:
  "rounds_of [] = 0" "rounds_of (to_agent_failed_event sc cur r # evs) = Suc (rounds_of evs)"
  "rounds_of (to_agent_success_event sc sql # evs) = rounds_of evs"
  by (simp_all add: rounds_of_def)

lemma mock_rounds_events:
  "\<exists>evs. snd (mock_rounds C sc limit n rs cur w) = snd (handle_events C evs w) \<and> run_events sc evs \<and>
     rounds_of evs \<le> length rs \<and>
     (case fst (mock_rounds C sc limit n rs cur w) of
        Inl _ \<Rightarrow> True
      | Inr f \<Rightarrow> if mf_status f = MOCK_RETRY_EXHAUSTED then rounds_of evs = length rs \<and> mf_attempts f = limit
                 else mf_attempts f = n + int (rounds_of evs))"
proof (induction rs arbitrary: n cur w)
  case Nil
  have "run_events sc []" by (simp add: run_events_def)
  then show ?case by (intro exI [of _ "[]"]) simp
next
  case (Cons r rs)
  obtain y w1 where step: "mock_round_run C sc (n + 1) r cur w = (y, w1)" by fastforce
  from mock_round_events [of C sc "n + 1" r cur w] step obtain ss where ss:
    "w1 = snd (handle_events C (to_agent_failed_event sc cur r # ss) w)"
    "ss = [] \<or> (\<exists>sql. ss = [to_agent_success_event sc sql])"
    "case y of Inl _ \<Rightarrow> True | Inr (Inl f) \<Rightarrow> mf_attempts f = n + 1 \<and> mf_status f \<noteq> MOCK_RETRY_EXHAUSTED
       | Inr (Inr sql) \<Rightarrow> ss = []"
    by auto
  have here: "run_events sc (to_agent_failed_event sc cur r # ss)" "rounds_of (to_agent_failed_event sc cur r # ss) = 1"
    using ss(2) by (auto simp: run_events_Cons)
  show ?case
  proof (cases "\<exists>sql. y = Inr (Inr sql)")
    case True
    then obtain sql where y: "y = Inr (Inr sql)" by blast
    from Cons.IH [of "n + 1" sql w1] obtain evs where evs:
      "snd (mock_rounds C sc limit (n + 1) rs sql w1) = snd (handle_events C evs w1)" "run_events sc evs" "rounds_of evs \<le> length rs"
      "case fst (mock_rounds C sc limit (n + 1) rs sql w1) of Inl _ \<Rightarrow> True
       | Inr f \<Rightarrow> if mf_status f = MOCK_RETRY_EXHAUSTED then rounds_of evs = length rs \<and> mf_attempts f = limit
                 else mf_attempts f = n + 1 + int (rounds_of evs)" by blast
    have "mock_rounds C sc limit n (r # rs) cur w = mock_rounds C sc limit (n + 1) rs sql w1"
      using step y by (simp add: bind_def)
    moreover have "snd (handle_events C evs w1) = snd (handle_events C (to_agent_failed_event sc cur r # evs) w)"
      using ss(1,3) y by (simp add: handle_events_Cons del: handle_events.simps(2))
    ultimately show ?thesis
      using evs run_events_Cons(3) [OF evs(2), of cur r]
      by (intro exI [of _ "to_agent_failed_event sc cur r # evs"])
        (simp del: handle_events.simps(2) mock_rounds.simps split: sum.splits if_splits)
  next
    case False
    then show ?thesis
      using step ss(1,3) here
      by (intro exI [of _ "to_agent_failed_event sc cur r # ss"])
        (auto simp: bind_def simp del: handle_events.simps(2) split: sum.splits)
  qed
qed

text \<open>A success is preceded by an answer of the service that the executor accepted.\<close>

definition accepted_answer ::
  "('t, 'x) service_config \<Rightarrow> mock_scenario \<Rightarrow> mock_round \<Rightarrow> 'x service_world \<Rightarrow> bool" where
  "accepted_answer C sc r w \<longleftrightarrow>
     (\<exists>cur x sql e ack w0 w1.
        handle_upstream_event C (to_agent_failed_event sc cur r) w0 = (Inr x, w1) \<and>
        xr_status x = SQL_READY \<and> xr_sql x = Some sql \<and> sql \<noteq> [] \<and>
        mock_execute sc (mr_no r) sql = Inr e \<and> xe_status e = US_SUCCESS \<and>
        handle_upstream_event C (to_agent_success_event sc sql) w1 = (Inr ack, w) \<and> xr_status ack = SUCCESS_ACK)"

lemma mock_round_success:
  assumes "mock_round_run C sc n r cur w = (Inr (Inl f), w')" "mf_status f = MOCK_SUCCESS"
  shows "accepted_answer C sc r w' \<and> mf_attempts f = n"
  using assms
  by (fastforce simp: mock_round_run_def mock_answer_def mock_confirm_def bind_Inr_iff accepted_answer_def truthy_iff
      split: if_splits sum.splits)

lemma mock_rounds_success:
  assumes "mock_rounds C sc limit n rs cur w = (Inr f, w')" "mf_status f = MOCK_SUCCESS"
  shows "\<exists>i < length rs. mf_attempts f = n + int i + 1 \<and> accepted_answer C sc (rs ! i) w'"
  using assms(1)
proof (induction rs arbitrary: n cur w)
  case Nil
  with assms(2) show ?case by auto
next
  case (Cons r rs)
  then obtain y w1 where step: "mock_round_run C sc (n + 1) r cur w = (Inr y, w1)"
    and rest: "(case y of Inl f \<Rightarrow> ret f | Inr sql \<Rightarrow> mock_rounds C sc limit (n + 1) rs sql) w1 = (Inr f, w')"
    by (auto simp: bind_Inr_iff)
  show ?case
  proof (cases y)
    case (Inl g)
    with rest step mock_round_success [OF _ assms(2), of C sc "n + 1" r cur w w'] show ?thesis
      by (intro exI [of _ 0]) auto
  next
    case (Inr sql)
    with rest Cons.IH [of "n + 1" sql w1] obtain i where "i < length rs" "mf_attempts f = n + 1 + int i + 1"
      "accepted_answer C sc (rs ! i) w'" by auto
    then show ?thesis by (intro exI [of _ "Suc i"]) auto
  qed
qed


section \<open>The properties of a run\<close>

text \<open>C27. A mock run acts on the service by its events only: the service ends where handling a sequence of
  events of the scenario's task takes it, at most one of them a SUCCESS, and that the last one. The number of
  reported failures never exceeds the smallest of the limits of runner and scenario and the number of
  rounds; a run that ends by itself reports exactly this number, a run that is exhausted has used all of it.
\<close>

theorem mock_run_delivers_events:
  "\<exists>evs. snd (mock_run C most sc w) = snd (handle_events C evs w) \<and>
     list_all (\<lambda>ev. ev_id ev = ms_task sc) evs \<and> list_all (\<lambda>ev. ev_status ev = US_FAILED) (butlast evs) \<and>
     rounds_of evs \<le> nat (round_limit most sc) \<and>
     (case fst (mock_run C most sc w) of
        Inl _ \<Rightarrow> True
      | Inr f \<Rightarrow> if mf_status f = MOCK_RETRY_EXHAUSTED
                 then rounds_of evs = nat (round_limit most sc) \<and> mf_attempts f = round_limit most sc
                 else mf_attempts f = int (rounds_of evs))"
proof -
  let ?n = "nat (round_limit most sc)"
  have "length (take ?n (ms_rounds sc)) = ?n" by (simp add: round_limit_def)
  from mock_rounds_events [of C sc "round_limit most sc" 0 "take ?n (ms_rounds sc)" "ms_sql sc" w, unfolded this]
  show ?thesis by (simp only: mock_run_def Let_def run_events_def add_0 conj_assoc)
qed

lemma mock_run_store:
  assumes "lock_respects C" "store_ok w"
  shows "store_ok (snd (mock_run C most sc w))"
  using mock_rounds_events [of C sc "round_limit most sc" 0 "take (nat (round_limit most sc)) (ms_rounds sc)" "ms_sql sc" w]
    handle_events_ok [OF assms] by (metis mock_run_def)

lemma mock_success_cases:
  assumes "mock_run C most sc w = (Inr f, w')" "mf_status f = MOCK_SUCCESS"
  shows "\<exists>i cur x sql ack w0 w1 r d.
     i < nat (round_limit most sc) \<and> mf_attempts f = int i + 1 \<and>
     handle_upstream_event C (to_agent_failed_event sc cur (ms_rounds sc ! i)) w0 = (Inr x, w1) \<and>
     xr_status x = SQL_READY \<and> xr_sql x = Some sql \<and>
     r \<in> set (ms_rounds sc) \<and> mr_no r = mr_no (ms_rounds sc ! i) \<and> mr_condition r = Some d \<and>
     accepting d sql \<and>
     handle_upstream_event C (to_agent_success_event sc sql) w1 = (Inr ack, w') \<and> xr_status ack = SUCCESS_ACK"
proof -
  let ?n = "nat (round_limit most sc)"
  have "?n \<le> length (ms_rounds sc)" by (simp add: round_limit_def)
  with mock_rounds_success [of C sc "round_limit most sc" 0 "take ?n (ms_rounds sc)" "ms_sql sc" w f w'] assms
  obtain i where i: "i < ?n" "mf_attempts f = int i + 1" "accepted_answer C sc (ms_rounds sc ! i) w'"
    by (auto simp: mock_run_def Let_def)
  from i(3) obtain cur x sql e ack w0 w1 where a:
    "handle_upstream_event C (to_agent_failed_event sc cur (ms_rounds sc ! i)) w0 = (Inr x, w1)"
    "xr_status x = SQL_READY" "xr_sql x = Some sql" "mock_execute sc (mr_no (ms_rounds sc ! i)) sql = Inr e" "xe_status e = US_SUCCESS"
    "handle_upstream_event C (to_agent_success_event sc sql) w1 = (Inr ack, w')" "xr_status ack = SUCCESS_ACK"
    unfolding accepted_answer_def by blast
  from mock_execute_success [OF a(4,5)] obtain r d where "r \<in> set (ms_rounds sc)" "mr_no r = mr_no (ms_rounds sc ! i)"
    "mr_condition r = Some d" "accepting d sql" by blast
  with i(1,2) a(1-3,6,7) show ?thesis by blast
qed

text \<open>C26. MOCK_SUCCESS is reported only for an SQL that the service answered as SQL_READY to a reported failure,
  that the executor accepted in this round, and whose success the service acknowledged: it holds the text
  the scenario asks for and not the one it forbids (upper and lower case are the same), and the round of
  its number wants a success. The attempt count is the position of the round.
\<close>

theorem mock_success_executed:
  "case mock_run C most sc w of
     (Inl _, _) \<Rightarrow> True
   | (Inr f, w') \<Rightarrow>
       (if mf_status f = MOCK_SUCCESS
        then \<exists>i cur x sql ack w0 w1 r d.
            i < nat (round_limit most sc) \<and> mf_attempts f = int i + 1 \<and>
            handle_upstream_event C (to_agent_failed_event sc cur (ms_rounds sc ! i)) w0 = (Inr x, w1) \<and>
            xr_status x = SQL_READY \<and> xr_sql x = Some sql \<and>
            r \<in> set (ms_rounds sc) \<and> mr_no r = mr_no (ms_rounds sc ! i) \<and> mr_condition r = Some d \<and>
            accepting d sql \<and>
            handle_upstream_event C (to_agent_success_event sc sql) w1 = (Inr ack, w') \<and> xr_status ack = SUCCESS_ACK
        else True)"
proof (cases "mock_run C most sc w")
  case (Pair y w')
  then show ?thesis
  proof (cases y)
    case (Inr f)
    with Pair mock_success_cases [of C most sc w f w'] show ?thesis by simp
  qed simp
qed

end
