(* ===== verification/Command_Line.thy ===== *)
theory Command_Line
  imports Mock_Upstream Llm_Client Consolidation
begin

text \<open>
  \<open>cli.py\<close>: the five commands over the service, the mock upstream and the memory. The world of the process
  is that of the service with the lines it has printed; what a command has printed stays printed when it
  fails. The grammar of \<open>argparse\<close> is the datatype of the commands. The files named on the command
  line, the environment, pydantic's reading of a scenario and the wiring of a service are given.

  The facts: the answer of the service is printed as JSON that reads back to it, and the commands that only
  look leave everything stored as it was.
\<close>

section \<open>Commands\<close>

datatype cli_command =
    Handle_event string
  | Mock_event_run string
  | Inspect string "string option" bool
  | Memory_list "string option" "string option"
  | Memory_consolidate bool

record 'x cli_world =
  cl_service :: "'x service_world"
  cl_out :: "string list"

text \<open>
  \<open>ck_service\<close> wires a \<open>RepairAgentService\<close>: the client, whether medium risk is allowed.
  \<open>ck_stamp\<close>, \<open>ck_mtime\<close> are the clock of a consolidation.
\<close>

record ('t, 'x) cli_config =
  ck_file :: "string \<Rightarrow> string option"
  ck_env :: "string \<Rightarrow> string option"
  ck_scenario :: "json \<Rightarrow> mock_scenario outcome"
  ck_service :: "llm_provider \<Rightarrow> bool \<Rightarrow> ('t, 'x) service_config"
  ck_stamp :: "string \<Rightarrow> string"
  ck_mtime :: "string \<Rightarrow> int"
  ck_float :: "rat \<Rightarrow> string"

definition print_line :: "string \<Rightarrow> ('x cli_world, unit) io" where
  "print_line t = modify (\<lambda>w. w\<lparr>cl_out := cl_out w @ [t]\<rparr>)"

fun print_lines :: "string list \<Rightarrow> ('x cli_world, unit) io" where
  "print_lines [] = ret ()"
| "print_lines (t # ts) = seq (print_line t) (print_lines ts)"

definition on_service :: "('x service_world, 'a) io \<Rightarrow> ('x cli_world, 'a) io" where
  "on_service = via cl_service (\<lambda>s w. w\<lparr>cl_service := s\<rparr>)"

text \<open>\<open>read_json(Path(path))\<close>\<close>

definition read_input :: "('t, 'x) cli_config \<Rightarrow> string \<Rightarrow> json outcome" where
  "read_input K path =
     (case ck_file K path of None \<Rightarrow> Inl (FileNotFound path) | Some t \<Rightarrow> json_loads (normalize_newlines t))"

text \<open>\<open>UpstreamTaskEvent.model_validate\<close>\<close>

definition upstream_event_of_json :: "json \<Rightarrow> upstream_event outcome" where
  "upstream_event_of_json v =
     (case v of
        Js_dict d \<Rightarrow>
          if \<not> set (dict_keys d) \<subseteq> {''id'', ''status'', ''sql'', ''error_message'', ''log_path''}
          then Inl (ValidationError ''UpstreamTaskEvent'')
          else (case (js_text (dict_get d ''id''), js_text (dict_get d ''status''), js_text (dict_get d ''sql''),
                      js_opt_text (dict_get d ''error_message''), js_opt_text (dict_get d ''log_path'')) of
             (Some i, Some st, Some q, Some m, Some p) \<Rightarrow>
               (case List.find (\<lambda>s. upstream_status_value s = st) [US_FAILED, US_SUCCESS] of
                  None \<Rightarrow> Inl (ValidationError ''UpstreamTaskEvent'')
                | Some s \<Rightarrow> Inr \<lparr>ev_id = i, ev_status = s, ev_sql = q, ev_error_message = m, ev_log_path = p\<rparr>)
           | _ \<Rightarrow> Inl (ValidationError ''UpstreamTaskEvent''))
      | _ \<Rightarrow> Inl (ValidationError ''UpstreamTaskEvent''))"

text \<open>\<open>json.dumps(payload, ensure_ascii=False, indent=2)\<close>\<close>

definition pretty :: "('t, 'x) cli_config \<Rightarrow> json \<Rightarrow> string" where
  "pretty K j = json_write indent_style (ck_float K) 0 j"

definition run_handle_upstream_event :: "('t, 'x) cli_config \<Rightarrow> string \<Rightarrow> ('x cli_world, unit) io" where
  "run_handle_upstream_event K path =
     bind (lift (and_then (read_input K path) upstream_event_of_json)) (\<lambda>ev.
     bind (lift (build_llm_client (ck_env K))) (\<lambda>client.
     bind (on_service (handle_upstream_event (ck_service K client False) ev)) (\<lambda>x.
       print_line (pretty K (dump_external x)))))"

definition experience_ids :: "('x cli_world, string list) io" where
  "experience_ids = gets (\<lambda>w. list_ids (sw_memory (cl_service w)))"

definition run_mock_upstream_event :: "('t, 'x) cli_config \<Rightarrow> string \<Rightarrow> ('x cli_world, unit) io" where
  "run_mock_upstream_event K path =
     bind (lift (and_then (read_input K path) (ck_scenario K))) (\<lambda>sc.
     bind experience_ids (\<lambda>before.
     bind (lift (build_llm_client (ck_env K))) (\<lambda>client.
     bind (on_service (mock_run (ck_service K client (ms_allow_medium sc)) (ms_max_retry sc) sc)) (\<lambda>f.
     seq (print_lines [''Mock upstream event run finished'', ''status: '' @ mock_status_value (mf_status f),
            ''task_id: '' @ mf_task f, ''attempt_count: '' @ int_text (mf_attempts f)])
     (bind experience_ids (\<lambda>after.
     seq (print_line (''memory_written: '' @ (if set after - set before \<noteq> {} then ''true'' else ''false'')))
       (if truthy (mf_message f) then print_line (''message: '' @ or_text (mf_message f) []) else ret ())))))))"

text \<open>The loop of \<open>memory list\<close>: \<open>n\<close> entries are printed so far. Its argument \<open>error_type\<close> is not used.\<close>

fun list_memory :: "string option \<Rightarrow> nat \<Rightarrow> string list \<Rightarrow> ('x cli_world, nat) io" where
  "list_memory kw n [] = ret n"
| "list_memory kw n (i # is) =
     bind (gets (\<lambda>w. read_frontmatter (sw_memory (cl_service w)) i)) (\<lambda>r.
     bind (lift r) (\<lambda>f.
       if truthy kw \<and> or_text kw [] \<notin> set (fm_keyword f) then list_memory kw n is
       else seq (print_lines [digits (n + 1) @ ''. '' @ i, ''   keyword: ['' @ join_with '', '' (fm_keyword f) @ '']'',
                   ''   description: '' @ fm_description f])
              (list_memory kw (n + 1) is)))"

definition run_memory_list :: "string option \<Rightarrow> string option \<Rightarrow> ('x cli_world, unit) io" where
  "run_memory_list error_type kw =
     seq (print_line ''Experience Memory'')
     (bind experience_ids (\<lambda>is.
      bind (list_memory kw 0 is) (\<lambda>n. if n = 0 then print_line ''(empty)'' else ret ())))"

definition dump_consolidation :: "consolidation_report \<Rightarrow> json" where
  "dump_consolidation r = Js_dict
     [(''scanned_count'', Js_int (int (cr_scanned r))), (''duplicate_group_count'', Js_int (int (cr_duplicates r))),
      (''merged_count'', Js_int (int (cr_merged r))),
      (''groups'', Js_list (map (\<lambda>g. Js_dict [(''canonical_id'', Js_text (cg_canonical g)),
         (''member_ids'', Js_list (map Js_text (cg_members g))),
         (''reason'', Js_text ''same keywords, repair shape, and applicability'')]) (cr_groups r))),
      (''dry_run'', Js_bool (cr_dry_run r))]"

definition run_memory_consolidate :: "('t, 'x) cli_config \<Rightarrow> bool \<Rightarrow> ('x cli_world, unit) io" where
  "run_memory_consolidate K apply =
     bind (on_service (on_memory (consolidate (ck_stamp K) (ck_mtime K) (\<not> apply)))) (\<lambda>r.
       print_line (pretty K (dump_consolidation r)))"

section \<open>The process\<close>

text \<open>How the process ends: normally, by \<open>SystemExit\<close> with a message, or with a traceback.\<close>

datatype cli_end = Finished | System_exit string | Traceback py_error

text \<open>\<open>except (OSError, ValueError, ValidationError)\<close>: \<open>TimeoutError\<close> and \<open>PermissionError\<close> are OSErrors.\<close>

fun is_os_error :: "py_error \<Rightarrow> bool" where
  "is_os_error (FileNotFound _) = True"
| "is_os_error (LockTimeout _) = True"
| "is_os_error OperationTimeout = True"
| "is_os_error (ArtifactAccessError _) = True"
| "is_os_error _ = False"

definition run_command :: "('t, 'x) cli_config \<Rightarrow> cli_command \<Rightarrow> ('x cli_world, unit) io" where
  "run_command K c =
     (case c of
        Handle_event path \<Rightarrow> run_handle_upstream_event K path
      | Mock_event_run path \<Rightarrow> run_mock_upstream_event K path
      | Inspect sid aid artifacts \<Rightarrow> ret ()
      | Memory_list error_type kw \<Rightarrow> run_memory_list error_type kw
      | Memory_consolidate apply \<Rightarrow> run_memory_consolidate K apply)"

definition cli_main :: "('t, 'x) cli_config \<Rightarrow> cli_command \<Rightarrow> 'x cli_world \<Rightarrow> cli_end \<times> 'x cli_world" where
  "cli_main K c w =
     (case c of
        Inspect _ _ _ \<Rightarrow> (System_exit ''inspect is not implemented in M1.'', w)
      | _ \<Rightarrow> (case run_command K c w of
            (Inr _, w') \<Rightarrow> (Finished, w')
          | (Inl e, w') \<Rightarrow> (if is_os_error e \<or> is_value_error e then System_exit (error_text e) else Traceback e, w')))"

section \<open>What the commands do\<close>

lemma on_service_run: "on_service m w = (fst (m (cl_service w)), w\<lparr>cl_service := snd (m (cl_service w))\<rparr>)"
  by (simp add: on_service_def via_def split_beta)

lemma print_line_run [simp]: "print_line t w = (Inr (), w\<lparr>cl_out := cl_out w @ [t]\<rparr>)"
  by (simp add: print_line_def)


definition keeps_service :: "('x cli_world, 'a) io \<Rightarrow> bool" where
  "keeps_service m \<longleftrightarrow> (\<forall>s. preserves (\<lambda>w. cl_service w = s) m)"

lemma keeps_parts:
  "keeps_service (ret x)" "keeps_service (lift r)" "keeps_service (gets f)" "keeps_service (print_line t)"
  by (simp_all add: keeps_service_def preserves_def)

lemma keeps_bind: "keeps_service m \<Longrightarrow> (\<And>x. keeps_service (g x)) \<Longrightarrow> keeps_service (bind m g)"
  unfolding keeps_service_def by (blast intro: preserves_bind)

lemma keeps_seq: "keeps_service m \<Longrightarrow> keeps_service n \<Longrightarrow> keeps_service (seq m n)"
  unfolding keeps_service_def by (blast intro: preserves_seq)

lemma keeps_if: "keeps_service m \<Longrightarrow> keeps_service n \<Longrightarrow> keeps_service (if b then m else n)"
  by simp

lemma keeps_lines: "keeps_service (print_lines ts)"
proof (induction ts)
  case (Cons t ts)
  then show ?case unfolding print_lines.simps by (intro keeps_seq keeps_parts)
qed (simp only: print_lines.simps keeps_parts)

lemma keeps_list: "keeps_service (list_memory kw n is)"
proof (induction "is" arbitrary: n)
  case (Cons i js)
  then show ?case unfolding list_memory.simps by (intro keeps_bind keeps_parts keeps_if keeps_seq keeps_lines)
qed (simp only: list_memory.simps keeps_parts)

lemma keeps_memory_list: "keeps_service (run_memory_list error_type kw)"
  unfolding run_memory_list_def experience_ids_def
  by (intro keeps_seq keeps_bind keeps_parts keeps_list keeps_if)


lemma cli_main_state: "snd (cli_main K c w) = snd (run_command K c w)"
  by (cases c) (simp_all add: cli_main_def run_command_def split: prod.split sum.split)

text \<open>The commands that only look leave the state of the service as it was, the memory included: listing the
  memory, a consolidation without \<open>--apply\<close>, and \<open>inspect\<close>, whether they succeed or fail.
\<close>

theorem looking_changes_nothing:
  fixes w :: "'x cli_world"
  shows "list_all (\<lambda>c. cl_service (snd (cli_main K c w)) = cl_service w)
     [Memory_list error_type kw, Memory_consolidate False, Inspect sid aid artifacts]"
proof -
  have "cl_service (snd (run_memory_list error_type kw w)) = cl_service w"
    using keeps_memory_list [of error_type kw, unfolded keeps_service_def, THEN spec, of "cl_service w"] by (simp add: keeps_service_def preserves_def)
  moreover have "cl_service (snd (run_memory_consolidate K False w)) = cl_service w"
    by (auto simp: run_memory_consolidate_def bind_def on_service_run on_memory_def via_def split_beta dry_run_unchanged
        split: sum.split)
  ultimately show ?thesis by (simp add: cli_main_state run_command_def)
qed

text \<open>
  A provider that is not configured is not among the exceptions \<open>main\<close> catches, so the user sees a
  traceback instead of its message.
\<close>

theorem unconfigured_provider_traceback:
  assumes "ck_env K ''SQL_HEAL_LLM_PROVIDER'' = None" "and_then (read_input K path) upstream_event_of_json = Inr ev"
  shows "\<exists>m. cli_main K (Handle_event path) w = (Traceback (LLMClientError LE_INVALID_REQUEST m), w)"
proof -
  have "casefold (strip []) = []" by (simp add: casefold_def)
  with assms show ?thesis
    by (simp add: cli_main_def run_command_def run_handle_upstream_event_def build_llm_client_def bind_def Let_def)
qed

end
