(* ===== verification/Agent_Tools.thy ===== *)
theory Agent_Tools
  imports Processor
begin

text \<open>
  \<open>agent/tools/read_log_tool.py\<close>, \<open>memory_retrieve_tool.py\<close>, \<open>run_subagent_tool.py\<close>,
  \<open>read_artifact_tool.py\<close> and \<open>metadata_query_tool.py\<close> as tools of a registry, and the counters of
  \<open>agent/metrics.py\<close>. The processor registers its own business tools under the same names; these are
  the ones for a registry of its own. What pydantic accepts as input is a parameter of each tool (\<open>parse\<close>).

  The facts: the log tool reads only the log of its context and stores only a digest it can read; a
  registered memory tool never succeeds, because its result is validated as a model it is not an instance of.
\<close>

section \<open>Descriptions\<close>

definition desc_read_log :: string where  \<comment> \<open>read the log of the event, return a bounded summary\<close>
  "desc_read_log =
    u8 [0x8BFB, 0x53D6, 0x5F53, 0x524D, 0x4E8B, 0x4EF6, 0x65E5, 0x5FD7, 0x5E76, 0x8FD4, 0x56DE, 0x53D7,
    0x9650, 0x6458, 0x8981]"

definition desc_memory_tool :: string where  \<comment> \<open>retrieve summaries of successful experience\<close>
  "desc_memory_tool =
    u8 [0x68C0, 0x7D22, 0x6210, 0x529F, 0x7ECF, 0x9A8C, 0x6458, 0x8981]"

definition desc_sub_agent_tool :: string where  \<comment> \<open>start a restricted SubAgent\<close>
  "desc_sub_agent_tool =
    u8 [0x542F, 0x52A8, 0x53D7, 0x9650, 0x4E14, 0x4E0D, 0x53EF, 0x9012, 0x5F52, 0x7684] @ '' SubAgent''"

definition desc_read_artifact :: string where  \<comment> \<open>read a sanitized artifact of the session\<close>
  "desc_read_artifact =
    u8 [0x8BFB, 0x53D6, 0x5F53, 0x524D] @ '' Session '' @ u8 [0x6240, 0x5C5E, 0x4E14, 0x5DF2, 0x7ECF,
    0x8131, 0x654F, 0x7684] @ '' Artifact '' @ u8 [0x53D7, 0x9650, 0x5185, 0x5BB9]"

definition desc_metadata_tool :: string where  \<comment> \<open>query metadata\<close>
  "desc_metadata_tool =
    u8 [0x67E5, 0x8BE2, 0x53D7, 0x63A7, 0x5143, 0x6570, 0x636E, 0xFF0C, 0x4E0D, 0x8BBF, 0x95EE, 0x751F,
    0x4EA7] @ '' SQL '' @ u8 [0x6267, 0x884C, 0x5668]"

text \<open>\<open>model_validate\<close> of a model with no field validators of its own, in a tool: \<open>parse\<close> fails or gives the input.\<close>

definition tool_of ::
  "string \<Rightarrow> string \<Rightarrow> agent_phase list \<Rightarrow> bool \<Rightarrow> (string, json) dict \<Rightarrow> ((string, json) dict \<Rightarrow> 'i option) \<Rightarrow>
     ('i \<Rightarrow> ('w, (string, json) dict) io) \<Rightarrow> 'w tool" where
  "tool_of name desc phases produces schema parse run =
     \<lparr>tl_name = name, tl_description = desc, tl_schema = schema, tl_phases = phases, tl_produces = produces,
      tl_accepts = (\<lambda>d. parse d \<noteq> None),
      tl_run = (\<lambda>d. case parse d of None \<Rightarrow> raise (ValidationError name) | Some i \<Rightarrow> run i)\<rparr>"

section \<open>The log tool\<close>

record read_log_input =
  rl_path :: string
  rl_max_lines :: "int option"

definition valid_read_log_input :: "read_log_input \<Rightarrow> bool" where
  "valid_read_log_input i \<longleftrightarrow>
     rl_path i \<noteq> [] \<and> (case rl_max_lines i of None \<Rightarrow> True | Some n \<Rightarrow> 1 \<le> n \<and> n \<le> 2000)"

datatype log_status = LG_AVAILABLE | LG_MISSING | LG_FAILED

fun log_status_value :: "log_status \<Rightarrow> string" where
  "log_status_value LG_AVAILABLE = ''AVAILABLE''"
| "log_status_value LG_MISSING = ''MISSING''"
| "log_status_value LG_FAILED = ''FAILED''"

record read_log_output =
  lo_status :: log_status
  lo_summary :: "string option"
  lo_digest_ref :: "string option"
  lo_error_code :: "string option"

definition log_refused :: "log_status \<Rightarrow> string \<Rightarrow> read_log_output" where
  "log_refused st code_text = \<lparr>lo_status = st, lo_summary = None, lo_digest_ref = None, lo_error_code = Some code_text\<rparr>"

text \<open>
  The environment of the tool: the log files that exist, the compressor (code of the missing package
  \<open>logs\<close>), the dump of its digest, the float writer and the stamp of the stored reference.
\<close>

record log_ports =
  lp_exists :: "string \<Rightarrow> bool"
  lp_digest :: "string \<Rightarrow> string option \<Rightarrow> keyword_vocab \<Rightarrow> log_digest outcome"
  lp_dump :: "log_digest \<Rightarrow> json"
  lp_float :: "rat \<Rightarrow> string"
  lp_vocab :: keyword_vocab
  lp_stamp :: stamp

definition read_log_tool :: "log_ports \<Rightarrow> agent_context \<Rightarrow> read_log_input \<Rightarrow> ('a disk_scheme, read_log_output) io" where
  "read_log_tool P ctx i =
     (if Some (rl_path i) \<noteq> cx_log_path ctx then ret (log_refused LG_FAILED ''LOG_PATH_FORBIDDEN'')
      else if \<not> lp_exists P (rl_path i) then ret (log_refused LG_MISSING ''LOG_NOT_FOUND'')
      else bind (lift (lp_digest P (rl_path i) (cx_error_message ctx) (lp_vocab P))) (\<lambda>digest.
        if \<not> ld_readable digest then ret (log_refused LG_FAILED ''LOG_READ_FAILED'')
        else bind (save_json_ref (lp_float P) (cx_session_id ctx) (Some (cx_attempt_id ctx)) ''read_log_digest.json''
                     (lp_dump P digest) LOG_DIGEST (lp_stamp P)) (\<lambda>ref.
          let summary = or_text (or_opt (ld_root_cause_summary digest) (ld_suspected_engine_error digest)) ''log digest available''
          in ret \<lparr>lo_status = LG_AVAILABLE, lo_summary = Some (py_take 4000 summary),
                  lo_digest_ref = Some (ref_json ref), lo_error_code = None\<rparr>)))"

definition dump_read_log :: "read_log_output \<Rightarrow> (string, json) dict" where
  "dump_read_log o1 =
     [(''status'', Js_text (log_status_value (lo_status o1))), (''summary'', json_of_opt (lo_summary o1)),
      (''log_digest_ref'', json_of_opt (lo_digest_ref o1)), (''error_code'', json_of_opt (lo_error_code o1))]"

definition read_log_entry ::
  "log_ports \<Rightarrow> agent_context \<Rightarrow> (string, json) dict \<Rightarrow> ((string, json) dict \<Rightarrow> read_log_input option) \<Rightarrow>
     'a disk_scheme tool" where
  "read_log_entry P ctx schema parse =
     tool_of ''ReadLogTool'' desc_read_log [PH_INIT, PH_DIAGNOSING] False schema parse
       (\<lambda>i. bind (read_log_tool P ctx i) (\<lambda>x. ret (dump_read_log x)))"

section \<open>The memory tool\<close>

record memory_input =
  mi_keywords :: "string list"
  mi_query_summary :: "string option"
  mi_limit :: "int option"

definition valid_memory_input :: "memory_input \<Rightarrow> bool" where
  "valid_memory_input i \<longleftrightarrow> (case mi_limit i of None \<Rightarrow> True | Some n \<Rightarrow> 1 \<le> n \<and> n \<le> 20)"

text \<open>
  The retriever returns a \<open>MemoryRetrievalResult\<close>; \<open>MemoryToolOutput.model_validate\<close> takes a dict or an
  instance of its own class, and a model of another class is neither.
\<close>

definition memory_tool_output :: "memory_result \<Rightarrow> (string, json) dict outcome" where
  "memory_tool_output r = Inl (ValidationError ''MemoryToolOutput'')"

definition memory_retrieve_tool ::
  "string list \<Rightarrow> nat \<Rightarrow> nat \<Rightarrow> memory_disk \<Rightarrow> memory_input \<Rightarrow> (string, json) dict outcome" where
  "memory_retrieve_tool vals max_hits scan_budget m i =
     and_then (retrieve_keywords vals max_hits scan_budget m (mi_keywords i) (mi_query_summary i) (map_option nat (mi_limit i)))
       memory_tool_output"

definition memory_retrieve_entry ::
  "string list \<Rightarrow> nat \<Rightarrow> nat \<Rightarrow> memory_disk \<Rightarrow> (string, json) dict \<Rightarrow> ((string, json) dict \<Rightarrow> memory_input option) \<Rightarrow> 'w tool" where
  "memory_retrieve_entry vals max_hits scan_budget m schema parse =
     tool_of ''MemoryRetrieveTool'' desc_memory_tool [PH_DIAGNOSING, PH_PLANNING, PH_GENERATING] True schema parse
       (\<lambda>i. lift (memory_retrieve_tool vals max_hits scan_budget m i))"

section \<open>The sub-agent tool\<close>

text \<open>\<open>RunSubAgentTool.run\<close> hands its input to the runner.\<close>

definition run_subagent_tool ::
  "'w subagent_ports \<Rightarrow> agent_context \<Rightarrow> subagent_request \<Rightarrow> ('w, subagent_result) io" where
  "run_subagent_tool P ctx q w =
     (case sub_run P q ctx w of
        (Some r, w') \<Rightarrow> (r, w')
      | (None, w') \<Rightarrow> (Inl (RuntimeError ''fuel''), w'))"

definition dump_subagent_result :: "subagent_result \<Rightarrow> (string, json) dict" where
  "dump_subagent_result r =
     [(''status'', Js_text (subagent_status_value (sa_status r))), (''summary'', Js_text (sa_summary r)),
      (''artifact_ref'', json_of_opt (sa_artifact_ref r)),
      (''requested_context_refs'', Js_list (map Js_text (sa_requested_refs r))),
      (''output'', (case sa_output r of None \<Rightarrow> Js_null | Some d \<Rightarrow> Js_dict d)),
      (''stop_reason'', json_of_opt (sa_stop_reason r))]"

definition run_subagent_entry ::
  "'w subagent_ports \<Rightarrow> agent_context \<Rightarrow> (string, json) dict \<Rightarrow> ((string, json) dict \<Rightarrow> subagent_request option) \<Rightarrow> 'w tool" where
  "run_subagent_entry P ctx schema parse =
     tool_of ''RunSubAgentTool'' desc_sub_agent_tool [PH_DIAGNOSING, PH_PLANNING, PH_GENERATING] True schema parse
       (\<lambda>q. bind (run_subagent_tool P ctx q) (\<lambda>r. ret (dump_subagent_result r)))"

section \<open>The artifact tool and the metadata tool\<close>

record read_artifact_input =
  ri_ref :: artifact_ref
  ri_section :: "string option"
  ri_max_chars :: nat

definition valid_read_artifact_input :: "read_artifact_input \<Rightarrow> bool" where
  "valid_read_artifact_input i \<longleftrightarrow> 1 \<le> ri_max_chars i \<and> ri_max_chars i \<le> 12000"

fun read_status_value :: "read_status \<Rightarrow> string" where
  "read_status_value RA_SUCCEEDED = ''SUCCEEDED''"
| "read_status_value RA_NOT_FOUND = ''NOT_FOUND''"
| "read_status_value RA_FORBIDDEN = ''FORBIDDEN''"
| "read_status_value RA_FAILED = ''FAILED''"

definition dump_read_output :: "read_output \<Rightarrow> (string, json) dict" where
  "dump_read_output x =
     [(''status'', Js_text (read_status_value (ro_status x))), (''content_summary'', json_of_opt (ro_content x)),
      (''content_ref'', json_of_opt (ro_ref x)), (''truncated'', Js_bool (ro_truncated x))]"

definition read_artifact_entry ::
  "agent_context \<Rightarrow> (string, json) dict \<Rightarrow> ((string, json) dict \<Rightarrow> read_artifact_input option) \<Rightarrow> 'a disk_scheme tool" where
  "read_artifact_entry ctx schema parse =
     tool_of ''ReadArtifactTool'' desc_read_artifact [PH_INIT, PH_DIAGNOSING, PH_PLANNING, PH_GENERATING, PH_GATING] False schema
       parse
       (\<lambda>i. bind (gets (read_artifact_tool (cx_session_id ctx) (cx_attempt_id ctx) (ri_ref i) (ri_max_chars i))) (\<lambda>r.
            bind (lift r) (\<lambda>x. ret (dump_read_output x))))"

fun query_status_value :: "query_status \<Rightarrow> string" where
  "query_status_value QS_AVAILABLE = ''AVAILABLE''"
| "query_status_value QS_PARTIAL = ''PARTIAL''"
| "query_status_value QS_FAILED = ''FAILED''"

definition dump_metadata_answer :: "metadata_answer \<Rightarrow> (string, json) dict" where
  "dump_metadata_answer x =
     [(''status'', Js_text (query_status_value (ma_status x))), (''summary'', Js_text (ma_summary x)),
      (''metadata_snapshot_ref'', Js_null), (''missing_tables'', Js_list (map Js_text (ma_missing_tables x))),
      (''missing_columns'', Js_list (map Js_text (ma_missing_columns x))),
      (''partition_info_available'', Js_bool (ma_partition_info x))]"

definition metadata_query_entry ::
  "table_parser \<Rightarrow> (string, json) dict \<Rightarrow> (string, json) dict \<Rightarrow> ((string, json) dict \<Rightarrow> metadata_query option) \<Rightarrow> 'w tool" where
  "metadata_query_entry parse_sql payload schema parse =
     tool_of ''MetadataQueryTool'' desc_metadata_tool [PH_DIAGNOSING, PH_PLANNING, PH_GENERATING] False schema parse
       (\<lambda>q. bind (lift (metadata_query_tool parse_sql payload q)) (\<lambda>x. ret (dump_metadata_answer x)))"

section \<open>Counters\<close>

type_synonym metrics = "(string, int) dict"

definition increment :: "string \<Rightarrow> int \<Rightarrow> metrics \<Rightarrow> metrics" where
  "increment name v m = dict_set name ((case dict_get m name of None \<Rightarrow> 0 | Some n \<Rightarrow> n) + v) m"

definition metrics_snapshot :: "metrics \<Rightarrow> metrics" where
  "metrics_snapshot m = m"

lemma increments_add:
  "(case dict_get (fold (\<lambda>(n, v). increment n v) steps m) name of None \<Rightarrow> 0 | Some k \<Rightarrow> k) =
     (case dict_get m name of None \<Rightarrow> 0 | Some k \<Rightarrow> k) + sum_list (map snd (filter (\<lambda>(n, v). n = name) steps))"
  by (induction steps arbitrary: m) (auto simp: increment_def dict_get_set split: option.splits)

section \<open>What the tools guarantee\<close>

lemma entries_register:
  assumes "tl_name t \<in> set allowed_names" "tl_name t \<notin> set forbidden_names"
  shows "register t [] = Inr [(tl_name t, t)]"
  using assms by (simp add: register_def dict_get_def)

lemma read_log_own:
  assumes "read_log_tool P ctx i d = (Inr x, d')"
  shows "d' = d \<and> lo_status x \<noteq> LG_AVAILABLE \<or>
    lo_status x = LG_AVAILABLE \<and> cx_log_path ctx = Some (rl_path i) \<and> lp_exists P (rl_path i) \<and>
    (\<exists>g r s. lp_digest P (rl_path i) (cx_error_message ctx) (lp_vocab P) = Inr g \<and> ld_readable g \<and>
       save_json_ref (lp_float P) (cx_session_id ctx) (Some (cx_attempt_id ctx)) ''read_log_digest.json'' (lp_dump P g)
         LOG_DIGEST (lp_stamp P) d = (Inr r, d') \<and>
       lo_digest_ref x = Some (ref_json r) \<and> lo_summary x = Some s \<and> py_len s \<le> 4000)"
  using assms
  by (auto simp: read_log_tool_def bind_Inr_iff log_refused_def Let_def py_len_take split: if_splits)

text \<open>The memory tool can be registered but never succeeds: under any phase, any input and any memory the
  registry reports that it is blocked, that its input is invalid, or that it failed, with a
  \<open>ValidationError\<close> unless reading the memory failed before. The memory is left as it was.
\<close>

theorem memory_tool_never_succeeds:
  fixes w :: 'w
  shows "\<exists>reg. register (memory_retrieve_entry vals max_hits scan_budget m schema parse) [] = Inr reg \<and>
     (\<exists>r. execute_tool reg ''MemoryRetrieveTool'' ph input started finished w = (Inr r, w) \<and>
        (tr_status r = TS_BLOCKED \<or> tr_status r = TS_INVALID_INPUT \<or>
         tr_status r = TS_FAILED \<and>
           (\<exists>i. parse input = Some i \<and>
              tr_error_message r = Some (case retrieve_keywords vals max_hits scan_budget m (mi_keywords i) (mi_query_summary i)
                (map_option nat (mi_limit i)) of Inl e \<Rightarrow> error_class e | Inr _ \<Rightarrow> ''ValidationError''))))"
proof -
  let ?t = "memory_retrieve_entry vals max_hits scan_budget m schema parse :: 'w tool"
  let ?found = "\<lambda>i. retrieve_keywords vals max_hits scan_budget m (mi_keywords i) (mi_query_summary i) (map_option nat (mi_limit i))"
  let ?n = "''MemoryRetrieveTool''"
  have name: "tl_name ?t = ?n" by (simp add: memory_retrieve_entry_def tool_of_def)
  have reg: "register ?t [] = Inr [(?n, ?t)]"
    using entries_register [of ?t] by (simp add: name allowed_names_def forbidden_names_def)
  have get: "dict_get [(?n, ?t)] ?n = Some ?t" by (simp add: dict_get_def)
  have accepts: "tl_accepts ?t input \<longleftrightarrow> (\<exists>i. parse input = Some i)"
    by (auto simp: memory_retrieve_entry_def tool_of_def)
  have run: "tl_run ?t input w = (Inl (case ?found i of Inl e \<Rightarrow> e | Inr _ \<Rightarrow> ValidationError ''MemoryToolOutput''), w)"
    if "parse input = Some i" for i
    using that
    by (simp add: memory_retrieve_entry_def tool_of_def memory_retrieve_tool_def memory_tool_output_def split: sum.split)
  have "\<exists>r. execute_tool [(?n, ?t)] ?n ph input started finished w = (Inr r, w) \<and>
     (tr_status r = TS_BLOCKED \<or> tr_status r = TS_INVALID_INPUT \<or> tr_status r = TS_FAILED \<and>
       (\<exists>i. parse input = Some i \<and> tr_error_message r = Some (case ?found i of Inl e \<Rightarrow> error_class e | Inr _ \<Rightarrow> ''ValidationError'')))"
  proof (cases "ph \<in> set (tl_phases ?t) \<and> tl_accepts ?t input")
    case True
    then obtain i where i: "parse input = Some i" using accepts by blast
    with True run [OF i] show ?thesis
      by (auto simp: execute_tool_def get failed_call_def split: sum.split)
  next
    case False
    then show ?thesis by (auto simp: execute_tool_def get failed_call_def)
  qed
  with reg show ?thesis by blast
qed

end
