(* ===== verification/File_Io.thy ===== *)
theory File_Io
  imports Session_Store Json
begin

text \<open>
  \<open>core/atomic_io.py\<close> and the file side of \<open>trace/trace_writer.py\<close>. A write goes to a temporary file
  beside the target, which is then moved over it. First the code as one process runs it, with an exception
  at any operation; then any number of writers of one file, interleaved and stopping anywhere, as a step
  relation. What a reader finds is the old content or all of what some writer wrote.
\<close>

type_synonym files = "string \<Rightarrow> string option"

section \<open>Paths\<close>

definition parent_part :: "string \<Rightarrow> string" where
  "parent_part path = rev (dropWhile (\<lambda>c. c \<noteq> CHR ''/'') (rev path))"

definition name_part :: "string \<Rightarrow> string" where
  "name_part path = rev (takeWhile (\<lambda>c. c \<noteq> CHR ''/'') (rev path))"

lemma path_parts: "parent_part path @ name_part path = path"
  by (metis name_part_def parent_part_def rev_append rev_rev_ident takeWhile_dropWhile_id)

text \<open>\<open>NamedTemporaryFile(dir=path.parent, prefix=f".{path.name}.", suffix=".tmp")\<close> with the random part \<open>r\<close>\<close>

definition temp_path :: "string \<Rightarrow> string \<Rightarrow> string" where
  "temp_path path r = parent_part path @ ''.'' @ name_part path @ ''.'' @ r @ ''.tmp''"

lemma temp_path_other: "temp_path path r \<noteq> path"
proof
  assume "temp_path path r = path"
  then have "length (temp_path path r) = length (parent_part path @ name_part path)" by (simp only: path_parts)
  then show False by (simp add: temp_path_def)
qed

section \<open>One writer\<close>

text \<open>Which operations raise: making the directory or the file, writing after \<open>n\<close> characters, flushing, moving, removing.\<close>

record io_faults =
  if_open :: "py_error option"
  if_write :: "(nat \<times> py_error) option"
  if_sync :: "py_error option"
  if_replace :: "py_error option"
  if_unlink :: "py_error option"

definition discard_temp :: "io_faults \<Rightarrow> string \<Rightarrow> py_error \<Rightarrow> (files, unit) io" where
  "discard_temp F tmp e fs =
     (case if_unlink F of Some e' \<Rightarrow> (Inl e', fs) | None \<Rightarrow> (Inl e, fs(tmp := None)))"

definition write_text_atomic :: "io_faults \<Rightarrow> string \<Rightarrow> string \<Rightarrow> string \<Rightarrow> (files, unit) io" where
  "write_text_atomic F r path content fs =
     (case if_open F of
        Some e \<Rightarrow> (Inl e, fs)
      | None \<Rightarrow>
          let tmp = temp_path path r in
          (case if_write F of
             Some (n, e) \<Rightarrow> discard_temp F tmp e (fs(tmp \<mapsto> take n content))
           | None \<Rightarrow>
               let fs1 = fs(tmp \<mapsto> content) in
               (case if_sync F of
                  Some e \<Rightarrow> discard_temp F tmp e fs1
                | None \<Rightarrow> (case if_replace F of
                      Some e \<Rightarrow> discard_temp F tmp e fs1
                    | None \<Rightarrow> (Inr (), fs1(tmp := None, path \<mapsto> content))))))"

definition write_json_atomic :: "(rat \<Rightarrow> string) \<Rightarrow> io_faults \<Rightarrow> string \<Rightarrow> string \<Rightarrow> json \<Rightarrow> (files, unit) io" where
  "write_json_atomic fl F r path payload = write_text_atomic F r path (json_file_text fl payload)"

lemma write_text_target:
  "snd (write_text_atomic F r path content fs) path =
     (case fst (write_text_atomic F r path content fs) of Inr _ \<Rightarrow> Some content | Inl _ \<Rightarrow> fs path)"
  using temp_path_other [of path r]
  by (auto simp: write_text_atomic_def discard_temp_def Let_def split: option.split prod.split)

lemma write_text_others:
  "p \<noteq> path \<Longrightarrow> p \<noteq> temp_path path r \<Longrightarrow> snd (write_text_atomic F r path content fs) p = fs p"
  by (auto simp: write_text_atomic_def discard_temp_def Let_def split: option.split prod.split)

lemma write_text_no_temp:
  assumes "fs (temp_path path r) = None" "if_unlink F = None"
  shows "snd (write_text_atomic F r path content fs) (temp_path path r) = None"
  using assms temp_path_other [of path r]
  by (auto simp: write_text_atomic_def discard_temp_def Let_def split: option.split prod.split)

section \<open>Traces\<close>

text \<open>
  \<open>TraceWriter.emit\<close> after the event is built: appending to the trace may raise, then an error line is
  appended to another file, which may raise as well. \<open>add\<close> is opening, writing and flushing.
\<close>

definition trace_path :: "string \<Rightarrow> string \<Rightarrow> string" where
  "trace_path base sid = base @ ''/'' @ sid @ ''/trace.jsonl''"

definition write_trace_error ::
  "(string \<Rightarrow> string \<Rightarrow> ('s, unit) io) \<Rightarrow> string \<Rightarrow> string \<Rightarrow> string \<Rightarrow> py_error \<Rightarrow> ('s, unit) io" where
  "write_trace_error add base sid now e =
     try_catch (add (base @ ''/'' @ sid @ ''/trace_errors.log'') (now @ '' '' @ error_class e @ '': '' @ error_text e @ [CHR 0x0A]))
       (\<lambda>_. ret ())"

definition write_trace_line ::
  "(string \<Rightarrow> string \<Rightarrow> ('s, unit) io) \<Rightarrow> string \<Rightarrow> string \<Rightarrow> string \<Rightarrow> string \<Rightarrow> ('s, unit) io" where
  "write_trace_line add base sid now line =
     try_catch (add (trace_path base sid) line) (write_trace_error add base sid now)"

lemma write_trace_returns: "\<exists>s'. write_trace_line add base sid now line s = (Inr (), s')"
  by (auto simp: write_trace_line_def write_trace_error_def try_catch_def split: prod.split sum.split)

section \<open>Many writers\<close>

text \<open>
  What a writer has done: nothing, written a part, flushed everything; it may be about to remove its file
  after an exception, and has ended with or without a result. A writer that stops takes no more step.
\<close>

datatype write_phase =
    W_idle | W_open string string | W_synced string | W_discarding string | W_done | W_failed

record shared_files =
  sf_files :: files
  sf_phase :: "nat \<Rightarrow> write_phase"

text \<open>The library creates a temporary file only under a name that does not exist.\<close>

inductive write_step :: "string \<Rightarrow> (nat \<Rightarrow> string) \<Rightarrow> shared_files \<Rightarrow> shared_files \<Rightarrow> bool"
  for path :: string and content :: "nat \<Rightarrow> string" where
  create: "sf_phase s i = W_idle \<Longrightarrow> sf_files s (temp_path path r) = None \<Longrightarrow>
     write_step path content s
       (s\<lparr>sf_files := (sf_files s)(temp_path path r \<mapsto> []), sf_phase := (sf_phase s)(i := W_open (temp_path path r) [])\<rparr>)"
| create_fails: "sf_phase s i = W_idle \<Longrightarrow> write_step path content s (s\<lparr>sf_phase := (sf_phase s)(i := W_failed)\<rparr>)"
| extend: "sf_phase s i = W_open tmp w \<Longrightarrow> prefix (w @ next_part) (content i) \<Longrightarrow>
     write_step path content s
       (s\<lparr>sf_files := (sf_files s)(tmp \<mapsto> w @ next_part), sf_phase := (sf_phase s)(i := W_open tmp (w @ next_part))\<rparr>)"
| sync: "sf_phase s i = W_open tmp (content i) \<Longrightarrow>
     write_step path content s (s\<lparr>sf_phase := (sf_phase s)(i := W_synced tmp)\<rparr>)"
| extend_fails: "sf_phase s i = W_open tmp w \<Longrightarrow>
     write_step path content s (s\<lparr>sf_phase := (sf_phase s)(i := W_discarding tmp)\<rparr>)"
| move: "sf_phase s i = W_synced tmp \<Longrightarrow>
     write_step path content s
       (s\<lparr>sf_files := (sf_files s)(path := sf_files s tmp, tmp := None), sf_phase := (sf_phase s)(i := W_done)\<rparr>)"
| move_fails: "sf_phase s i = W_synced tmp \<Longrightarrow>
     write_step path content s (s\<lparr>sf_phase := (sf_phase s)(i := W_discarding tmp)\<rparr>)"
| discard: "sf_phase s i = W_discarding tmp \<Longrightarrow>
     write_step path content s (s\<lparr>sf_files := (sf_files s)(tmp := None), sf_phase := (sf_phase s)(i := W_failed)\<rparr>)"
| discard_fails: "sf_phase s i = W_discarding tmp \<Longrightarrow>
     write_step path content s (s\<lparr>sf_phase := (sf_phase s)(i := W_failed)\<rparr>)"

abbreviation write_steps :: "string \<Rightarrow> (nat \<Rightarrow> string) \<Rightarrow> shared_files \<Rightarrow> shared_files \<Rightarrow> bool" where
  "write_steps path content \<equiv> rtranclp (write_step path content)"

text \<open>The temporary file a writer works on.\<close>

fun temp_of :: "write_phase \<Rightarrow> string option" where
  "temp_of (W_open tmp _) = Some tmp"
| "temp_of (W_synced tmp) = Some tmp"
| "temp_of (W_discarding tmp) = Some tmp"
| "temp_of _ = None"

fun writer_ok :: "string \<Rightarrow> string \<Rightarrow> files \<Rightarrow> write_phase \<Rightarrow> bool" where
  "writer_ok path text_i fs (W_open tmp w) = (tmp \<noteq> path \<and> fs tmp = Some w \<and> prefix w text_i)"
| "writer_ok path text_i fs (W_synced tmp) = (tmp \<noteq> path \<and> fs tmp = Some text_i)"
| "writer_ok path text_i fs (W_discarding tmp) = (tmp \<noteq> path \<and> fs tmp \<noteq> None)"
| "writer_ok path text_i fs _ = True"

definition target_ok :: "string \<Rightarrow> (nat \<Rightarrow> string) \<Rightarrow> string option \<Rightarrow> shared_files \<Rightarrow> bool" where
  "target_ok path content old s \<longleftrightarrow>
     (if \<exists>i. sf_phase s i = W_done then \<exists>i. sf_phase s i = W_done \<and> sf_files s path = Some (content i)
      else sf_files s path = old)"

definition writers_ok :: "string \<Rightarrow> (nat \<Rightarrow> string) \<Rightarrow> string option \<Rightarrow> shared_files \<Rightarrow> bool" where
  "writers_ok path content old s \<longleftrightarrow>
     (\<forall>i. writer_ok path (content i) (sf_files s) (sf_phase s i)) \<and>
     (\<forall>i j t. temp_of (sf_phase s i) = Some t \<longrightarrow> temp_of (sf_phase s j) = Some t \<longrightarrow> i = j) \<and>
     target_ok path content old s"

lemma writer_ok_temp: "writer_ok path t fs p \<Longrightarrow> temp_of p = Some tmp \<Longrightarrow> tmp \<noteq> path \<and> fs tmp \<noteq> None"
  by (cases p) auto

lemma writer_ok_cong:
  "writer_ok path t fs p \<Longrightarrow> (\<And>tmp. temp_of p = Some tmp \<Longrightarrow> fs' tmp = fs tmp) \<Longrightarrow> writer_ok path t fs' p"
  by (cases p) auto

text \<open>A step of writer \<open>i\<close> touches only its own temporary file, an unused name and, when it ends, the target.\<close>

lemma writers_update:
  assumes ok: "writers_ok path content old s" and i: "writer_ok path (content i) fs p" "sf_phase s i \<noteq> W_done"
    and others: "\<And>t. t \<noteq> path \<Longrightarrow> temp_of (sf_phase s i) \<noteq> Some t \<Longrightarrow> temp_of p \<noteq> Some t \<Longrightarrow> fs t = sf_files s t"
    and temp: "\<And>t. temp_of p = Some t \<Longrightarrow> temp_of (sf_phase s i) = Some t \<or> sf_files s t = None"
    and target: "if p = W_done then fs path = Some (content i) else fs path = sf_files s path"
  shows "writers_ok path content old (s\<lparr>sf_files := fs, sf_phase := (sf_phase s)(i := p)\<rparr>)"
proof -
  have each: "writer_ok path (content j) (sf_files s) (sf_phase s j)" for j using ok by (simp add: writers_ok_def)
  have own: "temp_of (sf_phase s j) = Some t \<Longrightarrow> temp_of (sf_phase s k) = Some t \<Longrightarrow> j = k" for j k t
    using ok unfolding writers_ok_def by blast
  have apart: "temp_of p \<noteq> Some t" if "temp_of (sf_phase s j) = Some t" "j \<noteq> i" for j t
    using temp [of t] own [OF that(1), of i] writer_ok_temp [OF each that(1)] that(2) by auto
  have rest: "writer_ok path (content j) fs (sf_phase s j)" if "j \<noteq> i" for j
    by (rule writer_ok_cong [OF each])
      (use that apart own writer_ok_temp [OF each] others in \<open>metis\<close>)
  have writers: "writer_ok path (content j) fs (((sf_phase s)(i := p)) j)" for j
    using rest i(1) by simp
  have owners: "temp_of (((sf_phase s)(i := p)) j) = Some t \<Longrightarrow> temp_of (((sf_phase s)(i := p)) k) = Some t \<Longrightarrow> j = k" for j k t
    using apart own by (simp split: if_splits) blast+
  let ?s = "s\<lparr>sf_files := fs, sf_phase := (sf_phase s)(i := p)\<rparr>"
  have target: "target_ok path content old ?s"
    using ok i(2) target by (auto simp: writers_ok_def target_ok_def split: if_splits)
  have fields: "sf_files ?s = fs" "sf_phase ?s = (sf_phase s)(i := p)" by simp_all
  show ?thesis
    unfolding writers_ok_def fields using writers owners target by blast
qed

lemma write_step_ok:
  assumes "write_step path content s s'" "writers_ok path content old s"
  shows "writers_ok path content old s'"
proof -
  have each: "writer_ok path (content i) (sf_files s) (sf_phase s i)" for i using assms(2) by (simp add: writers_ok_def)
  note update = writers_update [OF assms(2), where fs = "sf_files s", simplified]
  from assms(1) show ?thesis
  proof cases
    case (create i r)
    then show ?thesis using temp_path_other [of path r] by (auto intro!: writers_update [OF assms(2)])
  next
    case (extend i tmp w next_part)
    then show ?thesis using each [of i] by (auto intro!: writers_update [OF assms(2)])
  next
    case (move i tmp)
    then show ?thesis using each [of i] by (auto intro!: writers_update [OF assms(2)])
  next
    case (discard i tmp)
    then show ?thesis using each [of i] by (auto intro!: writers_update [OF assms(2)])
  next
    case (create_fails i)
    then show ?thesis by (auto intro!: update)
  next
    case (sync i tmp)
    then show ?thesis using each [of i] by (auto intro!: update)
  next
    case (extend_fails i tmp w)
    then show ?thesis using each [of i] by (auto intro!: update)
  next
    case (move_fails i tmp)
    then show ?thesis using each [of i] by (auto intro!: update)
  next
    case (discard_fails i tmp)
    then show ?thesis by (auto intro!: update)
  qed
qed


lemma write_steps_ok: "write_steps path content s s' \<Longrightarrow> writers_ok path content old s \<Longrightarrow> writers_ok path content old s'"
  by (induction rule: rtranclp_induct) (auto intro: write_step_ok)

text \<open>C13. Any number of writers replace a file at the same time, each raising or stopping anywhere: at every moment
  the file is complete. It is what it was before as long as no writer has ended, and from then on all of
  the text of a writer that has ended; a part of a text is never seen under the name of the file.
\<close>

theorem atomic_write_complete:
  assumes "write_steps path content s s'" "\<forall>i. sf_phase s i = W_idle"
  shows "if \<exists>i. sf_phase s' i = W_done
         then \<exists>i. sf_phase s' i = W_done \<and> sf_files s' path = Some (content i)
         else sf_files s' path = sf_files s path"
proof -
  have "writers_ok path content (sf_files s path) s" using assms(2) by (simp add: writers_ok_def target_ok_def)
  from write_steps_ok [OF assms(1) this] show ?thesis by (simp add: writers_ok_def target_ok_def)
qed

text \<open>Two writers: one is stopped after a part, the other ends.\<close>

definition idle_writers :: shared_files where
  "idle_writers = \<lparr>sf_files = [''d/a'' \<mapsto> ''old''], sf_phase = (\<lambda>_. W_idle)\<rparr>"

definition two_texts :: "nat \<Rightarrow> string" where
  "two_texts i = (if i = 0 then ''new'' else ''other'')"

definition one_ended :: shared_files where
  "one_ended = \<lparr>sf_files = [''d/a'' \<mapsto> ''new'', ''d/.a.2.tmp'' \<mapsto> ''ot''],
     sf_phase = (\<lambda>_. W_idle)(0 := W_done, 1 := W_open ''d/.a.2.tmp'' ''ot'')\<rparr>"

lemma two_writers_run: "write_steps ''d/a'' two_texts idle_writers one_ended"
proof -
  have tmp: "temp_path ''d/a'' r = ''d/.a.'' @ r @ ''.tmp''" for r
    by (simp add: temp_path_def parent_part_def name_part_def)
  let ?s1 = "\<lparr>sf_files = [''d/a'' \<mapsto> ''old'', ''d/.a.1.tmp'' \<mapsto> []], sf_phase = (\<lambda>_. W_idle)(0 := W_open ''d/.a.1.tmp'' [])\<rparr>"
  let ?s2 = "\<lparr>sf_files = [''d/a'' \<mapsto> ''old'', ''d/.a.1.tmp'' \<mapsto> [], ''d/.a.2.tmp'' \<mapsto> []],
    sf_phase = (\<lambda>_. W_idle)(0 := W_open ''d/.a.1.tmp'' [], 1 := W_open ''d/.a.2.tmp'' [])\<rparr>"
  let ?s3 = "\<lparr>sf_files = [''d/a'' \<mapsto> ''old'', ''d/.a.1.tmp'' \<mapsto> [], ''d/.a.2.tmp'' \<mapsto> ''ot''],
    sf_phase = (\<lambda>_. W_idle)(0 := W_open ''d/.a.1.tmp'' [], 1 := W_open ''d/.a.2.tmp'' ''ot'')\<rparr>"
  let ?s4 = "\<lparr>sf_files = [''d/a'' \<mapsto> ''old'', ''d/.a.1.tmp'' \<mapsto> ''new'', ''d/.a.2.tmp'' \<mapsto> ''ot''],
    sf_phase = (\<lambda>_. W_idle)(0 := W_open ''d/.a.1.tmp'' ''new'', 1 := W_open ''d/.a.2.tmp'' ''ot'')\<rparr>"
  let ?s5 = "\<lparr>sf_files = [''d/a'' \<mapsto> ''old'', ''d/.a.1.tmp'' \<mapsto> ''new'', ''d/.a.2.tmp'' \<mapsto> ''ot''],
    sf_phase = (\<lambda>_. W_idle)(0 := W_synced ''d/.a.1.tmp'', 1 := W_open ''d/.a.2.tmp'' ''ot'')\<rparr>"
  have "write_step ''d/a'' two_texts idle_writers ?s1"
    using write_step.create [of idle_writers 0 "''d/a''" "''1''"] by (simp add: tmp idle_writers_def)
  moreover have "write_step ''d/a'' two_texts ?s1 ?s2"
    using write_step.create [of ?s1 1 "''d/a''" "''2''"] by (simp add: tmp)
  moreover have "write_step ''d/a'' two_texts ?s2 ?s3"
    using write_step.extend [of ?s2 1 "''d/.a.2.tmp''" "[]" "''ot''" two_texts "''d/a''"] by (simp add: two_texts_def fun_upd_twist)
  moreover have "write_step ''d/a'' two_texts ?s3 ?s4"
    using write_step.extend [of ?s3 0 "''d/.a.1.tmp''" "[]" "''new''" two_texts "''d/a''"] by (simp add: two_texts_def fun_upd_twist)
  moreover have "write_step ''d/a'' two_texts ?s4 ?s5"
    using write_step.sync [of ?s4 0 "''d/.a.1.tmp''" two_texts "''d/a''"] by (simp add: two_texts_def fun_upd_twist)
  moreover have "write_step ''d/a'' two_texts ?s5 one_ended"
    using write_step.move [of ?s5 0 "''d/.a.1.tmp''" "''d/a''" two_texts]
    by (simp add: one_ended_def fun_upd_twist)
  ultimately show ?thesis by (meson converse_rtranclp_into_rtranclp rtranclp.rtrancl_refl)
qed

theorem atomic_write_complete_witness:
  "write_steps ''d/a'' two_texts idle_writers one_ended \<and>
   (\<exists>i. sf_phase one_ended i = W_done \<and> sf_files one_ended ''d/a'' = Some (two_texts i))"
proof -
  have "\<forall>i. sf_phase idle_writers i = W_idle" "sf_phase one_ended 0 = W_done"
    by (simp_all add: idle_writers_def one_ended_def)
  with atomic_write_complete [OF two_writers_run] two_writers_run show ?thesis by metis
qed

end
