(* ===== verification/Spec2Isabelle.thy ===== *)
theory Spec2Isabelle
  imports Store_Properties Agent_Properties Run_Properties Repair_Properties Memory_Properties Service_Properties Command_Line Agent_Tools File_Io
begin

text \<open>
  A verification library for the SQL self-healing agent (package \<open>sql_self_healing_agent\<close> under src/;
  the paths below are relative to it).

  The program. An upstream system runs SQL tasks and sends the agent events. A FAILED event opens an attempt
  in the session of its task: the log is digested, the error diagnosed, metadata and past experience are
  looked up, a repair plan is made and a candidate SQL generated. Three gates decide whether the candidate may
  leave; only then it is committed to the session and answered as SQL_READY. Every other way ends in
  HUMAN_REQUIRED or NO_SQL. A SUCCESS event for the candidate the session waits for confirms it and writes
  an experience. A language model may advise at every stage; hooks watch each call of a model, tool,
  sub-agent or gate, and no advice can bypass the gates.

  How code becomes a model. A pydantic model is a record, an enumeration or a Literal a datatype, a dict whose
  order counts an association list (\<open>dict\<close>), a text its list of UTF-8 bytes, a Python int an \<open>int\<close>, a
  float a rational. An exception is a value of \<open>py_error\<close> (Prelude). An operation that reads and writes
  state is of type \<open>('s, 'a) io\<close> (Effects): a function from the state to an outcome and the new state; what was
  written before an exception stays written. \<open>triple P m Q R\<close> states both ends of an operation,
  \<open>preserves P m\<close> an invariant; the collections \<open>keeps\<close>, \<open>frame\<close>, \<open>py_text\<close>, \<open>py_list\<close> carry the proofs.

  The theories, from the bottom up.

  \<^item> Prelude, Effects, Messages, Regex, Sha256, Json: shared vocabulary; the string, dict and list operations
    of Python the program uses; its \<open>re\<close> patterns by a backtracking matcher; \<open>hashlib.sha256\<close>; JSON written and
    read (\<open>json_loads_write\<close>: what is written is read back); the texts that are not ASCII. The locales
    \<open>canonicaliser\<close> (an idempotent normal form) and \<open>keyed_store\<close> (a lookup after an update) are interpreted on
    \<open>strip\<close>, \<open>casefold\<close>, \<open>dedup\<close>, the normal forms of events, the dicts and every store of the disk.
  \<^item> Core_Models, Sanitizer, File_Io: core/. Results that cross the boundary; no stored text holds an API key;
    a file written by any number of writers, each stopping anywhere, is always complete.
  \<^item> Event_Key, Session_Store, Session_Lock, Session_Invariants: session/. Events, sessions and attempts on the
    \<open>disk\<close>; \<open>disk_ok\<close> is the invariant of what is stored; the lock as the loop of one process and as the step
    relation \<open>lock_step\<close> of all of them.
  \<^item> Artifact_Store, Store_Properties: artifacts/, agent/artifacts/. References with owner and hash, round trip,
    ownership.
  \<^item> Diagnosis_Models, Diagnosis, Metadata, Sql_Tables, Memory, Memory_Facts, Consolidation, Memory_Properties:
    diagnostics/, metadata/, memory/. Rule classification and its fusion with the answer of the model, edit distance and
    column candidates, the experience files, their index (a refinement of scanning all files), ranking,
    confirmation, consolidation.
  \<^item> Repair_Models, Repair_Planner, Sql_Generator, Validation, Repair_Properties: repair/. The plan, the
    edits of the text, static red lines, reflection, oscillation.
  \<^item> Agent_Models, Execution_Plan, Context_Manager, Hooks, Tool_Registry, Agent_Tools, Sub_Agent, Gates,
    Gate_Runner, Candidate_Committer, Agent_Runner, Main_Agent, Agent_Properties: agent/. Plans and their revisions, views
    and compaction of the context, the hooks around an operation and the retries, the tools, the bounded
    loop of a sub-agent, the gates, the commit, the loop over plan steps, the two main agents. The locale
    \<open>agent_ports_contract\<close> is what the loop needs of planner, executor, gate and context manager.
  \<^item> Dumps, Run_World, Processor, Processor_Facts, Run_Properties: orchestrator/agentic_failed_event_processor.py.
    One world with the disk, the objects of the tools and the state behind the model; \<open>run_agent\<close> is a whole run.
    The locales \<open>stable_property\<close>, \<open>workspace_property\<close>, \<open>run_property\<close>, \<open>gate_property\<close> extend each other: a
    property of the world that the elementary writes keep is kept by tools, runs and gates. Their
    interpretations are the frames the results rest on.
  \<^item> Service, Service_Facts, Service_Texts, Service_Answers, Service_Properties: orchestrator/repair_agent_service.py.
    Every handler of the two kinds of events, with lock, recovery, rollback, duplicates and the paths of
    last resort. \<open>handling_ok\<close> says that the stored state is good and the session and attempt in hand are the
    stored ones; one lemma for each step, and from them the properties.
  \<^item> Llm_Client: llm/, agent/llm/. The prompts, the two providers up to the process or the HTTP call, their
    errors, the adapter with its timeout.
  \<^item> Mock_Upstream, Command_Line: mock_external_system/, cli.py. A scenario played against the service, and the
    commands of the process.

  What the properties show. SQL_READY is answered only for a candidate that the gates released for the text of
  the event and that the session then waits for (C1); the stored state stays good under any sequence of
  events (C2); an event that is taken up is always answered, and delivered again gets the same answer
  (C3, C4); a SUCCESS confirms exactly the candidate waited for, or nothing (C5, C6). Below them: what a
  run and the gates guarantee, commit, attempts, plans, artifacts, event keys, locks, files, memory,
  sub-agents, tools, retries, diagnosis, context, the mock upstream, the clients and the command line.

  Fuel. \<open>run_loop\<close> (Agent_Runner) gets one unit for each step the limits allow and one more; each turn counts a
  step, and the loop stops at the limit, so \<open>run_returns\<close> proves that the result is never \<open>None\<close>.
  \<open>sub_loop_run\<close> gets \<open>sub_fuel\<close>, one more than the steps the budget of the sub-agent has left, and
  \<open>sub_agent_returns\<close> proves it enough. The matcher of Regex and the reader of Json use the length of the text;
  every step consumes a character or ends. The other loops are structural or have a measure.

  Parameters, for code that is not under src/. The package \<open>logs\<close> (log compressor and its keyword file are not in
  the repository), sqlglot (\<open>sql_engine\<close>, \<open>table_parser\<close>), pydantic's validation and dumps of nested models,
  the provider behind a client, clocks, random identifiers and the text of a float. The lock of a service is a
  port too: what other processes do while it is taken is arbitrary within \<open>lock_respects\<close>. Hypotheses on a
  parameter are named in the statements, and each such statement has a witness on a concrete instance.

  Bounds of the model. \<open>casefold\<close>, \<open>isspace\<close> and the character classes act on ASCII; lengths and slices count code
  points. A reader of the disk sees a file as its last complete text (\<open>atomic_write_complete\<close>). JSON
  numbers are exact.

  Not modelled: the grammar of \<open>argparse\<close> (its result is the datatype of the commands), constructors that only
  keep their arguments, imports and package exports, abstract base classes without a body, the lock around
  the counters of agent/metrics.py, threads inside one process.
\<close>

text \<open>C10. A FAILED event of a stored session that has no attempt yet gets a new one: its id is none of the
  earlier ones and comes last in the session, it is stored under its id, no other stored attempt changes,
  and the invariant of the store holds again.
\<close>

theorem failed_event_gets_fresh_attempt:
  assumes "disk_ok d" "synced d s" "find_event s k = Some r"
    and "er_status r = US_FAILED" "er_attempt_id r = None"
  shows "\<exists>s' att d'. create_attempt s r now d = (Inr (s', att), d') \<and> disk_ok d' \<and> synced d' s' \<and>
    att = new_attempt s r now \<and> rs_attempt_ids s' = rs_attempt_ids s @ [ra_attempt_id att] \<and>
    ra_attempt_id att \<notin> set (rs_attempt_ids s) \<and>
    d_attempts d' = (d_attempts d)((rs_session_id s, ra_attempt_id att) \<mapsto> att)"
  using create_attempt_ok [OF assms, of now] by auto

definition sample_event :: upstream_event where
  "sample_event = \<lparr>ev_id = ''t1'', ev_status = US_FAILED, ev_sql = ''SELECT a FROM t'',
     ev_error_message = Some ''no column a'', ev_log_path = None\<rparr>"

definition sample_session :: repair_session where
  "sample_session = (let s = new_session ''.s'' sample_event ''T0'' in
     s\<lparr>rs_events := [create_event_record s sample_event ''T0'']\<rparr>)"

definition sample_disk :: disk where
  "sample_disk = \<lparr>d_base = ''.s'', d_sessions = [rs_session_id sample_session \<mapsto> sample_session],
     d_attempts = Map.empty, d_files = Map.empty, d_trace = []\<rparr>"

lemma sample_disk_ok: "disk_ok sample_disk" "synced sample_disk sample_session"
  by (auto simp: disk_ok_def sample_disk_def synced_def sample_session_def Let_def session_ok_def
      new_session_def record_ok_def create_event_record_def split: if_splits)

lemma sample_find:
  "find_event sample_session (build_event_key sample_event) =
     Some (create_event_record (new_session ''.s'' sample_event ''T0'') sample_event ''T0'')"
  by (simp add: find_event_def sample_session_def Let_def create_event_record_def)

theorem failed_event_gets_fresh_attempt_witness:
  "\<exists>s' att d'. create_attempt sample_session
     (create_event_record (new_session ''.s'' sample_event ''T0'') sample_event ''T0'') ''T1'' sample_disk
       = (Inr (s', att), d') \<and> disk_ok d' \<and> ra_attempt_id att = ''attempt_001''"
proof -
  have "ra_attempt_id (new_attempt sample_session
     (create_event_record (new_session ''.s'' sample_event ''T0'') sample_event ''T0'') ''T1'') = ''attempt_001''"
    by (simp add: new_attempt_def Let_def sample_session_def new_session_def attempt_name_1)
  then show ?thesis
  using failed_event_gets_fresh_attempt [OF sample_disk_ok sample_find, of "''T1''"]
  by (auto simp: create_event_record_def sample_event_def)
qed

end
